(* ===== verification/Prelude.thy ===== *)
theory Prelude
  imports Main "HOL-Library.Word" "HOL-Library.Sublist"
begin

text \<open>
  Shared vocabulary of the kidproxy development: the collections of rewrite
  rules the component theories add to, Rust's machine integers at their width,
  byte strings, the \<open>Result\<close> type of fallible code with its \<open>?\<close> operator, and
  the list and option lemmas that several components use.

  A Rust \<open>String\<close> is its UTF-8 byte sequence and a \<open>Vec<u8>\<close> is a byte sequence;
  both are lists of 8-bit \<^typ>\<open>char\<close>s.  An \<open>anyhow::Error\<close> is represented by the
  text its \<open>Display\<close> prints, that is, by its outermost context message.
\<close>

section \<open>Collections of rewrite rules\<close>

named_theorems rust_str_simps \<open>equations about the standard library's string functions\<close>
named_theorems result_simps \<open>equations and splits for results\<close>
named_theorems wf_intros \<open>introduction rules for the components' invariants\<close>

section \<open>Types of the source language\<close>

type_synonym bytes = "char list"
type_synonym u8 = "8 word"
type_synonym u16 = "16 word"
type_synonym u64 = "64 word"
type_synonym usize = "64 word"
type_synonym i32 = "32 word"
type_synonym i64 = "64 word"

text \<open>\<open>anyhow::Result<T>\<close>: \<^const>\<open>Inl\<close> carries the error's message.\<close>

type_synonym 'a anyhow_result = "string + 'a"

section \<open>Results\<close>

text \<open>The \<open>?\<close> operator: propagate an error, continue with a value.\<close>

fun try_bind :: "'e + 'a \<Rightarrow> ('a \<Rightarrow> 'e + 'b) \<Rightarrow> 'e + 'b" where
  "try_bind (Inl e) f = Inl e"
| "try_bind (Inr x) f = f x"

text \<open>\<open>Context::context\<close> on a result or an option: the error becomes the given message.\<close>

fun with_context :: "string \<Rightarrow> 'e + 'a \<Rightarrow> 'a anyhow_result" where
  "with_context msg (Inl e) = Inl msg"
| "with_context msg (Inr x) = Inr x"

text \<open>\<open>Result::map_err\<close>.\<close>

fun map_err :: "('e \<Rightarrow> 'f) \<Rightarrow> 'e + 'a \<Rightarrow> 'f + 'a" where
  "map_err f (Inl e) = Inl (f e)"
| "map_err f (Inr x) = Inr x"

fun ok_or :: "'e \<Rightarrow> 'a option \<Rightarrow> 'e + 'a" where
  "ok_or e None = Inl e"
| "ok_or e (Some x) = Inr x"

text \<open>\<open>Iterator::collect::<Result<Vec<_>, _>>\<close>: the first error, or all values in order.\<close>

fun collect_results :: "('e + 'a) list \<Rightarrow> 'e + 'a list" where
  "collect_results [] = Inr []"
| "collect_results (Inl e # rs) = Inl e"
| "collect_results (Inr x # rs) = try_bind (collect_results rs) (\<lambda>xs. Inr (x # xs))"

lemma try_bind_Inr_iff [result_simps]:
  "try_bind r f = Inr y \<longleftrightarrow> (\<exists>x. r = Inr x \<and> f x = Inr y)"
  by (cases r) auto

lemma try_bind_Inl_iff [result_simps]:
  "try_bind r f = Inl e \<longleftrightarrow> r = Inl e \<or> (\<exists>x. r = Inr x \<and> f x = Inl e)"
  by (cases r) auto

lemma try_bind_Inr_right [simp]: "try_bind r Inr = r"
  by (cases r) auto

lemma with_context_Inr_iff [result_simps]: "with_context msg r = Inr y \<longleftrightarrow> r = Inr y"
  by (cases r) auto

lemma map_err_Inr_iff [result_simps]: "map_err f r = Inr y \<longleftrightarrow> r = Inr y"
  by (cases r) auto

lemma ok_or_Inr_iff [result_simps]: "ok_or e r = Inr y \<longleftrightarrow> r = Some y"
  by (cases r) auto

text \<open>A result is a value, whatever the value.\<close>

definition is_ok :: "'e + 'a \<Rightarrow> bool" where
  "is_ok r = (case r of Inl _ \<Rightarrow> False | Inr _ \<Rightarrow> True)"

lemma is_ok_iff: "is_ok r \<longleftrightarrow> (\<exists>x. r = Inr x)"
  by (cases r) (auto simp: is_ok_def)

lemma is_ok_simps [simp]:
  "is_ok (Inr x)" "\<not> is_ok (Inl e)"
  "is_ok (try_bind r f) \<longleftrightarrow> (\<exists>x. r = Inr x \<and> is_ok (f x))"
  "is_ok (ok_or e o') \<longleftrightarrow> o' \<noteq> None"
  "is_ok (with_context msg r) \<longleftrightarrow> is_ok r"
  "is_ok (map_err g r') \<longleftrightarrow> is_ok r'"
  by (auto simp: is_ok_iff result_simps)

lemma is_ok_unit: "is_ok (r :: 'e + unit) \<longleftrightarrow> r = Inr ()"
  by (auto simp: is_ok_iff)

lemma collect_results_Inr_iff [result_simps]:
  "collect_results rs = Inr xs \<longleftrightarrow> rs = map Inr xs"
proof (induction rs arbitrary: xs)
  case Nil
  then show ?case by auto
next
  case (Cons r rs)
  show ?case
  proof (cases r)
    case (Inl e)
    then show ?thesis by (cases xs) auto
  next
    case (Inr x)
    with Cons.IH show ?thesis by (cases xs) (auto simp: result_simps)
  qed
qed

lemma collect_results_Inl_iff:
  "collect_results rs = Inl e \<longleftrightarrow> (\<exists>xs ys. rs = map Inr xs @ Inl e # ys)"
proof (induction rs)
  case Nil
  then show ?case by simp
next
  case (Cons r rs)
  show ?case
  proof (cases r)
    case (Inl f)
    have "(\<exists>xs ys. r # rs = map Inr xs @ Inl e # ys) \<longleftrightarrow> f = e"
    proof
      assume "\<exists>xs ys. r # rs = map Inr xs @ Inl e # ys"
      then obtain xs ys where "r # rs = map Inr xs @ Inl e # ys" by blast
      with Inl show "f = e" by (cases xs) auto
    next
      assume "f = e"
      with Inl have "r # rs = map Inr [] @ Inl e # rs" by simp
      then show "\<exists>xs ys. r # rs = map Inr xs @ Inl e # ys" by blast
    qed
    with Inl show ?thesis by simp
  next
    case (Inr x)
    have "(\<exists>xs ys. r # rs = map Inr xs @ Inl e # ys) \<longleftrightarrow> (\<exists>xs ys. rs = map Inr xs @ Inl e # ys)"
    proof
      assume "\<exists>xs ys. r # rs = map Inr xs @ Inl e # ys"
      then obtain xs ys where "r # rs = map Inr xs @ Inl e # ys" by blast
      with Inr show "\<exists>xs ys. rs = map Inr xs @ Inl e # ys" by (cases xs) auto
    next
      assume "\<exists>xs ys. rs = map Inr xs @ Inl e # ys"
      then obtain xs ys where "rs = map Inr xs @ Inl e # ys" by blast
      with Inr have "r # rs = map Inr (x # xs) @ Inl e # ys" by simp
      then show "\<exists>xs ys. r # rs = map Inr xs @ Inl e # ys" by blast
    qed
    with Inr Cons.IH show ?thesis by (auto simp: result_simps)
  qed
qed

section \<open>Options\<close>

text \<open>\<open>Option::filter\<close>, \<open>Option::or\<close> and \<open>unwrap_or\<close>.\<close>

definition opt_filter :: "('a \<Rightarrow> bool) \<Rightarrow> 'a option \<Rightarrow> 'a option" where
  "opt_filter p o' = (case o' of None \<Rightarrow> None | Some x \<Rightarrow> if p x then Some x else None)"

definition opt_or :: "'a option \<Rightarrow> 'a option \<Rightarrow> 'a option" where
  "opt_or a b = (case a of None \<Rightarrow> b | Some x \<Rightarrow> Some x)"

definition unwrap_or :: "'a \<Rightarrow> 'a option \<Rightarrow> 'a" where
  "unwrap_or d o' = (case o' of None \<Rightarrow> d | Some x \<Rightarrow> x)"

lemma opt_filter_simps [simp]:
  "opt_filter p None = None"
  "opt_filter p (Some x) = (if p x then Some x else None)"
  by (simp_all add: opt_filter_def)

lemma opt_filter_eq_Some [simp]: "opt_filter p o' = Some x \<longleftrightarrow> o' = Some x \<and> p x"
  by (cases o') auto

lemma opt_or_simps [simp]:
  "opt_or None b = b" "opt_or (Some x) b = Some x" "opt_or a None = a"
  by (simp_all add: opt_or_def split: option.split)

lemma unwrap_or_simps [simp]: "unwrap_or d None = d" "unwrap_or d (Some x) = x"
  by (simp_all add: unwrap_or_def)

section \<open>Lists\<close>

lemma map_filter_cong_set:
  "(\<And>x. x \<in> set xs \<Longrightarrow> p x \<Longrightarrow> f x = g x) \<Longrightarrow> map f (filter p xs) = map g (filter p xs)"
  by (induction xs) auto

lemma take_min_append:
  "take n (xs @ ys) = (if length xs < n then xs @ take (n - length xs) ys else take n xs)"
  by simp

end
