(* ===== verification/Rust_Str.thy ===== *)
theory Rust_Str
  imports Prelude
begin

text \<open>
  The functions of Rust's standard library on strings that kidproxy calls
  (\<open>trim\<close>, \<open>split\<close>, \<open>split_once\<close>, \<open>replace\<close>, \<open>to_ascii_lowercase\<close>,
  \<open>from_utf8_lossy\<close>, integer parsing and printing), on UTF-8 byte sequences,
  with the laws the components rely on.
\<close>

section \<open>ASCII case\<close>

definition ascii_lower :: "char \<Rightarrow> char" where
  "ascii_lower c =
     (let n = of_char c :: nat in if 65 \<le> n \<and> n \<le> 90 then char_of (n + 32) else c)"

definition ascii_upper :: "char \<Rightarrow> char" where
  "ascii_upper c =
     (let n = of_char c :: nat in if 97 \<le> n \<and> n \<le> 122 then char_of (n - 32) else c)"

text \<open>The same on the bits of a character, for evaluation.\<close>

definition ascii_upper_bits :: "bool \<Rightarrow> bool \<Rightarrow> bool \<Rightarrow> bool \<Rightarrow> bool \<Rightarrow> bool" where
  "ascii_upper_bits b0 b1 b2 b3 b4 \<longleftrightarrow>
     (b0 \<or> b1 \<or> b2 \<or> b3 \<or> b4) \<and> \<not> (b4 \<and> b3 \<and> (b2 \<or> (b1 \<and> b0)))"

lemma ascii_lower_code [code]:
  "ascii_lower (Char b0 b1 b2 b3 b4 b5 b6 b7) =
     Char b0 b1 b2 b3 b4 (b5 \<or> (\<not> b7 \<and> b6 \<and> ascii_upper_bits b0 b1 b2 b3 b4)) b6 b7"
  by (cases b0; cases b1; cases b2; cases b3; cases b4; cases b5; cases b6; cases b7;
      simp add: ascii_lower_def ascii_upper_bits_def char_of_def bit_0)

definition to_ascii_lowercase :: "string \<Rightarrow> string" where
  "to_ascii_lowercase s = map ascii_lower s"

definition to_ascii_uppercase :: "string \<Rightarrow> string" where
  "to_ascii_uppercase s = map ascii_upper s"

definition eq_ignore_ascii_case :: "string \<Rightarrow> string \<Rightarrow> bool" where
  "eq_ignore_ascii_case a b \<longleftrightarrow> to_ascii_lowercase a = to_ascii_lowercase b"

lemma ascii_lower_idem [simp]: "ascii_lower (ascii_lower c) = ascii_lower c"
  by (auto simp: ascii_lower_def Let_def)

lemma to_ascii_lowercase_idem [simp]:
  "to_ascii_lowercase (to_ascii_lowercase s) = to_ascii_lowercase s"
  by (simp add: to_ascii_lowercase_def)

lemma to_ascii_lowercase_append [simp]:
  "to_ascii_lowercase (a @ b) = to_ascii_lowercase a @ to_ascii_lowercase b"
  by (simp add: to_ascii_lowercase_def)

lemma length_to_ascii_lowercase [simp]: "length (to_ascii_lowercase s) = length s"
  by (simp add: to_ascii_lowercase_def)

lemma to_ascii_lowercase_Nil [simp]: "to_ascii_lowercase [] = []"
  by (simp add: to_ascii_lowercase_def)

lemma to_ascii_lowercase_eq_Nil [simp]: "to_ascii_lowercase s = [] \<longleftrightarrow> s = []"
  by (simp add: to_ascii_lowercase_def)

lemma eq_ignore_ascii_case_refl [simp]: "eq_ignore_ascii_case a a"
  by (simp add: eq_ignore_ascii_case_def)

section \<open>White space\<close>

text \<open>
  \<open>str::trim\<close> removes the characters with the Unicode property \<open>White_Space\<close> at
  both ends.  These are their UTF-8 encodings: U+0009 to U+000D, U+0020, U+0085,
  U+00A0, U+1680, U+2000 to U+200A, U+2028, U+2029, U+202F, U+205F and U+3000.
\<close>

definition white_space :: "string list" where
  "white_space =
     [[CHR 0x09], [CHR 0x0A], [CHR 0x0B], [CHR 0x0C], [CHR 0x0D], [CHR 0x20],
      [CHR 0xC2, CHR 0x85], [CHR 0xC2, CHR 0xA0], [CHR 0xE1, CHR 0x9A, CHR 0x80],
      [CHR 0xE2, CHR 0x80, CHR 0x80], [CHR 0xE2, CHR 0x80, CHR 0x81],
      [CHR 0xE2, CHR 0x80, CHR 0x82], [CHR 0xE2, CHR 0x80, CHR 0x83],
      [CHR 0xE2, CHR 0x80, CHR 0x84], [CHR 0xE2, CHR 0x80, CHR 0x85],
      [CHR 0xE2, CHR 0x80, CHR 0x86], [CHR 0xE2, CHR 0x80, CHR 0x87],
      [CHR 0xE2, CHR 0x80, CHR 0x88], [CHR 0xE2, CHR 0x80, CHR 0x89],
      [CHR 0xE2, CHR 0x80, CHR 0x8A], [CHR 0xE2, CHR 0x80, CHR 0xA8],
      [CHR 0xE2, CHR 0x80, CHR 0xA9], [CHR 0xE2, CHR 0x80, CHR 0xAF],
      [CHR 0xE2, CHR 0x81, CHR 0x9F], [CHR 0xE3, CHR 0x80, CHR 0x80]]"

definition starts_with :: "string \<Rightarrow> string \<Rightarrow> bool" where
  "starts_with p s \<longleftrightarrow> take (length p) s = p"

definition strip_prefix :: "string \<Rightarrow> string \<Rightarrow> string option" where
  "strip_prefix p s = (if starts_with p s then Some (drop (length p) s) else None)"

text \<open>Drop the words of a list, as long as one of them starts the string.\<close>

function (sequential) drop_words :: "string list \<Rightarrow> string \<Rightarrow> string" where
  "drop_words ws s =
     (case find (\<lambda>w. w \<noteq> [] \<and> starts_with w s) ws of
        None \<Rightarrow> s
      | Some w \<Rightarrow> drop_words ws (drop (length w) s))"
  by pat_completeness auto
termination
proof (relation "measure (\<lambda>(ws, s). length s)", goal_cases)
  case 1
  show ?case by simp
next
  case (2 ws s w)
  then have "w \<noteq> []" and "take (length w) s = w"
    by (auto simp: find_Some_iff starts_with_def)
  then have "0 < length w" and "length w \<le> length s"
    by (auto dest: arg_cong [where f = length])
  then show ?case by (simp add: diff_less del: length_greater_0_conv)
qed

declare drop_words.simps [simp del]

definition trim_start :: "string \<Rightarrow> string" where
  "trim_start s = drop_words white_space s"

definition trim_end :: "string \<Rightarrow> string" where
  "trim_end s = rev (drop_words (map rev white_space) (rev s))"

definition trim :: "string \<Rightarrow> string" where
  "trim s = trim_end (trim_start s)"

text \<open>\<open>trim_matches\<close> and \<open>trim_end_matches\<close> with one ASCII character.\<close>

definition trim_end_matches :: "char \<Rightarrow> string \<Rightarrow> string" where
  "trim_end_matches c s = rev (dropWhile (\<lambda>x. x = c) (rev s))"

definition trim_matches :: "char \<Rightarrow> string \<Rightarrow> string" where
  "trim_matches c s = trim_end_matches c (dropWhile (\<lambda>x. x = c) s)"

lemma drop_words_suffix: "suffix (drop_words ws s) s"
proof (induction ws s rule: drop_words.induct)
  case (1 ws s)
  show ?case
  proof (cases "find (\<lambda>w. w \<noteq> [] \<and> starts_with w s) ws")
    case None
    then show ?thesis by (subst drop_words.simps) simp
  next
    case (Some w)
    with 1 have "suffix (drop_words ws (drop (length w) s)) (drop (length w) s)" by simp
    then have "suffix (drop_words ws (drop (length w) s)) s"
      using suffix_drop suffix_order.trans by blast
    with Some show ?thesis by (subst drop_words.simps) simp
  qed
qed

lemma drop_words_done: "find (\<lambda>w. w \<noteq> [] \<and> starts_with w (drop_words ws s)) ws = None"
proof (induction ws s rule: drop_words.induct)
  case (1 ws s)
  then show ?case
    by (cases "find (\<lambda>w. w \<noteq> [] \<and> starts_with w s) ws")
      (simp_all add: drop_words.simps [of ws s])
qed

lemma drop_words_idem [simp]: "drop_words ws (drop_words ws s) = drop_words ws s"
  using drop_words_done [of ws s] by (subst drop_words.simps) simp

lemma trim_start_idem [simp]: "trim_start (trim_start s) = trim_start s"
  by (simp add: trim_start_def)

lemma trim_end_idem [simp]: "trim_end (trim_end s) = trim_end s"
  by (simp add: trim_end_def)

lemma trim_Nil [simp]: "trim [] = []"
  using drop_words_suffix [of white_space "[]"] drop_words_suffix [of "map rev white_space" "[]"]
  by (simp add: trim_def trim_start_def trim_end_def)

lemma trim_sublist: "sublist (trim s) s"
proof -
  have "prefix (trim_end t) t" for t
    using drop_words_suffix [of "map rev white_space" "rev t"]
    by (simp add: trim_end_def suffix_to_prefix)
  moreover have "suffix (trim_start s) s"
    by (simp add: trim_start_def drop_words_suffix)
  ultimately show ?thesis
    unfolding trim_def
    by (meson prefix_imp_sublist sublist_order.order.trans suffix_imp_sublist)
qed

lemma drop_words_none:
  assumes "s \<noteq> []" and "\<And>w. w \<in> set ws \<Longrightarrow> w \<noteq> [] \<Longrightarrow> hd w \<noteq> hd s"
  shows "drop_words ws s = s"
proof -
  have "hd w = hd s" if "w \<noteq> []" "starts_with w s" for w
    using that assms(1) by (cases w; cases s) (auto simp: starts_with_def)
  then have "find (\<lambda>w. w \<noteq> [] \<and> starts_with w s) ws = None"
    using assms(2) by (auto simp: find_None_iff)
  then show ?thesis by (subst drop_words.simps) simp
qed

lemma white_space_ends:
  "w \<in> set white_space \<Longrightarrow> (of_char (hd w) :: nat) \<notin> {33..126} \<and> (of_char (last w) :: nat) \<notin> {33..126} \<and> w \<noteq> []"
  by (auto simp: white_space_def)

text \<open>Nothing is trimmed off a text that begins and ends with a printable ASCII character.\<close>

lemma trim_printable:
  assumes "s \<noteq> []" "(of_char (hd s) :: nat) \<in> {33..126}" "(of_char (last s) :: nat) \<in> {33..126}"
  shows "trim s = s"
proof -
  have "drop_words white_space s = s"
    using assms white_space_ends by (intro drop_words_none) metis+
  moreover have "drop_words (map rev white_space) (rev s) = rev s"
  proof (rule drop_words_none)
    fix w assume "w \<in> set (map rev white_space)" "w \<noteq> []"
    then obtain v where "v \<in> set white_space" "w = rev v" by auto
    with assms show "hd w \<noteq> hd (rev s)" using white_space_ends [of v] by (auto simp: hd_rev)
  qed (use assms in simp)
  ultimately show ?thesis by (simp add: trim_def trim_start_def trim_end_def)
qed

lemma trim_end_matches_last: "trim_end_matches c s \<noteq> [] \<Longrightarrow> last (trim_end_matches c s) \<noteq> c"
  by (metis (mono_tags, lifting) dropWhile_eq_Nil_conv hd_dropWhile last_rev
      rev_is_Nil_conv set_rev trim_end_matches_def)

lemma trim_end_matches_prefix: "prefix (trim_end_matches c s) s"
  by (metis rev_rev_ident suffix_dropWhile suffix_to_prefix trim_end_matches_def)

section \<open>Splitting\<close>

fun split_on :: "char \<Rightarrow> string \<Rightarrow> string list" where
  "split_on c [] = [[]]"
| "split_on c (x # xs) =
     (if x = c then [] # split_on c xs
      else (case split_on c xs of [] \<Rightarrow> [[x]] | w # ws \<Rightarrow> (x # w) # ws))"

fun split_once :: "char \<Rightarrow> string \<Rightarrow> (string \<times> string) option" where
  "split_once c [] = None"
| "split_once c (x # xs) =
     (if x = c then Some ([], xs) else map_option (\<lambda>(a, b). (x # a, b)) (split_once c xs))"

definition rsplit_once :: "char \<Rightarrow> string \<Rightarrow> (string \<times> string) option" where
  "rsplit_once c s = map_option (\<lambda>(a, b). (rev b, rev a)) (split_once c (rev s))"

text \<open>\<open>[String]::join\<close>.\<close>

fun join :: "string \<Rightarrow> string list \<Rightarrow> string" where
  "join sep [] = []"
| "join sep [w] = w"
| "join sep (w # v # ws) = w @ sep @ join sep (v # ws)"

lemma split_on_not_Nil [simp]: "split_on c s \<noteq> []"
  by (induction s) (auto split: list.splits)

lemma split_on_pieces: "w \<in> set (split_on c s) \<Longrightarrow> c \<notin> set w"
  by (induction s arbitrary: w) (auto split: list.splits if_splits)

lemma split_on_no_sep: "c \<notin> set s \<Longrightarrow> split_on c s = [s]"
  by (induction s) auto

lemma split_on_append: "c \<notin> set a \<Longrightarrow> split_on c (a @ c # b) = a # split_on c b"
  by (induction a) auto

lemma join_split_on: "join [c] (split_on c s) = s"
proof (induction s)
  case (Cons x s)
  obtain w ws where ws: "split_on c s = w # ws"
    by (cases "split_on c s") auto
  with Cons show ?case by (cases ws) auto
qed simp

lemma split_on_join:
  "ws \<noteq> [] \<Longrightarrow> (\<And>w. w \<in> set ws \<Longrightarrow> c \<notin> set w) \<Longrightarrow> split_on c (join [c] ws) = ws"
  by (induction "[c]" ws rule: join.induct) (auto simp: split_on_no_sep split_on_append)

lemma join_piece:
  "w \<in> set ws \<Longrightarrow> \<exists>a b. join [c] ws = a @ w @ b \<and> (a = [] \<or> last a = c) \<and> (b = [] \<or> hd b = c)"
proof (induction "[c]" ws rule: join.induct)
  case (3 u v ws)
  show ?case
  proof (cases "w = u")
    case True
    then show ?thesis by (intro exI [of _ "[]"] exI [of _ "c # join [c] (v # ws)"]) simp
  next
    case False
    with 3 obtain a b where "join [c] (v # ws) = a @ w @ b" "a = [] \<or> last a = c" "b = [] \<or> hd b = c"
      by auto
    then show ?thesis by (intro exI [of _ "u @ c # a"] exI [of _ b]) auto
  qed
next
  case (2 u)
  then show ?case by (intro exI [of _ "[]"]) simp
qed simp

lemma split_on_sep: "split_on c (a @ c # b) = split_on c a @ split_on c b"
proof (induction a)
  case (Cons x a)
  then show ?case by (cases "split_on c a") auto
qed simp

text \<open>The pieces are the longest stretches without the separator.\<close>

lemma set_split_on:
  "w \<in> set (split_on c s) \<longleftrightarrow>
     (\<exists>a b. s = a @ w @ b \<and> c \<notin> set w \<and> (a = [] \<or> last a = c) \<and> (b = [] \<or> hd b = c))"
proof
  assume "w \<in> set (split_on c s)"
  with join_piece [OF this, of c] split_on_pieces [OF this]
  show "\<exists>a b. s = a @ w @ b \<and> c \<notin> set w \<and> (a = [] \<or> last a = c) \<and> (b = [] \<or> hd b = c)"
    by (auto simp: join_split_on)
next
  assume "\<exists>a b. s = a @ w @ b \<and> c \<notin> set w \<and> (a = [] \<or> last a = c) \<and> (b = [] \<or> hd b = c)"
  then obtain a b where s: "s = a @ w @ b" and w: "c \<notin> set w"
    and a: "a = [] \<or> last a = c" and b: "b = [] \<or> hd b = c" by blast
  from b w have "w \<in> set (split_on c (w @ b))"
    by (cases b) (auto simp: split_on_no_sep split_on_append)
  with a s show "w \<in> set (split_on c s)"
    by (cases a rule: rev_cases) (auto simp: split_on_sep)
qed

lemma split_once_None_iff: "split_once c s = None \<longleftrightarrow> c \<notin> set s"
  by (induction s) auto

lemma split_once_append [simp]: "c \<notin> set a \<Longrightarrow> split_once c (a @ c # b) = Some (a, b)"
  by (induction a) auto

lemma split_once_Some_iff:
  "split_once c s = Some (a, b) \<longleftrightarrow> s = a @ c # b \<and> c \<notin> set a"
proof
  show "split_once c s = Some (a, b) \<Longrightarrow> s = a @ c # b \<and> c \<notin> set a"
    by (induction s arbitrary: a) (auto split: if_splits)
qed simp

lemma rsplit_once_None_iff: "rsplit_once c s = None \<longleftrightarrow> c \<notin> set s"
  by (simp add: rsplit_once_def split_once_None_iff)

lemma rsplit_once_Some_iff:
  "rsplit_once c s = Some (a, b) \<longleftrightarrow> s = a @ c # b \<and> c \<notin> set b"
proof -
  have "rsplit_once c s = Some (a, b) \<longleftrightarrow> split_once c (rev s) = Some (rev b, rev a)"
    by (auto simp: rsplit_once_def)
  also have "\<dots> \<longleftrightarrow> rev s = rev b @ c # rev a \<and> c \<notin> set b"
    by (simp add: split_once_Some_iff)
  also have "\<dots> \<longleftrightarrow> s = a @ c # b \<and> c \<notin> set b"
    by (metis append.assoc append_Cons append_Nil rev.simps(2) rev_append rev_rev_ident)
  finally show ?thesis .
qed

end
