(* ===== verification/Headers.thy ===== *)
theory Headers
  imports Rust_Str
begin

text \<open>
  The interface of the HTTP library's header types as kidproxy uses them.
  \<open>HeaderMap\<close>, \<open>HeaderName\<close> and \<open>HeaderValue\<close> are third-party code, so the map is
  an abstract type \<open>'h\<close> and its operations are the fields of a parameter record.
  A header name is its (lower-case) text and a header value its bytes.

  The locale \<open>header_map\<close> states the documented behaviour the program relies on:
  a map holds, for every name, the list of its values in insertion order; the
  iteration yields each value once with its name, the order between different
  names being unspecified; \<open>to_str\<close> and \<open>from_str\<close> do not change the bytes.
\<close>

section \<open>Operations\<close>

record 'h header_ops =
  hm_iter :: "'h \<Rightarrow> (string \<times> bytes) list"
  hm_get_all :: "'h \<Rightarrow> string \<Rightarrow> bytes list"
  hm_get :: "'h \<Rightarrow> string \<Rightarrow> bytes option"
  hm_insert :: "'h \<Rightarrow> string \<Rightarrow> bytes \<Rightarrow> 'h"
  hm_append :: "'h \<Rightarrow> string \<Rightarrow> bytes \<Rightarrow> 'h"
  hm_remove :: "'h \<Rightarrow> string \<Rightarrow> 'h"
  hm_clear :: "'h \<Rightarrow> 'h"
  hm_new :: 'h
  hv_to_str :: "bytes \<Rightarrow> string option"
  hv_from_str :: "string \<Rightarrow> bytes option"
  hn_from_bytes :: "bytes \<Rightarrow> string option"

text \<open>The header names of the \<open>header\<close> module the program names.\<close>

abbreviation "ACCEPT_ENCODING \<equiv> ''accept-encoding''"
abbreviation "CONNECTION \<equiv> ''connection''"
abbreviation "CONTENT_ENCODING \<equiv> ''content-encoding''"
abbreviation "CONTENT_LENGTH \<equiv> ''content-length''"
abbreviation "CONTENT_TYPE \<equiv> ''content-type''"
abbreviation "COOKIE \<equiv> ''cookie''"
abbreviation "HOST \<equiv> ''host''"
abbreviation "KEEP_ALIVE \<equiv> ''keep-alive''"
abbreviation "PROXY_AUTHENTICATE \<equiv> ''proxy-authenticate''"
abbreviation "PROXY_AUTHORIZATION \<equiv> ''proxy-authorization''"
abbreviation "SERVER \<equiv> ''server''"
abbreviation "SET_COOKIE \<equiv> ''set-cookie''"
abbreviation "TE \<equiv> ''te''"
abbreviation "TRAILER \<equiv> ''trailer''"
abbreviation "TRANSFER_ENCODING \<equiv> ''transfer-encoding''"
abbreviation "UPGRADE \<equiv> ''upgrade''"

text \<open>The text of the first value of a name, if it has one and it is visible ASCII.\<close>

definition hm_get_str :: "'h header_ops \<Rightarrow> 'h \<Rightarrow> string \<Rightarrow> string option" where
  "hm_get_str ops h n = Option.bind (hm_get ops h n) (hv_to_str ops)"

section \<open>The documented behaviour\<close>

locale header_map =
  fixes ops :: "'h header_ops"
  assumes iter_get_all:
      "map snd (filter (\<lambda>e. fst e = n) (hm_iter ops h)) = hm_get_all ops h n"
    and get_first:
      "hm_get ops h n = (case hm_get_all ops h n of [] \<Rightarrow> None | v # _ \<Rightarrow> Some v)"
    and get_all_insert:
      "hm_get_all ops (hm_insert ops h n v) m = (if m = n then [v] else hm_get_all ops h m)"
    and get_all_append:
      "hm_get_all ops (hm_append ops h n v) m =
         (if m = n then hm_get_all ops h n @ [v] else hm_get_all ops h m)"
    and get_all_remove:
      "hm_get_all ops (hm_remove ops h n) m = (if m = n then [] else hm_get_all ops h m)"
    and get_all_clear: "hm_get_all ops (hm_clear ops h) m = []"
    and get_all_new: "hm_get_all ops (hm_new ops) m = []"
    and to_str_bytes: "hv_to_str ops v = Some s \<Longrightarrow> s = v"
    and from_str_bytes: "hv_from_str ops s = Some v \<Longrightarrow> v = s"
    and from_bytes_lower: "hn_from_bytes ops b = Some n \<Longrightarrow> n = to_ascii_lowercase b"
begin

lemmas get_all_simps = get_all_insert get_all_append get_all_remove get_all_clear get_all_new

lemma iter_mem: "(n, v) \<in> set (hm_iter ops h) \<longleftrightarrow> v \<in> set (hm_get_all ops h n)"
proof -
  have "v \<in> set (map snd (filter (\<lambda>e. fst e = n) (hm_iter ops h)))
      \<longleftrightarrow> (n, v) \<in> set (hm_iter ops h)"
    by force
  then show ?thesis by (simp add: iter_get_all)
qed

lemma iter_ex:
  "(\<exists>(n, v) \<in> set (hm_iter ops h). P n v) \<longleftrightarrow> (\<exists>n v. v \<in> set (hm_get_all ops h n) \<and> P n v)"
  unfolding Bex_def by (auto simp flip: iter_mem)

lemma get_None_iff: "hm_get ops h n = None \<longleftrightarrow> hm_get_all ops h n = []"
  by (simp add: get_first split: list.split)

lemma get_insert: "hm_get ops (hm_insert ops h n v) m = (if m = n then Some v else hm_get ops h m)"
  by (simp add: get_first get_all_simps)

lemma get_remove: "hm_get ops (hm_remove ops h n) m = (if m = n then None else hm_get ops h m)"
  by (simp add: get_first get_all_simps)

lemma get_str_bytes: "hm_get_str ops h n = Some s \<Longrightarrow> hm_get ops h n = Some s"
  by (auto simp: hm_get_str_def bind_eq_Some_conv dest: to_str_bytes)

text \<open>Appending a list of entries to a cleared map gives exactly these entries.\<close>

lemma get_all_foldl_append:
  "hm_get_all ops (foldl (\<lambda>h (n, v). hm_append ops h n v) h es) m =
     hm_get_all ops h m @ map snd (filter (\<lambda>e. fst e = m) es)"
  by (induction es arbitrary: h) (auto simp: get_all_append)

lemma get_all_rebuild:
  "hm_get_all ops (foldl (\<lambda>h (n, v). hm_append ops h n v) (hm_clear ops h) es) m =
     map snd (filter (\<lambda>e. fst e = m) es)"
  by (simp add: get_all_foldl_append get_all_clear)

lemma get_all_foldl_remove:
  "hm_get_all ops (foldl (hm_remove ops) h ns) m =
     (if m \<in> set ns then [] else hm_get_all ops h m)"
  by (induction ns arbitrary: h) (auto simp: get_all_remove)

end

section \<open>A reference implementation\<close>

text \<open>
  An association list in insertion order, with the character classes of the HTTP
  library, satisfies the contract.  The theorems' witnesses run on it.
\<close>

definition visible_ascii :: "char \<Rightarrow> bool" where
  "visible_ascii c \<longleftrightarrow>
     (let n = of_char c :: nat in (32 \<le> n \<and> n < 127) \<or> n = 9)"

definition header_value_byte :: "char \<Rightarrow> bool" where
  "header_value_byte c \<longleftrightarrow>
     (let n = of_char c :: nat in (32 \<le> n \<and> n \<noteq> 127) \<or> n = 9)"

definition token_byte :: "char \<Rightarrow> bool" where
  "token_byte c \<longleftrightarrow>
     (let n = of_char c :: nat in
      (48 \<le> n \<and> n \<le> 57) \<or> (65 \<le> n \<and> n \<le> 90) \<or> (97 \<le> n \<and> n \<le> 122)
      \<or> c \<in> set ''!#$%&*+-.^_|~'' \<or> n = 39 \<or> n = 96)"

definition alist_ops :: "(string \<times> bytes) list header_ops" where
  "alist_ops =
     \<lparr>hm_iter = (\<lambda>h. h),
      hm_get_all = (\<lambda>h n. map snd (filter (\<lambda>e. fst e = n) h)),
      hm_get = (\<lambda>h n. map_of h n),
      hm_insert = (\<lambda>h n v. filter (\<lambda>e. fst e \<noteq> n) h @ [(n, v)]),
      hm_append = (\<lambda>h n v. h @ [(n, v)]),
      hm_remove = (\<lambda>h n. filter (\<lambda>e. fst e \<noteq> n) h),
      hm_clear = (\<lambda>h. []),
      hm_new = [],
      hv_to_str = (\<lambda>v. if list_all visible_ascii v then Some v else None),
      hv_from_str = (\<lambda>s. if list_all header_value_byte s then Some s else None),
      hn_from_bytes = (\<lambda>b. if b \<noteq> [] \<and> list_all token_byte b
                            then Some (to_ascii_lowercase b) else None)\<rparr>"

lemma map_of_first:
  "map_of h n = (case map snd (filter (\<lambda>e. fst e = n) h) of [] \<Rightarrow> None | v # _ \<Rightarrow> Some v)"
  by (induction h) auto

lemma filter_other: "m \<noteq> n \<Longrightarrow> filter (\<lambda>e. fst e = m \<and> fst e \<noteq> n) h = filter (\<lambda>e. fst e = m) h"
  by (rule filter_cong) auto

interpretation alist: header_map alist_ops
  by unfold_locales
    (auto simp: alist_ops_def map_of_first filter_other conj_commute split: if_splits)

end
