(* ===== verification/Utf8.thy ===== *)
theory Utf8
  imports Rust_Str
begin

text \<open>
  UTF-8 as Rust's standard library decodes it, and the two operations on text
  that depend on it: \<open>String::from_utf8_lossy\<close> and \<open>str::replace\<close>.  The main
  facts: lossy decoding yields valid UTF-8 and is the identity on valid UTF-8,
  and replacing valid text by valid text in valid text gives valid text, since
  an occurrence of a pattern can only start at a character boundary.
\<close>

section \<open>Decoding one character\<close>

definition byte_in :: "nat \<Rightarrow> nat \<Rightarrow> char \<Rightarrow> bool" where
  "byte_in lo hi c \<longleftrightarrow> lo \<le> of_char c \<and> of_char c \<le> hi"

text \<open>A read past the end yields a zero byte, as \<open>safe_get\<close> of \<open>Utf8Chunks\<close> does.\<close>

definition byte_at :: "bytes \<Rightarrow> nat \<Rightarrow> char" where
  "byte_at s i = (if i < length s then s ! i else CHR 0x00)"

definition is_cont :: "char \<Rightarrow> bool" where
  "is_cont c \<longleftrightarrow> byte_in 128 191 c"

text \<open>The second bytes a three- or four-byte lead byte admits.\<close>

definition second3 :: "char \<Rightarrow> char \<Rightarrow> bool" where
  "second3 b c \<longleftrightarrow>
     (of_char b = (224::nat) \<and> byte_in 160 191 c)
     \<or> (byte_in 225 236 b \<and> byte_in 128 191 c)
     \<or> (of_char b = (237::nat) \<and> byte_in 128 159 c)
     \<or> (byte_in 238 239 b \<and> byte_in 128 191 c)"

definition second4 :: "char \<Rightarrow> char \<Rightarrow> bool" where
  "second4 b c \<longleftrightarrow>
     (of_char b = (240::nat) \<and> byte_in 144 191 c)
     \<or> (byte_in 241 243 b \<and> byte_in 128 191 c)
     \<or> (of_char b = (244::nat) \<and> byte_in 128 143 c)"

text \<open>
  One step of the decoder on a non-empty sequence: whether it starts with a
  character, and how many bytes the character or the ill-formed chunk takes.
\<close>

definition utf8_step :: "bytes \<Rightarrow> bool \<times> nat" where
  "utf8_step s =
     (let b = byte_at s 0 in
      if byte_in 0 127 b then (True, 1)
      else if byte_in 194 223 b then
        (if is_cont (byte_at s 1) then (True, 2) else (False, 1))
      else if byte_in 224 239 b then
        (if \<not> second3 b (byte_at s 1) then (False, 1)
         else if \<not> is_cont (byte_at s 2) then (False, 2)
         else (True, 3))
      else if byte_in 240 244 b then
        (if \<not> second4 b (byte_at s 1) then (False, 1)
         else if \<not> is_cont (byte_at s 2) then (False, 2)
         else if \<not> is_cont (byte_at s 3) then (False, 3)
         else (True, 4))
      else (False, 1))"

lemma utf8_step_pos [simp]: "0 < snd (utf8_step s)"
  by (simp add: utf8_step_def Let_def)

section \<open>Validity, lossy decoding and characters\<close>

function (sequential) utf8_valid :: "bytes \<Rightarrow> bool" where
  "utf8_valid [] = True"
| "utf8_valid s = (fst (utf8_step s) \<and> utf8_valid (drop (snd (utf8_step s)) s))"
  by pat_completeness auto
termination
  by (relation "measure length") (auto intro!: diff_less)

definition replacement_character :: bytes where
  "replacement_character = [CHR 0xEF, CHR 0xBF, CHR 0xBD]"

function (sequential) from_utf8_lossy :: "bytes \<Rightarrow> string" where
  "from_utf8_lossy [] = []"
| "from_utf8_lossy s =
     (if fst (utf8_step s) then take (snd (utf8_step s)) s else replacement_character)
     @ from_utf8_lossy (drop (snd (utf8_step s)) s)"
  by pat_completeness auto
termination
  by (relation "measure length") (auto intro!: diff_less)

definition from_utf8 :: "bytes \<Rightarrow> string option" where
  "from_utf8 s = (if utf8_valid s then Some s else None)"

text \<open>\<open>str::chars\<close>: the characters of valid text, each as its encoding.\<close>

function (sequential) utf8_chars :: "string \<Rightarrow> string list" where
  "utf8_chars [] = []"
| "utf8_chars s = take (snd (utf8_step s)) s # utf8_chars (drop (snd (utf8_step s)) s)"
  by pat_completeness auto
termination
  by (relation "measure length") (auto intro!: diff_less)

declare utf8_valid.simps(2) [simp del] from_utf8_lossy.simps(2) [simp del]
  utf8_chars.simps(2) [simp del]

lemma utf8_valid_step:
  "s \<noteq> [] \<Longrightarrow> utf8_valid s \<longleftrightarrow> fst (utf8_step s) \<and> utf8_valid (drop (snd (utf8_step s)) s)"
  by (cases s) (simp_all add: utf8_valid.simps(2))

lemma from_utf8_lossy_step:
  "s \<noteq> [] \<Longrightarrow> from_utf8_lossy s =
     (if fst (utf8_step s) then take (snd (utf8_step s)) s else replacement_character)
     @ from_utf8_lossy (drop (snd (utf8_step s)) s)"
  by (cases s) (simp_all add: from_utf8_lossy.simps(2))

lemma byte_at_append [simp]: "i < length a \<Longrightarrow> byte_at (a @ b) i = byte_at a i"
  by (simp add: byte_at_def nth_append)

lemma zero_not_cont [simp]: "\<not> is_cont (CHR 0x00)"
  by (simp add: is_cont_def byte_in_def)

lemma zero_not_second [simp]: "\<not> second3 b (CHR 0x00)" "\<not> second4 b (CHR 0x00)"
  by (simp_all add: second3_def second4_def byte_in_def)

lemma byte_at_end [simp]: "length s \<le> i \<Longrightarrow> byte_at s i = CHR 0x00"
  by (simp add: byte_at_def)

text \<open>A decoded character lies within the sequence.\<close>

lemma utf8_step_length: "fst (utf8_step s) \<Longrightarrow> s \<noteq> [] \<Longrightarrow> snd (utf8_step s) \<le> length s"
  by (rule ccontr)
    (auto simp: utf8_step_def Let_def not_le less_Suc_eq_le split: if_splits
      simp flip: length_greater_0_conv)

text \<open>Whether a sequence starts with a character depends on the character's bytes only.\<close>

lemma utf8_step_shapes:
  assumes "fst (utf8_step s)"
  obtains "byte_in 0 127 (byte_at s 0)" "utf8_step s = (True, 1)"
  | "byte_in 194 223 (byte_at s 0)" "is_cont (byte_at s 1)" "utf8_step s = (True, 2)"
  | "byte_in 224 239 (byte_at s 0)" "second3 (byte_at s 0) (byte_at s 1)"
    "is_cont (byte_at s 2)" "utf8_step s = (True, 3)"
  | "byte_in 240 244 (byte_at s 0)" "second4 (byte_at s 0) (byte_at s 1)"
    "is_cont (byte_at s 2)" "is_cont (byte_at s 3)" "utf8_step s = (True, 4)"
  using assms unfolding utf8_step_def Let_def by (simp split: if_splits)

lemma byte_in_disjoint:
  "byte_in l h c \<Longrightarrow> h < l' \<or> h' < l \<Longrightarrow> \<not> byte_in l' h' c"
  by (auto simp: byte_in_def)

lemma utf8_step_cong:
  assumes ok: "fst (utf8_step s)"
    and eq: "\<And>i. i < snd (utf8_step s) \<Longrightarrow> byte_at t i = byte_at s i"
  shows "utf8_step t = utf8_step s"
  using ok
proof (cases rule: utf8_step_shapes)
  case 1
  then show ?thesis using eq [of 0] by (simp add: utf8_step_def)
next
  case 2
  then show ?thesis using eq [of 0] eq [of 1]
    by (simp add: utf8_step_def byte_in_disjoint [of 194 223])
next
  case 3
  then show ?thesis using eq [of 0] eq [of 1] eq [of 2]
    by (simp add: utf8_step_def byte_in_disjoint [of 224 239])
next
  case 4
  then show ?thesis using eq [of 0] eq [of 1] eq [of 2] eq [of 3]
    by (simp add: utf8_step_def byte_in_disjoint [of 240 244])
qed

lemma utf8_step_append:
  assumes "fst (utf8_step s)" and "s \<noteq> []"
  shows "utf8_step (s @ t) = utf8_step s"
  using utf8_step_length [OF assms] by (intro utf8_step_cong [OF assms(1)]) simp

lemma utf8_valid_append: "utf8_valid a \<Longrightarrow> utf8_valid (a @ b) \<longleftrightarrow> utf8_valid b"
proof (induction a rule: length_induct)
  case (1 a)
  show ?case
  proof (cases "a = []")
    case True
    then show ?thesis by simp
  next
    case False
    let ?n = "snd (utf8_step a)"
    from False 1(2) have ok: "fst (utf8_step a)" and rest: "utf8_valid (drop ?n a)"
      by (simp_all add: utf8_valid_step)
    have len: "?n \<le> length a" using ok False by (rule utf8_step_length)
    have "length (drop ?n a) < length a" using False by (simp add: diff_less)
    with 1(1) rest have "utf8_valid (drop ?n a @ b) \<longleftrightarrow> utf8_valid b" by blast
    then show ?thesis
      using False ok len utf8_step_append [OF ok False, of b]
      by (simp add: utf8_valid_step [of "a @ b"])
  qed
qed

lemma utf8_valid_take:
  assumes "fst (utf8_step s)" and "s \<noteq> []"
  shows "utf8_valid (take (snd (utf8_step s)) s)"
proof -
  let ?n = "snd (utf8_step s)"
  let ?t = "take ?n s"
  have len: "?n \<le> length s" using assms by (rule utf8_step_length)
  have "utf8_step ?t = utf8_step s"
    using len by (intro utf8_step_cong [OF assms(1)]) (simp add: byte_at_def)
  moreover have "?t \<noteq> []" using assms(2) by (simp flip: length_greater_0_conv)
  ultimately show ?thesis
    using assms(1) by (simp add: utf8_valid_step [of ?t])
qed

lemma utf8_valid_replacement [simp]: "utf8_valid replacement_character"
  by (simp add: replacement_character_def utf8_valid.simps(2) utf8_step_def byte_at_def
      byte_in_def second3_def is_cont_def)

lemma utf8_valid_ascii: "(\<And>c. c \<in> set s \<Longrightarrow> of_char c \<le> (127 :: nat)) \<Longrightarrow> utf8_valid s"
proof (induction s)
  case (Cons c s)
  then have "utf8_step (c # s) = (True, 1)" by (simp add: utf8_step_def byte_at_def byte_in_def)
  with Cons show ?case by (simp add: utf8_valid.simps(2))
qed simp

theorem from_utf8_lossy_valid: "utf8_valid (from_utf8_lossy s)"
proof (induction s rule: from_utf8_lossy.induct)
  case 1
  then show ?case by simp
next
  case (2 c s)
  then show ?case
    by (simp add: from_utf8_lossy_step [of "c # s"] utf8_valid_append utf8_valid_take)
qed

theorem from_utf8_lossy_id: "utf8_valid s \<Longrightarrow> from_utf8_lossy s = s"
proof (induction s rule: utf8_valid.induct)
  case 1
  then show ?case by simp
next
  case (2 c s)
  then show ?case
    by (simp add: from_utf8_lossy_step [of "c # s"] utf8_valid_step [of "c # s"])
qed

section \<open>Character boundaries\<close>

lemma utf8_step_head:
  "fst (utf8_step (c # s)) \<Longrightarrow> \<not> is_cont c"
  by (auto simp: utf8_step_def Let_def byte_at_def is_cont_def byte_in_def split: if_splits)

lemma utf8_step_tail_cont:
  assumes "fst (utf8_step s)" and "0 < i" and "i < snd (utf8_step s)"
  shows "is_cont (byte_at s i)"
proof -
  have c3: "second3 b c \<Longrightarrow> is_cont c" and c4: "second4 b c \<Longrightarrow> is_cont c" for b c
    by (auto simp: second3_def second4_def is_cont_def byte_in_def)
  from assms show ?thesis
    by (auto simp: utf8_step_def Let_def less_Suc_eq numeral_2_eq_2 numeral_3_eq_3
        numeral_eq_Suc dest: c3 c4 split: if_splits)
qed

text \<open>
  In valid text, a position whose byte is not a continuation byte (or the end)
  is a boundary: both parts are valid.
\<close>

lemma utf8_boundary:
  assumes "utf8_valid (a @ b)" and "b \<noteq> [] \<Longrightarrow> \<not> is_cont (hd b)"
  shows "utf8_valid a \<and> utf8_valid b"
  using assms
proof (induction a rule: length_induct)
  case (1 a)
  show ?case
  proof (cases "a = []")
    case True
    with 1(2) show ?thesis by simp
  next
    case False
    let ?s = "a @ b"
    let ?n = "snd (utf8_step ?s)"
    from False have ne: "?s \<noteq> []" by simp
    with 1(2) have ok: "fst (utf8_step ?s)" and rest: "utf8_valid (drop ?n ?s)"
      by (simp_all add: utf8_valid_step)
    have len: "?n \<le> length ?s" using ok ne by (rule utf8_step_length)
    have "?n \<le> length a"
    proof (rule ccontr)
      assume "\<not> ?n \<le> length a"
      then have lt: "length a < ?n" by simp
      with len have "b \<noteq> []" by auto
      moreover from this have "byte_at ?s (length a) = hd b"
        by (simp add: byte_at_def nth_append hd_conv_nth)
      moreover have "is_cont (byte_at ?s (length a))"
        using ok lt False by (intro utf8_step_tail_cont) auto
      ultimately show False using 1(3) by simp
    qed
    then have drop: "drop ?n ?s = drop ?n a @ b" and take: "take ?n ?s = take ?n a"
      by simp_all
    have "length (drop ?n a) < length a" using False by (simp add: diff_less)
    moreover have "utf8_valid (drop ?n a @ b)" using rest drop by metis
    ultimately have IH: "utf8_valid (drop ?n a)" "utf8_valid b"
      using 1(1) 1(3) by blast+
    have "utf8_valid (take ?n a)"
      using utf8_valid_take [OF ok ne] take by metis
    with IH show ?thesis
      using utf8_valid_append [of "take ?n a" "drop ?n a"] by simp
  qed
qed

section \<open>Replacement\<close>

text \<open>
  \<open>str::replace\<close>: every leftmost, non-overlapping occurrence of a non-empty
  pattern is replaced; the empty pattern occurs at every character boundary.
\<close>

function (sequential) replace_nonempty :: "string \<Rightarrow> string \<Rightarrow> string \<Rightarrow> string" where
  "replace_nonempty p t [] = []"
| "replace_nonempty p t (c # s) =
     (if p \<noteq> [] \<and> starts_with p (c # s)
      then t @ replace_nonempty p t (drop (length p) (c # s))
      else c # replace_nonempty p t s)"
  by pat_completeness auto
termination
  by (relation "measure (\<lambda>(p, t, s). length s)") (auto intro!: diff_less)

definition str_replace :: "string \<Rightarrow> string \<Rightarrow> string \<Rightarrow> string" where
  "str_replace s p t =
     (if p = [] then t @ concat (map (\<lambda>ch. ch @ t) (utf8_chars s))
      else replace_nonempty p t s)"

lemma starts_with_iff: "starts_with p s \<longleftrightarrow> (\<exists>r. s = p @ r)"
  by (metis append_eq_conv_conj starts_with_def)

lemma starts_with_prefix: "starts_with p s \<longleftrightarrow> prefix p s"
  by (simp add: starts_with_iff prefix_def)

lemma replace_nonempty_start:
  "p \<noteq> [] \<Longrightarrow> replace_nonempty p t (p @ r) = t @ replace_nonempty p t r"
  by (cases p) (auto simp: starts_with_def)

text \<open>Two equations characterise replacement: text without an occurrence is kept, and ...\<close>

lemma replace_nonempty_no_occ:
  "\<not> sublist p s \<Longrightarrow> replace_nonempty p t s = s"
proof (induction s)
  case (Cons c s)
  then have "\<not> starts_with p (c # s)" and "\<not> sublist p s"
    by (auto simp: starts_with_prefix sublist_Cons_right)
  with Cons.IH show ?case by simp
qed simp

text \<open>... the leftmost occurrence is replaced and the rest after it is rewritten.\<close>

lemma replace_nonempty_first_occ:
  assumes "p \<noteq> []"
    and "\<And>u v. s = u @ v \<Longrightarrow> length u < length a \<Longrightarrow> \<not> starts_with p v"
    and "s = a @ p @ b"
  shows "replace_nonempty p t s = a @ t @ replace_nonempty p t b"
  using assms
proof (induction a arbitrary: s)
  case Nil
  then show ?case by (simp add: replace_nonempty_start)
next
  case (Cons c a)
  have "\<not> starts_with p s" using Cons.prems(2) [of "[]" s] by simp
  moreover have "\<not> starts_with p v" if "a @ p @ b = u @ v" "length u < length a" for u v
    using Cons.prems(2) [of "c # u" v] Cons.prems(3) that by simp
  ultimately show ?case
    using Cons.IH [OF Cons.prems(1), of "a @ p @ b"] Cons.prems(3) by simp
qed

lemma replace_nonempty_same: "replace_nonempty p p s = s"
proof (induction s rule: length_induct)
  case (1 s)
  show ?case
  proof (cases "s \<noteq> [] \<and> p \<noteq> [] \<and> starts_with p s")
    case True
    then have "length (drop (length p) s) < length s" by (simp add: diff_less)
    with 1 have "replace_nonempty p p (drop (length p) s) = drop (length p) s" by blast
    moreover from True have "s = p @ drop (length p) s"
      by (metis append_take_drop_id starts_with_def)
    ultimately show ?thesis using True by (cases s) auto
  next
    case False
    with 1 show ?thesis by (cases s) auto
  qed
qed

text \<open>Replacement changes a text exactly if the pattern occurs and differs from its replacement.\<close>

lemma replace_nonempty_length:
  "p \<noteq> [] \<Longrightarrow> \<exists>k. (sublist p s \<longrightarrow> 0 < k) \<and>
     length (replace_nonempty p t s) + k * length p = length s + k * length t"
proof (induction s rule: length_induct)
  case (1 s)
  show ?case
  proof (cases "s = [] \<or> starts_with p s")
    case True
    then consider "s = []" | r where "s = p @ r" "s \<noteq> []" by (auto simp: starts_with_iff)
    then show ?thesis
    proof cases
      case 1
      then show ?thesis using \<open>p \<noteq> []\<close> by (intro exI [of _ 0]) auto
    next
      case (2 r)
      then have "length r < length s" using 1(2) by simp
      then obtain k where "length (replace_nonempty p t r) + k * length p = length r + k * length t"
        using 1 by blast
      moreover have "replace_nonempty p t s = t @ replace_nonempty p t r"
        using 2 1(2) by (simp add: replace_nonempty_start)
      ultimately show ?thesis using 2 by (intro exI [of _ "Suc k"]) simp
    qed
  next
    case False
    then obtain c s' where s: "s = c # s'" by (cases s) auto
    with 1 obtain k where "sublist p s' \<longrightarrow> 0 < k"
      "length (replace_nonempty p t s') + k * length p = length s' + k * length t" by auto
    with s False show ?thesis
      by (intro exI [of _ k]) (auto simp: sublist_Cons_right starts_with_prefix)
  qed
qed

lemma replace_nonempty_eq_same_length:
  "p \<noteq> [] \<Longrightarrow> length t = length p \<Longrightarrow> sublist p s \<Longrightarrow> replace_nonempty p t s = s \<Longrightarrow> t = p"
proof (induction s)
  case (Cons c s)
  show ?case
  proof (cases "starts_with p (c # s)")
    case True
    then obtain r where "c # s = p @ r" by (auto simp: starts_with_iff)
    with Cons.prems show ?thesis by (simp add: replace_nonempty_start)
  next
    case False
    with Cons show ?thesis by (simp add: sublist_Cons_right starts_with_prefix)
  qed
qed simp

lemma replace_nonempty_eq_iff:
  assumes "p \<noteq> []"
  shows "replace_nonempty p t s = s \<longleftrightarrow> t = p \<or> \<not> sublist p s"
proof
  assume eq: "replace_nonempty p t s = s"
  obtain k where "sublist p s \<longrightarrow> 0 < k"
    "length (replace_nonempty p t s) + k * length p = length s + k * length t"
    using replace_nonempty_length [OF assms] by blast
  with eq have "length t = length p \<or> \<not> sublist p s" by auto
  with eq assms show "t = p \<or> \<not> sublist p s"
    using replace_nonempty_eq_same_length by blast
next
  assume "t = p \<or> \<not> sublist p s"
  then show "replace_nonempty p t s = s"
    using replace_nonempty_same replace_nonempty_no_occ by blast
qed

text \<open>Replacement keeps valid text valid.\<close>

lemma replace_nonempty_valid_aux:
  assumes "utf8_valid p" and "p \<noteq> []" and "utf8_valid t"
  shows "utf8_valid (pre @ s) \<Longrightarrow>
     utf8_valid (pre @ replace_nonempty p t s)"
proof (induction s arbitrary: pre rule: length_induct)
  case (1 s)
  show ?case
  proof (cases s)
    case Nil
    with 1(2) show ?thesis by simp
  next
    case (Cons c s')
    show ?thesis
    proof (cases "starts_with p s")
      case True
      then obtain r where s: "s = p @ r" by (auto simp: starts_with_iff)
      obtain d p' where p: "p = d # p'" using assms(2) by (cases p) auto
      have "\<not> is_cont d"
        using assms(1) p utf8_step_head [of d p'] by (simp add: utf8_valid_step)
      with 1(2) s p have v: "utf8_valid pre" "utf8_valid s"
        using utf8_boundary [of pre s] by simp_all
      with s assms(1) have "utf8_valid r" by (simp add: utf8_valid_append)
      moreover have "length r < length s" using s p by simp
      ultimately have "utf8_valid (replace_nonempty p t r)"
        using 1(1) [rule_format, of r "[]"] by simp
      moreover have "replace_nonempty p t s = t @ replace_nonempty p t r"
        using s assms(2) by (simp add: replace_nonempty_start)
      ultimately show ?thesis
        using v assms(3) by (simp add: utf8_valid_append)
    next
      case False
      with Cons have "replace_nonempty p t s = c # replace_nonempty p t s'" by simp
      moreover have "utf8_valid ((pre @ [c]) @ replace_nonempty p t s')"
        using 1(1) [rule_format, of s' "pre @ [c]"] 1(2) Cons by simp
      ultimately show ?thesis by simp
    qed
  qed
qed

theorem replace_nonempty_valid:
  "utf8_valid p \<Longrightarrow> p \<noteq> [] \<Longrightarrow> utf8_valid t \<Longrightarrow> utf8_valid s \<Longrightarrow>
     utf8_valid (replace_nonempty p t s)"
  using replace_nonempty_valid_aux [of p t "[]" s] by simp

end
