(* ===== verification/Transform.thy ===== *)
theory Transform
  imports Headers Utf8
begin

text \<open>
  \<^verbatim>\<open>src/transform.rs\<close>: response transforms.  Rules are compiled from the
  configuration file (\<open>TransformRule::try_from\<close>) and applied in order to the
  response's headers (\<open>apply_until_body\<close>) and, from the first matching rule that
  needs it, to headers and body (\<open>apply_with_body\<close>).  The glob library is a
  parameter: an abstract pattern type \<open>'p\<close> with \<open>Pattern::new\<close> and
  \<open>Pattern::matches\<close>.

  A function that takes \<open>&mut HeaderMap\<close> or \<open>&mut Vec<u8>\<close> returns the new value
  beside its result; on an error the caller discards both.
\<close>

section \<open>Rules\<close>

record 'p glob_ops =
  pattern_new :: "string \<Rightarrow> 'p option"
  pattern_matches :: "'p \<Rightarrow> string \<Rightarrow> bool"

datatype 'p TransformMatcher = UrlGlob 'p | ContentTypeGlob 'p | MatchEverything

datatype TransformAction = Replace string string

datatype TransformTarget = TargetEverything | Body | AllHeaders | Header string | Cookies

record 'p TransformRule =
  matcher :: "'p TransformMatcher"
  action :: TransformAction
  target :: TransformTarget
  stop :: bool

record 'p TransformConfig =
  transforms :: "'p TransformRule list"

datatype PrebufferDisposition = Stream | BufferFrom nat

record PrebufferOutcome =
  disposition :: PrebufferDisposition
  pre_headers_changed :: bool

record ApplyOutcome =
  headers_changed :: bool
  body_changed :: bool

record RuleApplyOutcome =
  triggered :: bool
  rule_headers_changed :: bool
  rule_body_changed :: bool

section \<open>The configuration file's rules\<close>

datatype TransformMatcherFile = UrlGlobFile string | ContentTypeGlobFile string | MatchEverythingFile

datatype TransformActionFile = ReplaceFile string string

datatype TransformTargetFile =
  TargetEverythingFile | BodyFile | AllHeadersFile | HeaderFile string | CookiesFile

record TransformRuleFile =
  file_matcher :: TransformMatcherFile
  file_action :: TransformActionFile
  file_target :: TransformTargetFile
  file_stop :: bool

fun matcher_try_from ::
  "'p glob_ops \<Rightarrow> TransformMatcherFile \<Rightarrow> 'p TransformMatcher anyhow_result" where
  "matcher_try_from g (UrlGlobFile pattern) =
     try_bind (ok_or (''invalid url_glob '' @ pattern) (pattern_new g pattern))
       (\<lambda>p. Inr (UrlGlob p))"
| "matcher_try_from g (ContentTypeGlobFile pattern) =
     try_bind (ok_or (''invalid content_type_glob '' @ pattern)
                 (pattern_new g (to_ascii_lowercase pattern)))
       (\<lambda>p. Inr (ContentTypeGlob p))"
| "matcher_try_from g MatchEverythingFile = Inr MatchEverything"

fun action_try_from :: "TransformActionFile \<Rightarrow> TransformAction anyhow_result" where
  "action_try_from (ReplaceFile from to) =
     (if from = [] then Inl ''replace transform requires a non-empty from value''
      else Inr (Replace from to))"

fun target_try_from ::
  "'h header_ops \<Rightarrow> TransformTargetFile \<Rightarrow> TransformTarget anyhow_result" where
  "target_try_from ops TargetEverythingFile = Inr TargetEverything"
| "target_try_from ops BodyFile = Inr Body"
| "target_try_from ops AllHeadersFile = Inr AllHeaders"
| "target_try_from ops (HeaderFile name) =
     (let normalized = to_ascii_lowercase (trim name) in
      if normalized = [] then Inl ''header target requires a header name''
      else try_bind (ok_or (''invalid header target name '' @ name)
                       (hn_from_bytes ops normalized))
             (\<lambda>header_name. Inr (Header header_name)))"
| "target_try_from ops CookiesFile = Inr Cookies"

definition rule_try_from ::
  "'h header_ops \<Rightarrow> 'p glob_ops \<Rightarrow> TransformRuleFile \<Rightarrow> 'p TransformRule anyhow_result" where
  "rule_try_from ops g v =
     try_bind (matcher_try_from g (file_matcher v)) (\<lambda>m.
     try_bind (action_try_from (file_action v)) (\<lambda>a.
     try_bind (target_try_from ops (file_target v)) (\<lambda>t.
     Inr \<lparr>matcher = m, action = a, target = t, stop = file_stop v\<rparr>)))"

definition compile ::
  "'h header_ops \<Rightarrow> 'p glob_ops \<Rightarrow> TransformRuleFile list \<Rightarrow> 'p TransformConfig anyhow_result" where
  "compile ops g rules =
     try_bind (collect_results (map (rule_try_from ops g) rules))
       (\<lambda>ts. Inr \<lparr>transforms = ts\<rparr>)"

section \<open>Matching\<close>

definition request_url :: "string \<Rightarrow> string option \<Rightarrow> string" where
  "request_url path query =
     (case query of
        Some q \<Rightarrow> if q \<noteq> [] then path @ ''?'' @ q else path
      | None \<Rightarrow> path)"

definition normalized_content_type :: "'h header_ops \<Rightarrow> 'h \<Rightarrow> string option" where
  "normalized_content_type ops h =
     opt_filter (\<lambda>v. v \<noteq> [])
       (map_option (\<lambda>v. to_ascii_lowercase (trim (hd (split_on (CHR '';'') v))))
          (hm_get_str ops h CONTENT_TYPE))"

definition rule_matches ::
  "'h header_ops \<Rightarrow> 'p glob_ops \<Rightarrow> 'p TransformRule \<Rightarrow> string \<Rightarrow> 'h \<Rightarrow> bool" where
  "rule_matches ops g r url h =
     (case matcher r of
        UrlGlob p \<Rightarrow> pattern_matches g p url
      | ContentTypeGlob p \<Rightarrow>
          (case normalized_content_type ops h of
             None \<Rightarrow> False
           | Some v \<Rightarrow> pattern_matches g p v)
      | MatchEverything \<Rightarrow> True)"

definition requires_body :: "'p TransformRule \<Rightarrow> bool" where
  "requires_body r \<longleftrightarrow> target r = Body \<or> target r = TargetEverything"

definition needs_plaintext_upstream_body ::
  "'p glob_ops \<Rightarrow> 'p TransformConfig \<Rightarrow> string \<Rightarrow> bool" where
  "needs_plaintext_upstream_body g cfg url =
     list_ex (\<lambda>r. requires_body r \<and>
        (case matcher r of
           UrlGlob p \<Rightarrow> pattern_matches g p url
         | ContentTypeGlob _ \<Rightarrow> True
         | MatchEverything \<Rightarrow> True)) (transforms cfg)"

section \<open>Rewriting\<close>

definition replace_text :: "'p TransformRule \<Rightarrow> string \<Rightarrow> string" where
  "replace_text r input = (case action r of Replace from to \<Rightarrow> str_replace input from to)"

text \<open>The loop over \<open>headers.iter()\<close>: the rewritten entries and whether one changed.\<close>

fun rewrite_entries ::
  "'h header_ops \<Rightarrow> 'p TransformRule \<Rightarrow> (string \<Rightarrow> bool) \<Rightarrow> (string \<times> bytes) list \<Rightarrow>
     (bool \<times> (string \<times> bytes) list) anyhow_result" where
  "rewrite_entries ops r selector [] = Inr (False, [])"
| "rewrite_entries ops r selector ((name, v) # es) =
     (if selector name then
        try_bind (ok_or (''response header '' @ name @ '' is not valid text'')
                    (hv_to_str ops v)) (\<lambda>current.
        try_bind (ok_or (''rewritten response header '' @ name @ '' is invalid'')
                    (hv_from_str ops (replace_text r current))) (\<lambda>updated.
        try_bind (rewrite_entries ops r selector es) (\<lambda>(changed, entries).
          Inr (replace_text r current \<noteq> current \<or> changed, (name, updated) # entries))))
      else
        try_bind (rewrite_entries ops r selector es) (\<lambda>(changed, entries).
          Inr (changed, (name, v) # entries)))"

definition apply_selected_headers ::
  "'h header_ops \<Rightarrow> 'p TransformRule \<Rightarrow> (string \<Rightarrow> bool) \<Rightarrow> 'h \<Rightarrow> (bool \<times> 'h) anyhow_result" where
  "apply_selected_headers ops r selector h =
     try_bind (rewrite_entries ops r selector (hm_iter ops h)) (\<lambda>(changed, entries).
       Inr (changed,
            if changed
            then foldl (\<lambda>h (n, v). hm_append ops h n v) (hm_clear ops h) entries
            else h))"

text \<open>Which headers a target selects; a body target selects none and is not rewritten.\<close>

definition apply_headers ::
  "'h header_ops \<Rightarrow> 'p TransformRule \<Rightarrow> 'h \<Rightarrow> (bool \<times> 'h) anyhow_result" where
  "apply_headers ops r h =
     (case target r of
        TargetEverything \<Rightarrow> apply_selected_headers ops r (\<lambda>_. True) h
      | Body \<Rightarrow> Inr (False, h)
      | AllHeaders \<Rightarrow> apply_selected_headers ops r (\<lambda>_. True) h
      | Header name \<Rightarrow> apply_selected_headers ops r (\<lambda>current. current = name) h
      | Cookies \<Rightarrow> apply_selected_headers ops r (\<lambda>current. current = SET_COOKIE) h)"

definition apply_body :: "'p TransformRule \<Rightarrow> bytes \<Rightarrow> bool \<times> bytes" where
  "apply_body r body =
     (let text = from_utf8_lossy body; updated = replace_text r text in
      if updated = text then (False, body) else (True, updated))"

definition rule_apply ::
  "'h header_ops \<Rightarrow> 'p TransformRule \<Rightarrow> 'h \<Rightarrow> bytes \<Rightarrow>
     (RuleApplyOutcome \<times> 'h \<times> bytes) anyhow_result" where
  "rule_apply ops r h body =
     try_bind (apply_headers ops r h) (\<lambda>(hc, h').
       let (bc, body') =
         (case target r of
            TargetEverything \<Rightarrow> apply_body r body
          | Body \<Rightarrow> apply_body r body
          | AllHeaders \<Rightarrow> (False, body)
          | Header _ \<Rightarrow> (False, body)
          | Cookies \<Rightarrow> (False, body)) in
       Inr (\<lparr>triggered = hc \<or> bc, rule_headers_changed = hc, rule_body_changed = bc\<rparr>, h', body'))"

section \<open>The two passes\<close>

text \<open>\<open>apply_until_body\<close>, with the loop's index and flag as arguments.\<close>

fun until_body_loop ::
  "'h header_ops \<Rightarrow> 'p glob_ops \<Rightarrow> string \<Rightarrow> 'p TransformRule list \<Rightarrow> nat \<times> bool \<times> 'h \<Rightarrow>
     (PrebufferOutcome \<times> 'h) anyhow_result" where
  "until_body_loop ops g url [] (index, hc, h) =
     Inr (\<lparr>disposition = Stream, pre_headers_changed = hc\<rparr>, h)"
| "until_body_loop ops g url (r # rs) (index, hc, h) =
     (if \<not> rule_matches ops g r url h then until_body_loop ops g url rs (Suc index, hc, h)
      else if requires_body r then
        Inr (\<lparr>disposition = BufferFrom index, pre_headers_changed = hc\<rparr>, h)
      else
        try_bind (apply_headers ops r h) (\<lambda>(trig, h').
          if trig \<and> stop r then
            Inr (\<lparr>disposition = Stream, pre_headers_changed = hc \<or> trig\<rparr>, h')
          else until_body_loop ops g url rs (Suc index, hc \<or> trig, h')))"

definition apply_until_body ::
  "'h header_ops \<Rightarrow> 'p glob_ops \<Rightarrow> 'p TransformConfig \<Rightarrow> string \<Rightarrow> 'h \<Rightarrow>
     (PrebufferOutcome \<times> 'h) anyhow_result" where
  "apply_until_body ops g cfg url h = until_body_loop ops g url (transforms cfg) (0, False, h)"

fun with_body_loop ::
  "'h header_ops \<Rightarrow> 'p glob_ops \<Rightarrow> string \<Rightarrow> 'p TransformRule list \<Rightarrow>
     bool \<times> bool \<times> 'h \<times> bytes \<Rightarrow> (ApplyOutcome \<times> 'h \<times> bytes) anyhow_result" where
  "with_body_loop ops g url [] (hc, bc, h, body) =
     Inr (\<lparr>headers_changed = hc, body_changed = bc\<rparr>, h, body)"
| "with_body_loop ops g url (r # rs) (hc, bc, h, body) =
     (if \<not> rule_matches ops g r url h then with_body_loop ops g url rs (hc, bc, h, body)
      else
        try_bind (rule_apply ops r h body) (\<lambda>(out, h', body').
          let hc' = hc \<or> rule_headers_changed out; bc' = bc \<or> rule_body_changed out in
          if triggered out \<and> stop r then
            Inr (\<lparr>headers_changed = hc', body_changed = bc'\<rparr>, h', body')
          else with_body_loop ops g url rs (hc', bc', h', body')))"

definition apply_with_body ::
  "'h header_ops \<Rightarrow> 'p glob_ops \<Rightarrow> 'p TransformConfig \<Rightarrow> nat \<Rightarrow> string \<Rightarrow> 'h \<Rightarrow> bytes \<Rightarrow>
     (ApplyOutcome \<times> 'h \<times> bytes) anyhow_result" where
  "apply_with_body ops g cfg start_index url h body =
     with_body_loop ops g url (drop start_index (transforms cfg)) (False, False, h, body)"

section \<open>Passes that may end early\<close>

text \<open>
  Both loops share a contract: each rule either fails, ends the pass with a
  result, or continues with a new state.  \<open>run_prefix\<close> is the state after rules
  that all continue.
\<close>

fun run_prefix :: "('r \<Rightarrow> 's \<Rightarrow> 'e + ('s + 'o)) \<Rightarrow> 'r list \<Rightarrow> 's \<Rightarrow> 's option" where
  "run_prefix act [] s = Some s"
| "run_prefix act (r # rs) s =
     (case act r s of
        Inl e \<Rightarrow> None
      | Inr (Inr out) \<Rightarrow> None
      | Inr (Inl s') \<Rightarrow> run_prefix act rs s')"

locale early_exit_pass =
  fixes act :: "'r \<Rightarrow> 's \<Rightarrow> 'e + ('s + 'o)"
    and fin :: "'s \<Rightarrow> 'o"
    and loop :: "'r list \<Rightarrow> 's \<Rightarrow> 'e + 'o"
  assumes loop_Nil: "loop [] s = Inr (fin s)"
    and loop_Cons: "loop (r # rs) s =
      (case act r s of
         Inl e \<Rightarrow> Inl e
       | Inr (Inr out) \<Rightarrow> Inr out
       | Inr (Inl s') \<Rightarrow> loop rs s')"
begin

text \<open>Rules that all continue hand their state to the rules after them.\<close>

lemma loop_append: "run_prefix act xs s = Some s' \<Longrightarrow> loop (xs @ ys) s = loop ys s'"
  by (induction xs arbitrary: s) (auto simp: loop_Cons split: sum.splits)

text \<open>Once a pass has ended or failed, later rules have no effect.\<close>

lemma loop_ended: "run_prefix act xs s = None \<Longrightarrow> loop (xs @ ys) s = loop xs s"
  by (induction xs arbitrary: s) (auto simp: loop_Cons split: sum.splits)

end

definition until_body_act ::
  "'h header_ops \<Rightarrow> 'p glob_ops \<Rightarrow> string \<Rightarrow> 'p TransformRule \<Rightarrow> nat \<times> bool \<times> 'h \<Rightarrow>
     string + ((nat \<times> bool \<times> 'h) + (PrebufferOutcome \<times> 'h))" where
  "until_body_act ops g url r s =
     (case s of (index, hc, h) \<Rightarrow>
        if \<not> rule_matches ops g r url h then Inr (Inl (Suc index, hc, h))
        else if requires_body r then
          Inr (Inr (\<lparr>disposition = BufferFrom index, pre_headers_changed = hc\<rparr>, h))
        else
          try_bind (apply_headers ops r h) (\<lambda>(trig, h').
            if trig \<and> stop r then
              Inr (Inr (\<lparr>disposition = Stream, pre_headers_changed = hc \<or> trig\<rparr>, h'))
            else Inr (Inl (Suc index, hc \<or> trig, h'))))"

definition with_body_act ::
  "'h header_ops \<Rightarrow> 'p glob_ops \<Rightarrow> string \<Rightarrow> 'p TransformRule \<Rightarrow> bool \<times> bool \<times> 'h \<times> bytes \<Rightarrow>
     string + ((bool \<times> bool \<times> 'h \<times> bytes) + (ApplyOutcome \<times> 'h \<times> bytes))" where
  "with_body_act ops g url r s =
     (case s of (hc, bc, h, body) \<Rightarrow>
        if \<not> rule_matches ops g r url h then Inr (Inl (hc, bc, h, body))
        else
          try_bind (rule_apply ops r h body) (\<lambda>(out, h', body').
            let hc' = hc \<or> rule_headers_changed out; bc' = bc \<or> rule_body_changed out in
            if triggered out \<and> stop r then
              Inr (Inr (\<lparr>headers_changed = hc', body_changed = bc'\<rparr>, h', body'))
            else Inr (Inl (hc', bc', h', body'))))"

interpretation until_body: early_exit_pass
  "until_body_act ops g url"
  "\<lambda>(index, hc, h). (\<lparr>disposition = Stream, pre_headers_changed = hc\<rparr>, h)"
  "until_body_loop ops g url"
proof unfold_locales
  show "until_body_loop ops g url [] s =
      Inr (case s of (index, hc, h) \<Rightarrow> (\<lparr>disposition = Stream, pre_headers_changed = hc\<rparr>, h))" for s
    by (cases s) simp
  show "until_body_loop ops g url (r # rs) s =
      (case until_body_act ops g url r s of
         Inl e \<Rightarrow> Inl e | Inr (Inr out) \<Rightarrow> Inr out | Inr (Inl s') \<Rightarrow> until_body_loop ops g url rs s')"
    for r rs s
    by (cases s; cases "apply_headers ops r (snd (snd s))") (auto simp: until_body_act_def)
qed

interpretation with_body: early_exit_pass
  "with_body_act ops g url"
  "\<lambda>(hc, bc, h, body). (\<lparr>headers_changed = hc, body_changed = bc\<rparr>, h, body)"
  "with_body_loop ops g url"
proof unfold_locales
  show "with_body_loop ops g url [] s =
      Inr (case s of (hc, bc, h, body) \<Rightarrow> (\<lparr>headers_changed = hc, body_changed = bc\<rparr>, h, body))" for s
    by (cases s) simp
  show "with_body_loop ops g url (r # rs) s =
      (case with_body_act ops g url r s of
         Inl e \<Rightarrow> Inl e | Inr (Inr out) \<Rightarrow> Inr out | Inr (Inl s') \<Rightarrow> with_body_loop ops g url rs s')"
    for r rs s
  proof (cases s)
    case (fields hc bc h body)
    then show ?thesis
      by (cases "rule_apply ops r h body") (auto simp: with_body_act_def Let_def split: prod.splits)
  qed
qed

section \<open>One pass or two\<close>

text \<open>
  What \<open>ProxyService::handle\<close> does with the two passes: the header pass runs when
  the response head arrives; if it stops at a rule that needs the body, the body
  is collected and the second pass starts at that rule.
\<close>

definition finish_staged ::
  "'h header_ops \<Rightarrow> 'p glob_ops \<Rightarrow> 'p TransformConfig \<Rightarrow> string \<Rightarrow> bytes \<Rightarrow>
     PrebufferOutcome \<times> 'h \<Rightarrow> (ApplyOutcome \<times> 'h \<times> bytes) anyhow_result" where
  "finish_staged ops g cfg url body p =
     (case p of (plan, h) \<Rightarrow>
        case disposition plan of
          Stream \<Rightarrow>
            Inr (\<lparr>headers_changed = pre_headers_changed plan, body_changed = False\<rparr>, h, body)
        | BufferFrom start_index \<Rightarrow>
            try_bind (apply_with_body ops g cfg start_index url h body) (\<lambda>(out, h', body').
              Inr (out\<lparr>headers_changed := pre_headers_changed plan \<or> headers_changed out\<rparr>,
                   h', body')))"

definition staged_apply ::
  "'h header_ops \<Rightarrow> 'p glob_ops \<Rightarrow> 'p TransformConfig \<Rightarrow> string \<Rightarrow> 'h \<Rightarrow> bytes \<Rightarrow>
     (ApplyOutcome \<times> 'h \<times> bytes) anyhow_result" where
  "staged_apply ops g cfg url h body =
     try_bind (apply_until_body ops g cfg url h) (finish_staged ops g cfg url body)"

lemma rule_apply_header_only:
  "\<not> requires_body r \<Longrightarrow>
     rule_apply ops r h body =
       try_bind (apply_headers ops r h) (\<lambda>(hc, h').
         Inr (\<lparr>triggered = hc, rule_headers_changed = hc, rule_body_changed = False\<rparr>, h', body))"
  by (cases "target r"; cases "apply_headers ops r h")
    (auto simp: requires_body_def rule_apply_def)

text \<open>The flags only accumulate: they do not influence what the pass does.\<close>

lemma with_body_loop_flags:
  "with_body_loop ops g url rs (hc, bc, h, body) =
     try_bind (with_body_loop ops g url rs (False, False, h, body)) (\<lambda>(out, h', body').
       Inr (out\<lparr>headers_changed := hc \<or> headers_changed out,
               body_changed := bc \<or> body_changed out\<rparr>, h', body'))"
proof (induction rs arbitrary: hc bc h body)
  case Nil
  then show ?case by simp
next
  case (Cons r rs)
  show ?case
  proof (cases "rule_matches ops g r url h")
    case False
    then show ?thesis using Cons.IH [of hc bc h body] by simp
  next
    case True
    show ?thesis
    proof (cases "rule_apply ops r h body")
      case (Inl e)
      with True show ?thesis by simp
    next
      case (Inr x)
      obtain out h' body' where x: "x = (out, h', body')" by (cases x)
      show ?thesis
        using True Inr x Cons.IH [of "hc \<or> rule_headers_changed out" "bc \<or> rule_body_changed out" h' body']
          Cons.IH [of "rule_headers_changed out" "rule_body_changed out" h' body']
        by (cases "with_body_loop ops g url rs (False, False, h', body')")
          (auto simp: Let_def disj_assoc)
    qed
  qed
qed

lemma staged_loop:
  "transforms cfg = pre @ rs \<Longrightarrow>
     try_bind (until_body_loop ops g url rs (length pre, hc, h)) (finish_staged ops g cfg url body)
     = with_body_loop ops g url rs (hc, False, h, body)"
proof (induction rs arbitrary: pre hc h)
  case Nil
  then show ?case by (simp add: finish_staged_def)
next
  case (Cons r rs)
  note IH = Cons.IH [of "pre @ [r]"]
  consider (skip) "\<not> rule_matches ops g r url h"
    | (body) "rule_matches ops g r url h" "requires_body r"
    | (head) "rule_matches ops g r url h" "\<not> requires_body r" by blast
  then show ?case
  proof cases
    case skip
    then show ?thesis using IH [of hc h] Cons.prems by simp
  next
    case body
    then show ?thesis
      using Cons.prems
      by (simp add: with_body_loop_flags [of ops g url "r # rs" hc] finish_staged_def
          apply_with_body_def del: with_body_loop.simps)
  next
    case head
    then show ?thesis
      using IH Cons.prems
      by (cases "apply_headers ops r h") (auto simp: rule_apply_header_only finish_staged_def)
  qed
qed

section \<open>Compiled rules are well formed\<close>

text \<open>The invariant of a compiled rule: its pattern is not empty, a named header is lower case.\<close>

definition rule_wf :: "'p TransformRule \<Rightarrow> bool" where
  "rule_wf r \<longleftrightarrow>
     (case action r of Replace from to \<Rightarrow> from \<noteq> [])
     \<and> (case target r of Header n \<Rightarrow> n = to_ascii_lowercase n | _ \<Rightarrow> True)"

lemma replace_text_nonempty:
  "rule_wf r \<Longrightarrow> action r = Replace from to \<Longrightarrow> replace_text r s = replace_nonempty from to s"
  by (simp add: rule_wf_def replace_text_def str_replace_def)

text \<open>The headers a target selects.\<close>

fun selects :: "TransformTarget \<Rightarrow> string \<Rightarrow> bool" where
  "selects TargetEverything n = True"
| "selects Body n = False"
| "selects AllHeaders n = True"
| "selects (Header name) n = (n = name)"
| "selects Cookies n = (n = SET_COOKIE)"

text \<open>An instance of the glob interface: a pattern is its text, and \<open>*\<close> matches anything.\<close>

definition exact_globs :: "string glob_ops" where
  "exact_globs = \<lparr>pattern_new = Some, pattern_matches = (\<lambda>p s. p = ''*'' \<or> p = s)\<rparr>"

lemma apply_headers_selected:
  "apply_headers ops r h =
     (if target r = Body then Inr (False, h) else apply_selected_headers ops r (selects (target r)) h)"
proof -
  have "selects TargetEverything = (\<lambda>_. True)" "selects AllHeaders = (\<lambda>_. True)"
    "selects (Header name) = (\<lambda>n. n = name)" "selects Cookies = (\<lambda>n. n = SET_COOKIE)" for name
    by (simp_all add: fun_eq_iff)
  then show ?thesis by (cases "target r") (simp_all add: apply_headers_def)
qed

context header_map
begin

lemma rule_try_from_wf: "rule_try_from ops g f = Inr r \<Longrightarrow> rule_wf r"
  by (cases "file_target f"; cases "file_action f")
    (auto simp: rule_try_from_def rule_wf_def result_simps Let_def split: if_splits
      dest!: from_bytes_lower)

lemma compile_rules_wf:
  assumes "map (rule_try_from ops g) files = map Inr rs"
  shows "list_all rule_wf rs"
proof -
  have "rule_wf r" if "r \<in> set rs" for r
  proof -
    from that have "Inr r \<in> set (map (rule_try_from ops g) files)" using assms by auto
    then show ?thesis
      using rule_try_from_wf by (metis (no_types, lifting) imageE list.set_map)
  qed
  then show ?thesis by (simp add: list_all_iff)
qed

lemma compile_wf: "compile ops g files = Inr cfg \<Longrightarrow> list_all rule_wf (transforms cfg)"
  by (auto simp: compile_def result_simps dest: compile_rules_wf)

lemma rewrite_entries_values:
  "rewrite_entries ops r selector es = Inr (ch, es') \<Longrightarrow>
     map snd (filter (\<lambda>e. fst e = n) es') =
       (if selector n then map (replace_text r) (map snd (filter (\<lambda>e. fst e = n) es))
        else map snd (filter (\<lambda>e. fst e = n) es))"
proof (induction es arbitrary: ch es')
  case Nil
  then show ?case by simp
next
  case (Cons e es)
  obtain name v where e: "e = (name, v)" by (cases e)
  from Cons.prems e obtain ch1 es1 where
    1: "rewrite_entries ops r selector es = Inr (ch1, es1)" and
    2: "es' = (name, if selector name then replace_text r v else v) # es1"
    by (fastforce simp: result_simps dest: to_str_bytes from_str_bytes split: if_splits)
  show ?case using Cons.IH [OF 1] 2 e by auto
qed

lemma rewrite_entries_changed:
  "rewrite_entries ops r selector es = Inr (ch, es') \<Longrightarrow>
     ch \<longleftrightarrow> (\<exists>(n, v) \<in> set es. selector n \<and> replace_text r v \<noteq> v)"
proof (induction es arbitrary: ch es')
  case Nil
  then show ?case by simp
next
  case (Cons e es)
  obtain name v where e: "e = (name, v)" by (cases e)
  from Cons.prems e obtain ch1 es1 where
    1: "rewrite_entries ops r selector es = Inr (ch1, es1)" and
    2: "ch \<longleftrightarrow> (selector name \<and> replace_text r v \<noteq> v) \<or> ch1"
    by (fastforce simp: result_simps dest: to_str_bytes split: if_splits)
  show ?case using Cons.IH [OF 1] 2 e by auto
qed

lemma rewrite_entries_fails:
  "(\<exists>e. rewrite_entries ops r selector es = Inl e) \<longleftrightarrow>
     (\<exists>(n, v) \<in> set es. selector n \<and>
        (hv_to_str ops v = None \<or> hv_from_str ops (replace_text r v) = None))"
proof (induction es)
  case Nil
  then show ?case by simp
next
  case (Cons e es)
  obtain name v where e: "e = (name, v)" by (cases e)
  show ?case
  proof (cases "selector name")
    case False
    with e Cons.IH show ?thesis by (auto simp: result_simps)
  next
    case True
    show ?thesis
    proof (cases "hv_to_str ops v")
      case None
      with True e show ?thesis by auto
    next
      case (Some w)
      with to_str_bytes have "w = v" by blast
      with Some True e Cons.IH show ?thesis
        by (cases "hv_from_str ops (replace_text r v)") (auto simp: result_simps)
    qed
  qed
qed

lemma apply_selected_headers_values:
  assumes "apply_selected_headers ops r selector h = Inr (ch, h')"
  shows "hm_get_all ops h' n =
     (if selector n then map (replace_text r) (hm_get_all ops h n) else hm_get_all ops h n)"
proof -
  from assms obtain es where
    es: "rewrite_entries ops r selector (hm_iter ops h) = Inr (ch, es)" and
    h': "h' = (if ch then foldl (\<lambda>h (n, v). hm_append ops h n v) (hm_clear ops h) es else h)"
    by (auto simp: apply_selected_headers_def result_simps)
  show ?thesis
  proof (cases ch)
    case True
    then show ?thesis
      using rewrite_entries_values [OF es, of n] h' by (simp add: get_all_rebuild iter_get_all)
  next
    case False
    with rewrite_entries_changed [OF es]
    have "\<And>v. v \<in> set (hm_get_all ops h n) \<Longrightarrow> selector n \<Longrightarrow> replace_text r v = v"
      by (auto simp flip: iter_mem)
    with False h' show ?thesis by (auto intro: map_idI [symmetric])
  qed
qed

lemma apply_selected_headers_changed:
  assumes "apply_selected_headers ops r selector h = Inr (ch, h')"
  shows "ch \<longleftrightarrow> (\<exists>n v. v \<in> set (hm_get_all ops h n) \<and> selector n \<and> replace_text r v \<noteq> v)"
    and "\<not> ch \<Longrightarrow> h' = h"
  using assms unfolding iter_ex [symmetric]
  by (auto simp: apply_selected_headers_def result_simps dest: rewrite_entries_changed)

lemma apply_selected_headers_fails:
  "(\<exists>e. apply_selected_headers ops r selector h = Inl e) \<longleftrightarrow>
     (\<exists>n v. v \<in> set (hm_get_all ops h n) \<and> selector n \<and>
        (hv_to_str ops v = None \<or> hv_from_str ops (replace_text r v) = None))"
  unfolding iter_ex [symmetric] rewrite_entries_fails [symmetric]
  by (auto simp: apply_selected_headers_def result_simps)

end

text \<open>The two stages together are one pass.\<close>

lemma staged_apply_single:
  "staged_apply ops g cfg url h body = apply_with_body ops g cfg 0 url h body"
  using staged_loop [of cfg "[]" "transforms cfg" ops g url False h body]
  by (simp add: staged_apply_def apply_until_body_def apply_with_body_def)

section \<open>Properties\<close>

text \<open>C4: handling a response in two stages (headers first, then, from the first matching rule
  that needs the body, headers and buffered body) has the same result as applying all rules in
  one pass to headers and body: same headers, same body, same change flags and same errors.\<close>

theorem staged_is_single_pass:
  "staged_apply ops g cfg url h body = apply_with_body ops g cfg 0 url h body"
  by (rule staged_apply_single)

text \<open>C27: when the header pass decides to buffer the response, it does so at a rule that needs
  the body and matches the headers as rewritten so far, and the request had been sent upstream
  with a request for an unencoded body.\<close>

theorem buffering_was_announced:
  assumes "apply_until_body ops g cfg url h = Inr (out, h')"
    and "disposition out = BufferFrom i"
  shows "needs_plaintext_upstream_body g cfg url \<and> i < length (transforms cfg)
    \<and> requires_body (transforms cfg ! i) \<and> rule_matches ops g (transforms cfg ! i) url h'"
proof -
  have "i < length (pre @ rs) \<and> requires_body ((pre @ rs) ! i)
      \<and> rule_matches ops g ((pre @ rs) ! i) url h'"
    if "until_body_loop ops g url rs (length pre, hc, h0) = Inr (out, h')" for pre rs hc h0
    using that assms(2)
  proof (induction rs arbitrary: pre hc h0)
    case Nil
    then show ?case by auto
  next
    case (Cons r rs)
    note IH = Cons.IH [of "pre @ [r]", simplified]
    show ?case
      using Cons.prems IH by (auto simp: result_simps split: if_splits prod.splits)
  qed
  from this [of "transforms cfg" "[]"] assms(1)
  have *: "i < length (transforms cfg)" "requires_body (transforms cfg ! i)"
    "rule_matches ops g (transforms cfg ! i) url h'"
    by (auto simp: apply_until_body_def)
  then have "needs_plaintext_upstream_body g cfg url"
    by (auto simp: needs_plaintext_upstream_body_def list_ex_iff rule_matches_def
        split: TransformMatcher.splits intro!: bexI [of _ "transforms cfg ! i"])
  with * show ?thesis by blast
qed

theorem buffering_was_announced_witness:
  "apply_until_body alist_ops exact_globs
     \<lparr>transforms = [\<lparr>matcher = UrlGlob ''/a'', action = Replace ''x'' ''y'', target = Body,
       stop = False\<rparr>]\<rparr> ''/a'' [] =
     Inr (\<lparr>disposition = BufferFrom 0, pre_headers_changed = False\<rparr>, [])
   \<and> needs_plaintext_upstream_body exact_globs
     \<lparr>transforms = [\<lparr>matcher = UrlGlob ''/a'', action = Replace ''x'' ''y'', target = Body,
       stop = False\<rparr>]\<rparr> ''/a''"
proof -
  let ?cfg = "\<lparr>transforms = [\<lparr>matcher = UrlGlob ''/a'', action = Replace ''x'' ''y'',
    target = Body, stop = False\<rparr>]\<rparr>"
  have run: "apply_until_body alist_ops exact_globs ?cfg ''/a'' [] =
      Inr (\<lparr>disposition = BufferFrom 0, pre_headers_changed = False\<rparr>, [])"
    by (simp add: apply_until_body_def rule_matches_def exact_globs_def requires_body_def)
  from buffering_was_announced [OF this, of 0] run show ?thesis by simp
qed

text \<open>C31: a header rewrite that succeeds replaces the text in every value of the selected headers,
  keeps the number and order of their values, leaves every other header alone, and reports a
  change exactly if some selected value changed.\<close>

theorem apply_headers_rewrites:
  assumes "header_map ops" and "apply_headers ops r h = Inr (ch, h')"
  shows "hm_get_all ops h' n =
      (if selects (target r) n then map (replace_text r) (hm_get_all ops h n)
       else hm_get_all ops h n)
    \<and> (ch \<longleftrightarrow> (\<exists>m. hm_get_all ops h' m \<noteq> hm_get_all ops h m))"
proof (cases "target r = Body")
  case True
  with assms(2) show ?thesis by (simp add: apply_headers_def)
next
  case False
  with assms(2) have sel: "apply_selected_headers ops r (selects (target r)) h = Inr (ch, h')"
    by (simp add: apply_headers_selected)
  note vals = header_map.apply_selected_headers_values [OF assms(1) sel]
  have "map f xs \<noteq> xs \<longleftrightarrow> (\<exists>x \<in> set xs. f x \<noteq> x)" for f :: "bytes \<Rightarrow> bytes" and xs
    by (induction xs) auto
  then show ?thesis
    using header_map.apply_selected_headers_changed(1) [OF assms(1) sel]
    by (auto simp: vals Bex_def split: if_splits)
qed

theorem apply_headers_rewrites_witness:
  "apply_headers alist_ops
     (\<lparr>matcher = MatchEverything, action = Replace ''backend'' ''proxy'', target = Header ''x-test'',
       stop = False\<rparr> :: string TransformRule)
     [(''x-test'', ''a backend''), (''x-other'', ''backend'')] =
   Inr (True, [(''x-test'', ''a proxy''), (''x-other'', ''backend'')])
   \<and> hm_get_all alist_ops [(''x-test'', ''a proxy''), (''x-other'', ''backend'')] ''x-other'' =
     hm_get_all alist_ops [(''x-test'', ''a backend''), (''x-other'', ''backend'')] ''x-other''"
proof -
  let ?r = "\<lparr>matcher = MatchEverything, action = Replace ''backend'' ''proxy'',
    target = Header ''x-test'', stop = False\<rparr> :: string TransformRule"
  have run: "apply_headers alist_ops ?r [(''x-test'', ''a backend''), (''x-other'', ''backend'')] =
      Inr (True, [(''x-test'', ''a proxy''), (''x-other'', ''backend'')])"
    by code_simp
  from apply_headers_rewrites [OF alist.header_map_axioms run, of "''x-other''"] run
  show ?thesis by simp
qed

text \<open>A header rewrite fails exactly if a selected value is not visible ASCII text, or its
  rewritten text is not a valid header value; values of other headers never make it fail.\<close>

theorem apply_headers_fails_iff:
  assumes "header_map ops"
  shows "(\<exists>e. apply_headers ops r h = Inl e) \<longleftrightarrow>
    (\<exists>n v. v \<in> set (hm_get_all ops h n) \<and> selects (target r) n
       \<and> (hv_to_str ops v = None \<or> hv_from_str ops (replace_text r v) = None))"
  using header_map.apply_selected_headers_fails [OF assms, of r "selects (target r)" h]
  by (cases "target r = Body") (simp_all add: apply_headers_selected)

theorem apply_headers_fails_iff_witness:
  "\<exists>e. apply_headers alist_ops
     (\<lparr>matcher = MatchEverything, action = Replace ''a'' ''b'', target = AllHeaders, stop = False\<rparr>
        :: string TransformRule) [(''x-bin'', [CHR 0xFF])] = Inl e"
  unfolding apply_headers_fails_iff [OF alist.header_map_axioms]
  by (intro exI [of _ "''x-bin''"] exI [of _ "[CHR 0xFF]"])
    (simp add: alist_ops_def visible_ascii_def)

text \<open>C32: compiling a rule list succeeds exactly if every rule compiles; the compiled rules stand
  in the file's order, and each has a non-empty search text and a lower-case header name.\<close>

theorem compile_correct:
  assumes "header_map ops"
  shows "compile ops g files = Inr cfg \<longleftrightarrow>
    map (rule_try_from ops g) files = map Inr (transforms cfg) \<and> list_all rule_wf (transforms cfg)"
  using header_map.compile_rules_wf [OF assms, of g files]
  by (cases cfg) (auto simp: compile_def result_simps)

theorem compile_correct_witness:
  "compile alist_ops exact_globs
     [\<lparr>file_matcher = ContentTypeGlobFile ''Text/HTML'', file_action = ReplaceFile ''a'' ''b'',
       file_target = HeaderFile '' X-Test '', file_stop = True\<rparr>] =
   Inr \<lparr>transforms = [\<lparr>matcher = ContentTypeGlob ''text/html'', action = Replace ''a'' ''b'',
     target = Header ''x-test'', stop = True\<rparr>]\<rparr>"
  unfolding compile_correct [OF alist.header_map_axioms] by code_simp

text \<open>A body rewrite by a compiled rule reports a change exactly if the search text occurs in
  the body decoded as UTF-8 and differs from its replacement; then the new body is the decoded
  text with every occurrence replaced, and it is valid UTF-8; otherwise the body keeps its bytes.\<close>

theorem apply_body_correct:
  assumes "rule_wf r" and "action r = Replace from to"
    and "utf8_valid from" and "utf8_valid to"
  shows "apply_body r body =
      (if from \<noteq> to \<and> sublist from (from_utf8_lossy body)
       then (True, replace_nonempty from to (from_utf8_lossy body)) else (False, body))
    \<and> utf8_valid (replace_nonempty from to (from_utf8_lossy body))"
proof -
  from assms(1,2) have ne: "from \<noteq> []" by (simp add: rule_wf_def)
  from assms(3,4) ne have "utf8_valid (replace_nonempty from to (from_utf8_lossy body))"
    by (intro replace_nonempty_valid from_utf8_lossy_valid)
  moreover have "apply_body r body =
      (if from \<noteq> to \<and> sublist from (from_utf8_lossy body)
       then (True, replace_nonempty from to (from_utf8_lossy body)) else (False, body))"
    using replace_nonempty_eq_iff [OF ne, of to "from_utf8_lossy body"]
    by (auto simp: apply_body_def replace_text_nonempty [OF assms(1,2)] Let_def)
  ultimately show ?thesis by simp
qed

theorem apply_body_correct_witness:
  "apply_body (\<lparr>matcher = MatchEverything, action = Replace ''backend'' ''proxy'', target = Body,
     stop = False\<rparr> :: string TransformRule) ''hello backend'' = (True, ''hello proxy'')"
proof -
  let ?r = "\<lparr>matcher = MatchEverything, action = Replace ''backend'' ''proxy'', target = Body,
    stop = False\<rparr> :: string TransformRule"
  have 1: "rule_wf ?r" and 2: "utf8_valid ''backend''" and 3: "utf8_valid ''proxy''"
    and 4: "from_utf8_lossy ''hello backend'' = ''hello backend''"
    and 5: "replace_nonempty ''backend'' ''proxy'' ''hello backend'' = ''hello proxy''"
    by (simp add: rule_wf_def) code_simp+
  have "sublist ''backend'' ''hello backend''"
    unfolding sublist_def by (intro exI [of _ "''hello ''"] exI [of _ "[]"]) simp
  with apply_body_correct [OF 1 _ 2 3, of "''hello backend''"] 4 5 show ?thesis by simp
qed

text \<open>A matching rule marked \<open>stop\<close> that triggers ends the pass: the result is what that rule
  produced, whatever rules follow it.\<close>

theorem stop_rule_ends_pass:
  assumes "run_prefix (with_body_act ops g url) before (False, False, h, body) = Some (hc, bc, h1, b1)"
    and "rule_matches ops g r url h1" and "rule_apply ops r h1 b1 = Inr (out, h2, b2)"
    and "triggered out" and "stop r"
  shows "apply_with_body ops g \<lparr>transforms = before @ r # after\<rparr> 0 url h body =
    Inr (\<lparr>headers_changed = hc \<or> rule_headers_changed out,
          body_changed = bc \<or> rule_body_changed out\<rparr>, h2, b2)"
  using with_body.loop_append [OF assms(1), of "r # after"] assms(2-)
  by (simp add: apply_with_body_def Let_def)

theorem stop_rule_ends_pass_witness:
  "apply_with_body alist_ops exact_globs
     \<lparr>transforms =
       [] @ \<lparr>matcher = MatchEverything, action = Replace ''a'' ''b'', target = Body, stop = True\<rparr>
       # [\<lparr>matcher = MatchEverything, action = Replace ''b'' ''c'', target = Body, stop = False\<rparr>]\<rparr>
     0 ''/'' [] ''a'' =
   Inr (\<lparr>headers_changed = False, body_changed = True\<rparr>, [], ''b'')"
proof -
  let ?r = "\<lparr>matcher = MatchEverything, action = Replace ''a'' ''b'', target = Body, stop = True\<rparr>
    :: string TransformRule"
  have "rule_apply alist_ops ?r [] ''a'' =
      Inr (\<lparr>triggered = True, rule_headers_changed = False, rule_body_changed = True\<rparr>, [], ''b'')"
    by code_simp
  from stop_rule_ends_pass [OF _ _ this, of exact_globs "''/''" "[]" "[]" "''a''" False False]
  show ?thesis by (simp add: rule_matches_def)
qed

end
