(* ===== verification/Rust_Int.thy ===== *)
theory Rust_Int
  imports Rust_Str
begin

text \<open>
  Decimal integers as Rust prints (\<open>to_string\<close>) and parses (\<open>str::parse\<close>) them.
  Parsing accepts one leading \<open>+\<close> (and \<open>-\<close> for signed types), needs at least one
  digit and fails on overflow; printing and parsing are inverse.
\<close>

section \<open>Digits\<close>

definition digit_char :: "nat \<Rightarrow> char" where
  "digit_char d = char_of (48 + d)"

text \<open>Values are \<^typ>\<open>int\<close>s, whose comparisons evaluate in binary.\<close>

definition digit_value :: "char \<Rightarrow> int option" where
  "digit_value c =
     (let n = of_char c :: int in if 48 \<le> n \<and> n \<le> 57 then Some (n - 48) else None)"

fun digits_value :: "int \<Rightarrow> string \<Rightarrow> int option" where
  "digits_value acc [] = Some acc"
| "digits_value acc (c # s) =
     (case digit_value c of None \<Rightarrow> None | Some d \<Rightarrow> digits_value (acc * 10 + d) s)"

fun show_nat :: "nat \<Rightarrow> string" where
  "show_nat n =
     (if n < 10 then [digit_char n] else show_nat (n div 10) @ [digit_char (n mod 10)])"

declare show_nat.simps [simp del]

definition show_int :: "int \<Rightarrow> string" where
  "show_int i = (if i < 0 then CHR ''-'' # show_nat (nat (- i)) else show_nat (nat i))"

section \<open>Parsing\<close>

text \<open>The digits after an optional sign; an empty digit sequence is an error.\<close>

definition parse_digits :: "string \<Rightarrow> int option" where
  "parse_digits s = (if s = [] then None else digits_value 0 s)"

definition parse_unsigned :: "string \<Rightarrow> int option" where
  "parse_unsigned s = (case s of CHR ''+'' # r \<Rightarrow> parse_digits r | _ \<Rightarrow> parse_digits s)"

definition parse_signed :: "string \<Rightarrow> int option" where
  "parse_signed s =
     (case s of
        CHR ''-'' # r \<Rightarrow> map_option uminus (parse_digits r)
      | _ \<Rightarrow> parse_unsigned s)"

text \<open>\<open>parse::<u64>\<close> (and \<open>usize\<close> on a 64-bit target), \<open>parse::<i64>\<close>, \<open>parse::<i32>\<close>.\<close>

definition parse_u64 :: "string \<Rightarrow> u64 option" where
  "parse_u64 s =
     Option.bind (parse_unsigned s) (\<lambda>i. if i < 2 ^ 64 then Some (word_of_int i) else None)"

definition parse_i64 :: "string \<Rightarrow> i64 option" where
  "parse_i64 s = Option.bind (parse_signed s)
     (\<lambda>i. if - (2 ^ 63) \<le> i \<and> i < 2 ^ 63 then Some (word_of_int i) else None)"

definition parse_i32 :: "string \<Rightarrow> i32 option" where
  "parse_i32 s = Option.bind (parse_signed s)
     (\<lambda>i. if - (2 ^ 31) \<le> i \<and> i < 2 ^ 31 then Some (word_of_int i) else None)"

section \<open>Laws\<close>

lemma of_char_int: "(of_char c :: int) = int (of_char c)"
  by (rule of_nat_of_char [symmetric])

lemma digit_value_digit_char [simp]: "d < 10 \<Longrightarrow> digit_value (digit_char d) = Some (int d)"
  unfolding digit_value_def digit_char_def of_char_int by simp

lemma digit_value_None_iff:
  "digit_value c = None \<longleftrightarrow> \<not> (48 \<le> (of_char c :: nat) \<and> of_char c \<le> (57::nat))"
  unfolding digit_value_def Let_def of_char_int by auto

lemma digit_char_range: "d < 10 \<Longrightarrow> 48 \<le> (of_char (digit_char d) :: nat) \<and> of_char (digit_char d) \<le> (57::nat)"
  by (simp add: digit_char_def)

lemma digits_value_append:
  "digits_value acc (a @ b) = Option.bind (digits_value acc a) (\<lambda>v. digits_value v b)"
  by (induction a arbitrary: acc) (auto split: option.split)

lemma show_nat_not_Nil [simp]: "show_nat n \<noteq> []"
  by (subst show_nat.simps) simp

lemma digits_value_show_nat [simp]: "digits_value 0 (show_nat n) = Some (int n)"
proof (induction n rule: show_nat.induct)
  case (1 n)
  have "int (n div 10) * 10 + int (n mod 10) = int n"
    by presburger
  with 1 show ?case
    by (subst show_nat.simps) (simp add: digits_value_append)
qed

lemma show_nat_digits: "c \<in> set (show_nat n) \<Longrightarrow> 48 \<le> (of_char c :: nat) \<and> of_char c \<le> (57::nat)"
proof (induction n rule: show_nat.induct)
  case (1 n)
  show ?case
  proof (cases "n < 10")
    case True
    with "1.prems" show ?thesis
      by (simp add: show_nat.simps [of n] digit_char_range)
  next
    case False
    with "1.prems" consider "c \<in> set (show_nat (n div 10))" | "c = digit_char (n mod 10)"
      by (auto simp: show_nat.simps [of n])
    then show ?thesis
      using "1.IH" False by cases (simp_all add: digit_char_range)
  qed
qed

lemma show_nat_hd:
  obtains c s where "show_nat n = c # s" "c \<noteq> CHR ''+''" "c \<noteq> CHR ''-''"
proof (cases "show_nat n")
  case (Cons c s)
  then have "48 \<le> (of_char c :: nat)" using show_nat_digits [of c n] by simp
  then have "c \<noteq> CHR ''+''" "c \<noteq> CHR ''-''" by auto
  with Cons show ?thesis using that by blast
qed simp

lemma parse_unsigned_show_nat [simp]: "parse_unsigned (show_nat n) = Some (int n)"
proof -
  obtain c s where cs: "show_nat n = c # s" "c \<noteq> CHR ''+''" by (rule show_nat_hd)
  then have "parse_unsigned (c # s) = parse_digits (c # s)"
    by (simp add: parse_unsigned_def split: char.split bool.split)
  with cs show ?thesis using digits_value_show_nat [of n] by (simp add: parse_digits_def)
qed

lemma parse_u64_show [simp]: "parse_u64 (show_nat (unat (w::u64))) = Some w"
  using uint_lt2p [of w] by (simp add: parse_u64_def)

lemma parse_u64_overflow: "2 ^ 64 \<le> n \<Longrightarrow> parse_u64 (show_nat n) = None"
  by (simp add: parse_u64_def)

lemma parse_signed_show_int [simp]: "parse_signed (show_int i) = Some i"
proof (cases "i < 0")
  case True
  then show ?thesis
    by (simp add: show_int_def parse_signed_def parse_digits_def)
next
  case False
  obtain c s where cs: "show_nat (nat i) = c # s" "c \<noteq> CHR ''-''" by (rule show_nat_hd)
  then have "parse_signed (c # s) = parse_unsigned (c # s)"
    by (simp add: parse_signed_def split: char.split bool.split)
  with cs False show ?thesis
    using parse_unsigned_show_nat [of "nat i"] by (simp add: show_int_def)
qed

lemma parse_i64_show: "parse_i64 (show_int (sint (w::i64))) = Some w"
  using sint_ge [of w] sint_lt [of w] by (simp add: parse_i64_def)

lemma parse_i32_show: "parse_i32 (show_int (sint (w::i32))) = Some w"
  using sint_ge [of w] sint_lt [of w] by (simp add: parse_i32_def)

lemma trim_show_int: "trim (show_int i) = show_int i" "show_int i \<noteq> []"
proof -
  have digits: "33 \<le> (of_char c :: nat) \<and> of_char c \<le> (126::nat)" if "c \<in> set (show_nat n)" for c n
    using show_nat_digits [OF that] by simp
  have "33 \<le> (of_char (hd (show_nat n)) :: nat)" "of_char (hd (show_nat n)) \<le> (126::nat)"
    "33 \<le> (of_char (last (show_nat n)) :: nat)" "of_char (last (show_nat n)) \<le> (126::nat)" for n
    using digits [of "hd (show_nat n)" n] digits [of "last (show_nat n)" n] by simp_all
  then show "trim (show_int i) = show_int i"
    by (intro trim_printable) (simp_all add: show_int_def)
  show "show_int i \<noteq> []" by (simp add: show_int_def)
qed

end
