(* ===== verification/Socket_Addr.thy ===== *)
theory Socket_Addr
  imports Rust_Int
begin

text \<open>
  \<open>std::net::SocketAddr\<close>: the standard library's parser and printer, which the
  configuration uses for the listen address.  A parser takes the remaining input
  and returns a value with what is left, or \<^const>\<open>None\<close> with nothing consumed.
  IPv4 socket addresses are shown to survive printing and parsing.
\<close>

section \<open>Addresses\<close>

datatype IpAddr = IpV4 "u8 list" | IpV6 "u16 list"

datatype SocketAddr =
    SocketV4 u8 u8 u8 u8 u16 \<comment> \<open>the four octets and the port\<close>
  | SocketV6 "u16 list" "32 word" u16 \<comment> \<open>the eight segments, the scope id and the port\<close>

fun sock_port :: "SocketAddr \<Rightarrow> u16" where
  "sock_port (SocketV4 a b c d port) = port"
| "sock_port (SocketV6 segs scope port) = port"

section \<open>Parsing\<close>

definition hex_value :: "char \<Rightarrow> int option" where
  "hex_value c =
     (let n = of_char c :: int in
      if 48 \<le> n \<and> n \<le> 57 then Some (n - 48)
      else if 97 \<le> n \<and> n \<le> 102 then Some (n - 87)
      else if 65 \<le> n \<and> n \<le> 70 then Some (n - 55)
      else None)"

definition read_given_char :: "char \<Rightarrow> string \<Rightarrow> string option" where
  "read_given_char c s = (case s of [] \<Rightarrow> None | x # r \<Rightarrow> if x = c then Some r else None)"

text \<open>
  \<open>read_number\<close>: the longest run of digits; at least one, at most \<open>max_digits\<close> if
  given, no leading zero unless allowed, and the value below \<open>bound\<close>.
\<close>

definition read_number ::
  "(char \<Rightarrow> int option) \<Rightarrow> int \<Rightarrow> nat option \<Rightarrow> bool \<Rightarrow> int \<Rightarrow> string \<Rightarrow> (int \<times> string) option" where
  "read_number dv radix max_digits allow_zero_prefix bound s =
     (let ds = takeWhile (\<lambda>c. dv c \<noteq> None) s;
          v = foldl (\<lambda>acc c. acc * radix + unwrap_or 0 (dv c)) 0 ds in
      if ds = [] \<or> (case max_digits of Some m \<Rightarrow> m < length ds | None \<Rightarrow> False)
         \<or> (\<not> allow_zero_prefix \<and> hd ds = CHR ''0'' \<and> 1 < length ds) \<or> bound \<le> v
      then None else Some (v, drop (length ds) s))"

definition read_separator :: "char \<Rightarrow> nat \<Rightarrow> (string \<Rightarrow> 'a option) \<Rightarrow> string \<Rightarrow> 'a option" where
  "read_separator sep index inner s =
     (if 0 < index then Option.bind (read_given_char sep s) inner else inner s)"

definition read_octet :: "nat \<Rightarrow> string \<Rightarrow> (int \<times> string) option" where
  "read_octet index s =
     read_separator (CHR ''.'') index (read_number digit_value 10 (Some 3) False 256) s"

definition read_ipv4 :: "string \<Rightarrow> ((int \<times> int \<times> int \<times> int) \<times> string) option" where
  "read_ipv4 s =
     Option.bind (read_octet 0 s) (\<lambda>(a, s).
     Option.bind (read_octet 1 s) (\<lambda>(b, s).
     Option.bind (read_octet 2 s) (\<lambda>(c, s).
     Option.bind (read_octet 3 s) (\<lambda>(d, s). Some ((a, b, c, d), s)))))"

text \<open>Groups of an IPv6 address, with a possible embedded IPv4 address at the end.\<close>

function read_groups :: "nat \<Rightarrow> nat \<Rightarrow> string \<Rightarrow> int list \<Rightarrow> (int list \<times> bool) \<times> string" where
  "read_groups limit i s acc =
     (if limit \<le> i then ((acc, False), s)
      else
        (case (if i < limit - 1 then read_separator (CHR '':'') i read_ipv4 s else None) of
           Some ((a, b, c, d), s') \<Rightarrow> ((acc @ [a * 256 + b, c * 256 + d], True), s')
         | None \<Rightarrow>
             (case read_separator (CHR '':'') i (read_number hex_value 16 (Some 4) True 65536) s of
                Some (g, s') \<Rightarrow> read_groups limit (Suc i) s' (acc @ [g])
              | None \<Rightarrow> ((acc, False), s))))"
  by pat_completeness auto
termination
  by (relation "measure (\<lambda>(limit, i, s, acc). limit - i)") auto

declare read_groups.simps [simp del]

definition read_ipv6 :: "string \<Rightarrow> (int list \<times> string) option" where
  "read_ipv6 s =
     (case read_groups 8 0 s [] of
        ((head, head_ipv4), s1) \<Rightarrow>
          if length head = 8 then Some (head, s1)
          else if head_ipv4 then None
          else
            Option.bind (read_given_char (CHR '':'') s1) (\<lambda>s2.
            Option.bind (read_given_char (CHR '':'') s2) (\<lambda>s3.
              case read_groups (8 - (length head + 1)) 0 s3 [] of
                ((tail, _), s4) \<Rightarrow>
                  Some (head @ replicate (8 - length head - length tail) 0 @ tail, s4))))"

definition read_port :: "string \<Rightarrow> (int \<times> string) option" where
  "read_port s =
     Option.bind (read_given_char (CHR '':'') s) (read_number digit_value 10 None True (2 ^ 16))"

definition read_scope_id :: "string \<Rightarrow> int \<times> string" where
  "read_scope_id s =
     (case Option.bind (read_given_char (CHR ''%'') s) (read_number digit_value 10 None True (2 ^ 32)) of
        Some r \<Rightarrow> r
      | None \<Rightarrow> (0, s))"

definition read_socket_v4 :: "string \<Rightarrow> (SocketAddr \<times> string) option" where
  "read_socket_v4 s =
     Option.bind (read_ipv4 s) (\<lambda>((a, b, c, d), s).
     Option.bind (read_port s) (\<lambda>(port, s).
     Some (SocketV4 (word_of_int a) (word_of_int b) (word_of_int c) (word_of_int d) (word_of_int port), s)))"

definition read_socket_v6 :: "string \<Rightarrow> (SocketAddr \<times> string) option" where
  "read_socket_v6 s =
     Option.bind (read_given_char (CHR ''['') s) (\<lambda>s.
     Option.bind (read_ipv6 s) (\<lambda>(segs, s).
     case read_scope_id s of (scope, s) \<Rightarrow>
     Option.bind (read_given_char (CHR '']'') s) (\<lambda>s.
     Option.bind (read_port s) (\<lambda>(port, s).
     Some (SocketV6 (map word_of_int segs) (word_of_int scope) (word_of_int port), s)))))"

text \<open>\<open>SocketAddr::from_str\<close>: IPv4 first, then IPv6; all input must be consumed.\<close>

definition parse_socket_addr :: "string \<Rightarrow> SocketAddr option" where
  "parse_socket_addr s =
     Option.bind (opt_or (read_socket_v4 s) (read_socket_v6 s))
       (\<lambda>(addr, rest). if rest = [] then Some addr else None)"

section \<open>Printing\<close>

definition hex_char :: "nat \<Rightarrow> char" where
  "hex_char d = (if d < 10 then char_of (48 + d) else char_of (87 + d))"

fun show_hex :: "nat \<Rightarrow> string" where
  "show_hex n = (if n < 16 then [hex_char n] else show_hex (n div 16) @ [hex_char (n mod 16)])"

declare show_hex.simps [simp del]

text \<open>The longest run of zero segments: the first of maximal length, as (start, length).\<close>

fun zero_run :: "nat \<Rightarrow> nat \<times> nat \<Rightarrow> nat \<times> nat \<Rightarrow> u16 list \<Rightarrow> nat \<times> nat" where
  "zero_run i longest current [] = longest"
| "zero_run i longest current (seg # segs) =
     (if seg = 0 then
        (let current' = (if snd current = 0 then (i, 1) else (fst current, Suc (snd current)));
             longest' = (if snd longest < snd current' then current' else longest) in
         zero_run (Suc i) longest' current' segs)
      else zero_run (Suc i) longest (0, 0) segs)"

definition show_segments :: "u16 list \<Rightarrow> string" where
  "show_segments segs = join '':'' (map (\<lambda>w. show_hex (unat w)) segs)"

definition show_octets :: "nat \<Rightarrow> nat \<Rightarrow> nat \<Rightarrow> nat \<Rightarrow> string" where
  "show_octets a b c d = show_nat a @ ''.'' @ show_nat b @ ''.'' @ show_nat c @ ''.'' @ show_nat d"

definition show_ipv6 :: "u16 list \<Rightarrow> string" where
  "show_ipv6 segs =
     (if take 6 segs = [0, 0, 0, 0, 0, 65535] \<and> length segs = 8 then
        ''::ffff:'' @ show_octets (unat (segs ! 6) div 256) (unat (segs ! 6) mod 256)
          (unat (segs ! 7) div 256) (unat (segs ! 7) mod 256)
      else
        (case zero_run 0 (0, 0) (0, 0) segs of
           (start, len) \<Rightarrow>
             if 1 < len then show_segments (take start segs) @ ''::'' @ show_segments (drop (start + len) segs)
             else show_segments segs))"

fun show_socket_addr :: "SocketAddr \<Rightarrow> string" where
  "show_socket_addr (SocketV4 a b c d port) =
     show_octets (unat a) (unat b) (unat c) (unat d) @ '':'' @ show_nat (unat port)"
| "show_socket_addr (SocketV6 segs scope port) =
     ''['' @ show_ipv6 segs @ (if scope = 0 then [] else ''%'' @ show_nat (unat scope))
     @ '']:'' @ show_nat (unat port)"

section \<open>IPv4 addresses survive printing and parsing\<close>

lemma show_nat_is_digits: "c \<in> set (show_nat n) \<Longrightarrow> digit_value c \<noteq> None"
  using show_nat_digits [of c n] by (simp add: digit_value_None_iff)

lemma foldl_digits:
  "(\<And>c. c \<in> set s \<Longrightarrow> digit_value c \<noteq> None) \<Longrightarrow>
     digits_value acc s = Some (foldl (\<lambda>acc c. acc * 10 + unwrap_or 0 (digit_value c)) acc s)"
proof (induction s arbitrary: acc)
  case (Cons c s)
  then obtain d where "digit_value c = Some d" by fastforce
  with Cons show ?case by simp
qed simp

lemma show_nat_length: "n < 10 ^ k \<Longrightarrow> 0 < k \<Longrightarrow> length (show_nat n) \<le> k"
proof (induction k arbitrary: n)
  case (Suc k)
  show ?case
  proof (cases "n < 10")
    case True
    then show ?thesis by (simp add: show_nat.simps [of n])
  next
    case False
    with Suc.prems have "n div 10 < 10 ^ k" "0 < k" by (auto intro: gr0I)
    with Suc.IH [of "n div 10"] False show ?thesis by (simp add: show_nat.simps [of n])
  qed
qed simp

lemma hd_show_nat_zero: "hd (show_nat n) = CHR ''0'' \<Longrightarrow> n = 0"
proof (induction n rule: show_nat.induct)
  case (1 n)
  show ?case
  proof (cases "n < 10")
    case True
    then have "hd (show_nat n) = digit_char n" by (simp add: show_nat.simps [of n])
    with "1.prems" True have "digit_value (CHR ''0'') = Some (int n)"
      using digit_value_digit_char [of n] by simp
    then show ?thesis by (simp add: digit_value_def)
  next
    case False
    with 1 have "n div 10 = 0" by (simp add: show_nat.simps [of n])
    with False show ?thesis by simp
  qed
qed

lemma read_number_show_nat:
  assumes "int n < bound" and "rest = [] \<or> digit_value (hd rest) = None"
    and "case max_digits of Some m \<Rightarrow> n < 10 ^ m \<and> 0 < m | None \<Rightarrow> True"
  shows "read_number digit_value 10 max_digits z bound (show_nat n @ rest) = Some (int n, rest)"
proof -
  have tw: "takeWhile (\<lambda>c. digit_value c \<noteq> None) (show_nat n @ rest) = show_nat n"
    using assms(2) show_nat_is_digits by (cases rest) (auto simp: takeWhile_append)
  have val: "foldl (\<lambda>acc c. acc * 10 + unwrap_or 0 (digit_value c)) 0 (show_nat n) = int n"
    using foldl_digits [of "show_nat n" 0] show_nat_is_digits by simp
  have zero: "length (show_nat n) \<le> 1" if "hd (show_nat n) = CHR ''0''"
    using hd_show_nat_zero [OF that] by (simp add: show_nat.simps [of 0])
  have len: "\<not> m < length (show_nat n)" if "max_digits = Some m" for m
    using assms(3) that show_nat_length [of n m] by simp
  show ?thesis
    unfolding read_number_def Let_def tw val
    using assms(1) zero len by (auto split: option.split)
qed

lemma dot_not_digit [simp]: "digit_value (CHR ''.'') = None" "digit_value (CHR '':'') = None"
  by (simp_all add: digit_value_def)

lemma octet_bound: "uint (w :: u8) < 256" "unat (w :: u8) < 1000"
  using uint_lt2p [of w] unsigned_less [of w, where ?'a = nat] by simp_all

lemma read_octet_show:
  "rest = [] \<or> digit_value (hd rest) = None \<Longrightarrow>
     read_octet 0 (show_nat (unat (w :: u8)) @ rest) = Some (uint w, rest)"
  "rest = [] \<or> digit_value (hd rest) = None \<Longrightarrow> 0 < i \<Longrightarrow>
     read_octet i (CHR ''.'' # show_nat (unat w) @ rest) = Some (uint w, rest)"
  by (simp_all add: read_octet_def read_separator_def read_given_char_def read_number_show_nat
      octet_bound)

theorem parse_show_ipv4:
  "parse_socket_addr (show_socket_addr (SocketV4 a b c d port)) = Some (SocketV4 a b c d port)"
proof -
  have "uint port < 2 ^ 16" using uint_lt2p [of port] by simp
  then have "read_port (CHR '':'' # show_nat (unat port)) = Some (uint port, [])"
    using read_number_show_nat [of "unat port" "2 ^ 16" "[]" None True]
    by (simp add: read_port_def read_given_char_def)
  then show ?thesis
    by (simp add: parse_socket_addr_def read_socket_v4_def read_ipv4_def show_octets_def
        read_octet_show)
qed

end
