(* ===== verification/Rust_Path.thy ===== *)
theory Rust_Path
  imports Rust_Str
begin

text \<open>
  \<open>std::path::Path::parent\<close> on Unix, as the standard library computes it: the path
  without its last component, where empty components and \<open>.\<close> components after the
  first are skipped, and the operations of the file system the program calls, as
  a parameter record over an abstract file system state \<open>'fs\<close>.
\<close>

section \<open>Parents\<close>

text \<open>The length of the part before the body: a root, or a leading \<open>.\<close> component.\<close>

definition include_cur_dir :: "string \<Rightarrow> bool" where
  "include_cur_dir s \<longleftrightarrow> s = ''.'' \<or> starts_with ''./'' s"

definition len_before_body :: "string \<Rightarrow> nat" where
  "len_before_body s = (if starts_with ''/'' s \<or> include_cur_dir s then 1 else 0)"

text \<open>Remove trailing components that are empty or \<open>.\<close>, each with its separator.\<close>

function path_trim_right :: "string \<Rightarrow> string" where
  "path_trim_right b =
     (case rsplit_once (CHR ''/'') b of
        None \<Rightarrow> if b = ''.'' then [] else b
      | Some (a, c) \<Rightarrow> if c = [] \<or> c = ''.'' then path_trim_right a else b)"
  by pat_completeness auto
termination
  by (relation "measure length") (auto simp: rsplit_once_Some_iff)

declare path_trim_right.simps [simp del]

definition path_parent :: "string \<Rightarrow> string option" where
  "path_parent s =
     (let n = len_before_body s; b = path_trim_right (drop n s) in
      if b = [] then (if include_cur_dir s then Some [] else None)
      else
        Some (take n s @
          (case rsplit_once (CHR ''/'') b of None \<Rightarrow> [] | Some (a, c) \<Rightarrow> path_trim_right a)))"

lemma path_trim_right_prefix: "prefix (path_trim_right b) b"
proof (induction b rule: path_trim_right.induct)
  case (1 b)
  show ?case
  proof (cases "rsplit_once (CHR ''/'') b")
    case None
    then show ?thesis by (simp add: path_trim_right.simps [of b])
  next
    case (Some p)
    obtain a c where p: "p = (a, c)" by (cases p)
    with Some have b: "b = a @ CHR ''/'' # c" by (simp add: rsplit_once_Some_iff)
    show ?thesis
    proof (cases "c = [] \<or> c = ''.''")
      case True
      with Some p have "path_trim_right b = path_trim_right a"
        by (auto simp: path_trim_right.simps [of b])
      moreover have "prefix (path_trim_right a) a" using 1 Some p True by simp
      ultimately show ?thesis using b by (simp add: prefix_order.trans)
    next
      case False
      with Some p show ?thesis by (simp add: path_trim_right.simps [of b])
    qed
  qed
qed

text \<open>A parent is a proper prefix of its path.\<close>

lemma path_parent_strict_prefix: "path_parent s = Some p \<Longrightarrow> strict_prefix p s"
proof -
  assume p: "path_parent s = Some p"
  let ?n = "len_before_body s" and ?b = "path_trim_right (drop (len_before_body s) s)"
  show "strict_prefix p s"
  proof (cases "?b = []")
    case True
    with p have "p = []" and "include_cur_dir s"
      by (auto simp: path_parent_def Let_def split: if_splits)
    then show ?thesis by (auto simp: include_cur_dir_def starts_with_def strict_prefix_def)
  next
    case False
    obtain q where q: "drop ?n s = ?b @ q" using path_trim_right_prefix by (metis prefixE)
    have s: "s = take ?n s @ ?b @ q" by (metis append_take_drop_id q)
    show ?thesis
    proof (cases "rsplit_once (CHR ''/'') ?b")
      case None
      with p False have "p = take ?n s" by (auto simp: path_parent_def Let_def)
      with s False show ?thesis by (metis append_Nil2 append_is_Nil_conv prefixI same_append_eq strict_prefix_def)
    next
      case (Some r)
      obtain a c where r: "r = (a, c)" by (cases r)
      with Some have b: "?b = a @ CHR ''/'' # c" by (simp add: rsplit_once_Some_iff)
      from p False Some r have "p = take ?n s @ path_trim_right a"
        by (auto simp: path_parent_def Let_def)
      moreover obtain a' where "a = path_trim_right a @ a'"
        using path_trim_right_prefix by (metis prefixE)
      ultimately have "s = p @ a' @ CHR ''/'' # c @ q" using s b
        by (metis append.assoc append_Cons)
      then show ?thesis by (metis append_is_Nil_conv list.distinct(1) prefixI same_append_eq self_append_conv strict_prefix_def)
    qed
  qed
qed

section \<open>The file system\<close>

text \<open>
  \<open>fs::File::open\<close> (does it succeed), \<open>fs::read_to_string\<close>, \<open>fs::write\<close> and
  \<open>fs::create_dir_all\<close>.  The last two may change the state even when they fail.
\<close>

record 'fs fs_ops =
  fs_open_ok :: "'fs \<Rightarrow> string \<Rightarrow> bool"
  fs_read_to_string :: "'fs \<Rightarrow> string \<Rightarrow> string option"
  fs_write :: "'fs \<Rightarrow> string \<Rightarrow> string \<Rightarrow> 'fs \<times> bool"
  fs_create_dir_all :: "'fs \<Rightarrow> string \<Rightarrow> 'fs \<times> bool"

text \<open>
  What the configuration relies on: a file that was written successfully reads
  back as written until something else writes it, and creating directories leaves the files
  as they are.
\<close>

locale file_system =
  fixes fs_io :: "'fs fs_ops"
  assumes read_after_write:
    "fs_write fs_io fs p s = (fs', True) \<Longrightarrow> fs_read_to_string fs_io fs' p = Some s"
    and read_after_create_dir:
    "fs_create_dir_all fs_io fs d = (fs', ok) \<Longrightarrow> fs_read_to_string fs_io fs' p = fs_read_to_string fs_io fs p"

text \<open>A store of files in which every directory exists, on which the witnesses run.\<close>

definition map_fs :: "(string \<times> string) list fs_ops" where
  "map_fs =
     \<lparr>fs_open_ok = (\<lambda>fs p. map_of fs p \<noteq> None),
      fs_read_to_string = map_of,
      fs_write = (\<lambda>fs p s. ((p, s) # fs, True)),
      fs_create_dir_all = (\<lambda>fs p. (fs, True))\<rparr>"

interpretation map_fs: file_system map_fs
  by unfold_locales (auto simp: map_fs_def)

end
