(* ===== verification/Config.thy ===== *)
theory Config
  imports Transform Socket_Addr Rust_Path
begin

text \<open>
  \<^verbatim>\<open>src/config.rs\<close> and the HTTP mode of \<^verbatim>\<open>src/cli.rs\<close>: the settings of the
  configuration file, their validation into a \<open>RuntimeConfig\<close>, the header log
  policy and the upstream URI of a request.  The URL library, the URI type of the
  HTTP library and the DNS name parser are parameters, as is the file system.
\<close>

section \<open>Data\<close>

datatype HttpMode = Auto | Http1 | Http2

datatype ResolvedHttpMode = ResolvedAuto | ResolvedHttp1 | ResolvedHttp2

datatype Version = HTTP_09 | HTTP_10 | HTTP_11 | HTTP_2 | HTTP_3

record HeaderLogPolicy =
  allowlist :: "string set"
  denylist :: "string set"

definition allows :: "HeaderLogPolicy \<Rightarrow> string \<Rightarrow> bool" where
  "allows p header_name =
     (let normalized = to_ascii_lowercase header_name in
      if allowlist p \<noteq> {} then normalized \<in> allowlist p
      else normalized \<notin> denylist p)"

record RuntimeSettingsFile =
  rs_listen_addr :: string
  rs_frontend_domain :: string
  rs_backend_url :: string
  rs_tls_cert_path :: string
  rs_tls_key_path :: string
  rs_sqlite_path :: string
  rs_ca_bundle_path :: "string option"
  rs_upstream_sni_override :: "string option"
  rs_http_mode :: HttpMode
  rs_flush_rows :: usize
  rs_flush_interval_ms :: u64
  rs_max_inflight_events :: usize
  rs_body_max_bytes :: usize
  rs_connect_timeout_ms :: u64
  rs_request_timeout_ms :: u64
  rs_idle_pool_timeout_ms :: u64
  rs_graceful_shutdown_timeout_ms :: u64
  rs_trust_proxy_headers :: bool
  rs_emit_keylog :: bool
  rs_header_allowlist :: "string list"
  rs_header_denylist :: "string list"

record AppConfigFile =
  ac_runtime :: RuntimeSettingsFile
  ac_transforms :: "TransformRuleFile list"

text \<open>A \<open>Duration\<close> is a number of nanoseconds.\<close>

type_synonym duration = int

definition from_millis :: "u64 \<Rightarrow> duration" where
  "from_millis ms = uint ms * 1000000"

record ('u, 'p) RuntimeConfig =
  rc_listen_addr :: SocketAddr
  rc_frontend_domain :: string
  rc_backend_url :: 'u
  rc_backend_host :: string
  rc_backend_port :: u16
  rc_backend_authority :: string
  rc_backend_path_prefix :: string
  rc_tls_cert_path :: string
  rc_tls_key_path :: string
  rc_sqlite_path :: string
  rc_ca_bundle_path :: "string option"
  rc_upstream_sni :: string
  rc_http_mode :: HttpMode
  rc_flush_rows :: usize
  rc_flush_interval :: duration
  rc_max_inflight_events :: usize
  rc_body_max_bytes :: usize
  rc_connect_timeout :: duration
  rc_request_timeout :: duration
  rc_idle_pool_timeout :: duration
  rc_graceful_shutdown_timeout :: duration
  rc_trust_proxy_headers :: bool
  rc_emit_keylog :: bool
  rc_header_log_policy :: HeaderLogPolicy
  rc_transforms :: "'p TransformConfig"

section \<open>Third-party parsers\<close>

record ('u, 'i) url_ops =
  url_parse :: "string \<Rightarrow> 'u option"
  url_scheme :: "'u \<Rightarrow> string"
  url_host_str :: "'u \<Rightarrow> string option"
  url_port_or_known_default :: "'u \<Rightarrow> u16 option"
  url_port :: "'u \<Rightarrow> u16 option"
  url_path :: "'u \<Rightarrow> string"
  url_set_path :: "'u \<Rightarrow> string \<Rightarrow> 'u"
  url_set_query :: "'u \<Rightarrow> string option \<Rightarrow> 'u"
  url_set_fragment :: "'u \<Rightarrow> string option \<Rightarrow> 'u"
  url_as_str :: "'u \<Rightarrow> string"
  uri_parse :: "string \<Rightarrow> 'i option"
  uri_path :: "'i \<Rightarrow> string option"
  uri_query :: "'i \<Rightarrow> string option"
  uri_authority :: "'i \<Rightarrow> string option"
  domain_parse :: "string \<Rightarrow> string option"

section \<open>Defaults\<close>

definition default_sqlite_path :: string where
  "default_sqlite_path = ''./data/kidproxy.sqlite''"
definition default_http_mode :: HttpMode where
  "default_http_mode = Auto"
definition default_flush_rows :: usize where
  "default_flush_rows = 5000"
definition default_flush_interval_ms :: u64 where
  "default_flush_interval_ms = 2000"
definition default_max_inflight_events :: usize where
  "default_max_inflight_events = 10000"
definition default_body_max_bytes :: usize where
  "default_body_max_bytes = 65536"
definition default_connect_timeout_ms :: u64 where
  "default_connect_timeout_ms = 5000"
definition default_request_timeout_ms :: u64 where
  "default_request_timeout_ms = 180000"
definition default_idle_pool_timeout_ms :: u64 where
  "default_idle_pool_timeout_ms = 90000"
definition default_graceful_shutdown_timeout_ms :: u64 where
  "default_graceful_shutdown_timeout_ms = 10000"

lemmas default_defs = default_sqlite_path_def default_http_mode_def default_flush_rows_def
  default_flush_interval_ms_def default_max_inflight_events_def default_body_max_bytes_def
  default_connect_timeout_ms_def default_request_timeout_ms_def default_idle_pool_timeout_ms_def
  default_graceful_shutdown_timeout_ms_def

definition RuntimeSettingsFile_default :: RuntimeSettingsFile where
  "RuntimeSettingsFile_default =
     \<lparr>rs_listen_addr = ''127.0.0.1:8443'',
      rs_frontend_domain = ''example.test'',
      rs_backend_url = ''https://backend.example'',
      rs_tls_cert_path = ''./certs/fullchain.pem'',
      rs_tls_key_path = ''./certs/privkey.pem'',
      rs_sqlite_path = default_sqlite_path,
      rs_ca_bundle_path = None,
      rs_upstream_sni_override = None,
      rs_http_mode = default_http_mode,
      rs_flush_rows = default_flush_rows,
      rs_flush_interval_ms = default_flush_interval_ms,
      rs_max_inflight_events = default_max_inflight_events,
      rs_body_max_bytes = default_body_max_bytes,
      rs_connect_timeout_ms = default_connect_timeout_ms,
      rs_request_timeout_ms = default_request_timeout_ms,
      rs_idle_pool_timeout_ms = default_idle_pool_timeout_ms,
      rs_graceful_shutdown_timeout_ms = default_graceful_shutdown_timeout_ms,
      rs_trust_proxy_headers = False,
      rs_emit_keylog = False,
      rs_header_allowlist = [],
      rs_header_denylist = []\<rparr>"

section \<open>Validation\<close>

definition normalize_domain :: "('u, 'i) url_ops \<Rightarrow> string \<Rightarrow> string anyhow_result" where
  "normalize_domain u raw =
     (let trimmed = trim_end_matches (CHR ''.'') (trim raw) in
      if trimmed = [] then Inl ''domain must not be empty''
      else try_bind (ok_or ''domain must be a valid DNS name'' (domain_parse u trimmed))
             (\<lambda>domain. Inr (to_ascii_lowercase domain)))"

definition normalize_header_names :: "string list \<Rightarrow> string set" where
  "normalize_header_names vs =
     set (filter (\<lambda>v. v \<noteq> []) (map (\<lambda>v. to_ascii_lowercase (trim v)) vs))"

definition ensure_readable_file ::
  "'fs fs_ops \<Rightarrow> 'fs \<Rightarrow> string \<Rightarrow> string \<Rightarrow> unit anyhow_result" where
  "ensure_readable_file io fs path label =
     (if fs_open_ok io fs path then Inr ()
      else Inl (label @ '' path is not readable: '' @ path))"

definition validate_positive :: "string \<Rightarrow> 64 word \<Rightarrow> unit anyhow_result" where
  "validate_positive label v =
     (if v = 0 then Inl (label @ '' must be greater than zero'') else Inr ())"

definition normalize_request_path :: "string \<Rightarrow> string" where
  "normalize_request_path path =
     (if path = [] then ''/'' else if starts_with ''/'' path then path else CHR ''/'' # path)"

definition normalize_backend_prefix :: "string \<Rightarrow> string" where
  "normalize_backend_prefix path =
     (if path = [] \<or> path = ''/'' then ''/'' else normalize_request_path path)"

text \<open>The checks before the database directory is created, in the order of the source.\<close>

definition parse_settings ::
  "('u, 'i) url_ops \<Rightarrow> 'fs fs_ops \<Rightarrow> 'fs \<Rightarrow> RuntimeSettingsFile \<Rightarrow>
     (SocketAddr \<times> string \<times> 'u \<times> string \<times> u16 \<times> string) anyhow_result" where
  "parse_settings u io fs s =
     try_bind (ok_or ''invalid listen address'' (parse_socket_addr (rs_listen_addr s))) (\<lambda>listen_addr.
     try_bind (normalize_domain u (rs_frontend_domain s)) (\<lambda>frontend_domain.
     try_bind (ok_or ''invalid backend URL'' (url_parse u (rs_backend_url s))) (\<lambda>backend_url.
     if url_scheme u backend_url \<noteq> ''https'' then Inl ''backend URL must use https'' else
     try_bind (ok_or ''backend URL must include a host'' (url_host_str u backend_url)) (\<lambda>host.
     let backend_host = to_ascii_lowercase host in
     try_bind (ok_or ''backend URL must include a known HTTPS port''
                 (url_port_or_known_default u backend_url)) (\<lambda>backend_port.
     try_bind (case rs_upstream_sni_override s of
                 Some v \<Rightarrow> normalize_domain u v | None \<Rightarrow> Inr backend_host) (\<lambda>upstream_sni.
     try_bind (ensure_readable_file io fs (rs_tls_cert_path s) ''TLS cert'') (\<lambda>_.
     try_bind (ensure_readable_file io fs (rs_tls_key_path s) ''TLS key'') (\<lambda>_.
     try_bind (case rs_ca_bundle_path s of
                 Some p \<Rightarrow> ensure_readable_file io fs p ''CA bundle'' | None \<Rightarrow> Inr ()) (\<lambda>_.
     Inr (listen_addr, frontend_domain, backend_url, backend_host, backend_port, upstream_sni))))))))))"

definition create_database_dir ::
  "'fs fs_ops \<Rightarrow> 'fs \<Rightarrow> string \<Rightarrow> 'fs \<times> unit anyhow_result" where
  "create_database_dir io fs path =
     (case path_parent path of
        None \<Rightarrow> (fs, Inr ())
      | Some parent \<Rightarrow>
          if parent = [] then (fs, Inr ())
          else (case fs_create_dir_all io fs parent of
                  (fs', ok) \<Rightarrow> (fs', if ok then Inr () else Inl (''failed to create '' @ parent))))"

definition validate_limits :: "RuntimeSettingsFile \<Rightarrow> unit anyhow_result" where
  "validate_limits s =
     try_bind (validate_positive ''flush rows'' (rs_flush_rows s)) (\<lambda>_.
     try_bind (validate_positive ''flush interval'' (rs_flush_interval_ms s)) (\<lambda>_.
     try_bind (validate_positive ''max inflight events'' (rs_max_inflight_events s)) (\<lambda>_.
     try_bind (validate_positive ''body max bytes'' (rs_body_max_bytes s)) (\<lambda>_.
     try_bind (validate_positive ''connect timeout'' (rs_connect_timeout_ms s)) (\<lambda>_.
     try_bind (validate_positive ''request timeout'' (rs_request_timeout_ms s)) (\<lambda>_.
     try_bind (validate_positive ''idle pool timeout'' (rs_idle_pool_timeout_ms s)) (\<lambda>_.
     validate_positive ''graceful shutdown timeout'' (rs_graceful_shutdown_timeout_ms s))))))))"

definition backend_authority_of :: "string \<Rightarrow> u16 option \<Rightarrow> string" where
  "backend_authority_of host port =
     (case port of Some p \<Rightarrow> host @ '':'' @ show_nat (unat p) | None \<Rightarrow> host)"

definition build_config ::
  "('u, 'i) url_ops \<Rightarrow> RuntimeSettingsFile \<Rightarrow>
     SocketAddr \<times> string \<times> 'u \<times> string \<times> u16 \<times> string \<Rightarrow> 'p TransformConfig \<Rightarrow>
     ('u, 'p) RuntimeConfig" where
  "build_config u s parsed compiled =
     (case parsed of
        (listen_addr, frontend_domain, backend_url, backend_host, backend_port, upstream_sni) \<Rightarrow>
        \<lparr>rc_listen_addr = listen_addr,
         rc_frontend_domain = frontend_domain,
         rc_backend_url = backend_url,
         rc_backend_host = backend_host,
         rc_backend_port = backend_port,
         rc_backend_authority = backend_authority_of backend_host (url_port u backend_url),
         rc_backend_path_prefix = normalize_backend_prefix (url_path u backend_url),
         rc_tls_cert_path = rs_tls_cert_path s,
         rc_tls_key_path = rs_tls_key_path s,
         rc_sqlite_path = rs_sqlite_path s,
         rc_ca_bundle_path = rs_ca_bundle_path s,
         rc_upstream_sni = upstream_sni,
         rc_http_mode = rs_http_mode s,
         rc_flush_rows = rs_flush_rows s,
         rc_flush_interval = from_millis (rs_flush_interval_ms s),
         rc_max_inflight_events = rs_max_inflight_events s,
         rc_body_max_bytes = rs_body_max_bytes s,
         rc_connect_timeout = from_millis (rs_connect_timeout_ms s),
         rc_request_timeout = from_millis (rs_request_timeout_ms s),
         rc_idle_pool_timeout = from_millis (rs_idle_pool_timeout_ms s),
         rc_graceful_shutdown_timeout = from_millis (rs_graceful_shutdown_timeout_ms s),
         rc_trust_proxy_headers = rs_trust_proxy_headers s,
         rc_emit_keylog = rs_emit_keylog s,
         rc_header_log_policy =
           \<lparr>allowlist = normalize_header_names (rs_header_allowlist s),
            denylist = normalize_header_names (rs_header_denylist s)\<rparr>,
         rc_transforms = compiled\<rparr>)"

text \<open>\<open>RuntimeSettingsFile::to_runtime_config\<close>; the file system is threaded through.\<close>

definition settings_to_runtime_config ::
  "'h header_ops \<Rightarrow> 'p glob_ops \<Rightarrow> ('u, 'i) url_ops \<Rightarrow> 'fs fs_ops \<Rightarrow> 'fs \<Rightarrow>
     RuntimeSettingsFile \<Rightarrow> TransformRuleFile list \<Rightarrow> 'fs \<times> ('u, 'p) RuntimeConfig anyhow_result" where
  "settings_to_runtime_config ops g u io fs s rules =
     (case parse_settings u io fs s of
        Inl e \<Rightarrow> (fs, Inl e)
      | Inr parsed \<Rightarrow>
          (case create_database_dir io fs (rs_sqlite_path s) of
             (fs', Inl e) \<Rightarrow> (fs', Inl e)
           | (fs', Inr _) \<Rightarrow>
               (fs', try_bind (validate_limits s) (\<lambda>_.
                     try_bind (compile ops g rules) (\<lambda>compiled.
                     Inr (build_config u s parsed compiled))))))"

definition to_runtime_config ::
  "'h header_ops \<Rightarrow> 'p glob_ops \<Rightarrow> ('u, 'i) url_ops \<Rightarrow> 'fs fs_ops \<Rightarrow> 'fs \<Rightarrow>
     AppConfigFile \<Rightarrow> 'fs \<times> ('u, 'p) RuntimeConfig anyhow_result" where
  "to_runtime_config ops g u io fs c =
     settings_to_runtime_config ops g u io fs (ac_runtime c) (ac_transforms c)"

section \<open>The runtime configuration's operations\<close>

definition resolved_http_mode :: "('u, 'p) RuntimeConfig \<Rightarrow> bool option \<Rightarrow> ResolvedHttpMode" where
  "resolved_http_mode c backend_supports_h2 =
     (case rc_http_mode c of
        Http1 \<Rightarrow> ResolvedHttp1
      | Http2 \<Rightarrow> ResolvedHttp2
      | Auto \<Rightarrow> (case backend_supports_h2 of Some False \<Rightarrow> ResolvedHttp1 | _ \<Rightarrow> ResolvedAuto))"

definition upstream_default_version :: "('u, 'p) RuntimeConfig \<Rightarrow> Version" where
  "upstream_default_version c = HTTP_11"

definition combined_path :: "('u, 'p) RuntimeConfig \<Rightarrow> string \<Rightarrow> string" where
  "combined_path c path =
     (if rc_backend_path_prefix c = ''/'' then normalize_request_path path
      else trim_end_matches (CHR ''/'') (rc_backend_path_prefix c) @ normalize_request_path path)"

definition build_backend_uri ::
  "('u, 'i) url_ops \<Rightarrow> ('u, 'p) RuntimeConfig \<Rightarrow> string \<Rightarrow> string option \<Rightarrow> 'i anyhow_result" where
  "build_backend_uri u c path query =
     (let url = url_set_path u (rc_backend_url c) (combined_path c path);
          url = url_set_query u url query;
          url = url_set_fragment u url None in
      with_context (''failed to build upstream URI from '' @ url_as_str u url)
        (ok_or () (uri_parse u (url_as_str u url))))"

section \<open>Validated configurations\<close>

text \<open>What the rest of the program may assume of a \<open>RuntimeConfig\<close>.\<close>

definition config_wf :: "('u, 'i) url_ops \<Rightarrow> ('u, 'p) RuntimeConfig \<Rightarrow> bool" where
  "config_wf u c \<longleftrightarrow>
     url_scheme u (rc_backend_url c) = ''https''
     \<and> to_ascii_lowercase (rc_frontend_domain c) = rc_frontend_domain c
     \<and> to_ascii_lowercase (rc_backend_host c) = rc_backend_host c
     \<and> to_ascii_lowercase (rc_upstream_sni c) = rc_upstream_sni c
     \<and> starts_with (rc_backend_host c) (rc_backend_authority c)
     \<and> starts_with ''/'' (rc_backend_path_prefix c)
     \<and> 0 < rc_flush_rows c \<and> 0 < rc_max_inflight_events c \<and> 0 < rc_body_max_bytes c
     \<and> 0 < rc_flush_interval c \<and> 0 < rc_connect_timeout c \<and> 0 < rc_request_timeout c
     \<and> 0 < rc_idle_pool_timeout c \<and> 0 < rc_graceful_shutdown_timeout c
     \<and> list_all rule_wf (transforms (rc_transforms c))"

text \<open>Every limit the settings file must set to a positive number.\<close>

definition limits_positive :: "RuntimeSettingsFile \<Rightarrow> bool" where
  "limits_positive s \<longleftrightarrow>
     0 \<notin> set [rs_flush_rows s, rs_flush_interval_ms s, rs_max_inflight_events s,
              rs_body_max_bytes s, rs_connect_timeout_ms s, rs_request_timeout_ms s,
              rs_idle_pool_timeout_ms s, rs_graceful_shutdown_timeout_ms s]"

definition valid_domain :: "('u, 'i) url_ops \<Rightarrow> string \<Rightarrow> bool" where
  "valid_domain u raw \<longleftrightarrow>
     (let d = trim_end_matches (CHR ''.'') (trim raw) in d \<noteq> [] \<and> domain_parse u d \<noteq> None)"

text \<open>The conditions on the addresses, names and files of the settings.\<close>

definition settings_parse_ok ::
  "('u, 'i) url_ops \<Rightarrow> 'fs fs_ops \<Rightarrow> 'fs \<Rightarrow> RuntimeSettingsFile \<Rightarrow> bool" where
  "settings_parse_ok u io fs s \<longleftrightarrow>
     parse_socket_addr (rs_listen_addr s) \<noteq> None
     \<and> valid_domain u (rs_frontend_domain s)
     \<and> (case url_parse u (rs_backend_url s) of
          None \<Rightarrow> False
        | Some b \<Rightarrow> url_scheme u b = ''https'' \<and> url_host_str u b \<noteq> None
                    \<and> url_port_or_known_default u b \<noteq> None)
     \<and> (case rs_upstream_sni_override s of None \<Rightarrow> True | Some v \<Rightarrow> valid_domain u v)
     \<and> list_all (fs_open_ok io fs)
         (rs_tls_cert_path s # rs_tls_key_path s
          # (case rs_ca_bundle_path s of None \<Rightarrow> [] | Some p \<Rightarrow> [p]))"

lemma normalize_domain_ok_iff: "is_ok (normalize_domain u raw) \<longleftrightarrow> valid_domain u raw"
  by (auto simp: normalize_domain_def valid_domain_def Let_def result_simps)

lemma normalize_domain_lower: "normalize_domain u raw = Inr d \<Longrightarrow> to_ascii_lowercase d = d"
  by (auto simp: normalize_domain_def Let_def result_simps split: if_splits)

lemma ensure_readable_file_ok_iff:
  "ensure_readable_file io fs p l = Inr x \<longleftrightarrow> fs_open_ok io fs p"
  by (auto simp: ensure_readable_file_def)

lemma validate_limits_ok_iff: "validate_limits s = Inr x \<longleftrightarrow> limits_positive s"
  by (auto simp: validate_limits_def validate_positive_def limits_positive_def result_simps)

lemma parse_settings_ok_iff: "is_ok (parse_settings u io fs s) \<longleftrightarrow> settings_parse_ok u io fs s"
  unfolding parse_settings_def settings_parse_ok_def normalize_domain_ok_iff [symmetric]
  by (auto simp: is_ok_iff [of "normalize_domain u x" for x] Let_def ensure_readable_file_ok_iff result_simps
      split: option.splits)

lemma parse_settings_facts:
  assumes "parse_settings u io fs s = Inr (addr, fdom, url, host, port, sni)"
  shows "url_scheme u url = ''https''" "to_ascii_lowercase fdom = fdom"
    "to_ascii_lowercase host = host" "to_ascii_lowercase sni = sni"
  using assms
  by (auto simp: parse_settings_def Let_def result_simps
      split: option.splits if_splits dest!: normalize_domain_lower)

lemma normalize_request_path_slash [simp]: "starts_with ''/'' (normalize_request_path p)"
  by (simp add: normalize_request_path_def starts_with_def)

lemma normalize_backend_prefix_slash [simp]: "starts_with ''/'' (normalize_backend_prefix p)"
  by (auto simp: normalize_backend_prefix_def) (simp_all add: starts_with_def)

lemma from_millis_positive: "ms \<noteq> 0 \<Longrightarrow> 0 < from_millis ms"
  using uint_0_iff [of ms] uint_ge_0 [of ms] by (simp add: from_millis_def order_less_le)

text \<open>Success is decided by the four groups of checks alone.\<close>

lemma settings_to_runtime_config_Inr:
  "settings_to_runtime_config ops g u io fs s rules = (fs', Inr c) \<longleftrightarrow>
     (\<exists>p ts. parse_settings u io fs s = Inr p
        \<and> create_database_dir io fs (rs_sqlite_path s) = (fs', Inr ())
        \<and> validate_limits s = Inr () \<and> compile ops g rules = Inr ts \<and> c = build_config u s p ts)"
  by (auto simp: settings_to_runtime_config_def result_simps split: sum.splits prod.splits)

lemma trim_end_matches_slash: "trim_end_matches (CHR ''/'') ''/'' = []"
  by (simp add: trim_end_matches_def)

section \<open>A concrete instance\<close>

text \<open>
  The settings of the repository's tests, on a URL library that knows their
  backend URL: a URL is its path prefix.
\<close>

definition test_urls :: "(string, string) url_ops" where
  "test_urls =
     \<lparr>url_parse = strip_prefix ''https://backend.example'',
      url_scheme = (\<lambda>_. ''https''),
      url_host_str = (\<lambda>_. Some ''backend.example''),
      url_port_or_known_default = (\<lambda>_. Some 443),
      url_port = (\<lambda>_. None),
      url_path = (\<lambda>p. if p = [] then ''/'' else p),
      url_set_path = (\<lambda>_ p. p),
      url_set_query = (\<lambda>p q. case q of Some q \<Rightarrow> p @ ''?'' @ q | None \<Rightarrow> p),
      url_set_fragment = (\<lambda>p _. p),
      url_as_str = (\<lambda>p. ''https://backend.example'' @ p),
      uri_parse = Some,
      uri_path = Some,
      uri_query = (\<lambda>_. None),
      uri_authority = (\<lambda>_. None),
      domain_parse = Some\<rparr>"

definition test_files :: "(string \<times> string) list" where
  "test_files = [(''cert.pem'', []), (''key.pem'', [])]"

definition test_config :: AppConfigFile where
  "test_config =
     \<lparr>ac_runtime = RuntimeSettingsFile_default
        \<lparr>rs_frontend_domain := ''Example.TEST'',
         rs_tls_cert_path := ''cert.pem'', rs_tls_key_path := ''key.pem'',
         rs_header_allowlist := [''X-Test''], rs_header_denylist := [''X-Drop'']\<rparr>,
      ac_transforms = []\<rparr>"

definition test_runtime :: "string \<Rightarrow> (string, string) RuntimeConfig" where
  "test_runtime pre =
     build_config test_urls (ac_runtime test_config)
       (SocketV4 127 0 0 1 8443, ''example.test'', (if pre = ''/'' then [] else pre),
        ''backend.example'', 443, ''backend.example'') \<lparr>transforms = []\<rparr>"

section \<open>Properties\<close>

text \<open>C16: every configuration the validation accepts is well formed: the backend is reached over
  https, names are lower case, the path prefix starts with a slash, every limit and timeout is
  positive and every transform is a compiled rule.\<close>

theorem to_runtime_config_wf:
  assumes "header_map ops" and "to_runtime_config ops g u io fs c = (fs', Inr rc)"
  shows "config_wf u rc"
proof -
  from assms(2) obtain addr fdom url host port sni ts where
    p: "parse_settings u io fs (ac_runtime c) = Inr (addr, fdom, url, host, port, sni)"
    and l: "validate_limits (ac_runtime c) = Inr ()"
    and t: "compile ops g (ac_transforms c) = Inr ts"
    and rc: "rc = build_config u (ac_runtime c) (addr, fdom, url, host, port, sni) ts"
    by (auto simp: to_runtime_config_def settings_to_runtime_config_Inr)
  from l have "limits_positive (ac_runtime c)" using validate_limits_ok_iff by blast
  moreover have "list_all rule_wf (transforms ts)"
    using header_map.compile_wf [OF assms(1) t] .
  moreover have "starts_with host (backend_authority_of host (url_port u url))"
    by (simp add: backend_authority_of_def starts_with_def split: option.split)
  ultimately show ?thesis
    using parse_settings_facts [OF p] from_millis_positive
    by (simp add: rc config_wf_def build_config_def limits_positive_def word_neq_0_conv [symmetric])
qed

theorem to_runtime_config_wf_witness:
  "\<exists>rc. to_runtime_config alist_ops exact_globs test_urls map_fs test_files test_config =
     (test_files, Inr rc) \<and> config_wf test_urls rc"
proof -
  have "is_ok (snd (to_runtime_config alist_ops exact_globs test_urls map_fs test_files test_config))"
    and fs: "fst (to_runtime_config alist_ops exact_globs test_urls map_fs test_files test_config)
      = test_files"
    by code_simp+
  then obtain rc where
    "to_runtime_config alist_ops exact_globs test_urls map_fs test_files test_config =
      (test_files, Inr rc)"
    by (metis is_ok_iff prod.collapse)
  with to_runtime_config_wf [OF alist.header_map_axioms this] show ?thesis by blast
qed

text \<open>C33: validation accepts the settings exactly if the listen address parses, the names are DNS
  names, the backend is an https URL with host and port, the named files open, the database
  directory can be created, all limits are positive and all rules compile.  Otherwise nothing
  but that directory can have been created, and not even that if a name or file was bad.\<close>

theorem to_runtime_config_ok_iff:
  "(is_ok (snd (to_runtime_config ops g u io fs c)) \<longleftrightarrow>
      settings_parse_ok u io fs (ac_runtime c)
      \<and> is_ok (snd (create_database_dir io fs (rs_sqlite_path (ac_runtime c))))
      \<and> limits_positive (ac_runtime c)
      \<and> is_ok (compile ops g (ac_transforms c)))
   \<and> fst (to_runtime_config ops g u io fs c) =
      (if settings_parse_ok u io fs (ac_runtime c)
       then fst (create_database_dir io fs (rs_sqlite_path (ac_runtime c))) else fs)"
  unfolding to_runtime_config_def settings_to_runtime_config_def
    parse_settings_ok_iff [symmetric] validate_limits_ok_iff [symmetric, of _ "()"]
  by (auto simp: is_ok_iff result_simps split: sum.splits prod.splits)

text \<open>The path sent upstream is the backend's path prefix without trailing slashes followed by
  the request's path; it starts with a slash, and no slash is doubled where they meet.\<close>

theorem combined_path_joins:
  assumes "config_wf u c"
  shows "combined_path c path =
      trim_end_matches (CHR ''/'') (rc_backend_path_prefix c) @ normalize_request_path path
    \<and> starts_with ''/'' (combined_path c path)
    \<and> prefix (trim_end_matches (CHR ''/'') (rc_backend_path_prefix c)) (rc_backend_path_prefix c)
    \<and> (trim_end_matches (CHR ''/'') (rc_backend_path_prefix c) \<noteq> [] \<longrightarrow>
         last (trim_end_matches (CHR ''/'') (rc_backend_path_prefix c)) \<noteq> CHR ''/'')"
proof -
  let ?t = "trim_end_matches (CHR ''/'') (rc_backend_path_prefix c)"
  have join: "combined_path c path = ?t @ normalize_request_path path"
    by (simp add: combined_path_def trim_end_matches_slash)
  have pre: "prefix ?t (rc_backend_path_prefix c)" by (rule trim_end_matches_prefix)
  have "starts_with ''/'' (?t @ normalize_request_path path)"
  proof (cases "?t = []")
    case False
    with pre assms show ?thesis
      by (cases ?t) (auto simp: config_wf_def starts_with_def prefix_def)
  qed simp
  with join pre show ?thesis using trim_end_matches_last by fastforce
qed

theorem combined_path_joins_witness:
  "config_wf test_urls (test_runtime ''/base/'')
   \<and> combined_path (test_runtime ''/base/'') ''hello'' = ''/base/hello''"
proof -
  have wf: "config_wf test_urls (test_runtime ''/base/'')" by code_simp
  have "trim_end_matches (CHR ''/'') (rc_backend_path_prefix (test_runtime ''/base/'')) = ''/base''"
    "normalize_request_path ''hello'' = ''/hello''"
    by code_simp+
  with wf combined_path_joins [OF wf, of "''hello''"] show ?thesis by simp
qed

text \<open>C25: with a validated configuration, a header is logged exactly if, ignoring case, it is on
  the allow list, or that list has no name on it and the header is not on the deny list; blank
  entries of the lists and white space around names do not count.\<close>

theorem logged_headers_follow_lists:
  assumes "to_runtime_config ops g u io fs c = (fs', Inr rc)" and "name \<noteq> []"
  shows "allows (rc_header_log_policy rc) name \<longleftrightarrow>
    (let listed = (\<lambda>vs. \<exists>v \<in> set vs. eq_ignore_ascii_case (trim v) name) in
     if \<exists>v \<in> set (rs_header_allowlist (ac_runtime c)). trim v \<noteq> []
     then listed (rs_header_allowlist (ac_runtime c))
     else \<not> listed (rs_header_denylist (ac_runtime c)))"
proof -
  have pol: "rc_header_log_policy rc =
      \<lparr>allowlist = normalize_header_names (rs_header_allowlist (ac_runtime c)),
       denylist = normalize_header_names (rs_header_denylist (ac_runtime c))\<rparr>"
    using assms(1)
    by (auto simp: to_runtime_config_def settings_to_runtime_config_Inr build_config_def)
  have mem: "to_ascii_lowercase name \<in> normalize_header_names vs \<longleftrightarrow>
      (\<exists>v \<in> set vs. eq_ignore_ascii_case (trim v) name)" for vs
    using assms(2)
    by (auto simp: normalize_header_names_def eq_ignore_ascii_case_def image_iff)
      (metis to_ascii_lowercase_eq_Nil)+
  show ?thesis
    unfolding pol by (auto simp: allows_def Let_def mem) (auto simp: normalize_header_names_def)
qed

theorem logged_headers_follow_lists_witness:
  "\<not> allows (rc_header_log_policy (test_runtime ''/'')) ''x-drop''"
proof -
  have ok: "to_runtime_config alist_ops exact_globs test_urls map_fs test_files test_config =
      (test_files, Inr (test_runtime ''/''))"
    by code_simp
  have "\<not> eq_ignore_ascii_case (trim ''X-Test'') ''x-drop''" "trim ''X-Test'' \<noteq> []"
    by code_simp+
  with logged_headers_follow_lists [OF ok, of "''x-drop''"] show ?thesis
    by (simp add: test_config_def)
qed

end
