(* ===== verification/Json.thy ===== *)
theory Json
  imports Rust_Str "HOL-Library.List_Lexorder" "HOL-Library.Char_ord"
begin

text \<open>
  JSON documents as trees that keep the order and the repetitions of keys, ordered maps (\<open>BTreeMap\<close>) as strictly sorted
  association lists, and the text encodings of third-party crates as parameters:
  JSON text, hexadecimal and base 64.
\<close>

section \<open>Values\<close>

datatype json =
    JNull | JBool bool | JNum int | JFloat string | JStr string | JArr "json list" | JObj "(string \<times> json) list"

text \<open>
  \<^const>\<open>JNum\<close> is an integer literal; \<^const>\<open>JFloat\<close> is any other number, by its text.
  \<open>json_from_str\<close> is the parser, \<open>json_to_string\<close> and \<open>json_to_string_pretty\<close> the printers.
\<close>

record text_ops =
  json_to_string :: "json \<Rightarrow> string option"
  json_to_string_pretty :: "json \<Rightarrow> string option"
  json_from_str :: "string \<Rightarrow> json option"
  hex_encode :: "bytes \<Rightarrow> string"
  base64_encode :: "bytes \<Rightarrow> string"
  base64_decode :: "string \<Rightarrow> bytes option"

text \<open>Encodings that keep the bytes, for examples that do not depend on them.\<close>

definition test_text :: text_ops where
  "test_text =
     \<lparr>json_to_string = (\<lambda>_. Some ''{}''), json_to_string_pretty = (\<lambda>_. Some ''{}''),
      json_from_str = (\<lambda>_. None), hex_encode = (\<lambda>b. b), base64_encode = (\<lambda>b. b), base64_decode = Some\<rparr>"

section \<open>Ordered maps\<close>

fun bt_insert :: "'k::linorder \<Rightarrow> 'v \<Rightarrow> ('k \<times> 'v) list \<Rightarrow> ('k \<times> 'v) list" where
  "bt_insert k v [] = [(k, v)]"
| "bt_insert k v ((k', v') # m) =
     (if k < k' then (k, v) # (k', v') # m
      else if k = k' then (k, v) # m
      else (k', v') # bt_insert k v m)"

text \<open>\<open>entry(k).or_default().push(x)\<close> on a map of vectors.\<close>

definition bt_push :: "'k::linorder \<Rightarrow> 'v \<Rightarrow> ('k \<times> 'v list) list \<Rightarrow> ('k \<times> 'v list) list" where
  "bt_push k x m = bt_insert k (unwrap_or [] (map_of m k) @ [x]) m"

definition bt_wf :: "('k::linorder \<times> 'v) list \<Rightarrow> bool" where
  "bt_wf m \<longleftrightarrow> sorted_wrt (<) (map fst m)"

lemma bt_wf_Nil [simp, wf_intros]: "bt_wf []"
  by (simp add: bt_wf_def)

lemma set_bt_insert: "fst ` set (bt_insert k v m) = insert k (fst ` set m)"
  by (induction k v m rule: bt_insert.induct) (simp_all add: insert_commute)

lemma bt_wf_insert [wf_intros]: "bt_wf m \<Longrightarrow> bt_wf (bt_insert k v m)"
proof (induction m)
  case (Cons e m)
  then show ?case
    using set_bt_insert [of k v m] by (cases e) (fastforce simp: bt_wf_def)
qed (simp add: bt_wf_def)

lemma map_of_bt_insert: "bt_wf m \<Longrightarrow> map_of (bt_insert k v m) = (map_of m)(k \<mapsto> v)"
proof (induction m)
  case (Cons e m)
  obtain k' v' where e: "e = (k', v')" by (cases e)
  have "map_of m x = None" if "x \<le> k'" for x
    using Cons.prems that e by (fastforce simp: bt_wf_def map_of_eq_None_iff)
  with Cons e show ?case by (auto simp: bt_wf_def fun_eq_iff)
qed simp

lemma bt_wf_push [wf_intros]: "bt_wf m \<Longrightarrow> bt_wf (bt_push k x m)"
  by (simp add: bt_push_def bt_wf_insert)

lemma map_of_bt_push:
  "bt_wf m \<Longrightarrow> map_of (bt_push k x m) = (map_of m)(k \<mapsto> unwrap_or [] (map_of m k) @ [x])"
  by (simp add: bt_push_def map_of_bt_insert)

text \<open>Inserting a list of entries: the last value of a key wins.\<close>

definition bt_from_list :: "('k::linorder \<times> 'v) list \<Rightarrow> ('k \<times> 'v) list" where
  "bt_from_list es = foldl (\<lambda>m (k, v). bt_insert k v m) [] es"

lemma bt_wf_from_list [wf_intros]: "bt_wf (bt_from_list es)"
proof -
  have "bt_wf m \<Longrightarrow> bt_wf (foldl (\<lambda>m (k, v). bt_insert k v m) m es)" for m
    by (induction es arbitrary: m) (auto intro: bt_wf_insert)
  then show ?thesis by (simp add: bt_from_list_def)
qed

lemma map_of_bt_from_list: "map_of (bt_from_list es) = map_of (rev es)"
proof -
  have "bt_wf m \<Longrightarrow> map_of (foldl (\<lambda>m (k, v). bt_insert k v m) m es) = map_of m ++ map_of (rev es)" for m
    by (induction es arbitrary: m) (auto simp: map_of_bt_insert bt_wf_insert map_add_def fun_eq_iff split: option.splits)
  then show ?thesis by (simp add: bt_from_list_def)
qed

end
