(* ===== verification/Errors.thy ===== *)
theory Errors
  imports Prelude
begin

text \<open>
  \<^verbatim>\<open>src/error.rs\<close>: the error kinds, the outcome of a proxied exchange, and the
  error record stored with an event.  The labels are what SQLite stores and what
  the results page filters by, so the point proved about them is that a label
  determines its value.
\<close>

section \<open>Error kinds and proxy results\<close>

datatype ErrorKind =
    Config | FrontendTls | BackendTls | Dns | Connect | Timeout
  | UpstreamProtocol | ClientProtocol | SqliteWrite | Internal

fun ErrorKind_as_str :: "ErrorKind \<Rightarrow> string" where
  "ErrorKind_as_str Config = ''config''"
| "ErrorKind_as_str FrontendTls = ''tls_frontend''"
| "ErrorKind_as_str BackendTls = ''tls_backend''"
| "ErrorKind_as_str Dns = ''dns''"
| "ErrorKind_as_str Connect = ''connect''"
| "ErrorKind_as_str Timeout = ''timeout''"
| "ErrorKind_as_str UpstreamProtocol = ''upstream_protocol''"
| "ErrorKind_as_str ClientProtocol = ''client_protocol''"
| "ErrorKind_as_str SqliteWrite = ''sqlite_write''"
| "ErrorKind_as_str Internal = ''internal''"

datatype ProxyResult = Inflight | Success | ClientRejected | UpstreamError | StreamError

fun ProxyResult_as_str :: "ProxyResult \<Rightarrow> string" where
  "ProxyResult_as_str Inflight = ''inflight''"
| "ProxyResult_as_str Success = ''success''"
| "ProxyResult_as_str ClientRejected = ''client_rejected''"
| "ProxyResult_as_str UpstreamError = ''upstream_error''"
| "ProxyResult_as_str StreamError = ''stream_error''"

record ErrorInfo =
  err_kind :: ErrorKind
  err_text :: string

definition ErrorInfo_new :: "ErrorKind \<Rightarrow> string \<Rightarrow> ErrorInfo" where
  "ErrorInfo_new kind text = \<lparr>err_kind = kind, err_text = text\<rparr>"

text \<open>\<open>from_display\<close> stores what the error's \<open>Display\<close> prints.\<close>

definition ErrorInfo_from_display :: "ErrorKind \<Rightarrow> string \<Rightarrow> ErrorInfo" where
  "ErrorInfo_from_display kind displayed = ErrorInfo_new kind displayed"

section \<open>Labels determine values\<close>

text \<open>
  The contract of an \<open>as_str\<close> function: over a complete list of the values the
  labels are pairwise different, so reading a label back is a search in that list.
\<close>

locale labelled =
  fixes label :: "'a \<Rightarrow> string" and universe :: "'a list"
  assumes complete: "x \<in> set universe"
    and distinct_labels: "distinct (map label universe)"
begin

lemma label_inj: "label x = label y \<longleftrightarrow> x = y"
  using complete [of x] complete [of y] distinct_labels
  by (auto simp: distinct_map dest: inj_onD)

lemma read_label: "find (\<lambda>y. label y = label x) universe = Some x"
proof -
  have "find (\<lambda>y. label y = label x) universe = find (\<lambda>y. y = x) universe"
    by (simp add: label_inj)
  moreover have "find (\<lambda>y. y = x) universe \<noteq> None"
    using complete [of x] by (auto simp: find_None_iff)
  ultimately show ?thesis
    by (auto simp: find_Some_iff)
qed

lemma read_foreign: "find (\<lambda>y. label y = s) universe = None \<longleftrightarrow> s \<notin> range label"
  using complete by (auto simp: find_None_iff)

end

definition all_ErrorKind :: "ErrorKind list" where
  "all_ErrorKind =
     [Config, FrontendTls, BackendTls, Dns, Connect, Timeout, UpstreamProtocol,
      ClientProtocol, SqliteWrite, Internal]"

definition all_ProxyResult :: "ProxyResult list" where
  "all_ProxyResult = [Inflight, Success, ClientRejected, UpstreamError, StreamError]"

interpretation error_kind: labelled ErrorKind_as_str all_ErrorKind
proof unfold_locales
  show "x \<in> set all_ErrorKind" for x
    by (cases x) (simp_all add: all_ErrorKind_def)
  show "distinct (map ErrorKind_as_str all_ErrorKind)"
    by (simp add: all_ErrorKind_def)
qed

interpretation proxy_result: labelled ProxyResult_as_str all_ProxyResult
proof unfold_locales
  show "x \<in> set all_ProxyResult" for x
    by (cases x) (simp_all add: all_ProxyResult_def)
  show "distinct (map ProxyResult_as_str all_ProxyResult)"
    by (simp add: all_ProxyResult_def)
qed

end
