(* ===== verification/Capture_Headers.thy ===== *)
theory Capture_Headers
  imports Config Json Errors
begin

text \<open>
  The functions of \<^verbatim>\<open>src/capture.rs\<close> on requests, responses and their headers: the
  host check, hop-by-hop headers, the JSON forms of headers and cookies, and the
  forwarding headers of a trusted proxy.  Request and response are records; what a
  URI, a header map or the connection's extensions contain is asked of the HTTP
  library, a parameter (\<open>http_lib\<close>).
\<close>

section \<open>Requests and responses\<close>

text \<open>The peer and local address of a connection: address text and port.\<close>

record SocketInfo =
  si_peer_addr :: "string \<times> u16"
  si_local_addr :: "(string \<times> u16) option"

text \<open>
  What the TLS layer leaves in a connection's extensions: the negotiated version,
  application protocol and peer certificates; the server name of the client hello;
  the fingerprints.
\<close>

record tls_parameters =
  tp_version :: string
  tp_alpn :: "string option"
  tp_chain :: "bytes list option"

record 'x ext_ops =
  ext_socket_info :: "'x \<Rightarrow> SocketInfo option"
  ext_tls_parameters :: "'x \<Rightarrow> tls_parameters option"
  ext_client_hello_sni :: "'x \<Rightarrow> string option"
  ext_ja3 :: "'x \<Rightarrow> string option"
  ext_ja4 :: "'x \<Rightarrow> string option"

record ('h, 'i, 'x, 'b) Request =
  rq_method :: string
  rq_uri :: 'i
  rq_version :: Version
  rq_headers :: 'h
  rq_extensions :: 'x
  rq_body :: 'b

record ('h, 'b) Response =
  rsp_status :: u16
  rsp_version :: Version
  rsp_headers :: 'h
  rsp_body :: 'b

record ('h, 'u, 'i, 'x) http_lib =
  hl_hdr :: "'h header_ops"
  hl_url :: "('u, 'i) url_ops"
  hl_ext :: "'x ext_ops"
  hl_txt :: text_ops
  hl_canonical_reason :: "u16 \<Rightarrow> string option"
  hl_invalid_value_text :: string

section \<open>Header values\<close>

definition stringify_header_value :: "'h header_ops \<Rightarrow> text_ops \<Rightarrow> bytes \<Rightarrow> string" where
  "stringify_header_value ops txt v =
     (case hv_to_str ops v of Some s \<Rightarrow> s | None \<Rightarrow> ''0x'' @ hex_encode txt v)"

definition header_value :: "'h header_ops \<Rightarrow> text_ops \<Rightarrow> 'h \<Rightarrow> string \<Rightarrow> string option" where
  "header_value ops txt h name = map_option (stringify_header_value ops txt) (hm_get ops h name)"

definition parse_content_length :: "'h header_ops \<Rightarrow> 'h \<Rightarrow> i64 option" where
  "parse_content_length ops h = Option.bind (hm_get_str ops h CONTENT_LENGTH) parse_i64"

fun format_http_version :: "Version \<Rightarrow> string" where
  "format_http_version HTTP_09 = ''HTTP/0.9''"
| "format_http_version HTTP_10 = ''HTTP/1.0''"
| "format_http_version HTTP_11 = ''HTTP/1.1''"
| "format_http_version HTTP_2 = ''HTTP/2''"
| "format_http_version HTTP_3 = ''HTTP/3''"

text \<open>\<open>whole_milliseconds() as i64\<close> of a difference of instants in nanoseconds.\<close>

definition duration_ms_i64 :: "int \<Rightarrow> i64" where
  "duration_ms_i64 ns = word_of_int (if ns < 0 then - ((- ns) div 1000000) else ns div 1000000)"

section \<open>The host check\<close>

definition request_authority :: "('h, 'u, 'i, 'x) http_lib \<Rightarrow> ('h, 'i, 'x, 'b) Request \<Rightarrow> string option" where
  "request_authority lib req =
     opt_or (uri_authority (hl_url lib) (rq_uri req))
       (header_value (hl_hdr lib) (hl_txt lib) (rq_headers req) HOST)"

text \<open>The closure for an authority without a colon lower-cases the whole authority.\<close>

definition authority_host :: "string \<Rightarrow> string option" where
  "authority_host authority =
     (let rest = (case rsplit_once (CHR ''@'') authority of None \<Rightarrow> authority | Some (_, v) \<Rightarrow> v) in
      case split_once (CHR '':'') rest of
        None \<Rightarrow> Some (to_ascii_lowercase authority)
      | Some (host, _) \<Rightarrow> Some (to_ascii_lowercase host))"

definition host_matches_frontend ::
  "('h, 'u, 'i, 'x) http_lib \<Rightarrow> ('h, 'i, 'x, 'b) Request \<Rightarrow> string \<Rightarrow> bool" where
  "host_matches_frontend lib req frontend_domain =
     (case Option.bind (request_authority lib req) authority_host of
        None \<Rightarrow> False
      | Some host \<Rightarrow> eq_ignore_ascii_case host frontend_domain)"

section \<open>Hop-by-hop headers\<close>

definition connection_tokens :: "'h header_ops \<Rightarrow> 'h \<Rightarrow> string list" where
  "connection_tokens ops h =
     (case hm_get_str ops h CONNECTION of
        None \<Rightarrow> []
      | Some v \<Rightarrow>
          filter (\<lambda>t. t \<noteq> []) (map (\<lambda>t. to_ascii_lowercase (trim t)) (split_on (CHR '','') v)))"

definition hop_by_hop :: "string list" where
  "hop_by_hop =
     [CONNECTION, PROXY_AUTHENTICATE, PROXY_AUTHORIZATION, TE, TRAILER, TRANSFER_ENCODING, UPGRADE,
      KEEP_ALIVE]"

definition strip_hop_by_hop_headers :: "'h header_ops \<Rightarrow> 'h \<Rightarrow> 'h" where
  "strip_hop_by_hop_headers ops h =
     (let h' = foldl (\<lambda>h token.
                 case hn_from_bytes ops token of Some name \<Rightarrow> hm_remove ops h name | None \<Rightarrow> h)
               h (connection_tokens ops h) in
      foldl (hm_remove ops) h' hop_by_hop)"

section \<open>Headers and cookies as JSON\<close>

definition log_header ::
  "'h header_ops \<Rightarrow> text_ops \<Rightarrow> HeaderLogPolicy \<Rightarrow> (string \<times> string list) list \<Rightarrow> string \<times> bytes \<Rightarrow>
     (string \<times> string list) list" where
  "log_header ops txt policy m e =
     (let normalized = to_ascii_lowercase (fst e) in
      if allows policy normalized then bt_push normalized (stringify_header_value ops txt (snd e)) m
      else m)"

definition header_lists ::
  "'h header_ops \<Rightarrow> text_ops \<Rightarrow> HeaderLogPolicy \<Rightarrow> 'h \<Rightarrow> (string \<times> string list) list" where
  "header_lists ops txt policy h = foldl (log_header ops txt policy) [] (hm_iter ops h)"

definition serialize_headers ::
  "'h header_ops \<Rightarrow> text_ops \<Rightarrow> 'h \<Rightarrow> HeaderLogPolicy \<Rightarrow> string" where
  "serialize_headers ops txt h policy =
     unwrap_or ''{}''
       (json_to_string txt
          (JObj (map (\<lambda>(k, vs). (k, JArr (map JStr vs))) (header_lists ops txt policy h))))"

definition cookie_pairs :: "string \<Rightarrow> (string \<times> string) list" where
  "cookie_pairs raw =
     List.map_filter (\<lambda>segment. map_option (\<lambda>(n, v). (trim n, trim v)) (split_once (CHR ''='') (trim segment)))
       (split_on (CHR '';'') raw)"

definition parse_cookies :: "'h header_ops \<Rightarrow> text_ops \<Rightarrow> bytes option \<Rightarrow> string option" where
  "parse_cookies ops txt v =
     Option.bind (Option.bind v (hv_to_str ops)) (\<lambda>raw.
       json_to_string txt (JObj (map (\<lambda>(k, s). (k, JStr s)) (bt_from_list (cookie_pairs raw)))))"

definition set_cookie_attr :: "string \<Rightarrow> (string \<times> json) option" where
  "set_cookie_attr attr =
     (let trimmed = trim attr in
      case split_once (CHR ''='') trimmed of
        Some (k, v) \<Rightarrow> Some (to_ascii_lowercase k, JStr v)
      | None \<Rightarrow> if trimmed \<noteq> [] then Some (to_ascii_lowercase trimmed, JBool True) else None)"

text \<open>\<open>json!\<close> builds an object with sorted keys.\<close>

definition parse_set_cookie_value :: "string \<Rightarrow> json" where
  "parse_set_cookie_value raw =
     (let parts = split_on (CHR '';'') raw;
          first = hd parts;
          (name, v) = (case split_once (CHR ''='') first of Some p \<Rightarrow> p | None \<Rightarrow> (first, [])) in
      JObj [(''attributes'', JObj (bt_from_list (List.map_filter set_cookie_attr (tl parts)))),
            (''name'', JStr (trim name)), (''raw'', JStr raw), (''value'', JStr (trim v))])"

definition parse_set_cookies :: "'h header_ops \<Rightarrow> text_ops \<Rightarrow> 'h \<Rightarrow> string option" where
  "parse_set_cookies ops txt h =
     (let items = map parse_set_cookie_value
                    (List.map_filter (hv_to_str ops) (hm_get_all ops h SET_COOKIE)) in
      if items = [] then None else json_to_string txt (JArr items))"

section \<open>Forwarding headers\<close>

text \<open>The first parameter of a \<open>Forwarded\<close> header with the given prefix.\<close>

definition forwarded_param :: "'h header_ops \<Rightarrow> 'h \<Rightarrow> string \<Rightarrow> string option" where
  "forwarded_param ops h pre =
     Option.bind (hm_get_str ops h ''forwarded'') (\<lambda>forwarded.
       case List.map_filter (\<lambda>part. strip_prefix pre (trim part)) (split_on (CHR '';'') forwarded) of
         [] \<Rightarrow> None
       | v # _ \<Rightarrow> Some v)"

definition forwarded_client_ip :: "'h header_ops \<Rightarrow> 'h \<Rightarrow> string option" where
  "forwarded_client_ip ops h =
     (case forwarded_param ops h ''for='' of
        Some v \<Rightarrow> Some (trim_matches (CHR '']'') (trim_matches (CHR ''['') (trim_matches (CHR 0x22) v)))
      | None \<Rightarrow>
          map_option (\<lambda>v. trim (hd (split_on (CHR '','') v))) (hm_get_str ops h ''x-forwarded-for''))"

definition forwarded_proto :: "'h header_ops \<Rightarrow> 'h \<Rightarrow> string option" where
  "forwarded_proto ops h =
     (case forwarded_param ops h ''proto='' of
        Some v \<Rightarrow> Some (trim_matches (CHR 0x22) v)
      | None \<Rightarrow> hm_get_str ops h ''x-forwarded-proto'')"

section \<open>Error responses\<close>

definition make_gateway_error :: "'h header_ops \<Rightarrow> u16 \<Rightarrow> string \<Rightarrow> ('h, bytes) Response" where
  "make_gateway_error ops status message =
     \<lparr>rsp_status = status, rsp_version = HTTP_11,
      rsp_headers = hm_insert ops (hm_new ops) CONTENT_TYPE ''text/plain; charset=utf-8'',
      rsp_body = message\<rparr>"

section \<open>Laws\<close>

lemma authority_host_plain:
  "CHR '':'' \<notin> set host \<Longrightarrow> CHR ''@'' \<notin> set host \<Longrightarrow> authority_host host = Some (to_ascii_lowercase host)"
  by (simp add: authority_host_def rsplit_once_None_iff [THEN iffD2] split_once_None_iff [THEN iffD2])

lemma authority_host_port:
  assumes "CHR '':'' \<notin> set host" and "CHR ''@'' \<notin> set host" and "CHR ''@'' \<notin> set port"
  shows "authority_host (host @ '':'' @ port) = Some (to_ascii_lowercase host)"
proof -
  have "rsplit_once (CHR ''@'') (host @ CHR '':'' # port) = None"
    using assms by (simp add: rsplit_once_None_iff)
  with assms show ?thesis by (simp add: authority_host_def)
qed

lemma authority_host_userinfo_port:
  assumes "CHR '':'' \<notin> set host" and "CHR ''@'' \<notin> set host" and "CHR ''@'' \<notin> set port"
  shows "authority_host (user @ ''@'' @ host @ '':'' @ port) = Some (to_ascii_lowercase host)"
proof -
  have "rsplit_once (CHR ''@'') (user @ CHR ''@'' # host @ CHR '':'' # port) = Some (user, host @ CHR '':'' # port)"
    using assms by (simp add: rsplit_once_Some_iff)
  with assms show ?thesis by (simp add: authority_host_def)
qed

lemma authority_host_userinfo:
  assumes "CHR '':'' \<notin> set host" and "CHR ''@'' \<notin> set host"
  shows "authority_host (user @ ''@'' @ host) = Some (to_ascii_lowercase (user @ ''@'' @ host))"
proof -
  have "rsplit_once (CHR ''@'') (user @ CHR ''@'' # host) = Some (user, host)"
    using assms by (simp add: rsplit_once_Some_iff)
  with assms show ?thesis by (simp add: authority_host_def split_once_None_iff [THEN iffD2])
qed

lemma eq_ignore_ascii_case_lower [simp]:
  "eq_ignore_ascii_case (to_ascii_lowercase a) b \<longleftrightarrow> eq_ignore_ascii_case a b"
  by (simp add: eq_ignore_ascii_case_def)

lemma eq_ignore_ascii_case_length: "eq_ignore_ascii_case a b \<Longrightarrow> length a = length b"
  unfolding eq_ignore_ascii_case_def by (metis length_to_ascii_lowercase)

text \<open>What the header maps of the log hold for a name.\<close>

definition logged_values ::
  "'h header_ops \<Rightarrow> text_ops \<Rightarrow> HeaderLogPolicy \<Rightarrow> (string \<times> bytes) list \<Rightarrow> string \<Rightarrow> string list" where
  "logged_values ops txt policy es n =
     (if allows policy n
      then map (\<lambda>e. stringify_header_value ops txt (snd e)) (filter (\<lambda>e. to_ascii_lowercase (fst e) = n) es)
      else [])"

lemma header_lists_fold:
  assumes "bt_wf m" and "\<And>n. map_of m n \<noteq> Some []"
  shows "bt_wf (foldl (log_header ops txt policy) m es)
    \<and> (\<forall>n. map_of (foldl (log_header ops txt policy) m es) n \<noteq> Some [])
    \<and> (\<forall>n. unwrap_or [] (map_of (foldl (log_header ops txt policy) m es) n) =
             unwrap_or [] (map_of m n) @ logged_values ops txt policy es n)"
  using assms
proof (induction es arbitrary: m)
  case Nil
  then show ?case by (simp add: logged_values_def)
next
  case (Cons e es)
  let ?m = "log_header ops txt policy m e"
  have m: "bt_wf ?m" "\<And>n. map_of ?m n \<noteq> Some []"
    using Cons.prems by (auto simp: log_header_def Let_def bt_wf_push map_of_bt_push)
  have "unwrap_or [] (map_of ?m n) @ logged_values ops txt policy es n =
      unwrap_or [] (map_of m n) @ logged_values ops txt policy (e # es) n" for n
    using Cons.prems by (auto simp: log_header_def Let_def map_of_bt_push logged_values_def)
  with Cons.IH [OF m] show ?case by simp
qed

lemma header_lists_values:
  "bt_wf (header_lists ops txt policy h)"
  "map_of (header_lists ops txt policy h) n =
     (case logged_values ops txt policy (hm_iter ops h) n of [] \<Rightarrow> None | vs \<Rightarrow> Some vs)"
proof -
  let ?r = "foldl (log_header ops txt policy) [] (hm_iter ops h)"
  have r: "bt_wf ?r" "map_of ?r n \<noteq> Some []"
    "unwrap_or [] (map_of ?r n) = logged_values ops txt policy (hm_iter ops h) n"
    using header_lists_fold [of "[]" ops "txt" policy "hm_iter ops h"] by auto
  then show "bt_wf (header_lists ops txt policy h)" by (simp add: header_lists_def)
  show "map_of (header_lists ops txt policy h) n =
      (case logged_values ops txt policy (hm_iter ops h) n of [] \<Rightarrow> None | vs \<Rightarrow> Some vs)"
    using r(2,3) by (cases "map_of ?r n") (auto simp: header_lists_def split: list.split)
qed

text \<open>
  A text with commas names a header if one of its pieces is that name, whatever its case and the
  white space around it.
\<close>

definition names_header :: "string \<Rightarrow> string \<Rightarrow> bool" where
  "names_header s n \<longleftrightarrow> n \<noteq> [] \<and>
     (\<exists>a w b. s = a @ w @ b \<and> CHR '','' \<notin> set w \<and> (a = [] \<or> last a = CHR '','')
        \<and> (b = [] \<or> hd b = CHR '','') \<and> to_ascii_lowercase (trim w) = n)"

text \<open>The first \<open>Connection\<close> line is such a text and names the header \<open>n\<close>.\<close>

definition connection_names :: "'h header_ops \<Rightarrow> 'h \<Rightarrow> string \<Rightarrow> bool" where
  "connection_names ops h n \<longleftrightarrow>
     (\<exists>v vs s. hm_get_all ops h ''connection'' = v # vs \<and> hv_to_str ops v = Some s
        \<and> names_header s n \<and> hn_from_bytes ops n = Some n)"

lemma names_header_pieces:
  "names_header s n \<longleftrightarrow>
     n \<noteq> [] \<and> n \<in> set (map (\<lambda>w. to_ascii_lowercase (trim w)) (split_on (CHR '','') s))"
  unfolding names_header_def set_map image_iff Bex_def set_split_on by blast

lemma hop_by_hop_names:
  "set hop_by_hop = {''connection'', ''proxy-authenticate'', ''proxy-authorization'', ''te'', ''trailer'',
     ''transfer-encoding'', ''upgrade'', ''keep-alive''}"
  by (auto simp: hop_by_hop_def)

context header_map
begin

lemma strip_tokens:
  "hm_get_all ops (foldl (\<lambda>h token.
       case hn_from_bytes ops token of Some name \<Rightarrow> hm_remove ops h name | None \<Rightarrow> h) h ts) n =
   (if Some n \<in> hn_from_bytes ops ` set ts then [] else hm_get_all ops h n)"
  by (induction ts arbitrary: h) (auto simp: get_all_remove split: option.splits)

lemma connection_names_iff:
  "Some n \<in> hn_from_bytes ops ` set (connection_tokens ops h) \<longleftrightarrow> connection_names ops h n"
proof -
  have self: "hn_from_bytes ops (to_ascii_lowercase s) = Some n \<longleftrightarrow>
      n = to_ascii_lowercase s \<and> hn_from_bytes ops n = Some n" for s
    using from_bytes_lower [of "to_ascii_lowercase s" n] by auto
  show ?thesis
  proof (cases "hm_get_str ops h CONNECTION")
    case None
    then show ?thesis
      by (auto simp: connection_tokens_def connection_names_def hm_get_str_def get_first split: list.splits)
  next
    case (Some s)
    then have "Some n \<in> hn_from_bytes ops ` set (connection_tokens ops h) \<longleftrightarrow>
        (\<exists>w \<in> set (split_on (CHR '','') s). to_ascii_lowercase (trim w) \<noteq> []
          \<and> hn_from_bytes ops (to_ascii_lowercase (trim w)) = Some n)"
      unfolding connection_tokens_def by (auto simp: image_iff eq_commute [of "Some n"])
    also have "\<dots> \<longleftrightarrow> names_header s n \<and> hn_from_bytes ops n = Some n"
      unfolding self names_header_pieces set_map image_iff by fast
    also have "\<dots> \<longleftrightarrow> connection_names ops h n"
      using Some by (auto simp: connection_names_def hm_get_str_def get_first bind_eq_Some_conv split: list.splits)
    finally show ?thesis .
  qed
qed

lemma strip_hop_by_hop_values:
  "hm_get_all ops (strip_hop_by_hop_headers ops h) n =
     (if n \<in> set hop_by_hop \<or> Some n \<in> hn_from_bytes ops ` set (connection_tokens ops h) then []
      else hm_get_all ops h n)"
  by (simp add: strip_hop_by_hop_headers_def Let_def get_all_foldl_remove strip_tokens)

end

section \<open>A concrete instance\<close>

definition test_ext :: "unit ext_ops" where
  "test_ext =
     \<lparr>ext_socket_info = (\<lambda>_. None), ext_tls_parameters = (\<lambda>_. None),
      ext_client_hello_sni = (\<lambda>_. None), ext_ja3 = (\<lambda>_. None), ext_ja4 = (\<lambda>_. None)\<rparr>"

definition test_lib :: "((string \<times> bytes) list, string, string, unit) http_lib" where
  "test_lib =
     \<lparr>hl_hdr = alist_ops, hl_url = test_urls, hl_ext = test_ext, hl_txt = test_text,
      hl_canonical_reason = (\<lambda>_. None), hl_invalid_value_text = ''invalid''\<rparr>"

definition test_request :: "string \<Rightarrow> ((string \<times> bytes) list, string, unit, bytes) Request" where
  "test_request host =
     \<lparr>rq_method = ''GET'', rq_uri = ''/'', rq_version = HTTP_11, rq_headers = [(''host'', host)],
      rq_extensions = (), rq_body = []\<rparr>"

section \<open>Properties\<close>

text \<open>C35: stripping removes exactly the headers \<open>Connection\<close>, \<open>Proxy-Authenticate\<close>,
  \<open>Proxy-Authorization\<close>, \<open>TE\<close>, \<open>Trailer\<close>, \<open>Transfer-Encoding\<close>, \<open>Upgrade\<close>, \<open>Keep-Alive\<close> and those
  the first \<open>Connection\<close> line names between commas, in any case and with white space around them;
  every other header keeps all its values in order.\<close>

theorem strip_hop_by_hop_exact:
  assumes "header_map ops"
  shows "hm_get_all ops (strip_hop_by_hop_headers ops h) n =
    (if n \<in> {''connection'', ''proxy-authenticate'', ''proxy-authorization'', ''te'', ''trailer'',
             ''transfer-encoding'', ''upgrade'', ''keep-alive''} \<or> connection_names ops h n
     then [] else hm_get_all ops h n)"
  unfolding header_map.strip_hop_by_hop_values [OF assms] header_map.connection_names_iff [OF assms]
    hop_by_hop_names by (rule refl)

theorem strip_hop_by_hop_exact_witness:
  "let h = [(''connection'', ''close ,X-Remove''), (''te'', ''trailers''), (''transfer-encoding'', ''chunked''),
            (''x-remove'', ''1''), (''via'', ''a''), (''x-remove'', ''2''), (''via'', ''b'')];
       strip = strip_hop_by_hop_headers alist_ops h in
   hm_get_all alist_ops strip ''te'' = [] \<and> hm_get_all alist_ops strip ''transfer-encoding'' = []
   \<and> hm_get_all alist_ops strip ''x-remove'' = [] \<and> hm_get_all alist_ops strip ''via'' = [''a'', ''b'']"
proof -
  let ?h = "[(''connection'', ''close ,X-Remove''), (''te'', ''trailers''), (''transfer-encoding'', ''chunked''),
            (''x-remove'', ''1''), (''via'', ''a''), (''x-remove'', ''2''), (''via'', ''b'')]"
  have first: "hm_get_all alist_ops ?h ''connection'' = [''close ,X-Remove'']"
    and vis: "hv_to_str alist_ops ''close ,X-Remove'' = Some ''close ,X-Remove''"
    and name: "hn_from_bytes alist_ops ''x-remove'' = Some ''x-remove''"
    and pieces: "map (\<lambda>w. to_ascii_lowercase (trim w)) (split_on (CHR '','') ''close ,X-Remove'') = [''close'', ''x-remove'']"
    and via: "hm_get_all alist_ops ?h ''via'' = [''a'', ''b'']"
    by code_simp+
  have names: "names_header ''close ,X-Remove'' n \<longleftrightarrow> n \<in> {''close'', ''x-remove''}" for n
    unfolding names_header_pieces pieces by auto
  have "connection_names alist_ops ?h ''x-remove''" "\<not> connection_names alist_ops ?h ''via''"
    unfolding connection_names_def first by (simp_all add: vis names name)
  with via strip_hop_by_hop_exact [OF alist.header_map_axioms, of ?h] show ?thesis
    unfolding Let_def by simp
qed

text \<open>C37: the logged headers are a JSON object with strictly sorted names: a name is there exactly
  if the policy allows it and the message has it, with all its values in order; a header the
  policy does not allow is never logged.\<close>

theorem logged_headers_exact:
  assumes "header_map ops" and "\<forall>(name, v) \<in> set (hm_iter ops h). to_ascii_lowercase name = name"
  shows "bt_wf (header_lists ops txt policy h)
    \<and> map_of (header_lists ops txt policy h) n =
       (if allows policy n \<and> hm_get_all ops h n \<noteq> []
        then Some (map (stringify_header_value ops txt) (hm_get_all ops h n)) else None)"
proof -
  have "filter (\<lambda>e. to_ascii_lowercase (fst e) = n) (hm_iter ops h) = filter (\<lambda>e. fst e = n) (hm_iter ops h)"
    using assms(2) by (intro filter_cong) auto
  then have "logged_values ops txt policy (hm_iter ops h) n =
      (if allows policy n then map (stringify_header_value ops txt) (hm_get_all ops h n) else [])"
    by (simp add: logged_values_def header_map.iter_get_all [OF assms(1), of n h, symmetric])
  then show ?thesis
    by (auto simp: header_lists_values split: list.split)
qed

theorem logged_headers_exact_witness:
  "map_of (header_lists alist_ops test_text \<lparr>allowlist = {}, denylist = {''x-secret''}\<rparr>
     [(''x-secret'', ''s''), (''via'', ''a''), (''via'', ''b'')]) ''x-secret'' = None"
  using logged_headers_exact [OF alist.header_map_axioms, of "[(''x-secret'', ''s''), (''via'', ''a''), (''via'', ''b'')]"
      test_text "\<lparr>allowlist = {}, denylist = {''x-secret''}\<rparr>" "''x-secret''"]
  by (simp add: alist_ops_def allows_def to_ascii_lowercase_def ascii_lower_def)

text \<open>C36: a request for \<open>host\<close> or \<open>host:port\<close>, with or without user information before a port, is
  accepted exactly if the host is the configured domain, ignoring case; a request without an
  authority and \<open>Host\<close> header is rejected.\<close>

theorem host_check:
  assumes "CHR '':'' \<notin> set host" and "CHR ''@'' \<notin> set host" and "CHR ''@'' \<notin> set port"
  shows "(request_authority lib req \<in> {Some host, Some (host @ '':'' @ port), Some (user @ ''@'' @ host @ '':'' @ port)} \<longrightarrow>
      (host_matches_frontend lib req d \<longleftrightarrow> eq_ignore_ascii_case host d))
    \<and> (request_authority lib req = None \<longrightarrow> \<not> host_matches_frontend lib req d)"
  using assms
  by (auto simp: host_matches_frontend_def authority_host_plain authority_host_port [simplified]
      authority_host_userinfo_port [simplified])

theorem host_check_witness:
  "host_matches_frontend test_lib (test_request ''Example.TEST:8443'') ''example.test''
   \<and> \<not> host_matches_frontend test_lib (test_request ''evil.test:8443'') ''example.test''"
proof -
  have "request_authority test_lib (test_request ''Example.TEST:8443'') = Some (''Example.TEST'' @ '':'' @ ''8443'')"
    "request_authority test_lib (test_request ''evil.test:8443'') = Some (''evil.test'' @ '':'' @ ''8443'')"
    "eq_ignore_ascii_case ''Example.TEST'' ''example.test''" "\<not> eq_ignore_ascii_case ''evil.test'' ''example.test''"
    by code_simp+
  then show ?thesis
    using host_check [of "''Example.TEST''" "''8443''" test_lib "test_request ''Example.TEST:8443''" "[]" "''example.test''"]
      host_check [of "''evil.test''" "''8443''" test_lib "test_request ''evil.test:8443''" "[]" "''example.test''"]
    by simp
qed

text \<open>A request whose authority has user information but no port is rejected whatever its host,
  unless the domain itself contains the user information: the whole authority is compared.\<close>

theorem userinfo_without_port_rejected:
  assumes "CHR '':'' \<notin> set host" and "CHR ''@'' \<notin> set host"
    and "request_authority lib req = Some (user @ ''@'' @ host)" and "eq_ignore_ascii_case host d"
  shows "\<not> host_matches_frontend lib req d"
proof -
  have "length (user @ ''@'' @ host) \<noteq> length d" using eq_ignore_ascii_case_length [OF assms(4)] by simp
  with assms(3) authority_host_userinfo [OF assms(1,2), of user] show ?thesis
    by (auto simp: host_matches_frontend_def simp del: append.simps dest: eq_ignore_ascii_case_length)
qed

theorem userinfo_without_port_rejected_witness:
  "\<not> host_matches_frontend test_lib (test_request ''user@example.test'') ''example.test''"
proof -
  have "request_authority test_lib (test_request ''user@example.test'') = Some (''user'' @ ''@'' @ ''example.test'')"
    by code_simp
  from userinfo_without_port_rejected [OF _ _ this] show ?thesis by simp
qed

end
