(* ===== verification/Event.thy ===== *)
theory Event
  imports Errors
begin

text \<open>
  \<^verbatim>\<open>src/event.rs\<close>: the record of one proxied exchange, which the capture builds and the
  SQLite writer stores.  A \<open>Uuid\<close> is its text and an \<open>OffsetDateTime\<close> the number of
  nanoseconds since the Unix epoch.
\<close>

type_synonym uuid = string
type_synonym offset_date_time = int

record ProxyEvent =
  pe_event_id :: uuid
  pe_connection_id :: uuid
  pe_request_start_ts :: offset_date_time
  pe_request_end_ts :: offset_date_time
  pe_duration_ms :: i64
  pe_client_ip :: "string option"
  pe_client_port :: "u16 option"
  pe_proxy_local_ip :: "string option"
  pe_proxy_local_port :: "u16 option"
  pe_frontend_server_name :: "string option"
  pe_frontend_http_version :: "string option"
  pe_frontend_scheme :: string
  pe_backend_url :: string
  pe_backend_host :: string
  pe_backend_ip :: "string option"
  pe_backend_port :: "u16 option"
  pe_backend_http_version :: "string option"
  pe_upstream_connection_reused :: "bool option"
  pe_method :: string
  pe_authority :: "string option"
  pe_path :: string
  pe_query :: "string option"
  pe_request_headers_json :: string
  pe_request_cookie_header :: "string option"
  pe_request_cookies_json :: "string option"
  pe_request_content_length :: "i64 option"
  pe_request_transfer_encoding :: "string option"
  pe_request_content_type :: "string option"
  pe_request_body_sha256 :: "string option"
  pe_request_body_preview_base64 :: "string option"
  pe_request_body_truncated :: "bool option"
  pe_status_code :: "u16 option"
  pe_reason_phrase :: "string option"
  pe_response_headers_json :: "string option"
  pe_response_set_cookie_json :: "string option"
  pe_response_content_length :: "i64 option"
  pe_response_transfer_encoding :: "string option"
  pe_response_content_type :: "string option"
  pe_response_content_encoding :: "string option"
  pe_response_body_sha256 :: "string option"
  pe_response_body_preview_base64 :: "string option"
  pe_response_body_truncated :: "bool option"
  pe_frontend_tls_version :: "string option"
  pe_frontend_tls_cipher_suite :: "string option"
  pe_frontend_tls_alpn :: "string option"
  pe_frontend_tls_sni :: "string option"
  pe_frontend_tls_ja3 :: "string option"
  pe_frontend_tls_ja4 :: "string option"
  pe_backend_tls_version :: "string option"
  pe_backend_tls_cipher_suite :: "string option"
  pe_backend_tls_alpn :: "string option"
  pe_backend_tls_sni :: "string option"
  pe_backend_cert_leaf_sha256 :: "string option"
  pe_backend_cert_subject :: "string option"
  pe_backend_cert_issuer :: "string option"
  pe_backend_cert_not_before :: "offset_date_time option"
  pe_backend_cert_not_after :: "offset_date_time option"
  pe_dns_duration_ms :: "i64 option"
  pe_connect_duration_ms :: "i64 option"
  pe_tls_handshake_duration_ms :: "i64 option"
  pe_upstream_first_byte_ms :: "i64 option"
  pe_response_stream_duration_ms :: "i64 option"
  pe_error_kind :: "ErrorKind option"
  pe_error_text :: "string option"
  pe_proxy_result :: ProxyResult

text \<open>\<open>ProxyEvent::empty_json\<close>: the text of an empty JSON object.\<close>

definition empty_json :: string where
  "empty_json = ''{}''"

text \<open>A small successful event, that of the writer's test, with the given identifier.\<close>

definition sample_event :: "uuid \<Rightarrow> ProxyEvent" where
  "sample_event ident =
     \<lparr>pe_event_id = ident,
      pe_connection_id = ''c'',
      pe_request_start_ts = 0,
      pe_request_end_ts = 0,
      pe_duration_ms = 1,
      pe_client_ip = None,
      pe_client_port = None,
      pe_proxy_local_ip = None,
      pe_proxy_local_port = None,
      pe_frontend_server_name = None,
      pe_frontend_http_version = None,
      pe_frontend_scheme = ''https'',
      pe_backend_url = ''https://backend.test'',
      pe_backend_host = ''backend.test'',
      pe_backend_ip = None,
      pe_backend_port = Some 443,
      pe_backend_http_version = None,
      pe_upstream_connection_reused = None,
      pe_method = ''GET'',
      pe_authority = None,
      pe_path = ''/'',
      pe_query = None,
      pe_request_headers_json = ''{}'',
      pe_request_cookie_header = None,
      pe_request_cookies_json = None,
      pe_request_content_length = None,
      pe_request_transfer_encoding = None,
      pe_request_content_type = None,
      pe_request_body_sha256 = None,
      pe_request_body_preview_base64 = None,
      pe_request_body_truncated = Some False,
      pe_status_code = Some 200,
      pe_reason_phrase = Some ''OK'',
      pe_response_headers_json = Some ''{}'',
      pe_response_set_cookie_json = None,
      pe_response_content_length = None,
      pe_response_transfer_encoding = None,
      pe_response_content_type = None,
      pe_response_content_encoding = None,
      pe_response_body_sha256 = None,
      pe_response_body_preview_base64 = None,
      pe_response_body_truncated = Some False,
      pe_frontend_tls_version = None,
      pe_frontend_tls_cipher_suite = None,
      pe_frontend_tls_alpn = None,
      pe_frontend_tls_sni = None,
      pe_frontend_tls_ja3 = None,
      pe_frontend_tls_ja4 = None,
      pe_backend_tls_version = None,
      pe_backend_tls_cipher_suite = None,
      pe_backend_tls_alpn = None,
      pe_backend_tls_sni = None,
      pe_backend_cert_leaf_sha256 = None,
      pe_backend_cert_subject = None,
      pe_backend_cert_issuer = None,
      pe_backend_cert_not_before = None,
      pe_backend_cert_not_after = None,
      pe_dns_duration_ms = None,
      pe_connect_duration_ms = None,
      pe_tls_handshake_duration_ms = None,
      pe_upstream_first_byte_ms = None,
      pe_response_stream_duration_ms = None,
      pe_error_kind = None,
      pe_error_text = None,
      pe_proxy_result = Success\<rparr>"

end
