(* ===== verification/Tls_Metadata.thy ===== *)
theory Tls_Metadata
  imports Capture_Headers Event
begin

text \<open>
  The TLS facts an event records (\<^verbatim>\<open>src/tls.rs\<close>): what the frontend connection
  negotiated, and what the backend's certificate says.  The certificate parser and
  the hash are parameters.
\<close>

text \<open>Subject, issuer and validity of a certificate, if it parses.\<close>

record cert_ops =
  x509_parse :: "bytes \<Rightarrow> (string \<times> string \<times> offset_date_time \<times> offset_date_time) option"
  sha256_digest :: "bytes \<Rightarrow> bytes"

record FrontendTlsMetadata =
  ft_version :: "string option"
  ft_cipher_suite :: "string option"
  ft_alpn :: "string option"
  ft_sni :: "string option"
  ft_ja3 :: "string option"
  ft_ja4 :: "string option"

record BackendTlsMetadata =
  bt_version :: "string option"
  bt_cipher_suite :: "string option"
  bt_alpn :: "string option"
  bt_sni :: "string option"
  bt_cert_leaf_sha256 :: "string option"
  bt_cert_subject :: "string option"
  bt_cert_issuer :: "string option"
  bt_cert_not_before :: "offset_date_time option"
  bt_cert_not_after :: "offset_date_time option"

definition FrontendTlsMetadata_default :: FrontendTlsMetadata where
  "FrontendTlsMetadata_default =
     \<lparr>ft_version = None, ft_cipher_suite = None, ft_alpn = None, ft_sni = None, ft_ja3 = None,
      ft_ja4 = None\<rparr>"

definition BackendTlsMetadata_default :: BackendTlsMetadata where
  "BackendTlsMetadata_default =
     \<lparr>bt_version = None, bt_cipher_suite = None, bt_alpn = None, bt_sni = None,
      bt_cert_leaf_sha256 = None, bt_cert_subject = None, bt_cert_issuer = None,
      bt_cert_not_before = None, bt_cert_not_after = None\<rparr>"

definition frontend_tls_metadata :: "'x ext_ops \<Rightarrow> 'x \<Rightarrow> FrontendTlsMetadata" where
  "frontend_tls_metadata ext x =
     (let m = FrontendTlsMetadata_default;
          m = (case ext_tls_parameters ext x of
                 Some p \<Rightarrow> m\<lparr>ft_version := Some (tp_version p), ft_alpn := tp_alpn p\<rparr>
               | None \<Rightarrow> m);
          m = m\<lparr>ft_sni := ext_client_hello_sni ext x\<rparr> in
      m\<lparr>ft_ja3 := ext_ja3 ext x, ft_ja4 := ext_ja4 ext x\<rparr>)"

definition populate_cert_metadata ::
  "cert_ops \<Rightarrow> text_ops \<Rightarrow> BackendTlsMetadata \<Rightarrow> bytes list \<Rightarrow> BackendTlsMetadata" where
  "populate_cert_metadata co tx m chain =
     (case chain of
        [] \<Rightarrow> m
      | leaf # _ \<Rightarrow>
          let m = m\<lparr>bt_cert_leaf_sha256 := Some (hex_encode tx (sha256_digest co leaf))\<rparr> in
          case x509_parse co leaf of
            None \<Rightarrow> m
          | Some (subject, issuer, not_before, not_after) \<Rightarrow>
              m\<lparr>bt_cert_subject := Some subject, bt_cert_issuer := Some issuer,
                bt_cert_not_before := Some not_before, bt_cert_not_after := Some not_after\<rparr>)"

definition backend_tls_metadata ::
  "cert_ops \<Rightarrow> text_ops \<Rightarrow> 'x ext_ops \<Rightarrow> 'x \<Rightarrow> string \<Rightarrow> BackendTlsMetadata" where
  "backend_tls_metadata co tx ext x configured_sni =
     (let m = BackendTlsMetadata_default\<lparr>bt_sni := Some configured_sni\<rparr> in
      case ext_tls_parameters ext x of
        None \<Rightarrow> m
      | Some p \<Rightarrow>
          let m = m\<lparr>bt_version := Some (tp_version p), bt_alpn := tp_alpn p\<rparr> in
          case tp_chain p of
            None \<Rightarrow> m
          | Some chain \<Rightarrow> populate_cert_metadata co tx m chain)"

end
