(* ===== verification/Body_Accumulator.thy ===== *)
theory Body_Accumulator
  imports Json
begin

text \<open>
  \<open>BodyAccumulator\<close> of \<^verbatim>\<open>src/capture.rs\<close>: the running hash and the retained prefix of
  a body that is observed chunk by chunk.  The hash function is a parameter with an
  incremental interface; the locale \<open>streaming_hash\<close> states that feeding chunks is
  feeding their concatenation.  The summary of a body depends on its bytes only, not
  on how they were cut into chunks.
\<close>

section \<open>Incremental hashing\<close>

record 's sha_ops =
  sha_new :: 's
  sha_update :: "'s \<Rightarrow> bytes \<Rightarrow> 's"
  sha_finalize :: "'s \<Rightarrow> bytes"

locale streaming_hash =
  fixes sha :: "'s sha_ops" and digest :: "bytes \<Rightarrow> bytes"
  assumes finalize_updates: "sha_finalize sha (foldl (sha_update sha) (sha_new sha) chunks) = digest (concat chunks)"

text \<open>A reference implementation that hashes nothing: the digest is the message.\<close>

definition id_sha :: "bytes sha_ops" where
  "id_sha = \<lparr>sha_new = [], sha_update = (@), sha_finalize = (\<lambda>s. s)\<rparr>"

interpretation id_sha: streaming_hash id_sha "\<lambda>b. b"
proof
  have "foldl (@) s chunks = s @ concat chunks" for s :: bytes and chunks
    by (induction chunks arbitrary: s) auto
  then show "sha_finalize id_sha (foldl (sha_update id_sha) (sha_new id_sha) chunks) = concat chunks" for chunks
    by (simp add: id_sha_def)
qed

section \<open>The accumulator\<close>

record 's BodyAccumulator =
  ba_max_bytes :: usize
  ba_hasher :: 's
  ba_retained_bytes :: bytes
  ba_truncated :: bool
  ba_saw_bytes :: bool

record BodySummary =
  bs_sha256 :: "string option"
  bs_preview_base64 :: "string option"
  bs_truncated :: "bool option"

definition BodyAccumulator_new :: "'s sha_ops \<Rightarrow> usize \<Rightarrow> 's BodyAccumulator" where
  "BodyAccumulator_new sha max_bytes =
     \<lparr>ba_max_bytes = max_bytes, ba_hasher = sha_new sha, ba_retained_bytes = [],
      ba_truncated = False, ba_saw_bytes = False\<rparr>"

definition observe :: "'s sha_ops \<Rightarrow> bytes \<Rightarrow> 's BodyAccumulator \<Rightarrow> 's BodyAccumulator" where
  "observe sha chunk a =
     (if chunk = [] then a
      else
        let a = a\<lparr>ba_saw_bytes := True, ba_hasher := sha_update sha (ba_hasher a) chunk\<rparr> in
        if length (ba_retained_bytes a) < unat (ba_max_bytes a) then
          let remaining = unat (ba_max_bytes a) - length (ba_retained_bytes a);
              n = min remaining (length chunk);
              a = a\<lparr>ba_retained_bytes := ba_retained_bytes a @ take n chunk\<rparr> in
          if n < length chunk then a\<lparr>ba_truncated := True\<rparr> else a
        else a\<lparr>ba_truncated := True\<rparr>)"

definition finish :: "'s sha_ops \<Rightarrow> text_ops \<Rightarrow> 's BodyAccumulator \<Rightarrow> BodySummary" where
  "finish sha tx a =
     \<lparr>bs_sha256 = (if ba_saw_bytes a then Some (hex_encode tx (sha_finalize sha (ba_hasher a))) else None),
      bs_preview_base64 =
        (if ba_retained_bytes a \<noteq> [] then Some (base64_encode tx (ba_retained_bytes a)) else None),
      bs_truncated = Some (ba_truncated a)\<rparr>"

section \<open>The summary of a body\<close>

text \<open>The abstract specification: the summary of the bytes seen.\<close>

definition summary_of :: "(bytes \<Rightarrow> bytes) \<Rightarrow> text_ops \<Rightarrow> usize \<Rightarrow> bytes \<Rightarrow> BodySummary" where
  "summary_of digest tx max_bytes body =
     \<lparr>bs_sha256 = (if body = [] then None else Some (hex_encode tx (digest body))),
      bs_preview_base64 =
        (let preview = take (unat max_bytes) body in
         if preview = [] then None else Some (base64_encode tx preview)),
      bs_truncated = Some (unat max_bytes < length body)\<rparr>"

text \<open>What the accumulator holds after a list of chunks.\<close>

definition accumulates :: "'s sha_ops \<Rightarrow> usize \<Rightarrow> bytes list \<Rightarrow> 's BodyAccumulator \<Rightarrow> bool" where
  "accumulates sha max_bytes chunks a \<longleftrightarrow>
     ba_max_bytes a = max_bytes
     \<and> ba_hasher a = foldl (sha_update sha) (sha_new sha) (filter (\<lambda>c. c \<noteq> []) chunks)
     \<and> ba_retained_bytes a = take (unat max_bytes) (concat chunks)
     \<and> ba_truncated a = (unat max_bytes < length (concat chunks))
     \<and> ba_saw_bytes a = (concat chunks \<noteq> [])"

lemma observe_Nil [simp]: "observe sha [] a = a"
  by (simp add: observe_def)

lemma accumulates_new [wf_intros]: "accumulates sha m [] (BodyAccumulator_new sha m)"
  by (simp add: accumulates_def BodyAccumulator_new_def)

lemma accumulates_observe [wf_intros]:
  assumes "accumulates sha m chunks a"
  shows "accumulates sha m (chunks @ [chunk]) (observe sha chunk a)"
proof (cases "chunk = []")
  case True
  with assms show ?thesis by (simp add: accumulates_def observe_def)
next
  case False
  with assms show ?thesis
    by (auto simp: accumulates_def observe_def Let_def min_def)
qed

lemma accumulates_foldl:
  "accumulates sha m (pre @ chunks) (foldl (\<lambda>a c. observe sha c a) a chunks)"
  if "accumulates sha m pre a"
  using that
proof (induction chunks arbitrary: pre a)
  case (Cons c chunks)
  from Cons.IH [OF accumulates_observe [OF Cons.prems, of c]] show ?case by simp
qed simp

context streaming_hash
begin

lemma concat_nonempty: "concat (filter (\<lambda>c. c \<noteq> []) chunks) = concat chunks"
  by (induction chunks) auto

lemma accumulates_finish:
  assumes "accumulates sha m chunks a"
  shows "finish sha tx a = summary_of digest tx m (concat chunks)"
  using assms
  by (auto simp: accumulates_def finish_def summary_of_def Let_def finalize_updates concat_nonempty)

end

section \<open>Properties\<close>

text \<open>C13: the summary of an observed body is that of its bytes: the hash of the whole body (none if
  it is empty), its first \<open>max_bytes\<close> bytes as preview, and whether it was longer; how the body
  was cut into chunks does not matter.\<close>

theorem body_summary_refines:
  assumes "streaming_hash sha digest"
  shows "finish sha tx (foldl (\<lambda>a c. observe sha c a) (BodyAccumulator_new sha m) chunks) =
    summary_of digest tx m (concat chunks)"
  using streaming_hash.accumulates_finish [OF assms accumulates_foldl [OF accumulates_new, of sha m chunks]]
  by simp

theorem body_summary_refines_witness:
  "finish id_sha test_text (foldl (\<lambda>a c. observe id_sha c a) (BodyAccumulator_new id_sha 5) [''he'', [], ''llo!'']) =
     summary_of (\<lambda>b. b) test_text 5 ''hello!''"
  using body_summary_refines [OF id_sha.streaming_hash_axioms, of test_text 5 "[''he'', [], ''llo!'']"] by simp

end
