(* ===== verification/Entity.thy ===== *)
theory Entity
  imports Event Rust_Str
begin

text \<open>
  \<^verbatim>\<open>src/entity.rs\<close> and \<^verbatim>\<open>src/migration.rs\<close>: the row of the table
  \<^verbatim>\<open>proxy_events\<close> as the ORM entity sees it, and the table the migration creates.
  The two files spell the 65 columns out independently; the point proved is that
  they agree, so that every row the program can build fits the table.
\<close>

section \<open>The entity\<close>

record Model =
  m_event_id :: string
  m_connection_id :: string
  m_request_start_ts :: string
  m_request_end_ts :: string
  m_duration_ms :: i64
  m_client_ip :: "string option"
  m_client_port :: "i32 option"
  m_proxy_local_ip :: "string option"
  m_proxy_local_port :: "i32 option"
  m_frontend_server_name :: "string option"
  m_frontend_http_version :: "string option"
  m_frontend_scheme :: string
  m_backend_url :: string
  m_backend_host :: string
  m_backend_ip :: "string option"
  m_backend_port :: "i32 option"
  m_backend_http_version :: "string option"
  m_upstream_connection_reused :: "bool option"
  m_method :: string
  m_authority :: "string option"
  m_path :: string
  m_query :: "string option"
  m_request_headers_json :: string
  m_request_cookie_header :: "string option"
  m_request_cookies_json :: "string option"
  m_request_content_length :: "i64 option"
  m_request_transfer_encoding :: "string option"
  m_request_content_type :: "string option"
  m_request_body_sha256 :: "string option"
  m_request_body_preview_base64 :: "string option"
  m_request_body_truncated :: "bool option"
  m_status_code :: "i32 option"
  m_reason_phrase :: "string option"
  m_response_headers_json :: "string option"
  m_response_set_cookie_json :: "string option"
  m_response_content_length :: "i64 option"
  m_response_transfer_encoding :: "string option"
  m_response_content_type :: "string option"
  m_response_content_encoding :: "string option"
  m_response_body_sha256 :: "string option"
  m_response_body_preview_base64 :: "string option"
  m_response_body_truncated :: "bool option"
  m_frontend_tls_version :: "string option"
  m_frontend_tls_cipher_suite :: "string option"
  m_frontend_tls_alpn :: "string option"
  m_frontend_tls_sni :: "string option"
  m_frontend_tls_ja3 :: "string option"
  m_frontend_tls_ja4 :: "string option"
  m_backend_tls_version :: "string option"
  m_backend_tls_cipher_suite :: "string option"
  m_backend_tls_alpn :: "string option"
  m_backend_tls_sni :: "string option"
  m_backend_cert_leaf_sha256 :: "string option"
  m_backend_cert_subject :: "string option"
  m_backend_cert_issuer :: "string option"
  m_backend_cert_not_before :: "string option"
  m_backend_cert_not_after :: "string option"
  m_dns_duration_ms :: "i64 option"
  m_connect_duration_ms :: "i64 option"
  m_tls_handshake_duration_ms :: "i64 option"
  m_upstream_first_byte_ms :: "i64 option"
  m_response_stream_duration_ms :: "i64 option"
  m_error_kind :: "string option"
  m_error_text :: "string option"
  m_proxy_result :: string

text \<open>SQL values, and a row as the entity binds it: column names with values.\<close>

datatype sql_value =
    SqlNull | SqlText string | SqlInt i32 | SqlBigInt i64 | SqlBool bool

definition sql_opt :: "('a \<Rightarrow> sql_value) \<Rightarrow> 'a option \<Rightarrow> sql_value" where
  "sql_opt f x = (case x of None \<Rightarrow> SqlNull | Some v \<Rightarrow> f v)"

definition model_values :: "Model \<Rightarrow> (string \<times> sql_value) list" where
  "model_values m =
     [(''event_id'', SqlText (m_event_id m)),
      (''connection_id'', SqlText (m_connection_id m)),
      (''request_start_ts'', SqlText (m_request_start_ts m)),
      (''request_end_ts'', SqlText (m_request_end_ts m)),
      (''duration_ms'', SqlBigInt (m_duration_ms m)),
      (''client_ip'', sql_opt SqlText (m_client_ip m)),
      (''client_port'', sql_opt SqlInt (m_client_port m)),
      (''proxy_local_ip'', sql_opt SqlText (m_proxy_local_ip m)),
      (''proxy_local_port'', sql_opt SqlInt (m_proxy_local_port m)),
      (''frontend_server_name'', sql_opt SqlText (m_frontend_server_name m)),
      (''frontend_http_version'', sql_opt SqlText (m_frontend_http_version m)),
      (''frontend_scheme'', SqlText (m_frontend_scheme m)),
      (''backend_url'', SqlText (m_backend_url m)),
      (''backend_host'', SqlText (m_backend_host m)),
      (''backend_ip'', sql_opt SqlText (m_backend_ip m)),
      (''backend_port'', sql_opt SqlInt (m_backend_port m)),
      (''backend_http_version'', sql_opt SqlText (m_backend_http_version m)),
      (''upstream_connection_reused'', sql_opt SqlBool (m_upstream_connection_reused m)),
      (''method'', SqlText (m_method m)),
      (''authority'', sql_opt SqlText (m_authority m)),
      (''path'', SqlText (m_path m)),
      (''query'', sql_opt SqlText (m_query m)),
      (''request_headers_json'', SqlText (m_request_headers_json m)),
      (''request_cookie_header'', sql_opt SqlText (m_request_cookie_header m)),
      (''request_cookies_json'', sql_opt SqlText (m_request_cookies_json m)),
      (''request_content_length'', sql_opt SqlBigInt (m_request_content_length m)),
      (''request_transfer_encoding'', sql_opt SqlText (m_request_transfer_encoding m)),
      (''request_content_type'', sql_opt SqlText (m_request_content_type m)),
      (''request_body_sha256'', sql_opt SqlText (m_request_body_sha256 m)),
      (''request_body_preview_base64'', sql_opt SqlText (m_request_body_preview_base64 m)),
      (''request_body_truncated'', sql_opt SqlBool (m_request_body_truncated m)),
      (''status_code'', sql_opt SqlInt (m_status_code m)),
      (''reason_phrase'', sql_opt SqlText (m_reason_phrase m)),
      (''response_headers_json'', sql_opt SqlText (m_response_headers_json m)),
      (''response_set_cookie_json'', sql_opt SqlText (m_response_set_cookie_json m)),
      (''response_content_length'', sql_opt SqlBigInt (m_response_content_length m)),
      (''response_transfer_encoding'', sql_opt SqlText (m_response_transfer_encoding m)),
      (''response_content_type'', sql_opt SqlText (m_response_content_type m)),
      (''response_content_encoding'', sql_opt SqlText (m_response_content_encoding m)),
      (''response_body_sha256'', sql_opt SqlText (m_response_body_sha256 m)),
      (''response_body_preview_base64'', sql_opt SqlText (m_response_body_preview_base64 m)),
      (''response_body_truncated'', sql_opt SqlBool (m_response_body_truncated m)),
      (''frontend_tls_version'', sql_opt SqlText (m_frontend_tls_version m)),
      (''frontend_tls_cipher_suite'', sql_opt SqlText (m_frontend_tls_cipher_suite m)),
      (''frontend_tls_alpn'', sql_opt SqlText (m_frontend_tls_alpn m)),
      (''frontend_tls_sni'', sql_opt SqlText (m_frontend_tls_sni m)),
      (''frontend_tls_ja3'', sql_opt SqlText (m_frontend_tls_ja3 m)),
      (''frontend_tls_ja4'', sql_opt SqlText (m_frontend_tls_ja4 m)),
      (''backend_tls_version'', sql_opt SqlText (m_backend_tls_version m)),
      (''backend_tls_cipher_suite'', sql_opt SqlText (m_backend_tls_cipher_suite m)),
      (''backend_tls_alpn'', sql_opt SqlText (m_backend_tls_alpn m)),
      (''backend_tls_sni'', sql_opt SqlText (m_backend_tls_sni m)),
      (''backend_cert_leaf_sha256'', sql_opt SqlText (m_backend_cert_leaf_sha256 m)),
      (''backend_cert_subject'', sql_opt SqlText (m_backend_cert_subject m)),
      (''backend_cert_issuer'', sql_opt SqlText (m_backend_cert_issuer m)),
      (''backend_cert_not_before'', sql_opt SqlText (m_backend_cert_not_before m)),
      (''backend_cert_not_after'', sql_opt SqlText (m_backend_cert_not_after m)),
      (''dns_duration_ms'', sql_opt SqlBigInt (m_dns_duration_ms m)),
      (''connect_duration_ms'', sql_opt SqlBigInt (m_connect_duration_ms m)),
      (''tls_handshake_duration_ms'', sql_opt SqlBigInt (m_tls_handshake_duration_ms m)),
      (''upstream_first_byte_ms'', sql_opt SqlBigInt (m_upstream_first_byte_ms m)),
      (''response_stream_duration_ms'', sql_opt SqlBigInt (m_response_stream_duration_ms m)),
      (''error_kind'', sql_opt SqlText (m_error_kind m)),
      (''error_text'', sql_opt SqlText (m_error_text m)),
      (''proxy_result'', SqlText (m_proxy_result m))]"

section \<open>The migration\<close>

text \<open>
  The identifiers of the enum \<open>ProxyEvents\<close>.  \<open>DeriveIden\<close> is documented to name the
  table after the enum and a column after its variant, both in snake case: an
  underscore before every capital but the first, and all letters in lower case.
\<close>

type_synonym ProxyEvents = string

definition ProxyEvents_columns :: "ProxyEvents list" where
  "ProxyEvents_columns =
     [''EventId'', ''ConnectionId'', ''RequestStartTs'',
      ''RequestEndTs'', ''DurationMs'', ''ClientIp'',
      ''ClientPort'', ''ProxyLocalIp'', ''ProxyLocalPort'',
      ''FrontendServerName'', ''FrontendHttpVersion'', ''FrontendScheme'',
      ''BackendUrl'', ''BackendHost'', ''BackendIp'',
      ''BackendPort'', ''BackendHttpVersion'', ''UpstreamConnectionReused'',
      ''Method'', ''Authority'', ''Path'',
      ''Query'', ''RequestHeadersJson'', ''RequestCookieHeader'',
      ''RequestCookiesJson'', ''RequestContentLength'', ''RequestTransferEncoding'',
      ''RequestContentType'', ''RequestBodySha256'', ''RequestBodyPreviewBase64'',
      ''RequestBodyTruncated'', ''StatusCode'', ''ReasonPhrase'',
      ''ResponseHeadersJson'', ''ResponseSetCookieJson'', ''ResponseContentLength'',
      ''ResponseTransferEncoding'', ''ResponseContentType'', ''ResponseContentEncoding'',
      ''ResponseBodySha256'', ''ResponseBodyPreviewBase64'', ''ResponseBodyTruncated'',
      ''FrontendTlsVersion'', ''FrontendTlsCipherSuite'', ''FrontendTlsAlpn'',
      ''FrontendTlsSni'', ''FrontendTlsJa3'', ''FrontendTlsJa4'',
      ''BackendTlsVersion'', ''BackendTlsCipherSuite'', ''BackendTlsAlpn'',
      ''BackendTlsSni'', ''BackendCertLeafSha256'', ''BackendCertSubject'',
      ''BackendCertIssuer'', ''BackendCertNotBefore'', ''BackendCertNotAfter'',
      ''DnsDurationMs'', ''ConnectDurationMs'', ''TlsHandshakeDurationMs'',
      ''UpstreamFirstByteMs'', ''ResponseStreamDurationMs'', ''ErrorKind'',
      ''ErrorText'', ''ProxyResult'']"

fun snake_tail :: "string \<Rightarrow> string" where
  "snake_tail [] = []"
| "snake_tail (c # s) =
     (if ascii_lower c \<noteq> c then CHR ''_'' # ascii_lower c # snake_tail s else c # snake_tail s)"

definition iden :: "ProxyEvents \<Rightarrow> string" where
  "iden v = (case v of [] \<Rightarrow> [] | c # s \<Rightarrow> ascii_lower c # snake_tail s)"

datatype column_type = ColString | ColText | ColInteger | ColBigInteger | ColBoolean

record ColumnDef =
  cd_column :: ProxyEvents
  cd_type :: column_type
  cd_not_null :: bool
  cd_primary_key :: bool

definition col_string :: "ProxyEvents \<Rightarrow> ColumnDef" where
  "col_string c = \<lparr>cd_column = c, cd_type = ColString, cd_not_null = True, cd_primary_key = False\<rparr>"
definition col_string_null :: "ProxyEvents \<Rightarrow> ColumnDef" where
  "col_string_null c = \<lparr>cd_column = c, cd_type = ColString, cd_not_null = False, cd_primary_key = False\<rparr>"
definition col_text :: "ProxyEvents \<Rightarrow> ColumnDef" where
  "col_text c = \<lparr>cd_column = c, cd_type = ColText, cd_not_null = True, cd_primary_key = False\<rparr>"
definition col_text_null :: "ProxyEvents \<Rightarrow> ColumnDef" where
  "col_text_null c = \<lparr>cd_column = c, cd_type = ColText, cd_not_null = False, cd_primary_key = False\<rparr>"
definition col_integer_null :: "ProxyEvents \<Rightarrow> ColumnDef" where
  "col_integer_null c = \<lparr>cd_column = c, cd_type = ColInteger, cd_not_null = False, cd_primary_key = False\<rparr>"
definition col_big_integer :: "ProxyEvents \<Rightarrow> ColumnDef" where
  "col_big_integer c = \<lparr>cd_column = c, cd_type = ColBigInteger, cd_not_null = True, cd_primary_key = False\<rparr>"
definition col_big_integer_null :: "ProxyEvents \<Rightarrow> ColumnDef" where
  "col_big_integer_null c = \<lparr>cd_column = c, cd_type = ColBigInteger, cd_not_null = False, cd_primary_key = False\<rparr>"
definition col_boolean_null :: "ProxyEvents \<Rightarrow> ColumnDef" where
  "col_boolean_null c = \<lparr>cd_column = c, cd_type = ColBoolean, cd_not_null = False, cd_primary_key = False\<rparr>"

lemmas col_defs = col_string_def col_string_null_def col_text_def col_text_null_def
  col_integer_null_def col_big_integer_def col_big_integer_null_def col_boolean_null_def

definition primary_key :: "ColumnDef \<Rightarrow> ColumnDef" where
  "primary_key c = c\<lparr>cd_primary_key := True\<rparr>"

text \<open>\<open>CreateProxyEvents::up\<close>: the columns of the table, in order.\<close>

definition proxy_events_columns :: "ColumnDef list" where
  "proxy_events_columns =
     [primary_key (col_string ''EventId''),
      col_string ''ConnectionId'',
      col_string ''RequestStartTs'',
      col_string ''RequestEndTs'',
      col_big_integer ''DurationMs'',
      col_string_null ''ClientIp'',
      col_integer_null ''ClientPort'',
      col_string_null ''ProxyLocalIp'',
      col_integer_null ''ProxyLocalPort'',
      col_string_null ''FrontendServerName'',
      col_string_null ''FrontendHttpVersion'',
      col_string ''FrontendScheme'',
      col_string ''BackendUrl'',
      col_string ''BackendHost'',
      col_string_null ''BackendIp'',
      col_integer_null ''BackendPort'',
      col_string_null ''BackendHttpVersion'',
      col_boolean_null ''UpstreamConnectionReused'',
      col_string ''Method'',
      col_string_null ''Authority'',
      col_string ''Path'',
      col_string_null ''Query'',
      col_text ''RequestHeadersJson'',
      col_text_null ''RequestCookieHeader'',
      col_text_null ''RequestCookiesJson'',
      col_big_integer_null ''RequestContentLength'',
      col_string_null ''RequestTransferEncoding'',
      col_string_null ''RequestContentType'',
      col_string_null ''RequestBodySha256'',
      col_text_null ''RequestBodyPreviewBase64'',
      col_boolean_null ''RequestBodyTruncated'',
      col_integer_null ''StatusCode'',
      col_string_null ''ReasonPhrase'',
      col_text_null ''ResponseHeadersJson'',
      col_text_null ''ResponseSetCookieJson'',
      col_big_integer_null ''ResponseContentLength'',
      col_string_null ''ResponseTransferEncoding'',
      col_string_null ''ResponseContentType'',
      col_string_null ''ResponseContentEncoding'',
      col_string_null ''ResponseBodySha256'',
      col_text_null ''ResponseBodyPreviewBase64'',
      col_boolean_null ''ResponseBodyTruncated'',
      col_string_null ''FrontendTlsVersion'',
      col_string_null ''FrontendTlsCipherSuite'',
      col_string_null ''FrontendTlsAlpn'',
      col_string_null ''FrontendTlsSni'',
      col_string_null ''FrontendTlsJa3'',
      col_string_null ''FrontendTlsJa4'',
      col_string_null ''BackendTlsVersion'',
      col_string_null ''BackendTlsCipherSuite'',
      col_string_null ''BackendTlsAlpn'',
      col_string_null ''BackendTlsSni'',
      col_string_null ''BackendCertLeafSha256'',
      col_text_null ''BackendCertSubject'',
      col_text_null ''BackendCertIssuer'',
      col_string_null ''BackendCertNotBefore'',
      col_string_null ''BackendCertNotAfter'',
      col_big_integer_null ''DnsDurationMs'',
      col_big_integer_null ''ConnectDurationMs'',
      col_big_integer_null ''TlsHandshakeDurationMs'',
      col_big_integer_null ''UpstreamFirstByteMs'',
      col_big_integer_null ''ResponseStreamDurationMs'',
      col_string_null ''ErrorKind'',
      col_text_null ''ErrorText'',
      col_string ''ProxyResult'']"

section \<open>Rows fit the table\<close>

text \<open>The names of the entity's fields.\<close>

definition column_names :: "string list" where
  "column_names =
     [''event_id'', ''connection_id'', ''request_start_ts'',
      ''request_end_ts'', ''duration_ms'', ''client_ip'',
      ''client_port'', ''proxy_local_ip'', ''proxy_local_port'',
      ''frontend_server_name'', ''frontend_http_version'', ''frontend_scheme'',
      ''backend_url'', ''backend_host'', ''backend_ip'',
      ''backend_port'', ''backend_http_version'', ''upstream_connection_reused'',
      ''method'', ''authority'', ''path'',
      ''query'', ''request_headers_json'', ''request_cookie_header'',
      ''request_cookies_json'', ''request_content_length'', ''request_transfer_encoding'',
      ''request_content_type'', ''request_body_sha256'', ''request_body_preview_base64'',
      ''request_body_truncated'', ''status_code'', ''reason_phrase'',
      ''response_headers_json'', ''response_set_cookie_json'', ''response_content_length'',
      ''response_transfer_encoding'', ''response_content_type'', ''response_content_encoding'',
      ''response_body_sha256'', ''response_body_preview_base64'', ''response_body_truncated'',
      ''frontend_tls_version'', ''frontend_tls_cipher_suite'', ''frontend_tls_alpn'',
      ''frontend_tls_sni'', ''frontend_tls_ja3'', ''frontend_tls_ja4'',
      ''backend_tls_version'', ''backend_tls_cipher_suite'', ''backend_tls_alpn'',
      ''backend_tls_sni'', ''backend_cert_leaf_sha256'', ''backend_cert_subject'',
      ''backend_cert_issuer'', ''backend_cert_not_before'', ''backend_cert_not_after'',
      ''dns_duration_ms'', ''connect_duration_ms'', ''tls_handshake_duration_ms'',
      ''upstream_first_byte_ms'', ''response_stream_duration_ms'', ''error_kind'',
      ''error_text'', ''proxy_result'']"

text \<open>When a value may be stored in a column.\<close>

fun value_fits :: "sql_value \<Rightarrow> ColumnDef \<Rightarrow> bool" where
  "value_fits SqlNull c \<longleftrightarrow> \<not> cd_not_null c"
| "value_fits (SqlText _) c \<longleftrightarrow> cd_type c = ColString \<or> cd_type c = ColText"
| "value_fits (SqlInt _) c \<longleftrightarrow> cd_type c = ColInteger"
| "value_fits (SqlBigInt _) c \<longleftrightarrow> cd_type c = ColBigInteger"
| "value_fits (SqlBool _) c \<longleftrightarrow> cd_type c = ColBoolean"

lemma value_fits_sql_opt:
  "\<not> cd_not_null c \<Longrightarrow> cd_type c = ColString \<or> cd_type c = ColText \<Longrightarrow>
     value_fits (sql_opt SqlText x) c"
  "\<not> cd_not_null c \<Longrightarrow> cd_type c = ColInteger \<Longrightarrow> value_fits (sql_opt SqlInt y) c"
  "\<not> cd_not_null c \<Longrightarrow> cd_type c = ColBigInteger \<Longrightarrow> value_fits (sql_opt SqlBigInt z) c"
  "\<not> cd_not_null c \<Longrightarrow> cd_type c = ColBoolean \<Longrightarrow> value_fits (sql_opt SqlBool b) c"
  by (simp_all add: sql_opt_def split: option.split)

text \<open>C23: every row the entity can hold fits the table the migration creates: the same 65 columns
  in the same order, each value of its column's type and null only where the column allows it;
  the column names are distinct and the one primary key is the event id.\<close>

theorem rows_fit_table:
  "map fst (model_values m) = map (iden \<circ> cd_column) proxy_events_columns
   \<and> list_all2 (value_fits \<circ> snd) (model_values m) proxy_events_columns
   \<and> distinct (map (iden \<circ> cd_column) proxy_events_columns)
   \<and> map (iden \<circ> cd_column) (filter cd_primary_key proxy_events_columns) = [''event_id'']
   \<and> map cd_column proxy_events_columns = ProxyEvents_columns
   \<and> length proxy_events_columns = 65"
proof (intro conjI)
  have "map (iden \<circ> cd_column) proxy_events_columns = column_names" by code_simp
  then show "map fst (model_values m) = map (iden \<circ> cd_column) proxy_events_columns"
    by (simp add: model_values_def column_names_def)
  show "list_all2 (value_fits \<circ> snd) (model_values m) proxy_events_columns"
    by (simp add: model_values_def proxy_events_columns_def col_defs primary_key_def value_fits_sql_opt)
  show "distinct (map (iden \<circ> cd_column) proxy_events_columns)"
    by code_simp
  show "map (iden \<circ> cd_column) (filter cd_primary_key proxy_events_columns) = [''event_id'']"
    by code_simp
  show "map cd_column proxy_events_columns = ProxyEvents_columns"
    by code_simp
  show "length proxy_events_columns = 65"
    by (simp add: proxy_events_columns_def)
qed

end
