(* ===== verification/Event_Row.thy ===== *)
theory Event_Row
  imports Entity Rust_Int
begin

text \<open>
  The conversion of an event to a row (\<open>event_to_active_model\<close> of
  \<^verbatim>\<open>src/writer.rs\<close>).  The RFC 3339 formatting of a timestamp belongs to the
  \<open>time\<close> crate and is a parameter.  A stored row determines its event.
\<close>

definition format_timestamp ::
  "(offset_date_time \<Rightarrow> string option) \<Rightarrow> offset_date_time \<Rightarrow> string anyhow_result" where
  "format_timestamp rfc3339 t = ok_or ''format timestamp for SQLite storage'' (rfc3339 t)"

definition format_optional_timestamp ::
  "(offset_date_time \<Rightarrow> string option) \<Rightarrow> offset_date_time option \<Rightarrow>
     string option anyhow_result" where
  "format_optional_timestamp rfc3339 t =
     (case t of
        None \<Rightarrow> Inr None
      | Some t' \<Rightarrow> try_bind (format_timestamp rfc3339 t') (\<lambda>s. Inr (Some s)))"

text \<open>The row, given its formatted timestamps.\<close>

definition active_model ::
  "string \<Rightarrow> string \<Rightarrow> string option \<Rightarrow> string option \<Rightarrow> ProxyEvent \<Rightarrow> Model" where
  "active_model start_ts end_ts not_before not_after e =
       \<lparr>m_event_id = pe_event_id e,
        m_connection_id = pe_connection_id e,
        m_request_start_ts = start_ts,
        m_request_end_ts = end_ts,
        m_duration_ms = pe_duration_ms e,
        m_client_ip = pe_client_ip e,
        m_client_port = map_option ucast (pe_client_port e),
        m_proxy_local_ip = pe_proxy_local_ip e,
        m_proxy_local_port = map_option ucast (pe_proxy_local_port e),
        m_frontend_server_name = pe_frontend_server_name e,
        m_frontend_http_version = pe_frontend_http_version e,
        m_frontend_scheme = pe_frontend_scheme e,
        m_backend_url = pe_backend_url e,
        m_backend_host = pe_backend_host e,
        m_backend_ip = pe_backend_ip e,
        m_backend_port = map_option ucast (pe_backend_port e),
        m_backend_http_version = pe_backend_http_version e,
        m_upstream_connection_reused = pe_upstream_connection_reused e,
        m_method = pe_method e,
        m_authority = pe_authority e,
        m_path = pe_path e,
        m_query = pe_query e,
        m_request_headers_json = pe_request_headers_json e,
        m_request_cookie_header = pe_request_cookie_header e,
        m_request_cookies_json = pe_request_cookies_json e,
        m_request_content_length = pe_request_content_length e,
        m_request_transfer_encoding = pe_request_transfer_encoding e,
        m_request_content_type = pe_request_content_type e,
        m_request_body_sha256 = pe_request_body_sha256 e,
        m_request_body_preview_base64 = pe_request_body_preview_base64 e,
        m_request_body_truncated = pe_request_body_truncated e,
        m_status_code = map_option ucast (pe_status_code e),
        m_reason_phrase = pe_reason_phrase e,
        m_response_headers_json = pe_response_headers_json e,
        m_response_set_cookie_json = pe_response_set_cookie_json e,
        m_response_content_length = pe_response_content_length e,
        m_response_transfer_encoding = pe_response_transfer_encoding e,
        m_response_content_type = pe_response_content_type e,
        m_response_content_encoding = pe_response_content_encoding e,
        m_response_body_sha256 = pe_response_body_sha256 e,
        m_response_body_preview_base64 = pe_response_body_preview_base64 e,
        m_response_body_truncated = pe_response_body_truncated e,
        m_frontend_tls_version = pe_frontend_tls_version e,
        m_frontend_tls_cipher_suite = pe_frontend_tls_cipher_suite e,
        m_frontend_tls_alpn = pe_frontend_tls_alpn e,
        m_frontend_tls_sni = pe_frontend_tls_sni e,
        m_frontend_tls_ja3 = pe_frontend_tls_ja3 e,
        m_frontend_tls_ja4 = pe_frontend_tls_ja4 e,
        m_backend_tls_version = pe_backend_tls_version e,
        m_backend_tls_cipher_suite = pe_backend_tls_cipher_suite e,
        m_backend_tls_alpn = pe_backend_tls_alpn e,
        m_backend_tls_sni = pe_backend_tls_sni e,
        m_backend_cert_leaf_sha256 = pe_backend_cert_leaf_sha256 e,
        m_backend_cert_subject = pe_backend_cert_subject e,
        m_backend_cert_issuer = pe_backend_cert_issuer e,
        m_backend_cert_not_before = not_before,
        m_backend_cert_not_after = not_after,
        m_dns_duration_ms = pe_dns_duration_ms e,
        m_connect_duration_ms = pe_connect_duration_ms e,
        m_tls_handshake_duration_ms = pe_tls_handshake_duration_ms e,
        m_upstream_first_byte_ms = pe_upstream_first_byte_ms e,
        m_response_stream_duration_ms = pe_response_stream_duration_ms e,
        m_error_kind = map_option ErrorKind_as_str (pe_error_kind e),
        m_error_text = pe_error_text e,
        m_proxy_result = ProxyResult_as_str (pe_proxy_result e)\<rparr>"

definition event_to_active_model ::
  "(offset_date_time \<Rightarrow> string option) \<Rightarrow> ProxyEvent \<Rightarrow> Model anyhow_result" where
  "event_to_active_model rfc3339 e =
     try_bind (format_timestamp rfc3339 (pe_request_start_ts e)) (\<lambda>start_ts.
     try_bind (format_timestamp rfc3339 (pe_request_end_ts e)) (\<lambda>end_ts.
     try_bind (format_optional_timestamp rfc3339 (pe_backend_cert_not_before e)) (\<lambda>not_before.
     try_bind (format_optional_timestamp rfc3339 (pe_backend_cert_not_after e)) (\<lambda>not_after.
     Inr (active_model start_ts end_ts not_before not_after e)))))"


section \<open>Which events have a row\<close>

definition timestamps_format :: "(offset_date_time \<Rightarrow> string option) \<Rightarrow> ProxyEvent \<Rightarrow> bool" where
  "timestamps_format rfc3339 e \<longleftrightarrow>
     rfc3339 (pe_request_start_ts e) \<noteq> None \<and> rfc3339 (pe_request_end_ts e) \<noteq> None
     \<and> (case pe_backend_cert_not_before e of None \<Rightarrow> True | Some t \<Rightarrow> rfc3339 t \<noteq> None)
     \<and> (case pe_backend_cert_not_after e of None \<Rightarrow> True | Some t \<Rightarrow> rfc3339 t \<noteq> None)"

lemma format_timestamp_Inr: "format_timestamp f t = Inr s \<longleftrightarrow> f t = Some s"
  by (simp add: format_timestamp_def result_simps)

lemma format_optional_timestamp_Inr:
  "format_optional_timestamp f t = Inr s \<longleftrightarrow>
     (case t of None \<Rightarrow> s = None | Some t' \<Rightarrow> f t' \<noteq> None \<and> s = f t')"
  by (auto simp: format_optional_timestamp_def format_timestamp_Inr result_simps split: option.split)

lemma event_to_active_model_ok:
  "is_ok (event_to_active_model f e) \<longleftrightarrow> timestamps_format f e"
  by (auto simp: event_to_active_model_def timestamps_format_def format_timestamp_Inr
      format_optional_timestamp_Inr split: option.split)

section \<open>A row determines its event\<close>

text \<open>Reading a row back, given a parser of timestamps.\<close>

definition row_event :: "(string \<Rightarrow> offset_date_time) \<Rightarrow> Model \<Rightarrow> ProxyEvent" where
  "row_event parse m =
     \<lparr>pe_event_id = m_event_id m,
      pe_connection_id = m_connection_id m,
      pe_request_start_ts = parse (m_request_start_ts m),
      pe_request_end_ts = parse (m_request_end_ts m),
      pe_duration_ms = m_duration_ms m,
      pe_client_ip = m_client_ip m,
      pe_client_port = map_option ucast (m_client_port m),
      pe_proxy_local_ip = m_proxy_local_ip m,
      pe_proxy_local_port = map_option ucast (m_proxy_local_port m),
      pe_frontend_server_name = m_frontend_server_name m,
      pe_frontend_http_version = m_frontend_http_version m,
      pe_frontend_scheme = m_frontend_scheme m,
      pe_backend_url = m_backend_url m,
      pe_backend_host = m_backend_host m,
      pe_backend_ip = m_backend_ip m,
      pe_backend_port = map_option ucast (m_backend_port m),
      pe_backend_http_version = m_backend_http_version m,
      pe_upstream_connection_reused = m_upstream_connection_reused m,
      pe_method = m_method m,
      pe_authority = m_authority m,
      pe_path = m_path m,
      pe_query = m_query m,
      pe_request_headers_json = m_request_headers_json m,
      pe_request_cookie_header = m_request_cookie_header m,
      pe_request_cookies_json = m_request_cookies_json m,
      pe_request_content_length = m_request_content_length m,
      pe_request_transfer_encoding = m_request_transfer_encoding m,
      pe_request_content_type = m_request_content_type m,
      pe_request_body_sha256 = m_request_body_sha256 m,
      pe_request_body_preview_base64 = m_request_body_preview_base64 m,
      pe_request_body_truncated = m_request_body_truncated m,
      pe_status_code = map_option ucast (m_status_code m),
      pe_reason_phrase = m_reason_phrase m,
      pe_response_headers_json = m_response_headers_json m,
      pe_response_set_cookie_json = m_response_set_cookie_json m,
      pe_response_content_length = m_response_content_length m,
      pe_response_transfer_encoding = m_response_transfer_encoding m,
      pe_response_content_type = m_response_content_type m,
      pe_response_content_encoding = m_response_content_encoding m,
      pe_response_body_sha256 = m_response_body_sha256 m,
      pe_response_body_preview_base64 = m_response_body_preview_base64 m,
      pe_response_body_truncated = m_response_body_truncated m,
      pe_frontend_tls_version = m_frontend_tls_version m,
      pe_frontend_tls_cipher_suite = m_frontend_tls_cipher_suite m,
      pe_frontend_tls_alpn = m_frontend_tls_alpn m,
      pe_frontend_tls_sni = m_frontend_tls_sni m,
      pe_frontend_tls_ja3 = m_frontend_tls_ja3 m,
      pe_frontend_tls_ja4 = m_frontend_tls_ja4 m,
      pe_backend_tls_version = m_backend_tls_version m,
      pe_backend_tls_cipher_suite = m_backend_tls_cipher_suite m,
      pe_backend_tls_alpn = m_backend_tls_alpn m,
      pe_backend_tls_sni = m_backend_tls_sni m,
      pe_backend_cert_leaf_sha256 = m_backend_cert_leaf_sha256 m,
      pe_backend_cert_subject = m_backend_cert_subject m,
      pe_backend_cert_issuer = m_backend_cert_issuer m,
      pe_backend_cert_not_before = map_option parse (m_backend_cert_not_before m),
      pe_backend_cert_not_after = map_option parse (m_backend_cert_not_after m),
      pe_dns_duration_ms = m_dns_duration_ms m,
      pe_connect_duration_ms = m_connect_duration_ms m,
      pe_tls_handshake_duration_ms = m_tls_handshake_duration_ms m,
      pe_upstream_first_byte_ms = m_upstream_first_byte_ms m,
      pe_response_stream_duration_ms = m_response_stream_duration_ms m,
      pe_error_kind = Option.bind (m_error_kind m) (\<lambda>s. find (\<lambda>k. ErrorKind_as_str k = s) all_ErrorKind),
      pe_error_text = m_error_text m,
      pe_proxy_result = the (find (\<lambda>r. ProxyResult_as_str r = m_proxy_result m) all_ProxyResult)\<rparr>"

lemma ucast_u16_i32: "ucast (ucast (w :: u16) :: i32) = w"
  by (rule bit_word_eqI) (simp add: bit_simps)

lemma map_option_ucast: "map_option (ucast :: i32 \<Rightarrow> u16) (map_option (ucast :: u16 \<Rightarrow> i32) x) = x"
  by (cases x) (simp_all add: ucast_u16_i32)

lemma read_error_kind:
  "Option.bind (map_option ErrorKind_as_str x) (\<lambda>s. find (\<lambda>k. ErrorKind_as_str k = s) all_ErrorKind) = x"
  by (cases x) (simp_all add: error_kind.read_label)

lemma row_event_active_model:
  assumes "parse s = pe_request_start_ts e" and "parse t = pe_request_end_ts e"
    and "map_option parse n = pe_backend_cert_not_before e"
    and "map_option parse x = pe_backend_cert_not_after e"
  shows "row_event parse (active_model s t n x e) = e"
  by (rule ProxyEvent.equality,
      simp_all only: row_event_def active_model_def ProxyEvent.select_convs Model.select_convs
        assms map_option_ucast read_error_kind proxy_result.read_label option.sel, simp)

text \<open>C22: storing an event loses nothing: if a timestamp can be read back from its RFC 3339 text,
  then the event can be read back from its row.\<close>

theorem row_determines_event:
  assumes "\<And>t s. rfc3339 t = Some s \<Longrightarrow> parse s = t"
    and "event_to_active_model rfc3339 e = Inr m"
  shows "row_event parse m = e"
proof -
  from assms(2) obtain s t n x where
    m: "m = active_model s t n x e"
    and st: "rfc3339 (pe_request_start_ts e) = Some s" "rfc3339 (pe_request_end_ts e) = Some t"
    and n: "format_optional_timestamp rfc3339 (pe_backend_cert_not_before e) = Inr n"
    and x: "format_optional_timestamp rfc3339 (pe_backend_cert_not_after e) = Inr x"
    by (auto simp: event_to_active_model_def result_simps format_timestamp_Inr)
  have opt: "map_option parse y = o'" if "format_optional_timestamp rfc3339 o' = Inr y" for o' y
    using that assms(1) by (auto simp: format_optional_timestamp_Inr split: option.splits)
  show ?thesis
    unfolding m using assms(1) st opt [OF n] opt [OF x] by (intro row_event_active_model) auto
qed

theorem row_determines_event_witness:
  "event_to_active_model (\<lambda>t. Some (show_int t)) (sample_event ''a'') =
     Inr (active_model (show_int 0) (show_int 0) None None (sample_event ''a''))
   \<and> row_event (the \<circ> parse_signed)
       (active_model (show_int 0) (show_int 0) None None (sample_event ''a'')) = sample_event ''a''"
proof -
  have run: "event_to_active_model (\<lambda>t. Some (show_int t)) (sample_event ''a'') =
      Inr (active_model (show_int 0) (show_int 0) None None (sample_event ''a''))"
    by (simp add: event_to_active_model_def format_timestamp_def format_optional_timestamp_def
        sample_event_def)
  have "row_event (the \<circ> parse_signed)
      (active_model (show_int 0) (show_int 0) None None (sample_event ''a'')) = sample_event ''a''"
    by (rule row_determines_event [OF _ run]) auto
  with run show ?thesis by simp
qed

end
