(* ===== verification/Channel.thy ===== *)
theory Channel
  imports Prelude
begin

text \<open>
  The contracts of two services the writer relies on: a bounded multi-producer
  channel (\<open>tokio::sync::mpsc\<close>) and a transactional table (SQLite through the ORM).
  Both are parameters of the model; the locales state their documented behaviour,
  and reference implementations show that it can be met.
\<close>

section \<open>Bounded channels\<close>

datatype send_result = SendOk | SendFull | SendClosed

text \<open>
  \<open>channel\<close>, \<open>Sender::try_send\<close>, the arrival of a message at the receiver
  (\<open>recv\<close> and \<open>try_recv\<close>; \<^const>\<open>None\<close> when the queue is empty), and dropping the receiver.
\<close>

record ('c, 'm) channel_ops =
  ch_new :: "nat \<Rightarrow> 'c"
  ch_try_send :: "'c \<Rightarrow> 'm \<Rightarrow> 'c \<times> send_result"
  ch_try_recv :: "'c \<Rightarrow> 'c \<times> 'm option"
  ch_close :: "'c \<Rightarrow> 'c"

locale bounded_channel =
  fixes ch :: "('c, 'm) channel_ops"
    and items :: "'c \<Rightarrow> 'm list" and capacity :: "'c \<Rightarrow> nat" and closed :: "'c \<Rightarrow> bool"
  assumes new: "items (ch_new ch n) = []" "capacity (ch_new ch n) = n" "\<not> closed (ch_new ch n)"
    and send_result:
      "snd (ch_try_send ch c m) =
         (if closed c then SendClosed else if length (items c) < capacity c then SendOk else SendFull)"
    and send_items:
      "items (fst (ch_try_send ch c m)) =
         (if closed c \<or> capacity c \<le> length (items c) then items c else items c @ [m])"
    and send_keeps:
      "capacity (fst (ch_try_send ch c m)) = capacity c"
      "closed (fst (ch_try_send ch c m)) = closed c"
    and recv_result:
      "snd (ch_try_recv ch c) = (case items c of [] \<Rightarrow> None | m # _ \<Rightarrow> Some m)"
    and recv_items: "items (fst (ch_try_recv ch c)) = tl (items c)"
    and recv_keeps:
      "capacity (fst (ch_try_recv ch c)) = capacity c"
      "closed (fst (ch_try_recv ch c)) = closed c"
    and close: "items (ch_close ch c) = []" "closed (ch_close ch c)"
      "capacity (ch_close ch c) = capacity c"
begin

lemma send_ok_iff: "snd (ch_try_send ch c m) = SendOk \<longleftrightarrow> \<not> closed c \<and> length (items c) < capacity c"
  by (simp add: send_result)

lemma recv_Some: "ch_try_recv ch c = (c', Some m) \<Longrightarrow> items c = m # items c'"
  using recv_result [of c] recv_items [of c] by (auto split: list.splits)

lemma recv_None: "ch_try_recv ch c = (c', None) \<Longrightarrow> items c = [] \<and> items c' = []"
  using recv_result [of c] recv_items [of c] by (auto split: list.splits)

lemma recv_same: "ch_try_recv ch c = (c', x) \<Longrightarrow> capacity c' = capacity c \<and> closed c' = closed c"
  using recv_keeps [of c] by auto

end

text \<open>The reference implementation: the queue, its capacity and whether it is closed.\<close>

definition list_channel :: "('m list \<times> nat \<times> bool, 'm) channel_ops" where
  "list_channel =
     \<lparr>ch_new = (\<lambda>n. ([], n, False)),
      ch_try_send = (\<lambda>(q, n, cl) m.
        if cl then ((q, n, cl), SendClosed)
        else if length q < n then ((q @ [m], n, cl), SendOk) else ((q, n, cl), SendFull)),
      ch_try_recv = (\<lambda>(q, n, cl).
        case q of [] \<Rightarrow> (([], n, cl), None) | m # q' \<Rightarrow> ((q', n, cl), Some m)),
      ch_close = (\<lambda>(q, n, cl). ([], n, True))\<rparr>"

interpretation list_channel: bounded_channel list_channel fst "\<lambda>c. fst (snd c)" "\<lambda>c. snd (snd c)"
  by unfold_locales (auto simp: list_channel_def split: list.splits if_splits)

section \<open>A table with transactions\<close>

text \<open>
  Opening a transaction, a batch insert inside it, committing it, and dropping it
  without a commit.  Every call may fail; \<open>'db\<close> is the state of the database, which
  the calls may change in other ways than its rows.
\<close>

record ('db, 't, 'r) table_ops =
  db_begin :: "'db \<Rightarrow> 'db + 't"
  tx_insert_many :: "'t \<Rightarrow> 'r list \<Rightarrow> 't \<times> bool"
  tx_commit :: "'t \<Rightarrow> 'db \<times> bool"
  tx_drop :: "'t \<Rightarrow> 'db"

text \<open>
  \<open>rows\<close> is what a query returns, \<open>pending\<close> what the table holds if the transaction
  commits, \<open>before\<close> what it held when the transaction began.
\<close>

locale transactional =
  fixes tab :: "('db, 't, 'r) table_ops"
    and rows :: "'db \<Rightarrow> 'r list" and pending :: "'t \<Rightarrow> 'r list" and before :: "'t \<Rightarrow> 'r list"
  assumes begin_ok: "db_begin tab db = Inr t \<Longrightarrow> pending t = rows db \<and> before t = rows db"
    and begin_fails: "db_begin tab db = Inl db' \<Longrightarrow> rows db' = rows db"
    and insert_ok: "tx_insert_many tab t rs = (t', True) \<Longrightarrow> pending t' = pending t @ rs"
    and insert_before: "before (fst (tx_insert_many tab t rs)) = before t"
    and commit_ok: "tx_commit tab t = (db, True) \<Longrightarrow> rows db = pending t"
    and commit_fails: "tx_commit tab t = (db, False) \<Longrightarrow> rows db = before t"
    and dropped: "rows (tx_drop tab t) = before t"

text \<open>
  The reference implementation: rows with a limit on the rows of one insert.  A
  transaction holds the rows before and after.
\<close>

definition list_table :: "nat \<Rightarrow> ('r list, 'r list \<times> 'r list, 'r) table_ops" where
  "list_table limit =
     \<lparr>db_begin = (\<lambda>db. Inr (db, db)),
      tx_insert_many = (\<lambda>(old, new) rs.
        if length rs \<le> limit then ((old, new @ rs), True) else ((old, new), False)),
      tx_commit = (\<lambda>(old, new). (new, True)),
      tx_drop = (\<lambda>(old, new). old)\<rparr>"

interpretation list_table: transactional "list_table limit" "\<lambda>db. db" snd fst for limit
  by unfold_locales (auto simp: list_table_def split: if_splits)

end
