(* ===== verification/Writer.thy ===== *)
theory Writer
  imports Config Event_Row Channel
begin

text \<open>
  \<^verbatim>\<open>src/writer.rs\<close>: the SQLite writer.  A handle (\<open>SqliteWriterHandle\<close>) puts events into
  a bounded channel without waiting; the writer task (\<open>WriterState\<close>) takes them out,
  collects them in a buffer and stores the buffer in one transaction when it has
  \<open>flush_rows\<close> events, when the flush timer ticks, and when it shuts down.

  The record \<open>writer\<close> holds both sides.  A \<open>select!\<close> in the task is a choice between
  steps, and the handle's calls may happen between any two steps of the task, so
  the system is a step relation.  The channel, the database and the formatting of
  timestamps are parameters (\<open>writer_env\<close>).
\<close>

section \<open>State\<close>

text \<open>The reply channel of a shutdown message is identified by a number.\<close>

datatype WriterMessage = EventMsg ProxyEvent | ShutdownMsg nat

text \<open>
  Where the task is: in the loop of \<open>run\<close>; in the first loop of
  \<open>drain_pending_events\<close>, which takes what is queued; in its second loop, which
  waits for late messages; before the last flush; returned.
\<close>

datatype phase = Running | Draining nat | Waiting nat | Finishing nat | Stopped

record ('c, 'db) writer =
  w_tx :: 'c
  w_database :: 'db
  w_buffer :: "ProxyEvent list"
  w_dropped_events :: u64
  w_write_failures :: u64
  w_phase :: phase
  w_done :: "nat list"

record ('c, 'db, 't) writer_env =
  we_ch :: "('c, WriterMessage) channel_ops"
  we_tab :: "('db, 't, Model) table_ops"
  we_rfc3339 :: "offset_date_time \<Rightarrow> string option"
  we_flush_rows :: usize

section \<open>Start\<close>

definition is_memory_path :: "string \<Rightarrow> bool" where
  "is_memory_path path \<longleftrightarrow> path_trim_right path = '':memory:''"

definition ensure_sqlite_parent_dir ::
  "'fs fs_ops \<Rightarrow> 'fs \<Rightarrow> string \<Rightarrow> 'fs \<times> unit anyhow_result" where
  "ensure_sqlite_parent_dir io fs path =
     (if is_memory_path path then (fs, Inr ())
      else
        (case path_parent path of
           None \<Rightarrow> (fs, Inr ())
         | Some parent \<Rightarrow>
             (case fs_create_dir_all io fs parent of
                (fs', ok) \<Rightarrow>
                  (fs', if ok then Inr () else Inl (''create SQLite parent dir '' @ parent)))))"

definition sqlite_connection_url :: "string \<Rightarrow> string" where
  "sqlite_connection_url path =
     (if is_memory_path path then ''sqlite::memory:''
      else ''sqlite://'' @ concat (map (\<lambda>c. if c = CHR '' '' then ''%20'' else [c]) path) @ ''?mode=rwc'')"

text \<open>
  The ORM's connect and the migration runner, which is given the columns of the table.
\<close>

record 'db connect_ops =
  db_connect :: "string \<Rightarrow> 'db option"
  db_migrate :: "'db \<Rightarrow> ColumnDef list \<Rightarrow> 'db option"

definition connect_database :: "'db connect_ops \<Rightarrow> string \<Rightarrow> 'db anyhow_result" where
  "connect_database co path =
     ok_or (''connect SQLite database '' @ path) (db_connect co (sqlite_connection_url path))"

definition initial_writer :: "'c \<Rightarrow> 'db \<Rightarrow> ('c, 'db) writer" where
  "initial_writer c db =
     \<lparr>w_tx = c, w_database = db, w_buffer = [], w_dropped_events = 0, w_write_failures = 0,
      w_phase = Running, w_done = []\<rparr>"

definition spawn_writer ::
  "'db connect_ops \<Rightarrow> ('c, WriterMessage) channel_ops \<Rightarrow> 'fs fs_ops \<Rightarrow> 'fs \<Rightarrow>
     ('u, 'p) RuntimeConfig \<Rightarrow> 'fs \<times> ('c, 'db) writer anyhow_result" where
  "spawn_writer co ch io fs cfg =
     (case ensure_sqlite_parent_dir io fs (rc_sqlite_path cfg) of
        (fs', Inl e) \<Rightarrow> (fs', Inl e)
      | (fs', Inr _) \<Rightarrow>
          (fs',
           try_bind (connect_database co (rc_sqlite_path cfg)) (\<lambda>db.
           try_bind (ok_or ''run SQLite migrations'' (db_migrate co db proxy_events_columns)) (\<lambda>db'.
           Inr (initial_writer (ch_new ch (unat (rc_max_inflight_events cfg))) db')))))"

section \<open>The handle\<close>

definition try_send ::
  "('c, 'db, 't) writer_env \<Rightarrow> ProxyEvent \<Rightarrow> ('c, 'db) writer \<Rightarrow> ('c, 'db) writer" where
  "try_send env e w =
     (case ch_try_send (we_ch env) (w_tx w) (EventMsg e) of
        (c, SendOk) \<Rightarrow> w\<lparr>w_tx := c\<rparr>
      | (c, _) \<Rightarrow> w\<lparr>w_tx := c, w_dropped_events := w_dropped_events w + 1\<rparr>)"

text \<open>
  One round of the loop of \<open>shutdown\<close>: \<^const>\<open>SendFull\<close> makes it sleep and try again,
  otherwise it goes on to await the reply.
\<close>

definition shutdown_attempt ::
  "('c, 'db, 't) writer_env \<Rightarrow> nat \<Rightarrow> ('c, 'db) writer \<Rightarrow> ('c, 'db) writer \<times> send_result" where
  "shutdown_attempt env d w =
     (case ch_try_send (we_ch env) (w_tx w) (ShutdownMsg d) of
        (c, r) \<Rightarrow> (w\<lparr>w_tx := c\<rparr>, r))"

section \<open>Flushing\<close>

definition flush ::
  "('c, 'db, 't) writer_env \<Rightarrow> ('c, 'db) writer \<Rightarrow> ('c, 'db) writer \<times> unit anyhow_result" where
  "flush env w =
     (if w_buffer w = [] then (w, Inr ())
      else
        (case collect_results (map (event_to_active_model (we_rfc3339 env)) (w_buffer w)) of
           Inl e \<Rightarrow> (w, Inl e)
         | Inr models \<Rightarrow>
             (case db_begin (we_tab env) (w_database w) of
                Inl db \<Rightarrow> (w\<lparr>w_database := db\<rparr>, Inl ''begin SQLite transaction'')
              | Inr tx \<Rightarrow>
                  (case tx_insert_many (we_tab env) tx models of
                     (tx', False) \<Rightarrow>
                       (w\<lparr>w_database := tx_drop (we_tab env) tx'\<rparr>, Inl ''insert SQLite batch'')
                   | (tx', True) \<Rightarrow>
                       (case tx_commit (we_tab env) tx' of
                          (db, False) \<Rightarrow> (w\<lparr>w_database := db\<rparr>, Inl ''commit SQLite transaction'')
                        | (db, True) \<Rightarrow> (w\<lparr>w_database := db, w_buffer := []\<rparr>, Inr ()))))))"

definition try_flush ::
  "('c, 'db, 't) writer_env \<Rightarrow> ('c, 'db) writer \<Rightarrow> ('c, 'db) writer" where
  "try_flush env w =
     (if w_buffer w = [] then w
      else
        (case flush env w of
           (w', Inr _) \<Rightarrow> w'
         | (w', Inl _) \<Rightarrow> w'\<lparr>w_write_failures := w_write_failures w' + 1\<rparr>))"

section \<open>The task\<close>

text \<open>What the loop of \<open>run\<close> does with a message.\<close>

definition push_event :: "ProxyEvent \<Rightarrow> ('c, 'db) writer \<Rightarrow> ('c, 'db) writer" where
  "push_event e w = w\<lparr>w_buffer := w_buffer w @ [e]\<rparr>"

fun handle_message ::
  "('c, 'db, 't) writer_env \<Rightarrow> WriterMessage \<Rightarrow> ('c, 'db) writer \<Rightarrow> ('c, 'db) writer" where
  "handle_message env (EventMsg e) w =
     (let w' = push_event e w in
      if unat (we_flush_rows env) \<le> length (w_buffer w') then try_flush env w' else w')"
| "handle_message env (ShutdownMsg d) w = w\<lparr>w_phase := Draining d\<rparr>"

text \<open>What both loops of \<open>drain_pending_events\<close> do with a message.\<close>

fun drain_message :: "WriterMessage \<Rightarrow> ('c, 'db) writer \<Rightarrow> ('c, 'db) writer" where
  "drain_message (EventMsg e) w = push_event e w"
| "drain_message (ShutdownMsg d) w = w\<lparr>w_done := w_done w @ [d]\<rparr>"

text \<open>Leaving \<open>run\<close> drops the receiver, and with it what is still queued.\<close>

definition stop_task ::
  "('c, 'db, 't) writer_env \<Rightarrow> ('c, 'db) writer \<Rightarrow> ('c, 'db) writer" where
  "stop_task env w = w\<lparr>w_tx := ch_close (we_ch env) (w_tx w), w_phase := Stopped\<rparr>"

text \<open>
  The labels of the steps: an event handed to \<open>try_send\<close>, with whether the channel
  took it; a round of the handle's \<open>shutdown\<close>; and the steps of the task.
\<close>

datatype label =
    Send ProxyEvent bool | RequestShutdown nat send_result
  | Receive | Tick | Disconnected | Drain | DrainEmpty | Late | LateTimeout | Finish

inductive writer_step ::
  "('c, 'db, 't) writer_env \<Rightarrow> ('c, 'db) writer \<Rightarrow> label \<Rightarrow> ('c, 'db) writer \<Rightarrow> bool"
  for env :: "('c, 'db, 't) writer_env" where
  send: "acc \<longleftrightarrow> snd (ch_try_send (we_ch env) (w_tx w) (EventMsg e)) = SendOk \<Longrightarrow>
    writer_step env w (Send e acc) (try_send env e w)"
| request_shutdown: "shutdown_attempt env d w = (w', r) \<Longrightarrow>
    writer_step env w (RequestShutdown d r) w'"
| receive: "w_phase w = Running \<Longrightarrow> ch_try_recv (we_ch env) (w_tx w) = (c, Some m) \<Longrightarrow>
    writer_step env w Receive (handle_message env m (w\<lparr>w_tx := c\<rparr>))"
| tick: "w_phase w = Running \<Longrightarrow> writer_step env w Tick (try_flush env w)"
| disconnected: "w_phase w = Running \<Longrightarrow> ch_try_recv (we_ch env) (w_tx w) = (c, None) \<Longrightarrow>
    writer_step env w Disconnected (stop_task env (try_flush env (w\<lparr>w_tx := c\<rparr>)))"
| drain: "w_phase w = Draining d \<Longrightarrow> ch_try_recv (we_ch env) (w_tx w) = (c, Some m) \<Longrightarrow>
    writer_step env w Drain (drain_message m (w\<lparr>w_tx := c\<rparr>))"
| drain_empty: "w_phase w = Draining d \<Longrightarrow> ch_try_recv (we_ch env) (w_tx w) = (c, None) \<Longrightarrow>
    writer_step env w DrainEmpty (w\<lparr>w_tx := c, w_phase := Waiting d\<rparr>)"
| late: "w_phase w = Waiting d \<Longrightarrow> ch_try_recv (we_ch env) (w_tx w) = (c, Some m) \<Longrightarrow>
    writer_step env w Late (drain_message m (w\<lparr>w_tx := c\<rparr>))"
| late_timeout: "w_phase w = Waiting d \<Longrightarrow> ch_try_recv (we_ch env) (w_tx w) = (c, None) \<Longrightarrow>
    writer_step env w LateTimeout (w\<lparr>w_tx := c, w_phase := Finishing d\<rparr>)"
| finish: "w_phase w = Finishing d \<Longrightarrow> w' = try_flush env w \<Longrightarrow>
    writer_step env w Finish (stop_task env (w'\<lparr>w_done := w_done w' @ [d]\<rparr>))"

inductive_cases writer_stepE: "writer_step env w l w'"

inductive writer_run ::
  "('c, 'db, 't) writer_env \<Rightarrow> ('c, 'db) writer \<Rightarrow> label list \<Rightarrow> ('c, 'db) writer \<Rightarrow> bool"
  for env :: "('c, 'db, 't) writer_env" where
  run_Nil: "writer_run env w [] w"
| run_snoc: "writer_run env w ls w' \<Longrightarrow> writer_step env w' l w'' \<Longrightarrow> writer_run env w (ls @ [l]) w''"

section \<open>What a run has accepted and stored\<close>

fun events_of :: "WriterMessage list \<Rightarrow> ProxyEvent list" where
  "events_of [] = []"
| "events_of (EventMsg e # ms) = e # events_of ms"
| "events_of (ShutdownMsg d # ms) = events_of ms"

text \<open>The events the channel took in a run, in order, and how many it refused.\<close>

fun accepted :: "label list \<Rightarrow> ProxyEvent list" where
  "accepted [] = []"
| "accepted (Send e True # ls) = e # accepted ls"
| "accepted (_ # ls) = accepted ls"

fun refused :: "label list \<Rightarrow> nat" where
  "refused [] = 0"
| "refused (Send e False # ls) = Suc (refused ls)"
| "refused (_ # ls) = refused ls"

lemma events_of_append [simp]: "events_of (a @ b) = events_of a @ events_of b"
  by (induction a rule: events_of.induct) auto

lemma accepted_append [simp]: "accepted (a @ b) = accepted a @ accepted b"
  by (induction a rule: accepted.induct) auto

lemma refused_append [simp]: "refused (a @ b) = refused a + refused b"
  by (induction a rule: refused.induct) auto

text \<open>How many messages the channel took in a run: events and shutdown requests.\<close>

fun queued_by :: "label list \<Rightarrow> nat" where
  "queued_by [] = 0"
| "queued_by (Send e True # ls) = Suc (queued_by ls)"
| "queued_by (RequestShutdown d SendOk # ls) = Suc (queued_by ls)"
| "queued_by (_ # ls) = queued_by ls"

lemma queued_by_append [simp]: "queued_by (a @ b) = queued_by a + queued_by b"
  by (induction a rule: queued_by.induct) auto

text \<open>The events a draining writer took before it stopped waiting for late messages.\<close>

definition accepted_in_time :: "label list \<Rightarrow> ProxyEvent list" where
  "accepted_in_time ls = accepted (takeWhile (\<lambda>l. l \<noteq> LateTimeout) ls)"

lemma accepted_in_time_snoc [simp]:
  "LateTimeout \<in> set ls \<Longrightarrow> accepted_in_time (ls @ [l]) = accepted_in_time ls"
  "LateTimeout \<notin> set ls \<Longrightarrow> accepted_in_time (ls @ [LateTimeout]) = accepted ls"
  by (auto simp: accepted_in_time_def takeWhile_append takeWhile_eq_all_conv [THEN iffD2])

definition rows_of ::
  "('c, 'db, 't) writer_env \<Rightarrow> ProxyEvent list \<Rightarrow> Model list \<Rightarrow> bool" where
  "rows_of env es ms \<longleftrightarrow> map (event_to_active_model (we_rfc3339 env)) es = map Inr ms"

lemma rows_of_append: "rows_of env a ms \<Longrightarrow> rows_of env b ns \<Longrightarrow> rows_of env (a @ b) (ms @ ns)"
  by (simp add: rows_of_def)

lemma rows_of_Nil [simp]: "rows_of env [] ms \<longleftrightarrow> ms = []"
  by (simp add: rows_of_def)

text \<open>Steps of the task itself, as opposed to calls of the handle.\<close>

definition task_label :: "label \<Rightarrow> bool" where
  "task_label l = (case l of Send _ _ \<Rightarrow> False | RequestShutdown _ _ \<Rightarrow> False | _ \<Rightarrow> True)"

lemma task_label_simps [simp]:
  "\<not> task_label (Send e a)" "\<not> task_label (RequestShutdown d r)" "task_label Receive" "task_label Tick"
  "task_label Disconnected" "task_label Drain" "task_label DrainEmpty" "task_label Late"
  "task_label LateTimeout" "task_label Finish"
  by (simp_all add: task_label_def)

lemma task_label_queues_none [simp]: "task_label l \<Longrightarrow> queued_by [l] = 0"
  by (cases l) simp_all

lemma accepted_task_labels [simp]: "list_all task_label ls \<Longrightarrow> accepted ls = []"
  by (induction ls rule: accepted.induct) auto

text \<open>The shutdown requests in a queue.\<close>

fun requests :: "WriterMessage list \<Rightarrow> nat set" where
  "requests [] = {}"
| "requests (EventMsg e # ms) = requests ms"
| "requests (ShutdownMsg d # ms) = insert d (requests ms)"

lemma requests_append [simp]: "requests (a @ b) = requests a \<union> requests b"
  by (induction a rule: requests.induct) auto

text \<open>How many steps a draining task has left at most, with \<open>n\<close> messages queued.\<close>

definition drain_left :: "nat \<Rightarrow> ('c, 'db) writer \<Rightarrow> nat" where
  "drain_left n w =
     (case w_phase w of
        Draining _ \<Rightarrow> n + 3 | Waiting _ \<Rightarrow> n + 2 | Finishing _ \<Rightarrow> 1 | _ \<Rightarrow> 0)"

section \<open>The writer over its services\<close>

lemma try_flush_keeps [simp]:
  "w_tx (try_flush env w) = w_tx w" "w_phase (try_flush env w) = w_phase w"
  "w_done (try_flush env w) = w_done w" "w_dropped_events (try_flush env w) = w_dropped_events w"
  by (simp_all add: try_flush_def flush_def split: sum.split prod.split bool.split)

lemma push_event_simps [simp]:
  "w_tx (push_event e w) = w_tx w" "w_phase (push_event e w) = w_phase w"
  "w_done (push_event e w) = w_done w" "w_dropped_events (push_event e w) = w_dropped_events w"
  "w_database (push_event e w) = w_database w" "w_buffer (push_event e w) = w_buffer w @ [e]"
  "w_write_failures (push_event e w) = w_write_failures w"
  by (simp_all add: push_event_def)

lemma stop_task_simps [simp]:
  "w_tx (stop_task env w) = ch_close (we_ch env) (w_tx w)" "w_phase (stop_task env w) = Stopped"
  "w_done (stop_task env w) = w_done w" "w_dropped_events (stop_task env w) = w_dropped_events w"
  "w_database (stop_task env w) = w_database w" "w_buffer (stop_task env w) = w_buffer w"
  "w_write_failures (stop_task env w) = w_write_failures w"
  by (simp_all add: stop_task_def)

locale writer_services =
  channel: bounded_channel "we_ch env" items capacity closed +
  table: transactional "we_tab env" rows pending before
  for env :: "('c, 'db, 't) writer_env"
    and items :: "'c \<Rightarrow> WriterMessage list" and capacity :: "'c \<Rightarrow> nat" and closed :: "'c \<Rightarrow> bool"
    and rows :: "'db \<Rightarrow> Model list" and pending :: "'t \<Rightarrow> Model list" and before :: "'t \<Rightarrow> Model list"
begin

text \<open>A flush stores the whole buffer, or fails and changes neither buffer nor rows.\<close>

lemma flush_ok:
  assumes "flush env w = (w', Inr u)"
  shows "\<exists>ms. rows_of env (w_buffer w) ms \<and> w_buffer w' = [] \<and> w_write_failures w' = w_write_failures w
    \<and> rows (w_database w') = rows (w_database w) @ ms"
  using assms table.begin_ok table.insert_ok table.commit_ok
  by (auto simp: flush_def rows_of_def result_simps
      split: if_splits sum.splits prod.splits bool.splits)

lemma flush_fails:
  assumes "flush env w = (w', Inl e)"
  shows "rows (w_database w') = rows (w_database w)" "w_buffer w' = w_buffer w"
    "w_write_failures w' = w_write_failures w" "w_buffer w \<noteq> []"
proof -
  have ins: "before t' = before t" if "tx_insert_many (we_tab env) t rs = (t', b)" for t t' rs b
    using table.insert_before [of t rs] that by simp
  show "rows (w_database w') = rows (w_database w)"
    using assms table.begin_ok table.begin_fails table.commit_fails table.dropped
    by (auto simp: flush_def split: if_splits sum.splits prod.splits bool.splits dest!: ins)
qed (use assms in \<open>auto simp: flush_def split: if_splits sum.splits prod.splits bool.splits\<close>)

lemma try_flush_cases:
  obtains (stored) ms where "rows_of env (w_buffer w) ms"
      "rows (w_database (try_flush env w)) = rows (w_database w) @ ms"
      "w_buffer (try_flush env w) = []"
      "w_write_failures (try_flush env w) = w_write_failures w"
  | (kept) "w_buffer w \<noteq> []" "rows (w_database (try_flush env w)) = rows (w_database w)"
      "w_buffer (try_flush env w) = w_buffer w"
      "w_write_failures (try_flush env w) = w_write_failures w + 1"
proof (cases "w_buffer w = []")
  case True
  then show ?thesis using stored [of "[]"] by (simp add: try_flush_def)
next
  case False
  obtain w' r where f: "flush env w = (w', r)" by (cases "flush env w")
  show ?thesis
  proof (cases r)
    case (Inl e)
    with f False show ?thesis
      using flush_fails [OF f [unfolded Inl]] by (intro kept) (simp_all add: try_flush_def)
  next
    case (Inr u)
    with f False show ?thesis
      using flush_ok [OF f [unfolded Inr]] stored by (auto simp: try_flush_def)
  qed
qed

text \<open>
  The books of the writer: what was accepted is, in this order, stored, buffered,
  queued, or (only once the task has returned) lost with the channel.
\<close>

definition conserved :: "Model list \<Rightarrow> label list \<Rightarrow> ('c, 'db) writer \<Rightarrow> bool" where
  "conserved rows0 ls w \<longleftrightarrow>
     (\<exists>stored ms lost.
        accepted ls = stored @ w_buffer w @ events_of (items (w_tx w)) @ lost
        \<and> rows_of env stored ms \<and> rows (w_database w) = rows0 @ ms
        \<and> (w_phase w \<noteq> Stopped \<longrightarrow> lost = [])
        \<and> (w_phase w = Stopped \<longrightarrow> closed (w_tx w) \<and> items (w_tx w) = []))"

lemma conserved_try_flush:
  assumes "conserved rows0 ls w" and "w_phase w \<noteq> Stopped"
  shows "conserved rows0 ls (try_flush env w)"
proof -
  from assms obtain st ms where
    *: "accepted ls = st @ w_buffer w @ events_of (items (w_tx w))" "rows_of env st ms"
      "rows (w_database w) = rows0 @ ms"
    by (auto simp: conserved_def)
  show ?thesis
  proof (cases rule: try_flush_cases [of w])
    case (stored ns)
    with * assms(2) show ?thesis
      unfolding conserved_def
      by (intro exI [of _ "st @ w_buffer w"] exI [of _ "ms @ ns"] exI [of _ "[]"])
        (auto intro: rows_of_append)
  next
    case kept
    with * assms(2) show ?thesis
      unfolding conserved_def by (intro exI [of _ st] exI [of _ ms] exI [of _ "[]"]) auto
  qed
qed

lemma conserved_push:
  assumes "conserved rows0 ls w" and "w_phase w \<noteq> Stopped" and "items (w_tx w) = EventMsg e # items c"
  shows "conserved rows0 ls (push_event e (w\<lparr>w_tx := c\<rparr>))"
  using assms by (auto simp: conserved_def)

lemma conserved_stop:
  assumes "conserved rows0 ls w" and "w_phase w \<noteq> Stopped"
  shows "conserved rows0 ls (stop_task env w)"
proof -
  from assms obtain stored ms where
    "accepted ls = stored @ w_buffer w @ events_of (items (w_tx w))" "rows_of env stored ms"
      "rows (w_database w) = rows0 @ ms"
    by (auto simp: conserved_def)
  then show ?thesis
    unfolding conserved_def
    by (intro exI [of _ stored] exI [of _ ms] exI [of _ "events_of (items (w_tx w))"])
      (auto simp: channel.close)
qed

lemma conserved_silent: "accepted [l] = [] \<Longrightarrow> conserved rows0 (ls @ [l]) w = conserved rows0 ls w"
  by (simp add: conserved_def)

lemma try_send_accepted:
  assumes "snd (ch_try_send (we_ch env) (w_tx w) (EventMsg e)) = SendOk"
  shows "try_send env e w = w\<lparr>w_tx := fst (ch_try_send (we_ch env) (w_tx w) (EventMsg e))\<rparr>"
    "\<not> closed (w_tx w)" "length (items (w_tx w)) < capacity (w_tx w)"
proof -
  show "try_send env e w = w\<lparr>w_tx := fst (ch_try_send (we_ch env) (w_tx w) (EventMsg e))\<rparr>"
    using assms by (auto simp: try_send_def split: prod.splits)
qed (use assms in \<open>auto simp: channel.send_result split: if_splits\<close>)

lemma try_send_refused:
  assumes "snd (ch_try_send (we_ch env) (w_tx w) (EventMsg e)) \<noteq> SendOk"
  shows "try_send env e w = w\<lparr>w_tx := fst (ch_try_send (we_ch env) (w_tx w) (EventMsg e)),
      w_dropped_events := w_dropped_events w + 1\<rparr>"
    "closed (w_tx w) \<or> capacity (w_tx w) \<le> length (items (w_tx w))"
proof -
  show "try_send env e w = w\<lparr>w_tx := fst (ch_try_send (we_ch env) (w_tx w) (EventMsg e)),
      w_dropped_events := w_dropped_events w + 1\<rparr>"
    using assms by (auto simp: try_send_def split: prod.splits send_result.splits)
  show "closed (w_tx w) \<or> capacity (w_tx w) \<le> length (items (w_tx w))"
    using assms by (auto simp: channel.send_result split: if_splits)
qed

lemma conserved_send:
  assumes "conserved rows0 ls w"
    and "acc \<longleftrightarrow> snd (ch_try_send (we_ch env) (w_tx w) (EventMsg e)) = SendOk"
  shows "conserved rows0 (ls @ [Send e acc]) (try_send env e w)"
proof (cases acc)
  case True
  with assms(2) have "snd (ch_try_send (we_ch env) (w_tx w) (EventMsg e)) = SendOk" by simp
  note s = try_send_accepted [OF this]
  from assms(1) s(2) have "w_phase w \<noteq> Stopped" by (auto simp: conserved_def)
  with assms(1) s(2,3) True show ?thesis
    unfolding s(1) by (auto simp: conserved_def channel.send_items)
next
  case False
  with assms(2) have "snd (ch_try_send (we_ch env) (w_tx w) (EventMsg e)) \<noteq> SendOk" by simp
  note s = try_send_refused [OF this]
  from assms(1) s(2) False show ?thesis
    unfolding s(1) by (auto simp: conserved_def channel.send_items channel.send_keeps)
qed

lemma conserved_handle_message:
  assumes "conserved rows0 ls w" and "w_phase w = Running" and "items (w_tx w) = m # items c"
  shows "conserved rows0 ls (handle_message env m (w\<lparr>w_tx := c\<rparr>))"
proof (cases m)
  case (EventMsg e)
  with assms have "conserved rows0 ls (push_event e (w\<lparr>w_tx := c\<rparr>))"
    by (intro conserved_push) auto
  with EventMsg assms(2) show ?thesis by (auto simp: Let_def intro!: conserved_try_flush)
next
  case (ShutdownMsg d)
  with assms show ?thesis by (auto simp: conserved_def)
qed

lemma conserved_drain_message:
  assumes "conserved rows0 ls w" and "w_phase w \<noteq> Stopped" and "items (w_tx w) = m # items c"
  shows "conserved rows0 ls (drain_message m (w\<lparr>w_tx := c\<rparr>))"
  using assms by (cases m) (auto simp: conserved_def)

lemma conserved_empty:
  assumes "conserved rows0 ls w" and "ch_try_recv (we_ch env) (w_tx w) = (c, None)" and "w_phase w \<noteq> Stopped"
  shows "conserved rows0 ls (w\<lparr>w_tx := c\<rparr>)"
  using assms channel.recv_None [OF assms(2)] by (auto simp: conserved_def)

lemma conserved_more:
  assumes "conserved rows0 ls w" and "w_phase w \<noteq> Stopped" and "p \<noteq> Stopped"
  shows "conserved rows0 ls (w\<lparr>w_phase := p\<rparr>)" "conserved rows0 ls (w\<lparr>w_done := ds\<rparr>)"
  using assms by (auto simp: conserved_def)

lemma conserved_step:
  assumes "conserved rows0 ls w" and "writer_step env w l w'"
  shows "conserved rows0 (ls @ [l]) w'"
  using assms(2)
proof cases
  case (send acc e)
  with assms(1) conserved_send show ?thesis by blast
next
  case (request_shutdown d r)
  then have "w' = w\<lparr>w_tx := fst (ch_try_send (we_ch env) (w_tx w) (ShutdownMsg d))\<rparr>"
    by (auto simp: shutdown_attempt_def split: prod.splits)
  with assms(1) request_shutdown(1) show ?thesis
    by (auto simp: conserved_def channel.send_items channel.send_keeps)
next
  case (receive c m)
  with conserved_handle_message [OF assms(1) receive(3) channel.recv_Some [OF receive(4)]]
  show ?thesis by (simp add: conserved_silent)
next
  case tick
  with conserved_try_flush [OF assms(1)] show ?thesis by (simp add: conserved_silent)
next
  case (disconnected c)
  from conserved_empty [OF assms(1) disconnected(4)] disconnected(3)
  have "conserved rows0 ls (stop_task env (try_flush env (w\<lparr>w_tx := c\<rparr>)))"
    by (intro conserved_stop conserved_try_flush) auto
  with disconnected show ?thesis by (simp add: conserved_silent)
next
  case (drain d c m)
  with conserved_drain_message [OF assms(1) _ channel.recv_Some [OF drain(4)]]
  show ?thesis by (simp add: conserved_silent)
next
  case (drain_empty d c)
  with conserved_more(1) [OF conserved_empty [OF assms(1) drain_empty(4)], of "Waiting d"]
  show ?thesis by (simp add: conserved_silent)
next
  case (late d c m)
  with conserved_drain_message [OF assms(1) _ channel.recv_Some [OF late(4)]]
  show ?thesis by (simp add: conserved_silent)
next
  case (late_timeout d c)
  with conserved_more(1) [OF conserved_empty [OF assms(1) late_timeout(4)], of "Finishing d"]
  show ?thesis by (simp add: conserved_silent)
next
  case (finish d w1)
  with conserved_try_flush [OF assms(1)] have "conserved rows0 ls w1" "w_phase w1 \<noteq> Stopped" by auto
  then have "conserved rows0 ls (stop_task env (w1\<lparr>w_done := w_done w1 @ [d]\<rparr>))"
    by (intro conserved_stop conserved_more(2) [where p = Running]) auto
  with finish show ?thesis by (simp add: conserved_silent)
qed

lemma run_conserved:
  assumes "writer_run env w ls w'" and "conserved rows0 [] w"
  shows "conserved rows0 ls w'"
  using assms by (induction rule: writer_run.induct) (auto intro: conserved_step)

text \<open>The dropped-events counter counts the refused events, in 64 bits.\<close>

lemma run_dropped:
  assumes "writer_run env w ls w'"
  shows "w_dropped_events w' = w_dropped_events w + of_nat (refused ls)"
  using assms
proof (induction rule: writer_run.induct)
  case (run_snoc w ls w' l w'')
  have msg: "w_dropped_events (handle_message env m v) = w_dropped_events v"
    "w_dropped_events (drain_message m v) = w_dropped_events v" for m and v :: "('c, 'db) writer"
    by (cases m; simp add: Let_def)+
  from run_snoc(2) have "w_dropped_events w'' = w_dropped_events w' + of_nat (refused [l])"
  proof cases
    case (send acc e)
    then show ?thesis
      using try_send_accepted(1) [of w' e] try_send_refused(1) [of w' e] by (cases acc) auto
  next
    case (request_shutdown d r)
    then show ?thesis by (auto simp: shutdown_attempt_def split: prod.splits)
  qed (simp_all add: msg)
  with run_snoc.IH show ?case by simp
qed simp

text \<open>The queue stays within the capacity it was made with.\<close>

lemma step_capacity:
  assumes "writer_step env w l w'" and "length (items (w_tx w)) \<le> capacity (w_tx w)"
  shows "capacity (w_tx w') = capacity (w_tx w) \<and> length (items (w_tx w')) \<le> capacity (w_tx w')"
proof -
  have msg: "w_tx (handle_message env m v) = w_tx v" "w_tx (drain_message m v) = w_tx v"
    for m and v :: "('c, 'db) writer"
    by (cases m; simp add: Let_def)+
  have recv: "capacity c = capacity (w_tx w) \<and> length (items c) \<le> capacity c"
    if "ch_try_recv (we_ch env) (w_tx w) = (c, x)" for c x
    using that channel.recv_same [OF that] channel.recv_items [of "w_tx w"] assms(2) by auto
  show ?thesis
    using assms(1)
  proof cases
    case (send acc e)
    have "w_tx (try_send env e w) = fst (ch_try_send (we_ch env) (w_tx w) (EventMsg e))"
      by (simp add: try_send_def split: prod.split send_result.split)
    with send assms(2) show ?thesis by (auto simp: channel.send_items channel.send_keeps)
  next
    case (request_shutdown d r)
    with assms(2) show ?thesis
      by (auto simp: shutdown_attempt_def channel.send_items channel.send_keeps split: prod.splits
          dest!: arg_cong [where f = fst])
  qed (use assms(2) recv in \<open>auto simp: msg channel.close\<close>)
qed

lemma run_capacity:
  assumes "writer_run env w ls w'" and "length (items (w_tx w)) \<le> capacity (w_tx w)"
  shows "capacity (w_tx w') = capacity (w_tx w) \<and> length (items (w_tx w')) \<le> capacity (w_tx w)"
  using assms by (induction rule: writer_run.induct) (use step_capacity in fastforce)+

subsection \<open>Shutting down\<close>

text \<open>
  The state of a writer that began to drain in state \<open>w0\<close>, after the steps \<open>ls\<close> of the task and
  of its handles: it still holds what it held then and what it accepted since; or it has stopped
  waiting, after it answered every request that was queued then, and what is accepted later is
  lost with the queue.
\<close>

definition draining_from :: "('c, 'db) writer \<Rightarrow> nat \<Rightarrow> label list \<Rightarrow> ('c, 'db) writer \<Rightarrow> bool" where
  "draining_from w0 d ls w \<longleftrightarrow>
     (let held = w_buffer w0 @ events_of (items (w_tx w0)); asked = requests (items (w_tx w0)) in
      if w_phase w \<in> {Draining d, Waiting d} then
        asked \<subseteq> set (w_done w) \<union> requests (items (w_tx w))
        \<and> LateTimeout \<notin> set ls \<and> w_buffer w @ events_of (items (w_tx w)) = held @ accepted ls
        \<and> rows (w_database w) = rows (w_database w0) \<and> w_write_failures w = w_write_failures w0
      else if w_phase w = Finishing d then
        asked \<subseteq> set (w_done w)
        \<and> LateTimeout \<in> set ls \<and> w_buffer w = held @ accepted_in_time ls
        \<and> rows (w_database w) = rows (w_database w0) \<and> w_write_failures w = w_write_failures w0
      else
        w_phase w = Stopped \<and> closed (w_tx w) \<and> insert d asked \<subseteq> set (w_done w)
        \<and> LateTimeout \<in> set ls
        \<and> (w_buffer w = []
             \<and> (\<exists>ms. rows_of env (held @ accepted_in_time ls) ms
                  \<and> rows (w_database w) = rows (w_database w0) @ ms)
           \<or> w_buffer w = held @ accepted_in_time ls \<and> rows (w_database w) = rows (w_database w0)
             \<and> w_write_failures w = w_write_failures w0 + 1))"

text \<open>A handle's step adds what the queue took; the state of the task is as before.\<close>

lemma draining_handle_step:
  assumes "draining_from w0 d ls w" and "writer_step env w l w'" and "\<not> task_label l"
  shows "draining_from w0 d (ls @ [l]) w'
    \<and> drain_left (length (items (w_tx w'))) w' \<le> drain_left (length (items (w_tx w))) w + queued_by [l]"
  using assms(2)
proof cases
  case (send acc e)
  have tx: "w_tx (try_send env e w) = fst (ch_try_send (we_ch env) (w_tx w) (EventMsg e))"
    and same: "w_phase (try_send env e w) = w_phase w" "w_buffer (try_send env e w) = w_buffer w"
      "w_database (try_send env e w) = w_database w" "w_done (try_send env e w) = w_done w"
      "w_write_failures (try_send env e w) = w_write_failures w"
    by (simp_all add: try_send_def split: prod.split send_result.split)
  have it: "items (w_tx (try_send env e w)) = items (w_tx w) @ (if acc then [EventMsg e] else [])"
    and cl: "closed (w_tx (try_send env e w)) = closed (w_tx w)" "closed (w_tx w) \<Longrightarrow> \<not> acc"
    using send by (auto simp: tx channel.send_items channel.send_ok_iff channel.send_keeps)
  show ?thesis
    unfolding send(1,2) using assms(1) cl
    by (cases acc) (auto simp: draining_from_def Let_def same it drain_left_def split: if_splits phase.splits)
next
  case (request_shutdown d' r)
  then have w': "w' = w\<lparr>w_tx := fst (ch_try_send (we_ch env) (w_tx w) (ShutdownMsg d'))\<rparr>"
    and r: "r = snd (ch_try_send (we_ch env) (w_tx w) (ShutdownMsg d'))"
    by (auto simp: shutdown_attempt_def split: prod.splits)
  have it: "items (w_tx w') = items (w_tx w) @ (if r = SendOk then [ShutdownMsg d'] else [])"
    and cl: "closed (w_tx w') = closed (w_tx w)"
    by (auto simp: w' r channel.send_items channel.send_ok_iff channel.send_keeps)
  have same: "w_phase w' = w_phase w" "w_buffer w' = w_buffer w" "w_database w' = w_database w"
      "w_done w' = w_done w" "w_write_failures w' = w_write_failures w"
    by (simp_all add: w')
  show ?thesis
    using assms(1) request_shutdown(1) cl
    by (cases r) (auto simp: draining_from_def Let_def same it drain_left_def split: if_splits phase.splits)
qed (use assms(3) in auto)

lemma draining_task_step:
  assumes "draining_from w0 d ls w" and "writer_step env w l w'" and "task_label l"
  shows "draining_from w0 d (ls @ [l]) w'
    \<and> drain_left (length (items (w_tx w'))) w' < drain_left (length (items (w_tx w))) w"
  using assms(2)
proof cases
  case (drain d' c m)
  then show ?thesis
    using assms(1) channel.recv_Some [OF drain(4)]
    by (cases m) (auto simp: draining_from_def Let_def push_event_def drain_left_def split: if_splits)
next
  case (drain_empty d' c)
  then show ?thesis
    using assms(1) channel.recv_None [OF drain_empty(4)] by (auto simp: draining_from_def Let_def drain_left_def split: if_splits)
next
  case (late d' c m)
  then show ?thesis
    using assms(1) channel.recv_Some [OF late(4)]
    by (cases m) (auto simp: draining_from_def Let_def push_event_def drain_left_def split: if_splits)
next
  case (late_timeout d' c)
  then show ?thesis
    using assms(1) channel.recv_None [OF late_timeout(4)] by (auto simp: draining_from_def Let_def drain_left_def split: if_splits)
next
  case (finish d' w1)
  have "draining_from w0 d (ls @ [l]) w'"
  proof (cases rule: try_flush_cases [of w])
    case (stored ms)
    with finish assms(1) show ?thesis by (auto simp: draining_from_def Let_def channel.close split: if_splits)
  next
    case kept
    with finish assms(1) show ?thesis by (auto simp: draining_from_def Let_def channel.close split: if_splits)
  qed
  with finish assms(1) show ?thesis by (auto simp: drain_left_def channel.close)
qed (use assms(1,3) in \<open>auto simp: draining_from_def Let_def split: if_splits\<close>)

text \<open>Until it has stopped, a draining writer has a step to take.\<close>

lemma draining_progress:
  assumes "draining_from w0 d ls w" and "w_phase w \<noteq> Stopped"
  shows "\<exists>l w'. task_label l \<and> writer_step env w l w'"
proof -
  obtain c x where r: "ch_try_recv (we_ch env) (w_tx w) = (c, x)" by (cases "ch_try_recv (we_ch env) (w_tx w)")
  from assms consider "w_phase w = Draining d" | "w_phase w = Waiting d" | "w_phase w = Finishing d"
    by (auto simp: draining_from_def Let_def split: if_splits)
  then show ?thesis
  proof cases
    case 1
    with r show ?thesis
      using writer_step.drain [of w d env c] writer_step.drain_empty [of w d env c] task_label_simps
      by (cases x) blast+
  next
    case 2
    with r show ?thesis
      using writer_step.late [of w d env c] writer_step.late_timeout [of w d env c] task_label_simps
      by (cases x) blast+
  next
    case 3
    then show ?thesis using writer_step.finish [of w d _ env] task_label_simps by blast
  qed
qed

lemma draining_run:
  assumes "writer_run env w0 ls w" and "w_phase w0 = Draining d"
  shows "draining_from w0 d ls w
    \<and> length (filter task_label ls) + drain_left (length (items (w_tx w))) w
      \<le> length (items (w_tx w0)) + 3 + queued_by ls"
  using assms
proof (induction rule: writer_run.induct)
  case (run_Nil w)
  then show ?case by (auto simp: draining_from_def Let_def drain_left_def)
next
  case (run_snoc w ls w' l w'')
  then show ?case
    using draining_task_step [of w d ls w' l w''] draining_handle_step [of w d ls w' l w'']
    by (cases "task_label l") auto
qed

subsection \<open>A batch that cannot be stored\<close>

lemma blocked_step:
  assumes "\<And>v. prefix es (w_buffer v) \<Longrightarrow> \<not> is_ok (snd (flush env v))"
    and "writer_step env w l w'" and "es \<noteq> []" and "prefix es (w_buffer w)"
  shows "prefix es (w_buffer w') \<and> rows (w_database w') = rows (w_database w)"
proof -
  have tf: "w_buffer (try_flush env v) = w_buffer v \<and> rows (w_database (try_flush env v)) = rows (w_database v)"
    if "prefix es (w_buffer v)" for v
  proof -
    obtain v' r where f: "flush env v = (v', r)" by (cases "flush env v")
    with assms(1) [OF that] obtain e where "r = Inl e" by (cases r) auto
    with f flush_fails [of v v' e] show ?thesis by (simp add: try_flush_def)
  qed
  have hm: "prefix es (w_buffer (handle_message env m v)) \<and>
      rows (w_database (handle_message env m v)) = rows (w_database v)"
      "prefix es (w_buffer (drain_message m v)) \<and>
      rows (w_database (drain_message m v)) = rows (w_database v)"
    if "prefix es (w_buffer v)" for m v
    using that tf [of "push_event e v" for e] by (cases m; auto simp: Let_def)+
  show ?thesis
    using assms(2)
  proof cases
    case (send acc e)
    have "w_buffer (try_send env e w) = w_buffer w" "w_database (try_send env e w) = w_database w"
      by (simp_all add: try_send_def split: prod.split send_result.split)
    with send assms(4) show ?thesis by simp
  next
    case (request_shutdown d r)
    with assms(4) show ?thesis by (auto simp: shutdown_attempt_def split: prod.splits)
  qed (use assms(4) hm tf in auto)
qed

lemma blocked_run:
  assumes "writer_run env w ls w'"
    and "\<And>v. prefix es (w_buffer v) \<Longrightarrow> \<not> is_ok (snd (flush env v))"
    and "es \<noteq> []" and "prefix es (w_buffer w)"
  shows "prefix es (w_buffer w') \<and> rows (w_database w') = rows (w_database w)"
  using assms(1,4)
proof (induction rule: writer_run.induct)
  case (run_snoc w ls w' l w'')
  with blocked_step [OF assms(2) run_snoc(2) assms(3)] show ?case by auto
qed simp

end


section \<open>A concrete instance\<close>

text \<open>The reference channel and table, with instants printed as integers.\<close>

definition list_env ::
  "nat \<Rightarrow> usize \<Rightarrow> (WriterMessage list \<times> nat \<times> bool, Model list, Model list \<times> Model list) writer_env" where
  "list_env limit rows =
     \<lparr>we_ch = list_channel, we_tab = list_table limit, we_rfc3339 = (\<lambda>t. Some (show_int t)),
      we_flush_rows = rows\<rparr>"

definition memory_db :: "Model list connect_ops" where
  "memory_db = \<lparr>db_connect = (\<lambda>_. Some []), db_migrate = (\<lambda>db _. Some db)\<rparr>"

lemma list_env_services:
  "bounded_channel (we_ch (list_env limit n)) fst (\<lambda>c. fst (snd c)) (\<lambda>c. snd (snd c))"
  "transactional (we_tab (list_env limit n)) (\<lambda>db. db) snd fst"
  by (simp_all add: list_env_def list_channel.bounded_channel_axioms list_table.transactional_axioms)

interpretation list_writer: writer_services "list_env limit n" fst "\<lambda>c. fst (snd c)"
  "\<lambda>c. snd (snd c)" "\<lambda>db. db" snd fst for limit n
  by (intro writer_services.intro list_env_services)

abbreviation sample_model :: "uuid \<Rightarrow> Model" where
  "sample_model i \<equiv> active_model (show_int 0) (show_int 0) None None (sample_event i)"

lemma sample_row: "event_to_active_model (we_rfc3339 (list_env limit n)) (sample_event i) = Inr (sample_model i)"
  by (simp add: event_to_active_model_def format_timestamp_def format_optional_timestamp_def
      sample_event_def list_env_def)

section \<open>Properties\<close>

text \<open>C2: from the moment the writer is spawned, the events its queue took are, in the order they
  were sent, stored in the table, buffered, queued, or, only after the task has returned, lost
  with the queue; no event is stored twice or out of order; every refused event is counted (in
  64 bits), and the queue never exceeds the configured capacity.\<close>

theorem accepted_events_conserved:
  assumes "bounded_channel (we_ch env) items capacity closed"
    and "transactional (we_tab env) rows pending before"
    and "spawn_writer co (we_ch env) io fs cfg = (fs', Inr w0)"
    and "writer_run env w0 ls w"
  shows "(\<exists>stored ms lost.
      accepted ls = stored @ w_buffer w @ events_of (items (w_tx w)) @ lost
      \<and> rows_of env stored ms \<and> rows (w_database w) = rows (w_database w0) @ ms
      \<and> (w_phase w = Stopped \<or> lost = []))
    \<and> w_dropped_events w = of_nat (refused ls)
    \<and> length (items (w_tx w)) \<le> unat (rc_max_inflight_events cfg)"
proof -
  note ws = writer_services.intro [OF assms(1,2)]
  note ch = bounded_channel.new [OF assms(1)]
  from assms(3) have w0: "w0 = initial_writer (ch_new (we_ch env) (unat (rc_max_inflight_events cfg))) (w_database w0)"
    by (auto simp: spawn_writer_def initial_writer_def result_simps split: prod.splits sum.splits)
  have "writer_services.conserved env items closed rows (rows (w_database w0)) [] w0"
    by (subst w0) (simp add: writer_services.conserved_def [OF ws] initial_writer_def ch)
  from writer_services.run_conserved [OF ws assms(4) this]
  have books: "\<exists>stored ms lost.
      accepted ls = stored @ w_buffer w @ events_of (items (w_tx w)) @ lost
      \<and> rows_of env stored ms \<and> rows (w_database w) = rows (w_database w0) @ ms
      \<and> (w_phase w = Stopped \<or> lost = [])"
    unfolding writer_services.conserved_def [OF ws] by blast
  have "w_dropped_events w0 = 0" by (subst w0) (simp add: initial_writer_def)
  with writer_services.run_dropped [OF ws assms(4)]
  have dropped: "w_dropped_events w = of_nat (refused ls)" by simp
  have "capacity (w_tx w0) = unat (rc_max_inflight_events cfg)" "items (w_tx w0) = []"
    by (subst w0, simp add: initial_writer_def ch)+
  with writer_services.run_capacity [OF ws assms(4)]
  have "length (items (w_tx w)) \<le> unat (rc_max_inflight_events cfg)" by simp
  with books dropped show ?thesis by blast
qed

theorem accepted_events_conserved_witness:
  "\<exists>w. writer_run (list_env 500 1) (initial_writer ([], 1, False) []) [Send (sample_event ''a'') True,
        Send (sample_event ''b'') False, Receive] w
     \<and> w_database w = [sample_model ''a''] \<and> w_dropped_events w = 1"
proof -
  let ?env = "list_env 500 1" and ?w0 = "initial_writer ([], 1, False) [] :: (WriterMessage list \<times> nat \<times> bool, Model list) writer"
  let ?ls = "[Send (sample_event ''a'') True, Send (sample_event ''b'') False, Receive]"
  have spawn: "spawn_writer memory_db (we_ch ?env) map_fs [] ((test_runtime ''/'')\<lparr>rc_max_inflight_events := 1\<rparr>)
      = ([], Inr ?w0)"
    by (simp add: spawn_writer_def list_env_def memory_db_def map_fs_def connect_database_def
        ensure_sqlite_parent_dir_def list_channel_def split: option.split)
  let ?w1 = "?w0\<lparr>w_tx := ([EventMsg (sample_event ''a'')], 1, False)\<rparr>"
  let ?w2 = "?w1\<lparr>w_dropped_events := 1\<rparr>"
  let ?w3 = "?w2\<lparr>w_tx := ([], 1, False), w_database := [sample_model ''a'']\<rparr>"
  note defs = list_env_def list_channel_def initial_writer_def
  have 1: "writer_step ?env ?w0 (Send (sample_event ''a'') True) ?w1"
    using writer_step.send [of True ?env ?w0 "sample_event ''a''"] by (simp add: try_send_def defs)
  have 2: "writer_step ?env ?w1 (Send (sample_event ''b'') False) ?w2"
    using writer_step.send [of False ?env ?w1 "sample_event ''b''"] by (simp add: try_send_def defs)
  have "handle_message ?env (EventMsg (sample_event ''a'')) (?w2\<lparr>w_tx := ([], 1, False)\<rparr>) = ?w3"
    using sample_row [of 500 1 "''a''"]
    by (simp add: try_flush_def flush_def push_event_def list_table_def defs)
  then have 3: "writer_step ?env ?w2 Receive ?w3"
    using writer_step.receive [of ?w2 ?env "([], 1, False)" "EventMsg (sample_event ''a'')"]
    by (simp add: defs)
  have run: "writer_run ?env ?w0 ?ls ?w3"
    using run_snoc [OF run_snoc [OF run_snoc [OF run_Nil 1] 2] 3] by simp
  from accepted_events_conserved [OF list_env_services spawn run]
  have "w_dropped_events ?w3 = 1" by simp
  with run show ?thesis by (intro exI [of _ ?w3]) simp
qed

text \<open>C18: a flush is all or nothing: it stores every buffered event, in order and in one
  transaction, and empties the buffer, or it stores none of them, keeps the buffer for the next
  attempt and counts a write failure.\<close>

theorem flush_all_or_nothing:
  assumes "bounded_channel (we_ch env) items capacity closed"
    and "transactional (we_tab env) rows pending before"
  shows "(\<exists>ms. rows_of env (w_buffer w) ms
      \<and> rows (w_database (try_flush env w)) = rows (w_database w) @ ms
      \<and> w_buffer (try_flush env w) = []
      \<and> w_write_failures (try_flush env w) = w_write_failures w)
    \<or> (w_buffer w \<noteq> [] \<and> rows (w_database (try_flush env w)) = rows (w_database w)
      \<and> w_buffer (try_flush env w) = w_buffer w
      \<and> w_write_failures (try_flush env w) = w_write_failures w + 1)"
  using writer_services.try_flush_cases [OF writer_services.intro [OF assms], of w] by metis

theorem flush_all_or_nothing_witness:
  "w_database (try_flush (list_env 1 1)
     ((initial_writer ([], 1, False) [])\<lparr>w_buffer := [sample_event ''a'', sample_event ''b'']\<rparr>)) = []"
proof -
  let ?w = "(initial_writer ([], 1, False) [])\<lparr>w_buffer := [sample_event ''a'', sample_event ''b'']\<rparr>
    :: (WriterMessage list \<times> nat \<times> bool, Model list) writer"
  have "w_buffer (try_flush (list_env 1 1) ?w) \<noteq> []"
    using sample_row [of 1 1]
    by (simp add: try_flush_def flush_def list_env_def list_table_def initial_writer_def)
  with flush_all_or_nothing [OF list_env_services, of 1 1 ?w]
  show ?thesis by (auto simp: initial_writer_def)
qed

text \<open>C15: whatever its handles do meanwhile, a writer that received a shutdown request is never
  stuck before it has stopped, and it has taken at most three steps more than there were queued
  messages and messages its handles put in since.  So it stops if they put in finitely many; if
  nothing is put in, after at most three steps more than there were queued messages.  When it has
  stopped it has answered this request and every one queued then, and has stored all events it
  held and all it accepted before its wait for late messages timed out, or, if the last flush
  failed, kept all of them in memory and counted the failure.\<close>

theorem shutdown_completes:
  assumes "bounded_channel (we_ch env) items capacity closed"
    and "transactional (we_tab env) rows pending before"
    and "w_phase w0 = Draining d" and "writer_run env w0 ls w"
  shows "length (filter task_label ls) \<le> length (items (w_tx w0)) + 3 + queued_by ls
    \<and> (w_phase w \<noteq> Stopped \<longrightarrow> (\<exists>l w'. task_label l \<and> writer_step env w l w'))
    \<and> (w_phase w = Stopped \<longrightarrow>
         insert d (requests (items (w_tx w0))) \<subseteq> set (w_done w)
         \<and> (let held = w_buffer w0 @ events_of (items (w_tx w0))
               @ accepted (takeWhile (\<lambda>l. l \<noteq> LateTimeout) ls) in
             w_buffer w = []
             \<and> (\<exists>ms. rows_of env held ms \<and> rows (w_database w) = rows (w_database w0) @ ms)
             \<or> w_buffer w = held \<and> rows (w_database w) = rows (w_database w0)
               \<and> w_write_failures w = w_write_failures w0 + 1))"
proof -
  note ws = writer_services.intro [OF assms(1,2)]
  note run = writer_services.draining_run [OF ws assms(4,3)]
  then have dr: "writer_services.draining_from env items closed rows w0 d ls w" by blast
  have "(w_phase w \<noteq> Stopped \<longrightarrow> (\<exists>l w'. task_label l \<and> writer_step env w l w'))"
    using writer_services.draining_progress [OF ws dr] by blast
  moreover have "w_phase w = Stopped \<longrightarrow>
         insert d (requests (items (w_tx w0))) \<subseteq> set (w_done w)
         \<and> (let held = w_buffer w0 @ events_of (items (w_tx w0))
               @ accepted (takeWhile (\<lambda>l. l \<noteq> LateTimeout) ls) in
             w_buffer w = []
             \<and> (\<exists>ms. rows_of env held ms \<and> rows (w_database w) = rows (w_database w0) @ ms)
             \<or> w_buffer w = held \<and> rows (w_database w) = rows (w_database w0)
               \<and> w_write_failures w = w_write_failures w0 + 1)"
    using dr unfolding writer_services.draining_from_def [OF ws]
    by (auto simp: Let_def accepted_in_time_def)
  moreover have "length (filter task_label ls) \<le> length (items (w_tx w0)) + 3 + queued_by ls"
    using run by linarith
  ultimately show ?thesis by blast
qed

theorem shutdown_completes_witness:
  "\<exists>w. writer_run (list_env 500 9)
       ((initial_writer ([EventMsg (sample_event ''b'')], 2, False) [])
          \<lparr>w_buffer := [sample_event ''a''], w_phase := Draining 7\<rparr>)
       [Drain, DrainEmpty, Send (sample_event ''c'') True, Late, LateTimeout, Finish] w
     \<and> w_phase w = Stopped \<and> 7 \<in> set (w_done w)
     \<and> rows_of (list_env 500 9) [sample_event ''a'', sample_event ''b'', sample_event ''c''] (w_database w)"
proof -
  let ?env = "list_env 500 9"
  let ?a = "sample_event ''a''" and ?b = "sample_event ''b''" and ?c = "sample_event ''c''"
  let ?w0 = "(initial_writer ([EventMsg ?b], 2, False) [])\<lparr>w_buffer := [?a], w_phase := Draining 7\<rparr>
    :: (WriterMessage list \<times> nat \<times> bool, Model list) writer"
  let ?w1 = "?w0\<lparr>w_tx := ([], 2, False), w_buffer := [?a, ?b]\<rparr>"
  let ?w2 = "?w1\<lparr>w_phase := Waiting 7\<rparr>"
  let ?w3 = "?w2\<lparr>w_tx := ([EventMsg ?c], 2, False)\<rparr>"
  let ?w4 = "?w2\<lparr>w_buffer := [?a, ?b, ?c]\<rparr>"
  let ?w5 = "?w4\<lparr>w_phase := Finishing 7\<rparr>"
  let ?w6 = "stop_task ?env ((try_flush ?env ?w5)\<lparr>w_done := w_done (try_flush ?env ?w5) @ [7]\<rparr>)"
  note defs = list_env_def list_channel_def initial_writer_def
  have 1: "writer_step ?env ?w0 Drain ?w1"
    using writer_step.drain [of ?w0 7 ?env "([], 2, False)" "EventMsg ?b"] by (simp add: push_event_def defs)
  have 2: "writer_step ?env ?w1 DrainEmpty ?w2"
    using writer_step.drain_empty [of ?w1 7 ?env "([], 2, False)"] by (simp add: defs)
  have 3: "writer_step ?env ?w2 (Send ?c True) ?w3"
    using writer_step.send [of True ?env ?w2 ?c] by (simp add: try_send_def defs)
  have 4: "writer_step ?env ?w3 Late ?w4"
    using writer_step.late [of ?w3 7 ?env "([], 2, False)" "EventMsg ?c"] by (simp add: push_event_def defs)
  have 5: "writer_step ?env ?w4 LateTimeout ?w5"
    using writer_step.late_timeout [of ?w4 7 ?env "([], 2, False)"] by (simp add: defs)
  have 6: "writer_step ?env ?w5 Finish ?w6" by (rule writer_step.finish) simp_all
  have run: "writer_run ?env ?w0 [Drain, DrainEmpty, Send ?c True, Late, LateTimeout, Finish] ?w6"
    using run_snoc [OF run_snoc [OF run_snoc [OF run_snoc [OF run_snoc [OF run_snoc [OF run_Nil 1] 2] 3] 4] 5] 6]
    by simp
  have "w_buffer ?w6 = []"
    using sample_row [of 500 9]
    by (simp add: try_flush_def flush_def list_table_def defs result_simps)
  with shutdown_completes [OF list_env_services _ run, of 7]
  have "7 \<in> set (w_done ?w6) \<and> rows_of ?env [?a, ?b, ?c] (w_database ?w6)"
    by (auto simp: initial_writer_def Let_def)
  with run show ?thesis by (intro exI [of _ ?w6]) simp
qed

text \<open>C34: if the database refuses inserts of \<open>k\<close> or more rows (SQLite limits the values bound in
  one statement, and a row binds 65), then once the buffer holds \<open>k\<close> events nothing is ever
  stored again: every later flush retries the same growing batch.\<close>

theorem oversized_batch_blocks:
  assumes "bounded_channel (we_ch env) items capacity closed"
    and "transactional (we_tab env) rows pending before"
    and "\<And>t rs. k \<le> length rs \<Longrightarrow> \<not> snd (tx_insert_many (we_tab env) t rs)"
    and "0 < k" and "k \<le> length (w_buffer w)" and "writer_run env w ls w'"
  shows "rows (w_database w') = rows (w_database w) \<and> prefix (w_buffer w) (w_buffer w')"
proof -
  have "\<not> is_ok (snd (flush env v))" if "prefix (w_buffer w) (w_buffer v)" for v
  proof -
    from that assms(5) have len: "k \<le> length (w_buffer v)" using prefix_length_le by fastforce
    have refused: "\<not> b"
      if "collect_results (map (event_to_active_model (we_rfc3339 env)) (w_buffer v)) = Inr ms"
        and "tx_insert_many (we_tab env) tx ms = (tx', b)" for ms tx tx' b
    proof -
      from that(1) have "length ms = length (w_buffer v)"
        by (auto simp: result_simps dest: arg_cong [where f = length])
      with len assms(3) [of ms tx] that(2) show ?thesis by simp
    qed
    from len \<open>0 < k\<close> have "w_buffer v \<noteq> []" by auto
    then show ?thesis
      by (auto simp: flush_def split: sum.split prod.split bool.split dest: refused)
  qed
  note blocked = this
  have "w_buffer w \<noteq> []" using assms(4,5) by auto
  with writer_services.blocked_run [OF writer_services.intro [OF assms(1,2)] assms(6) blocked]
  show ?thesis by blast
qed

theorem oversized_batch_blocks_witness:
  "w_database (try_flush (list_env 1 1)
     ((initial_writer ([], 1, False) [])
        \<lparr>w_buffer := [sample_event ''a'', sample_event ''b'', sample_event ''c'']\<rparr>)) = []"
proof -
  let ?w = "(initial_writer ([], 1, False) [])
      \<lparr>w_buffer := [sample_event ''a'', sample_event ''b'', sample_event ''c'']\<rparr>
    :: (WriterMessage list \<times> nat \<times> bool, Model list) writer"
  have "writer_run (list_env 1 1) ?w [Tick] (try_flush (list_env 1 1) ?w)"
    using run_snoc [OF run_Nil writer_step.tick, of ?w "list_env 1 1"] by (simp add: initial_writer_def)
  moreover have "\<not> snd (tx_insert_many (we_tab (list_env 1 1)) t rs)" if "2 \<le> length rs" for t rs
    using that by (cases t) (simp add: list_env_def list_table_def)
  ultimately show ?thesis
    using oversized_batch_blocks [OF list_env_services, of 2 1 1 ?w "[Tick]"]
    by (simp add: initial_writer_def)
qed

end
