(* ===== verification/Capture.thy ===== *)
theory Capture
  imports Tls_Metadata Body_Accumulator Writer
begin

text \<open>
  \<^verbatim>\<open>src/capture.rs\<close>: the record of one exchange that is filled in while the exchange
  runs, turned into an event once, and handed to the writer; and the body wrapper
  that observes the bytes of a body and ends the exchange when the response body
  ends, fails or is dropped.  The capture is behind a mutex, so its operations are
  atomic; each is a function on the capture and, where it sends an event, the writer.
  The clock and new identifiers are arguments.
\<close>

section \<open>The capture\<close>

record 's ExchangeCapture =
  ec_event_id :: uuid
  ec_connection_id :: uuid
  ec_request_start_ts :: offset_date_time
  ec_client_ip :: "string option"
  ec_client_port :: "u16 option"
  ec_proxy_local_ip :: "string option"
  ec_proxy_local_port :: "u16 option"
  ec_frontend_server_name :: "string option"
  ec_frontend_http_version :: "string option"
  ec_frontend_scheme :: string
  ec_backend_url :: string
  ec_backend_host :: string
  ec_backend_ip :: "string option"
  ec_backend_port :: "u16 option"
  ec_backend_http_version :: "string option"
  ec_upstream_connection_reused :: "bool option"
  ec_method :: string
  ec_authority :: "string option"
  ec_path :: string
  ec_query :: "string option"
  ec_request_headers_json :: string
  ec_request_cookie_header :: "string option"
  ec_request_cookies_json :: "string option"
  ec_request_content_length :: "i64 option"
  ec_request_transfer_encoding :: "string option"
  ec_request_content_type :: "string option"
  ec_response_headers_json :: "string option"
  ec_response_set_cookie_json :: "string option"
  ec_response_content_length :: "i64 option"
  ec_response_transfer_encoding :: "string option"
  ec_response_content_type :: "string option"
  ec_response_content_encoding :: "string option"
  ec_status_code :: "u16 option"
  ec_reason_phrase :: "string option"
  ec_frontend_tls :: FrontendTlsMetadata
  ec_backend_tls :: BackendTlsMetadata
  ec_upstream_first_byte_ms :: "i64 option"
  ec_response_started_at :: "offset_date_time option"
  ec_proxy_result :: ProxyResult
  ec_error :: "ErrorInfo option"
  ec_request_body :: "'s BodyAccumulator"
  ec_response_body :: "'s BodyAccumulator"
  ec_finalized :: bool

text \<open>The libraries a capture uses: HTTP, the hash function, and the writer's services.\<close>

record ('h, 'u, 'i, 'x, 's, 'c, 'db, 't) capture_env =
  ce_lib :: "('h, 'u, 'i, 'x) http_lib"
  ce_sha :: "'s sha_ops"
  ce_writer :: "('c, 'db, 't) writer_env"

definition capture_new ::
  "('h, 'u, 'i, 'x) http_lib \<Rightarrow> 's sha_ops \<Rightarrow> offset_date_time \<Rightarrow> uuid \<Rightarrow> uuid \<Rightarrow>
     ('u, 'p) RuntimeConfig \<Rightarrow> ('h, 'i, 'x, 'b) Request \<Rightarrow> 's ExchangeCapture" where
  "capture_new lib sha now event_id connection_id cfg req =
     (let hdr = hl_hdr lib; tx = hl_txt lib; url = hl_url lib; h = rq_headers req;
          socket_info = ext_socket_info (hl_ext lib) (rq_extensions req);
          client_from_headers =
            (if rc_trust_proxy_headers cfg then forwarded_client_ip hdr h else None);
          scheme_from_headers =
            (if rc_trust_proxy_headers cfg then forwarded_proto hdr h else None);
          local_addr = Option.bind socket_info si_local_addr in
      \<lparr>ec_event_id = event_id,
       ec_connection_id = connection_id,
       ec_request_start_ts = now,
       ec_client_ip =
         opt_or client_from_headers (map_option (\<lambda>i. fst (si_peer_addr i)) socket_info),
       ec_client_port = map_option (\<lambda>i. snd (si_peer_addr i)) socket_info,
       ec_proxy_local_ip = map_option fst local_addr,
       ec_proxy_local_port = opt_or (map_option snd local_addr) (Some (sock_port (rc_listen_addr cfg))),
       ec_frontend_server_name = Some (rc_frontend_domain cfg),
       ec_frontend_http_version = Some (format_http_version (rq_version req)),
       ec_frontend_scheme = unwrap_or ''https'' scheme_from_headers,
       ec_backend_url = url_as_str url (rc_backend_url cfg),
       ec_backend_host = rc_backend_host cfg,
       ec_backend_ip = None,
       ec_backend_port = Some (rc_backend_port cfg),
       ec_backend_http_version = None,
       ec_upstream_connection_reused = None,
       ec_method = rq_method req,
       ec_authority = request_authority lib req,
       ec_path = unwrap_or ''/'' (uri_path url (rq_uri req)),
       ec_query = uri_query url (rq_uri req),
       ec_request_headers_json = serialize_headers hdr tx h (rc_header_log_policy cfg),
       ec_request_cookie_header = header_value hdr tx h COOKIE,
       ec_request_cookies_json = parse_cookies hdr tx (hm_get hdr h COOKIE),
       ec_request_content_length = parse_content_length hdr h,
       ec_request_transfer_encoding = header_value hdr tx h TRANSFER_ENCODING,
       ec_request_content_type = header_value hdr tx h CONTENT_TYPE,
       ec_response_headers_json = None,
       ec_response_set_cookie_json = None,
       ec_response_content_length = None,
       ec_response_transfer_encoding = None,
       ec_response_content_type = None,
       ec_response_content_encoding = None,
       ec_status_code = None,
       ec_reason_phrase = None,
       ec_frontend_tls = frontend_tls_metadata (hl_ext lib) (rq_extensions req),
       ec_backend_tls = BackendTlsMetadata_default,
       ec_upstream_first_byte_ms = None,
       ec_response_started_at = None,
       ec_proxy_result = Inflight,
       ec_error = None,
       ec_request_body = BodyAccumulator_new sha (rc_body_max_bytes cfg),
       ec_response_body = BodyAccumulator_new sha (rc_body_max_bytes cfg),
       ec_finalized = False\<rparr>)"

definition set_rejection ::
  "('h, 'u, 'i, 'x) http_lib \<Rightarrow> u16 \<Rightarrow> ErrorInfo \<Rightarrow> 's ExchangeCapture \<Rightarrow> 's ExchangeCapture" where
  "set_rejection lib status err c =
     c\<lparr>ec_status_code := Some status,
       ec_reason_phrase := hl_canonical_reason lib status,
       ec_proxy_result := ClientRejected,
       ec_error := Some err\<rparr>"

definition set_upstream_response ::
  "('h, 'u, 'i, 'x) http_lib \<Rightarrow> ('u, 'p) RuntimeConfig \<Rightarrow> ('h, 'b) Response \<Rightarrow> offset_date_time \<Rightarrow>
     's ExchangeCapture \<Rightarrow> 's ExchangeCapture" where
  "set_upstream_response lib cfg resp started c =
     (let hdr = hl_hdr lib; tx = hl_txt lib; h = rsp_headers resp in
      c\<lparr>ec_status_code := Some (rsp_status resp),
        ec_reason_phrase := hl_canonical_reason lib (rsp_status resp),
        ec_response_headers_json := Some (serialize_headers hdr tx h (rc_header_log_policy cfg)),
        ec_response_set_cookie_json := parse_set_cookies hdr tx h,
        ec_response_content_length := parse_content_length hdr h,
        ec_response_transfer_encoding := header_value hdr tx h TRANSFER_ENCODING,
        ec_response_content_type := header_value hdr tx h CONTENT_TYPE,
        ec_response_content_encoding := header_value hdr tx h CONTENT_ENCODING,
        ec_backend_http_version := Some (format_http_version (rsp_version resp)),
        ec_response_started_at := Some started,
        ec_upstream_first_byte_ms := Some (duration_ms_i64 (started - ec_request_start_ts c)),
        ec_proxy_result := Success\<rparr>)"

definition set_upstream_error :: "ErrorInfo \<Rightarrow> 's ExchangeCapture \<Rightarrow> 's ExchangeCapture" where
  "set_upstream_error err c = c\<lparr>ec_proxy_result := UpstreamError, ec_error := Some err\<rparr>"

definition observe_request_bytes :: "'s sha_ops \<Rightarrow> bytes \<Rightarrow> 's ExchangeCapture \<Rightarrow> 's ExchangeCapture" where
  "observe_request_bytes sha chunk c = c\<lparr>ec_request_body := observe sha chunk (ec_request_body c)\<rparr>"

definition observe_response_bytes :: "'s sha_ops \<Rightarrow> bytes \<Rightarrow> 's ExchangeCapture \<Rightarrow> 's ExchangeCapture" where
  "observe_response_bytes sha chunk c = c\<lparr>ec_response_body := observe sha chunk (ec_response_body c)\<rparr>"

definition build_event ::
  "'s sha_ops \<Rightarrow> text_ops \<Rightarrow> offset_date_time \<Rightarrow> 's ExchangeCapture \<Rightarrow> ProxyEvent" where
  "build_event sha tx ended_at c =
     (let response_stream_duration_ms =
            map_option (\<lambda>v. duration_ms_i64 (ended_at - v)) (ec_response_started_at c);
          request_body = finish sha tx (ec_request_body c);
          response_body = finish sha tx (ec_response_body c) in
        \<lparr>pe_event_id = ec_event_id c,
          pe_connection_id = ec_connection_id c,
          pe_request_start_ts = ec_request_start_ts c,
          pe_request_end_ts = ended_at,
          pe_duration_ms = duration_ms_i64 (ended_at - ec_request_start_ts c),
          pe_client_ip = ec_client_ip c,
          pe_client_port = ec_client_port c,
          pe_proxy_local_ip = ec_proxy_local_ip c,
          pe_proxy_local_port = ec_proxy_local_port c,
          pe_frontend_server_name = ec_frontend_server_name c,
          pe_frontend_http_version = ec_frontend_http_version c,
          pe_frontend_scheme = ec_frontend_scheme c,
          pe_backend_url = ec_backend_url c,
          pe_backend_host = ec_backend_host c,
          pe_backend_ip = ec_backend_ip c,
          pe_backend_port = ec_backend_port c,
          pe_backend_http_version = ec_backend_http_version c,
          pe_upstream_connection_reused = ec_upstream_connection_reused c,
          pe_method = ec_method c,
          pe_authority = ec_authority c,
          pe_path = ec_path c,
          pe_query = ec_query c,
          pe_request_headers_json = ec_request_headers_json c,
          pe_request_cookie_header = ec_request_cookie_header c,
          pe_request_cookies_json = ec_request_cookies_json c,
          pe_request_content_length = ec_request_content_length c,
          pe_request_transfer_encoding = ec_request_transfer_encoding c,
          pe_request_content_type = ec_request_content_type c,
          pe_request_body_sha256 = bs_sha256 request_body,
          pe_request_body_preview_base64 = bs_preview_base64 request_body,
          pe_request_body_truncated = bs_truncated request_body,
          pe_status_code = ec_status_code c,
          pe_reason_phrase = ec_reason_phrase c,
          pe_response_headers_json = ec_response_headers_json c,
          pe_response_set_cookie_json = ec_response_set_cookie_json c,
          pe_response_content_length = ec_response_content_length c,
          pe_response_transfer_encoding = ec_response_transfer_encoding c,
          pe_response_content_type = ec_response_content_type c,
          pe_response_content_encoding = ec_response_content_encoding c,
          pe_response_body_sha256 = bs_sha256 response_body,
          pe_response_body_preview_base64 = bs_preview_base64 response_body,
          pe_response_body_truncated = bs_truncated response_body,
          pe_frontend_tls_version = ft_version (ec_frontend_tls c),
          pe_frontend_tls_cipher_suite = ft_cipher_suite (ec_frontend_tls c),
          pe_frontend_tls_alpn = ft_alpn (ec_frontend_tls c),
          pe_frontend_tls_sni = ft_sni (ec_frontend_tls c),
          pe_frontend_tls_ja3 = ft_ja3 (ec_frontend_tls c),
          pe_frontend_tls_ja4 = ft_ja4 (ec_frontend_tls c),
          pe_backend_tls_version = bt_version (ec_backend_tls c),
          pe_backend_tls_cipher_suite = bt_cipher_suite (ec_backend_tls c),
          pe_backend_tls_alpn = bt_alpn (ec_backend_tls c),
          pe_backend_tls_sni = bt_sni (ec_backend_tls c),
          pe_backend_cert_leaf_sha256 = bt_cert_leaf_sha256 (ec_backend_tls c),
          pe_backend_cert_subject = bt_cert_subject (ec_backend_tls c),
          pe_backend_cert_issuer = bt_cert_issuer (ec_backend_tls c),
          pe_backend_cert_not_before = bt_cert_not_before (ec_backend_tls c),
          pe_backend_cert_not_after = bt_cert_not_after (ec_backend_tls c),
          pe_dns_duration_ms = None,
          pe_connect_duration_ms = None,
          pe_tls_handshake_duration_ms = None,
          pe_upstream_first_byte_ms = ec_upstream_first_byte_ms c,
          pe_response_stream_duration_ms = response_stream_duration_ms,
          pe_error_kind = map_option err_kind (ec_error c),
          pe_error_text = map_option err_text (ec_error c),
          pe_proxy_result = ec_proxy_result c\<rparr>)"

definition finalize_and_send ::
  "('h, 'u, 'i, 'x, 's, 'c, 'db, 't) capture_env \<Rightarrow> offset_date_time \<Rightarrow>
     's ExchangeCapture \<times> ('c, 'db) writer \<Rightarrow> 's ExchangeCapture \<times> ('c, 'db) writer" where
  "finalize_and_send env now s =
     (case s of (c, w) \<Rightarrow>
        if ec_finalized c then (c, w)
        else
          let c' = c\<lparr>ec_finalized := True\<rparr> in
          (c', try_send (ce_writer env) (build_event (ce_sha env) (hl_txt (ce_lib env)) now c') w))"

definition finalize_with_body_error_and_send ::
  "('h, 'u, 'i, 'x, 's, 'c, 'db, 't) capture_env \<Rightarrow> offset_date_time \<Rightarrow> ErrorInfo \<Rightarrow>
     's ExchangeCapture \<times> ('c, 'db) writer \<Rightarrow> 's ExchangeCapture \<times> ('c, 'db) writer" where
  "finalize_with_body_error_and_send env now err s =
     (case s of (c, w) \<Rightarrow>
        finalize_and_send env now
          (if ec_error c = None then c\<lparr>ec_proxy_result := StreamError, ec_error := Some err\<rparr> else c, w))"

section \<open>Observed bodies\<close>

datatype BodyDirection = RequestBody | ResponseBody

record ObservedBody =
  ob_has_writer :: bool
  ob_direction :: BodyDirection
  ob_finalized :: bool
  ob_completed :: bool

definition observed_request :: ObservedBody where
  "observed_request =
     \<lparr>ob_has_writer = False, ob_direction = RequestBody, ob_finalized = False, ob_completed = False\<rparr>"

definition observed_response :: ObservedBody where
  "observed_response =
     \<lparr>ob_has_writer = True, ob_direction = ResponseBody, ob_finalized = False, ob_completed = False\<rparr>"

text \<open>
  What polling the inner body gives: nothing yet; a frame, with its data if it is a
  data frame and whether the inner body says that it is at its end; an error; the end.
\<close>

datatype body_poll = PollPending | PollFrame "bytes option" bool | PollErr string | PollEnd

type_synonym ('s, 'c, 'db) exchange = "ObservedBody \<times> 's ExchangeCapture \<times> ('c, 'db) writer"

fun poll_frame ::
  "('h, 'u, 'i, 'x, 's, 'c, 'db, 't) capture_env \<Rightarrow> offset_date_time \<Rightarrow> body_poll \<Rightarrow>
     ('s, 'c, 'db) exchange \<Rightarrow> ('s, 'c, 'db) exchange" where
  "poll_frame env now PollPending (ob, c, w) = (ob, c, w)"
| "poll_frame env now (PollFrame data end) (ob, c, w) =
     (let c' = (case data of
                  None \<Rightarrow> c
                | Some chunk \<Rightarrow>
                    (case ob_direction ob of
                       RequestBody \<Rightarrow> observe_request_bytes (ce_sha env) chunk c
                     | ResponseBody \<Rightarrow> observe_response_bytes (ce_sha env) chunk c)) in
      (ob\<lparr>ob_completed := end\<rparr>, c', w))"
| "poll_frame env now (PollErr err) (ob, c, w) =
     (if ob_direction ob = ResponseBody \<and> ob_has_writer ob then
        (ob\<lparr>ob_finalized := True\<rparr>,
         finalize_with_body_error_and_send env now (ErrorInfo_from_display UpstreamProtocol err) (c, w))
      else (ob, c, w))"
| "poll_frame env now PollEnd (ob, c, w) =
     (let ob = ob\<lparr>ob_completed := True\<rparr> in
      if ob_direction ob = ResponseBody \<and> ob_has_writer ob \<and> \<not> ob_finalized ob then
        (ob\<lparr>ob_finalized := True\<rparr>, finalize_and_send env now (c, w))
      else (ob, c, w))"

fun drop_body ::
  "('h, 'u, 'i, 'x, 's, 'c, 'db, 't) capture_env \<Rightarrow> offset_date_time \<Rightarrow>
     ('s, 'c, 'db) exchange \<Rightarrow> ('s, 'c, 'db) exchange" where
  "drop_body env now (ob, c, w) =
     (if ob_direction ob = ResponseBody \<and> \<not> ob_finalized ob \<and> ob_has_writer ob then
        (ob\<lparr>ob_finalized := True\<rparr>,
         if ob_completed ob then finalize_and_send env now (c, w)
         else
           finalize_with_body_error_and_send env now
             (ErrorInfo_new ClientProtocol ''response body dropped before completion'') (c, w))
      else (ob, c, w))"

section \<open>One event for each exchange\<close>

text \<open>Polling a body several times, each time with the clock's reading.\<close>

definition poll_all ::
  "('h, 'u, 'i, 'x, 's, 'c, 'db, 't) capture_env \<Rightarrow> (offset_date_time \<times> body_poll) list \<Rightarrow>
     ('s, 'c, 'db) exchange \<Rightarrow> ('s, 'c, 'db) exchange" where
  "poll_all env ps s = foldl (\<lambda>s (now, p). poll_frame env now p s) s ps"

text \<open>
  The invariant of an exchange whose response body is being sent: body and capture
  agree on whether the exchange is over, and the writer was given one event exactly
  if it is.
\<close>

definition one_event ::
  "('h, 'u, 'i, 'x, 's, 'c, 'db, 't) capture_env \<Rightarrow> ('c, 'db) writer \<Rightarrow> ('s, 'c, 'db) exchange \<Rightarrow> bool" where
  "one_event env w0 s \<longleftrightarrow>
     (case s of (ob, c, w) \<Rightarrow>
        ob_has_writer ob \<and> ob_direction ob = ResponseBody \<and> ob_finalized ob = ec_finalized c
        \<and> (if ec_finalized c then \<exists>ev. w = try_send (ce_writer env) ev w0 else w = w0))"

lemma finalize_and_send_flag [simp]:
  "ec_finalized (fst (finalize_and_send env now s))"
  by (simp add: finalize_and_send_def Let_def split: prod.split)

lemma finalize_with_body_error_flag [simp]:
  "ec_finalized (fst (finalize_with_body_error_and_send env now err s))"
  by (cases s) (simp add: finalize_with_body_error_and_send_def)

lemma finalize_and_send_done: "ec_finalized c \<Longrightarrow> finalize_and_send env now (c, w) = (c, w)"
  by (simp add: finalize_and_send_def)

lemma finalize_and_send_open:
  "\<not> ec_finalized c \<Longrightarrow> finalize_and_send env now (c, w) =
     (c\<lparr>ec_finalized := True\<rparr>,
      try_send (ce_writer env) (build_event (ce_sha env) (hl_txt (ce_lib env)) now (c\<lparr>ec_finalized := True\<rparr>)) w)"
  by (simp add: finalize_and_send_def Let_def)

lemma one_event_finalize:
  assumes "one_event env w0 (ob, c, w)" and "finalize_and_send env now (c, w) = (c', w')"
  shows "one_event env w0 (ob\<lparr>ob_finalized := True\<rparr>, c', w')"
proof (cases "ec_finalized c")
  case True
  with assms finalize_and_send_done [OF True, of env now w] show ?thesis by (auto simp: one_event_def)
next
  case False
  with assms finalize_and_send_open [OF False, of env now w] show ?thesis by (auto simp: one_event_def)
qed

lemma one_event_finalize_error:
  assumes "one_event env w0 (ob, c, w)"
    and "finalize_with_body_error_and_send env now err (c, w) = (c', w')"
  shows "one_event env w0 (ob\<lparr>ob_finalized := True\<rparr>, c', w')"
proof -
  let ?c = "if ec_error c = None then c\<lparr>ec_proxy_result := StreamError, ec_error := Some err\<rparr> else c"
  from assms(1) have "one_event env w0 (ob, ?c, w)" by (auto simp: one_event_def)
  from one_event_finalize [OF this] assms(2) show ?thesis
    by (simp add: finalize_with_body_error_and_send_def)
qed

lemma one_event_poll:
  assumes "one_event env w0 s"
  shows "one_event env w0 (poll_frame env now p s)"
proof -
  obtain ob c w where s: "s = (ob, c, w)" by (cases s)
  show ?thesis
  proof (cases p)
    case (PollFrame data eos)
    with assms s show ?thesis
      by (auto simp: one_event_def Let_def observe_response_bytes_def split: option.split)
  next
    case (PollErr err)
    obtain c' w' where f: "finalize_with_body_error_and_send env now (ErrorInfo_from_display UpstreamProtocol err) (c, w) = (c', w')"
      by fastforce
    with one_event_finalize_error [OF assms [unfolded s] f] assms s PollErr show ?thesis
      by (auto simp: one_event_def [of env w0 "(ob, c, w)"])
  next
    case PollEnd
    obtain c' w' where f: "finalize_and_send env now (c, w) = (c', w')" by fastforce
    from assms s have "one_event env w0 (ob\<lparr>ob_completed := True\<rparr>, c, w)" by (auto simp: one_event_def)
    with one_event_finalize [OF this f] PollEnd s f show ?thesis by (auto simp: Let_def)
  qed (use assms s in simp)
qed

lemma one_event_poll_all: "one_event env w0 s \<Longrightarrow> one_event env w0 (poll_all env ps s)"
  unfolding poll_all_def
proof (induction ps arbitrary: s)
  case (Cons tp ps)
  then show ?case by (cases tp) (simp add: one_event_poll)
qed simp

lemma one_event_drop:
  assumes "one_event env w0 s"
  shows "one_event env w0 (drop_body env now s) \<and> ec_finalized (fst (snd (drop_body env now s)))"
proof -
  obtain ob c w where s: "s = (ob, c, w)" by (cases s)
  let ?err = "ErrorInfo_new ClientProtocol ''response body dropped before completion''"
  obtain c1 w1 where f: "finalize_and_send env now (c, w) = (c1, w1)" by fastforce
  obtain c2 w2 where g: "finalize_with_body_error_and_send env now ?err (c, w) = (c2, w2)" by fastforce
  have "ec_finalized c1" "ec_finalized c2"
    using finalize_and_send_flag [of env now "(c, w)"]
      finalize_with_body_error_flag [of env now ?err "(c, w)"] by (simp_all add: f g)
  with one_event_finalize [OF assms [unfolded s] f] one_event_finalize_error [OF assms [unfolded s] g]
    assms s f g show ?thesis
    by (auto simp: one_event_def [of env w0 "(ob, c, w)"])
qed

section \<open>What the event says of the response body\<close>

text \<open>Polls that only deliver frames or nothing; the bytes they deliver; whether the last frame
  was announced as the last.\<close>

definition is_frame :: "body_poll \<Rightarrow> bool" where
  "is_frame p = (case p of PollPending \<Rightarrow> True | PollFrame _ _ \<Rightarrow> True | _ \<Rightarrow> False)"

definition chunk_of :: "body_poll \<Rightarrow> bytes" where
  "chunk_of p = (case p of PollFrame (Some chunk) _ \<Rightarrow> chunk | _ \<Rightarrow> [])"

definition completed_by :: "body_poll \<Rightarrow> bool \<Rightarrow> bool" where
  "completed_by p b = (case p of PollFrame _ end \<Rightarrow> end | _ \<Rightarrow> b)"

definition reports ::
  "BodySummary \<Rightarrow> ProxyResult \<Rightarrow> (ErrorKind \<times> string) option \<Rightarrow> ProxyEvent \<Rightarrow> bool" where
  "reports s r err ev \<longleftrightarrow>
     pe_response_body_sha256 ev = bs_sha256 s
     \<and> pe_response_body_preview_base64 ev = bs_preview_base64 s
     \<and> pe_response_body_truncated ev = bs_truncated s
     \<and> pe_proxy_result ev = r \<and> pe_error_kind ev = map_option fst err \<and> pe_error_text ev = map_option snd err"

lemma frames_run:
  assumes "list_all (\<lambda>(_, p). is_frame p) ps" and "accumulates (ce_sha env) m pre (ec_response_body c)"
    and "ob_direction ob = ResponseBody"
  shows "\<exists>a. poll_all env ps (ob, c, w) =
      (ob\<lparr>ob_completed := foldl (\<lambda>b (_, p). completed_by p b) (ob_completed ob) ps\<rparr>,
       c\<lparr>ec_response_body := a\<rparr>, w)
    \<and> accumulates (ce_sha env) m (pre @ map (\<lambda>(_, p). chunk_of p) ps) a"
  using assms
proof (induction ps arbitrary: ob c pre)
  case Nil
  then show ?case by (intro exI [of _ "ec_response_body c"]) (simp add: poll_all_def)
next
  case (Cons tp ps)
  obtain t p where tp: "tp = (t, p)" by (cases tp)
  let ?ob = "ob\<lparr>ob_completed := completed_by p (ob_completed ob)\<rparr>"
  let ?c = "c\<lparr>ec_response_body := observe (ce_sha env) (chunk_of p) (ec_response_body c)\<rparr>"
  have step: "poll_frame env t p (ob, c, w) = (?ob, ?c, w)"
    using Cons.prems(1,3) tp
    by (cases p) (auto simp: is_frame_def chunk_of_def completed_by_def observe_response_bytes_def observe_Nil
        Let_def split: option.split)
  have "accumulates (ce_sha env) m (pre @ [chunk_of p]) (ec_response_body ?c)"
    using accumulates_observe [OF Cons.prems(2), of "chunk_of p"] by simp
  from Cons.IH [OF _ this, of ?ob] Cons.prems tp step show ?case
    by (auto simp: poll_all_def)
qed

lemma build_event_reports:
  assumes "streaming_hash sha digest" and "accumulates sha m chunks (ec_response_body c)"
  shows "reports (summary_of digest tx m (concat chunks)) (ec_proxy_result c)
    (map_option (\<lambda>e. (err_kind e, err_text e)) (ec_error c)) (build_event sha tx now c)"
  using streaming_hash.accumulates_finish [OF assms, of "tx"]
  by (simp add: reports_def build_event_def Let_def option.map_comp comp_def)

section \<open>A concrete instance\<close>

type_synonym test_writer = "(WriterMessage list \<times> nat \<times> bool, Model list) writer"

definition test_env ::
  "((string \<times> bytes) list, string, string, unit, bytes, WriterMessage list \<times> nat \<times> bool,
     Model list, Model list \<times> Model list) capture_env" where
  "test_env = \<lparr>ce_lib = test_lib, ce_sha = id_sha, ce_writer = list_env 500 10\<rparr>"

definition test_capture :: "bytes ExchangeCapture" where
  "test_capture = capture_new test_lib id_sha 0 ''e'' ''c'' (test_runtime ''/'') (test_request ''example.test'')"

definition test_writer :: test_writer where
  "test_writer = initial_writer ([], 10, False) []"

section \<open>Properties\<close>

text \<open>C12: an exchange whose response is handed to the client is recorded exactly once: whatever the
  response body yields and however often it is polled, once it is dropped the writer has been
  given exactly one event for it, and nothing done to the body afterwards sends another.\<close>

theorem response_recorded_once:
  assumes "\<not> ec_finalized c"
  shows "case drop_body env now (poll_all env ps (observed_response, c, w)) of (ob, c', w') \<Rightarrow>
    ec_finalized c' \<and> (\<exists>ev. w' = try_send (ce_writer env) ev w)
    \<and> (\<forall>qs t. snd (snd (drop_body env t (poll_all env qs (ob, c', w')))) = w')"
proof -
  obtain ob c' w' where d: "drop_body env now (poll_all env ps (observed_response, c, w)) = (ob, c', w')"
    by (metis prod_cases3)
  have "one_event env w (observed_response, c, w)"
    using assms by (simp add: one_event_def observed_response_def)
  from one_event_drop [OF one_event_poll_all [OF this], of now ps] d
  have 1: "one_event env w (ob, c', w')" "ec_finalized c'" by simp_all
  have stays: "ec_finalized (fst (snd s)) \<and> snd (snd s) = w' \<and> ob_finalized (fst s)"
    if "s = poll_all env qs (ob, c', w')" for qs s
    using that
  proof (induction qs arbitrary: s rule: rev_induct)
    case Nil
    with 1 show ?case by (simp add: poll_all_def one_event_def)
  next
    case (snoc q qs)
    obtain t p where q: "q = (t, p)" by (cases q)
    obtain ob1 c1 w1 where s1: "poll_all env qs (ob, c', w') = (ob1, c1, w1)" by (metis prod_cases3)
    with snoc.IH [OF refl] have h: "ec_finalized c1" "w1 = w'" "ob_finalized ob1" by simp_all
    from snoc.prems s1 q have "s = poll_frame env t p (ob1, c1, w1)" by (simp add: poll_all_def)
    with h show ?case
      by (cases p) (auto simp: Let_def observe_request_bytes_def observe_response_bytes_def
          finalize_with_body_error_and_send_def finalize_and_send_def
          split: option.split BodyDirection.split)
  qed
  have "snd (snd (drop_body env t (poll_all env qs (ob, c', w')))) = w'" for qs t
    using stays [OF refl, of qs] by (cases "poll_all env qs (ob, c', w')") simp
  with 1 d show ?thesis by (auto simp: one_event_def)
qed

theorem response_recorded_once_witness:
  "\<not> ec_finalized test_capture
   \<and> ec_finalized (fst (snd (drop_body test_env 9 (poll_all test_env [(5, PollFrame (Some ''hi'') False)]
        (observed_response, test_capture, test_writer)))))"
proof -
  have "\<not> ec_finalized test_capture" by (simp add: test_capture_def capture_new_def Let_def)
  with response_recorded_once [OF this, where env = test_env and now = 9
      and ps = "[(5, PollFrame (Some ''hi'') False)]" and w = test_writer]
  show ?thesis by (simp split: prod.splits)
qed

text \<open>C21: the event of a streamed response reports the bytes that were streamed: hash, preview and
  truncation are those of the concatenated data frames.  If the body ends, or is dropped after a
  frame announced as the last, the outcome is the capture's; if it fails, the outcome is a
  stream error with the upstream's error; if it is dropped before, a stream error of the client.\<close>

theorem event_reports_stream:
  assumes "streaming_hash (ce_sha env) digest" and "list_all (\<lambda>(_, p). is_frame p) ps"
    and "\<not> ec_finalized c" and "ec_error c = None"
    and "ec_response_body c = BodyAccumulator_new (ce_sha env) m"
  shows "let s = poll_all env ps (observed_response, c, w);
      body = summary_of digest (hl_txt (ce_lib env)) m (concat (map (\<lambda>(_, p). chunk_of p) ps)) in
    (\<exists>ev. snd (snd (poll_frame env now PollEnd s)) = try_send (ce_writer env) ev w
        \<and> reports body (ec_proxy_result c) None ev)
    \<and> (\<exists>ev. snd (snd (poll_frame env now (PollErr e) s)) = try_send (ce_writer env) ev w
        \<and> reports body StreamError (Some (UpstreamProtocol, e)) ev)
    \<and> (\<exists>ev. snd (snd (drop_body env now s)) = try_send (ce_writer env) ev w
        \<and> (if foldl (\<lambda>b (_, p). completed_by p b) False ps
           then reports body (ec_proxy_result c) None ev
           else reports body StreamError
                  (Some (ClientProtocol, ''response body dropped before completion'')) ev))"
proof -
  define s where "s = poll_all env ps (observed_response, c, w)"
  define body where
    "body = summary_of digest (hl_txt (ce_lib env)) m (concat (map (\<lambda>(_, p). chunk_of p) ps))"
  let ?tx = "hl_txt (ce_lib env)" and ?done = "foldl (\<lambda>b (_, p). completed_by p b) False ps"
  obtain a where s: "s = (observed_response\<lparr>ob_completed := ?done\<rparr>, c\<lparr>ec_response_body := a\<rparr>, w)"
    and acc: "accumulates (ce_sha env) m (map (\<lambda>(_, p). chunk_of p) ps) a"
    using frames_run [OF assms(2), of env m "[]" c observed_response w] assms(5)
    by (auto simp: s_def observed_response_def accumulates_new)
  have rep: "reports body (ec_proxy_result c') (map_option (\<lambda>e. (err_kind e, err_text e)) (ec_error c'))
      (build_event (ce_sha env) ?tx now c')" if "ec_response_body c' = a" for c'
    using build_event_reports [OF assms(1), of m "map (\<lambda>(_, p). chunk_of p) ps" c' ?tx now] acc that
    by (simp add: body_def)
  let ?ok = "c\<lparr>ec_response_body := a, ec_finalized := True\<rparr>"
  let ?bad = "\<lambda>err. c\<lparr>ec_response_body := a, ec_proxy_result := StreamError, ec_error := Some err,
    ec_finalized := True\<rparr>"
  have 1: "snd (snd (poll_frame env now PollEnd s)) =
      try_send (ce_writer env) (build_event (ce_sha env) ?tx now ?ok) w"
    and 2: "snd (snd (poll_frame env now (PollErr e) s)) =
      try_send (ce_writer env) (build_event (ce_sha env) ?tx now (?bad (ErrorInfo_new UpstreamProtocol e))) w"
    and 3: "snd (snd (drop_body env now s)) =
      try_send (ce_writer env) (build_event (ce_sha env) ?tx now (if ?done then ?ok else
        ?bad (ErrorInfo_new ClientProtocol ''response body dropped before completion''))) w"
    using assms(3,4)
    by (simp_all add: s observed_response_def Let_def finalize_and_send_def
        finalize_with_body_error_and_send_def ErrorInfo_from_display_def)
  have ok: "reports body (ec_proxy_result c) None (build_event (ce_sha env) ?tx now ?ok)"
    using rep [of ?ok] assms(4) by simp
  have bad: "reports body StreamError (Some (k, x))
      (build_event (ce_sha env) ?tx now (?bad (ErrorInfo_new k x)))" for k x
    using rep [of "?bad (ErrorInfo_new k x)"] by (simp add: ErrorInfo_new_def)
  show ?thesis
    unfolding s_def [symmetric] body_def [symmetric] Let_def 1 2 3
  proof (intro conjI)
    show "\<exists>ev. try_send (ce_writer env) (build_event (ce_sha env) ?tx now (if ?done then ?ok else
          ?bad (ErrorInfo_new ClientProtocol ''response body dropped before completion''))) w
        = try_send (ce_writer env) ev w
      \<and> (if ?done then reports body (ec_proxy_result c) None ev
         else reports body StreamError
           (Some (ClientProtocol, ''response body dropped before completion'')) ev)"
      using ok bad by (cases ?done) (simp_all only: if_True if_False, blast+)
  qed (use ok bad in blast)+
qed

theorem event_reports_stream_witness:
  "\<exists>ev. snd (snd (drop_body test_env 9 (poll_all test_env [(5, PollFrame (Some ''hi'') False)]
          (observed_response, test_capture, test_writer)))) = try_send (ce_writer test_env) ev test_writer
     \<and> pe_proxy_result ev = StreamError \<and> pe_response_body_sha256 ev = Some ''hi''"
proof -
  have sha: "streaming_hash (ce_sha test_env) (\<lambda>b. b)"
    by (simp add: test_env_def id_sha.streaming_hash_axioms)
  have c: "\<not> ec_finalized test_capture" "ec_error test_capture = None"
    "ec_response_body test_capture = BodyAccumulator_new (ce_sha test_env) 65536"
    by (simp_all add: test_capture_def capture_new_def Let_def test_env_def test_runtime_def
        build_config_def test_config_def RuntimeSettingsFile_default_def default_body_max_bytes_def)
  from event_reports_stream [OF sha _ c, where now = 9
      and ps = "[(5, PollFrame (Some ''hi'') False)]" and w = test_writer]
  show ?thesis
    by (auto simp: Let_def is_frame_def completed_by_def chunk_of_def reports_def summary_of_def test_env_def
        test_lib_def test_text_def)
qed

end
