(* ===== verification/Proxy.thy ===== *)
theory Proxy
  imports Capture
begin

text \<open>
  \<^verbatim>\<open>src/proxy.rs\<close>: what the proxy does with a request (\<open>ProxyService::handle\<close>), branch
  by branch, and how a running proxy is stopped (\<open>ProxyHandle::shutdown\<close>).  The
  upstream client is a parameter: its result for a request, the request body chunks
  it had read by then, and what collecting a response body gives.
\<close>

section \<open>The upstream\<close>

abbreviation "MISDIRECTED_REQUEST \<equiv> (421 :: u16)"
abbreviation "BAD_REQUEST \<equiv> (400 :: u16)"
abbreviation "BAD_GATEWAY \<equiv> (502 :: u16)"
abbreviation "GATEWAY_TIMEOUT \<equiv> (504 :: u16)"

datatype ('h, 'b) upstream_result =
    UpstreamResponse "('h, 'b) Response" | UpstreamFailed string | UpstreamTimedOut

text \<open>
  \<open>up_serve\<close>: the client's answer to a request within the request timeout, with the
  chunks of the request body read until then.  \<open>up_collect\<close>: the whole of a response
  body, or the error that ended it.
\<close>

record ('h, 'i, 'x, 'q, 'b) upstream =
  up_serve :: "('h, 'i, 'x, 'q) Request \<Rightarrow> bytes list \<times> ('h, 'b) upstream_result"
  up_collect :: "'b \<Rightarrow> string + bytes"

text \<open>The readings of the clock and the new identifiers of one exchange.\<close>

record exchange_inputs =
  xi_event_id :: uuid
  xi_connection_id :: uuid
  xi_started :: offset_date_time
  xi_response :: offset_date_time
  xi_ended :: offset_date_time

text \<open>
  The body of the answer: the text of an error response, or the upstream's body or
  the rewritten bytes, both wrapped in an observed body.
\<close>

datatype 'b proxy_body = ErrorText bytes | ObservedStream 'b | ObservedBytes bytes

section \<open>Handling a request\<close>

definition request_path :: "('u, 'i) url_ops \<Rightarrow> 'i \<Rightarrow> string" where
  "request_path url uri = unwrap_or ''/'' (uri_path url uri)"

definition upstream_headers :: "'h header_ops \<Rightarrow> bool \<Rightarrow> 'h \<Rightarrow> 'h" where
  "upstream_headers ops force_identity_encoding h =
     (let h = hm_remove ops h HOST;
          h = (if force_identity_encoding then hm_insert ops h ACCEPT_ENCODING ''identity'' else h) in
      strip_hop_by_hop_headers ops h)"

text \<open>An error response: the capture is finalized and sent, the client gets a text.\<close>

definition answer_error ::
  "('h, 'u, 'i, 'x, 's, 'c, 'db, 't) capture_env \<Rightarrow> offset_date_time \<Rightarrow> u16 \<Rightarrow> string \<Rightarrow>
     's ExchangeCapture \<times> ('c, 'db) writer \<Rightarrow>
     ('h, 'b proxy_body) Response \<times> 's ExchangeCapture \<times> ('c, 'db) writer" where
  "answer_error env now status message s =
     (let r = make_gateway_error (hl_hdr (ce_lib env)) status message in
      (\<lparr>rsp_status = rsp_status r, rsp_version = rsp_version r, rsp_headers = rsp_headers r,
        rsp_body = ErrorText (rsp_body r)\<rparr>,
       finalize_and_send env now s))"

definition answer_rejection ::
  "('h, 'u, 'i, 'x, 's, 'c, 'db, 't) capture_env \<Rightarrow> offset_date_time \<Rightarrow> u16 \<Rightarrow> string \<Rightarrow> ErrorInfo \<Rightarrow>
     's ExchangeCapture \<times> ('c, 'db) writer \<Rightarrow>
     ('h, 'b proxy_body) Response \<times> 's ExchangeCapture \<times> ('c, 'db) writer" where
  "answer_rejection env now status message err s =
     answer_error env now status message (set_rejection (ce_lib env) status err (fst s), snd s)"

definition answer_upstream_error ::
  "('h, 'u, 'i, 'x, 's, 'c, 'db, 't) capture_env \<Rightarrow> offset_date_time \<Rightarrow> u16 \<Rightarrow> string \<Rightarrow> ErrorInfo \<Rightarrow>
     's ExchangeCapture \<times> ('c, 'db) writer \<Rightarrow>
     ('h, 'b proxy_body) Response \<times> 's ExchangeCapture \<times> ('c, 'db) writer" where
  "answer_upstream_error env now status message err s =
     answer_error env now status message (set_upstream_error err (fst s), snd s)"

text \<open>The response is handed to the client with an observed body.\<close>

definition answer_observed ::
  "('h, 'u, 'i, 'x, 's, 'c, 'db, 't) capture_env \<Rightarrow> ('u, 'p) RuntimeConfig \<Rightarrow> offset_date_time \<Rightarrow>
     ('h, 'b) Response \<Rightarrow> 'h \<Rightarrow> 'b proxy_body \<Rightarrow> 's ExchangeCapture \<times> ('c, 'db) writer \<Rightarrow>
     ('h, 'b proxy_body) Response \<times> 's ExchangeCapture \<times> ('c, 'db) writer" where
  "answer_observed env cfg started resp h body s =
     (let response =
        \<lparr>rsp_status = rsp_status resp, rsp_version = rsp_version resp, rsp_headers = h, rsp_body = body\<rparr> in
      (response, set_upstream_response (ce_lib env) cfg response started (fst s), snd s))"

text \<open>The part of \<open>handle\<close> after the upstream has answered with a response.\<close>

definition answer_response ::
  "('h, 'u, 'i, 'x, 's, 'c, 'db, 't) capture_env \<Rightarrow> 'p glob_ops \<Rightarrow> ('u, 'p) RuntimeConfig \<Rightarrow>
     ('h, 'i, 'x, 'q, 'b) upstream \<Rightarrow> exchange_inputs \<Rightarrow> string \<Rightarrow> ('h, 'b) Response \<Rightarrow>
     's ExchangeCapture \<times> ('c, 'db) writer \<Rightarrow>
     ('h, 'b proxy_body) Response \<times> 's ExchangeCapture \<times> ('c, 'db) writer" where
  "answer_response env g cfg up xi url resp s =
     (let ops = hl_hdr (ce_lib env); transforms = rc_transforms cfg;
          fail = (\<lambda>err. answer_upstream_error env (xi_ended xi) BAD_GATEWAY ''bad gateway'' err s);
          h = strip_hop_by_hop_headers ops (rsp_headers resp) in
      case apply_until_body ops g transforms url h of
        Inl err \<Rightarrow> fail (ErrorInfo_from_display Internal err)
      | Inr (plan, h) \<Rightarrow>
          (case disposition plan of
             Stream \<Rightarrow>
               answer_observed env cfg (xi_response xi) resp
                 (if pre_headers_changed plan then hm_remove ops h CONTENT_LENGTH else h)
                 (ObservedStream (rsp_body resp)) s
           | BufferFrom start_index \<Rightarrow>
               (case up_collect up (rsp_body resp) of
                  Inl err \<Rightarrow> fail (ErrorInfo_from_display UpstreamProtocol err)
                | Inr body \<Rightarrow>
                    (case apply_with_body ops g transforms start_index url h body of
                       Inl err \<Rightarrow> fail (ErrorInfo_from_display Internal err)
                     | Inr (_, h, body) \<Rightarrow>
                         let h = hm_remove ops h CONTENT_LENGTH in
                         case hv_from_str ops (show_nat (length body)) of
                           None \<Rightarrow>
                             fail (ErrorInfo_from_display Internal
                               (''failed to build content-length header: ''
                                @ hl_invalid_value_text (ce_lib env)))
                         | Some v \<Rightarrow>
                             answer_observed env cfg (xi_response xi) resp
                               (hm_insert ops h CONTENT_LENGTH v) (ObservedBytes body) s))))"

text \<open>The request that is sent upstream.\<close>

definition upstream_request ::
  "('h, 'u, 'i, 'x) http_lib \<Rightarrow> 'p glob_ops \<Rightarrow> ('u, 'p) RuntimeConfig \<Rightarrow> ('h, 'i, 'x, 'q) Request \<Rightarrow>
     ('h, 'i, 'x, 'q) Request anyhow_result" where
  "upstream_request lib g cfg req =
     (let url = hl_url lib; path = request_path url (rq_uri req); query = uri_query url (rq_uri req);
          force = needs_plaintext_upstream_body g (rc_transforms cfg) (request_url path query) in
      try_bind (build_backend_uri url cfg path query) (\<lambda>uri.
        Inr (req\<lparr>rq_uri := uri, rq_headers := upstream_headers (hl_hdr lib) force (rq_headers req)\<rparr>)))"

definition handle ::
  "('h, 'u, 'i, 'x, 's, 'c, 'db, 't) capture_env \<Rightarrow> 'p glob_ops \<Rightarrow> ('u, 'p) RuntimeConfig \<Rightarrow>
     ('h, 'i, 'x, 'q, 'b) upstream \<Rightarrow> exchange_inputs \<Rightarrow> ('h, 'i, 'x, 'q) Request \<Rightarrow> ('c, 'db) writer \<Rightarrow>
     ('h, 'b proxy_body) Response \<times> 's ExchangeCapture \<times> ('c, 'db) writer" where
  "handle env g cfg up xi req w =
     (let lib = ce_lib env;
          c = capture_new lib (ce_sha env) (xi_started xi) (xi_event_id xi) (xi_connection_id xi) cfg req in
      if \<not> host_matches_frontend lib req (rc_frontend_domain cfg) then
        answer_rejection env (xi_ended xi) MISDIRECTED_REQUEST ''misdirected request''
          (ErrorInfo_new ClientProtocol ''request host does not match configured frontend domain'') (c, w)
      else
        (case upstream_request lib g cfg req of
           Inl err \<Rightarrow>
             answer_rejection env (xi_ended xi) BAD_REQUEST ''bad request''
               (ErrorInfo_from_display Config (''failed to construct upstream URI: '' @ err)) (c, w)
         | Inr ureq \<Rightarrow>
             (case up_serve up ureq of
                (chunks, result) \<Rightarrow>
                  let c = foldl (\<lambda>c chunk. observe_request_bytes (ce_sha env) chunk c) c chunks in
                  case result of
                    UpstreamResponse resp \<Rightarrow>
                      answer_response env g cfg up xi
                        (request_url (request_path (hl_url lib) (rq_uri req))
                           (uri_query (hl_url lib) (rq_uri req))) resp (c, w)
                  | UpstreamFailed err \<Rightarrow>
                      answer_upstream_error env (xi_ended xi) BAD_GATEWAY ''bad gateway''
                        (ErrorInfo_from_display UpstreamProtocol err) (c, w)
                  | UpstreamTimedOut \<Rightarrow>
                      answer_upstream_error env (xi_ended xi) GATEWAY_TIMEOUT ''gateway timeout''
                        (ErrorInfo_new Timeout ''upstream request timed out'') (c, w))))"

section \<open>Stopping the proxy\<close>

text \<open>
  How the proxy's task ends: with its result, or without one when it panicked or was
  cancelled.
\<close>

datatype task_end = TaskResult "unit anyhow_result" | TaskPanicked string | TaskCancelled

text \<open>
  \<open>ProxyHandle::shutdown\<close>: the end of the task if it ends within five seconds of the
  stop signal, and otherwise how it ends when it is aborted.
\<close>

definition join_error_text :: "task_end \<Rightarrow> string" where
  "join_error_text e = (case e of TaskPanicked msg \<Rightarrow> msg | _ \<Rightarrow> ''task was cancelled'')"

definition proxy_shutdown :: "task_end option \<Rightarrow> task_end \<Rightarrow> unit anyhow_result" where
  "proxy_shutdown within_timeout after_abort =
     (case within_timeout of
        Some (TaskResult r) \<Rightarrow> r
      | Some e \<Rightarrow> Inl (''proxy task join failure: '' @ join_error_text e)
      | None \<Rightarrow>
          (case after_abort of
             TaskResult r \<Rightarrow> try_bind r (\<lambda>_. Inr ())
           | TaskCancelled \<Rightarrow> Inr ()
           | TaskPanicked msg \<Rightarrow> Inl (''proxy task abort failure: '' @ msg)))"

definition proxy_wait :: "task_end \<Rightarrow> unit anyhow_result" where
  "proxy_wait e =
     (case e of
        TaskResult r \<Rightarrow> r
      | _ \<Rightarrow> Inl (''proxy task join failure: '' @ join_error_text e))"

section \<open>How a request can be answered\<close>

text \<open>
  Where an exchange stands when \<open>handle\<close> returns: answered with an error text and
  recorded, or answered with an observed body and still open.
\<close>

definition settled ::
  "('h, 'u, 'i, 'x, 's, 'c, 'db, 't) capture_env \<Rightarrow> ('c, 'db) writer \<Rightarrow>
     ('h, 'b proxy_body) Response \<times> 's ExchangeCapture \<times> ('c, 'db) writer \<Rightarrow> bool" where
  "settled env w0 r \<longleftrightarrow>
     (case r of (resp, c, w) \<Rightarrow>
        case rsp_body resp of
          ErrorText _ \<Rightarrow> ec_finalized c \<and> (\<exists>ev. w = try_send (ce_writer env) ev w0)
        | _ \<Rightarrow> \<not> ec_finalized c \<and> ec_error c = None \<and> ec_proxy_result c = Success \<and> w = w0)"

text \<open>Which event an error answer records.\<close>

definition error_event :: "u16 \<Rightarrow> ProxyEvent \<Rightarrow> bool" where
  "error_event status ev \<longleftrightarrow>
     (case pe_error_kind ev of
        Some ClientProtocol \<Rightarrow> status = MISDIRECTED_REQUEST \<and> pe_proxy_result ev = ClientRejected
          \<and> pe_status_code ev = Some status
      | Some Config \<Rightarrow> status = BAD_REQUEST \<and> pe_proxy_result ev = ClientRejected
          \<and> pe_status_code ev = Some status
      | Some UpstreamProtocol \<Rightarrow> status = BAD_GATEWAY \<and> pe_proxy_result ev = UpstreamError
      | Some Internal \<Rightarrow> status = BAD_GATEWAY \<and> pe_proxy_result ev = UpstreamError
      | Some Timeout \<Rightarrow> status = GATEWAY_TIMEOUT \<and> pe_proxy_result ev = UpstreamError
      | _ \<Rightarrow> False)"

text \<open>A capture that is still being filled in.\<close>

definition open_capture :: "'s ExchangeCapture \<Rightarrow> bool" where
  "open_capture c \<longleftrightarrow> \<not> ec_finalized c \<and> ec_error c = None"

lemma open_capture_new [wf_intros]: "open_capture (capture_new lib sha now e i cfg req)"
  by (simp add: open_capture_def capture_new_def Let_def)

lemma open_capture_observe [wf_intros]:
  "open_capture c \<Longrightarrow> open_capture (foldl (\<lambda>c chunk. observe_request_bytes sha chunk c) c chunks)"
  by (induction chunks arbitrary: c) (auto simp: open_capture_def observe_request_bytes_def)

lemma build_event_error:
  "pe_error_kind (build_event sha tx now c) = map_option err_kind (ec_error c)"
  "pe_proxy_result (build_event sha tx now c) = ec_proxy_result c"
  "pe_status_code (build_event sha tx now c) = ec_status_code c"
  by (simp_all add: build_event_def Let_def)

lemma answer_error_result:
  assumes "\<not> ec_finalized c"
  shows "answer_error env now status msg (c, w) =
    (\<lparr>rsp_status = status, rsp_version = HTTP_11,
      rsp_headers = rsp_headers (make_gateway_error (hl_hdr (ce_lib env)) status msg), rsp_body = ErrorText msg\<rparr>,
     c\<lparr>ec_finalized := True\<rparr>,
     try_send (ce_writer env) (build_event (ce_sha env) (hl_txt (ce_lib env)) now (c\<lparr>ec_finalized := True\<rparr>)) w)"
  using assms by (simp add: answer_error_def make_gateway_error_def finalize_and_send_open Let_def)

text \<open>Every answer of \<open>handle\<close> is of one of these three forms.\<close>

inductive answered ::
  "('h, 'u, 'i, 'x, 's, 'c, 'db, 't) capture_env \<Rightarrow> ('c, 'db) writer \<Rightarrow>
     ('h, 'b proxy_body) Response \<times> 's ExchangeCapture \<times> ('c, 'db) writer \<Rightarrow> bool"
  for env w where
  rejected: "open_capture c \<Longrightarrow>
    (status, err_kind err) \<in> {(MISDIRECTED_REQUEST, ClientProtocol), (BAD_REQUEST, Config)} \<Longrightarrow>
    answered env w (answer_rejection env now status msg err (c, w))"
| upstream_error: "open_capture c \<Longrightarrow>
    (status, err_kind err) \<in> {(BAD_GATEWAY, UpstreamProtocol), (BAD_GATEWAY, Internal), (GATEWAY_TIMEOUT, Timeout)} \<Longrightarrow>
    answered env w (answer_upstream_error env now status msg err (c, w))"
| observed: "open_capture c \<Longrightarrow> ec_proxy_result c = Success \<Longrightarrow> \<forall>t. rsp_body resp \<noteq> ErrorText t \<Longrightarrow>
    answered env w (resp, c, w)"

lemma answer_observed_answered:
  "open_capture c \<Longrightarrow> \<forall>t. body \<noteq> ErrorText t \<Longrightarrow>
     answered env w (answer_observed env cfg started resp h body (c, w))"
  unfolding answer_observed_def Let_def fst_conv snd_conv
  by (rule answered.observed) (simp_all add: set_upstream_response_def open_capture_def Let_def)

lemma answer_response_answered:
  assumes "open_capture c"
  shows "answered env w (answer_response env g cfg up xi url resp (c, w))"
  using assms unfolding answer_response_def Let_def
  by (auto simp: ErrorInfo_from_display_def ErrorInfo_new_def
      intro!: answered.rejected answered.upstream_error answer_observed_answered
      split: sum.split prod.split PrebufferDisposition.split option.split)

lemma handle_answered: "answered env w (handle env g cfg up xi req w)"
  unfolding handle_def Let_def
  by (auto simp: ErrorInfo_from_display_def ErrorInfo_new_def
      intro!: answered.rejected answered.upstream_error answer_response_answered open_capture_new open_capture_observe
      split: sum.split prod.split upstream_result.split)

lemma answered_settled: "answered env w r \<Longrightarrow> settled env w r"
proof (induction rule: answered.induct)
  case (rejected c status err now msg)
  then show ?case
    by (auto simp: answer_rejection_def settled_def answer_error_result set_rejection_def open_capture_def)
next
  case (upstream_error c status err now msg)
  then show ?case
    by (auto simp: answer_upstream_error_def settled_def answer_error_result set_upstream_error_def open_capture_def)
next
  case (observed c resp)
  then show ?case by (cases "rsp_body resp") (auto simp: settled_def open_capture_def)
qed

lemma answered_error_event:
  "answered env w (resp, c, w') \<Longrightarrow> rsp_body resp = ErrorText t \<Longrightarrow>
     \<exists>ev. w' = try_send (ce_writer env) ev w \<and> error_event (rsp_status resp) ev"
proof (induction "(resp, c, w')" rule: answered.induct)
  case (rejected c0 status err now msg)
  then show ?case
    by (auto simp: answer_rejection_def answer_error_result set_rejection_def open_capture_def
        error_event_def build_event_error)
next
  case (upstream_error c0 status err now msg)
  then show ?case
    by (auto simp: answer_upstream_error_def answer_error_result set_upstream_error_def open_capture_def
        error_event_def build_event_error)
qed auto

section \<open>What the answer contains\<close>

context header_map
begin

lemma upstream_headers_values:
  "hm_get_all ops (upstream_headers ops force h) n =
     (if n = HOST \<or> n \<in> set hop_by_hop \<or> Some n \<in> hn_from_bytes ops ` set (connection_tokens ops h) then []
      else if force \<and> n = ACCEPT_ENCODING then [''identity''] else hm_get_all ops h n)"
proof -
  have tokens: "connection_tokens ops (if force then hm_insert ops (hm_remove ops h HOST) ACCEPT_ENCODING ''identity''
      else hm_remove ops h HOST) = connection_tokens ops h"
    by (simp add: connection_tokens_def hm_get_str_def get_insert get_remove)
  show ?thesis
    unfolding upstream_headers_def Let_def strip_hop_by_hop_values tokens
    by (auto simp: get_all_simps)
qed

end

lemma until_body_loop_stream:
  assumes "until_body_loop ops g url rs (i, hc, h) = Inr (out, h')" and "disposition out = Stream"
  shows "with_body_loop ops g url rs (hc, bc, h, body) =
    Inr (\<lparr>headers_changed = pre_headers_changed out, body_changed = bc\<rparr>, h', body)"
  using assms
proof (induction rs arbitrary: i hc h)
  case (Cons r rs)
  then show ?case
    by (cases "apply_headers ops r h")
      (auto simp: rule_apply_header_only Let_def split: if_splits prod.splits)
qed auto

text \<open>The two ways in which a response reaches the client.\<close>

lemma handle_observed:
  assumes "handle env g cfg up xi req w = (resp, c, w')" and "\<forall>t. rsp_body resp \<noteq> ErrorText t"
  obtains chunks uresp ureq c0 where
    "host_matches_frontend (ce_lib env) req (rc_frontend_domain cfg)"
    "upstream_request (ce_lib env) g cfg req = Inr ureq" "up_serve up ureq = (chunks, UpstreamResponse uresp)"
    "answer_response env g cfg up xi (request_url (request_path (hl_url (ce_lib env)) (rq_uri req))
       (uri_query (hl_url (ce_lib env)) (rq_uri req))) uresp (c0, w) = (resp, c, w')"
  using assms
  by (auto simp: handle_def Let_def answer_rejection_def answer_upstream_error_def answer_error_def
      split: if_splits sum.splits prod.splits upstream_result.splits)

lemma answer_response_observed:
  assumes "answer_response env g cfg up xi url uresp (c0, w) = (resp, c, w')"
    and "\<forall>t. rsp_body resp \<noteq> ErrorText t"
  defines "ops \<equiv> hl_hdr (ce_lib env)"
  defines "h \<equiv> strip_hop_by_hop_headers ops (rsp_headers uresp)"
  obtains (stream) plan h' where "apply_until_body ops g (rc_transforms cfg) url h = Inr (plan, h')"
      "disposition plan = Stream" "rsp_status resp = rsp_status uresp"
      "rsp_headers resp = (if pre_headers_changed plan then hm_remove ops h' CONTENT_LENGTH else h')"
      "rsp_body resp = ObservedStream (rsp_body uresp)"
  | (buffer) plan h1 i body out h2 body' v where
      "apply_until_body ops g (rc_transforms cfg) url h = Inr (plan, h1)" "disposition plan = BufferFrom i"
      "up_collect up (rsp_body uresp) = Inr body"
      "apply_with_body ops g (rc_transforms cfg) i url h1 body = Inr (out, h2, body')"
      "hv_from_str ops (show_nat (length body')) = Some v" "rsp_status resp = rsp_status uresp"
      "rsp_headers resp = hm_insert ops (hm_remove ops h2 CONTENT_LENGTH) CONTENT_LENGTH v"
      "rsp_body resp = ObservedBytes body'"
  using assms(1,2) unfolding ops_def h_def
  by (auto simp: answer_response_def Let_def answer_upstream_error_def answer_error_def answer_observed_def
      split: sum.splits prod.splits PrebufferDisposition.splits option.splits)

text \<open>
  The specification of a transformed response: all rules applied in one pass to
  the stripped headers and the body, and a content length that fits the body.
\<close>

definition transformed_response ::
  "'h header_ops \<Rightarrow> 'p glob_ops \<Rightarrow> 'p TransformConfig \<Rightarrow> string \<Rightarrow> 'h \<Rightarrow> bytes \<Rightarrow> 'h \<Rightarrow> bytes \<Rightarrow> bool" where
  "transformed_response ops g cfg url h body h' body' \<longleftrightarrow>
     (\<exists>out h1. apply_with_body ops g cfg 0 url (strip_hop_by_hop_headers ops h) body = Inr (out, h1, body')
        \<and> (\<forall>n. n \<noteq> CONTENT_LENGTH \<longrightarrow> hm_get_all ops h' n = hm_get_all ops h1 n)
        \<and> (headers_changed out \<or> body_changed out \<longrightarrow>
             hm_get_all ops h' CONTENT_LENGTH \<in> {[], [show_nat (length body')]}))"

context header_map
begin

lemma stream_transformed:
  assumes "apply_until_body ops g cfg url (strip_hop_by_hop_headers ops h) = Inr (plan, h1)"
    and "disposition plan = Stream"
    and "h' = (if pre_headers_changed plan then hm_remove ops h1 CONTENT_LENGTH else h1)"
  shows "transformed_response ops g cfg url h body h' body"
proof -
  have "apply_with_body ops g cfg 0 url (strip_hop_by_hop_headers ops h) body =
      Inr (\<lparr>headers_changed = pre_headers_changed plan, body_changed = False\<rparr>, h1, body)"
    using assms(1,2) until_body_loop_stream [of ops g url "transforms cfg" 0 False]
    by (simp add: apply_until_body_def apply_with_body_def)
  then show ?thesis
    using assms(3) by (auto simp: transformed_response_def get_all_simps)
qed

lemma buffer_transformed:
  assumes "apply_until_body ops g cfg url (strip_hop_by_hop_headers ops h) = Inr (plan, h1)"
    and "disposition plan = BufferFrom i"
    and "apply_with_body ops g cfg i url h1 body = Inr (out, h2, body')"
    and "hv_from_str ops (show_nat (length body')) = Some v"
    and "h' = hm_insert ops (hm_remove ops h2 CONTENT_LENGTH) CONTENT_LENGTH v"
  shows "transformed_response ops g cfg url h body h' body'"
    "hm_get_all ops h' CONTENT_LENGTH = [show_nat (length body')]"
proof -
  have "\<exists>out'. apply_with_body ops g cfg 0 url (strip_hop_by_hop_headers ops h) body = Inr (out', h2, body')"
    unfolding staged_apply_single [symmetric] using assms(1-3)
    by (auto simp: staged_apply_def finish_staged_def)
  moreover from assms(4) have "v = show_nat (length body')" by (rule from_str_bytes)
  ultimately show "transformed_response ops g cfg url h body h' body'"
    "hm_get_all ops h' CONTENT_LENGTH = [show_nat (length body')]"
    using assms(5) by (auto simp: transformed_response_def get_all_simps)
qed

end

section \<open>A concrete instance\<close>

text \<open>An upstream that answers every request with a fixed response, whose body is its bytes.\<close>

definition test_upstream ::
  "((string \<times> bytes) list, bytes) upstream_result \<Rightarrow>
     ((string \<times> bytes) list, string, unit, bytes, bytes) upstream" where
  "test_upstream r = \<lparr>up_serve = (\<lambda>req. ([rq_body req], r)), up_collect = Inr\<rparr>"

definition test_inputs :: exchange_inputs where
  "test_inputs = \<lparr>xi_event_id = ''e'', xi_connection_id = ''c'', xi_started = 0, xi_response = 1000000,
     xi_ended = 2000000\<rparr>"

definition test_response :: "((string \<times> bytes) list, bytes) Response" where
  "test_response = \<lparr>rsp_status = 200, rsp_version = HTTP_11,
     rsp_headers = [(''content-type'', ''text/plain''), (''content-length'', ''13'')],
     rsp_body = ''hello backend''\<rparr>"

text \<open>A configuration with one rule that rewrites bodies.\<close>

definition rewriting_runtime :: "(string, string) RuntimeConfig" where
  "rewriting_runtime = (test_runtime ''/'')
     \<lparr>rc_transforms := \<lparr>transforms =
        [\<lparr>matcher = MatchEverything, action = Replace ''backend'' ''proxy'', target = Body, stop = False\<rparr>]\<rparr>\<rparr>"

lemma upstream_request_ok_test:
  "is_ok (upstream_request test_lib exact_globs rewriting_runtime (test_request ''example.test''))"
  by code_simp

definition client_request :: "((string \<times> bytes) list, string, unit, bytes) Request" where
  "client_request = (test_request ''example.test'')\<lparr>rq_headers :=
     [(''host'', ''example.test''), (''connection'', ''keep-alive, X-Hop''), (''te'', ''trailers''),
      (''x-hop'', ''1''), (''accept-encoding'', ''gzip''), (''via'', ''a''), (''via'', ''b'')]\<rparr>"

lemma upstream_request_ok_client:
  "is_ok (upstream_request test_lib exact_globs rewriting_runtime client_request)"
  by code_simp

lemma client_connection_names:
  "connection_names alist_ops (rq_headers client_request) n \<longleftrightarrow> n \<in> {''keep-alive'', ''x-hop''}"
proof -
  have first: "hm_get_all alist_ops (rq_headers client_request) ''connection'' = [''keep-alive, X-Hop'']"
    and vis: "hv_to_str alist_ops ''keep-alive, X-Hop'' = Some ''keep-alive, X-Hop''"
    and name: "hn_from_bytes alist_ops ''x-hop'' = Some ''x-hop''"
      "hn_from_bytes alist_ops ''keep-alive'' = Some ''keep-alive''"
    and pieces: "map (\<lambda>w. to_ascii_lowercase (trim w)) (split_on (CHR '','') ''keep-alive, X-Hop'')
      = [''keep-alive'', ''x-hop'']"
    by code_simp+
  show ?thesis
    unfolding connection_names_def names_header_pieces first using vis name pieces by auto
qed

section \<open>Properties\<close>

text \<open>C1: every request is recorded exactly once.  If the proxy answers with an error text, the
  writer has been given one event when the answer is returned; otherwise nothing has been sent
  yet, and once the client's side is done with the response body, however it was polled, the
  writer has been given one event.\<close>

theorem every_request_recorded_once:
  "case handle env g cfg up xi req w of (resp, c, w') \<Rightarrow>
     if \<exists>t. rsp_body resp = ErrorText t
     then \<exists>ev. w' = try_send (ce_writer env) ev w
     else w' = w \<and> (\<forall>ps now. \<exists>ev.
       snd (snd (drop_body env now (poll_all env ps (observed_response, c, w)))) =
         try_send (ce_writer env) ev w)"
proof -
  obtain resp c w' where h: "handle env g cfg up xi req w = (resp, c, w')" by (metis prod_cases3)
  have set: "settled env w (resp, c, w')"
    using answered_settled [OF handle_answered [of env w g cfg up xi req]] h by simp
  show ?thesis
  proof (cases "\<exists>t. rsp_body resp = ErrorText t")
    case True
    with set h show ?thesis by (auto simp: settled_def)
  next
    case False
    with set have c: "\<not> ec_finalized c" "w' = w"
      by (auto simp: settled_def split: proxy_body.splits)
    have one: "one_event env w (observed_response, c, w)"
      using c(1) by (simp add: one_event_def observed_response_def)
    have "\<exists>ev. snd (snd (drop_body env now (poll_all env ps (observed_response, c, w)))) =
        try_send (ce_writer env) ev w" for ps now
      using one_event_drop [OF one_event_poll_all [OF one], of now ps]
      by (auto simp: one_event_def split: prod.splits)
    with h c(2) False show ?thesis by auto
  qed
qed

text \<open>C17: what the client is told and what is recorded agree: an error answer has status 421, 400,
  502 or 504, and the event it records has the matching outcome and error kind (a rejected
  client for 421 and 400, an upstream error for 502 and 504).\<close>

theorem error_answers_recorded:
  assumes "handle env g cfg up xi req w = (resp, c, w')" and "rsp_body resp = ErrorText t"
  shows "\<exists>ev. w' = try_send (ce_writer env) ev w \<and> error_event (rsp_status resp) ev"
  using answered_error_event handle_answered [of env w g cfg up xi req] assms by metis

theorem error_answers_recorded_witness:
  "\<exists>ev. snd (snd (handle test_env exact_globs (test_runtime ''/'') (test_upstream UpstreamTimedOut)
       test_inputs (test_request ''example.test'') test_writer)) = try_send (ce_writer test_env) ev test_writer
     \<and> error_event GATEWAY_TIMEOUT ev"
proof -
  obtain resp c w' where h: "handle test_env exact_globs (test_runtime ''/'') (test_upstream UpstreamTimedOut)
      test_inputs (test_request ''example.test'') test_writer = (resp, c, w')"
    by (metis prod_cases3)
  have "host_matches_frontend (ce_lib test_env) (test_request ''example.test'') (rc_frontend_domain (test_runtime ''/''))"
    and "is_ok (upstream_request (ce_lib test_env) exact_globs (test_runtime ''/'') (test_request ''example.test''))"
    by code_simp+
  with h have "rsp_body resp = ErrorText ''gateway timeout'' \<and> rsp_status resp = GATEWAY_TIMEOUT"
    by (auto simp: handle_def Let_def is_ok_iff test_upstream_def answer_upstream_error_def answer_error_def
        make_gateway_error_def)
  with error_answers_recorded [OF h] h show ?thesis by auto
qed

text \<open>A request for another host is never forwarded: whatever the upstream would do, the answer
  is 421 and the result is the same.\<close>

theorem misdirected_never_forwarded:
  assumes "\<not> host_matches_frontend (ce_lib env) req (rc_frontend_domain cfg)"
  shows "handle env g cfg up xi req w = handle env g' cfg up' xi req w
    \<and> rsp_status (fst (handle env g cfg up xi req w)) = MISDIRECTED_REQUEST"
  using assms by (simp add: handle_def answer_rejection_def answer_error_def make_gateway_error_def Let_def)

theorem misdirected_never_forwarded_witness:
  "\<not> host_matches_frontend (ce_lib test_env) (test_request ''evil.test'') (rc_frontend_domain (test_runtime ''/''))
   \<and> rsp_status (fst (handle test_env exact_globs (test_runtime ''/'') (test_upstream UpstreamTimedOut)
       test_inputs (test_request ''evil.test'') test_writer)) = MISDIRECTED_REQUEST"
proof -
  have no: "\<not> host_matches_frontend (ce_lib test_env) (test_request ''evil.test'') (rc_frontend_domain (test_runtime ''/''))"
    by code_simp
  from misdirected_never_forwarded [OF no] no show ?thesis by blast
qed

text \<open>C3: the response the client gets is the upstream's response with all transforms applied in
  one pass to its headers, without hop-by-hop headers, and its body: a streamed response has the
  body as it comes, and the rules would not have changed any body; a buffered response has the
  rewritten body and exactly its length as content length.\<close>

theorem response_transformed:
  assumes "header_map (hl_hdr (ce_lib env))"
    and "handle env g cfg up xi req w = (resp, c, w')" and "\<forall>t. rsp_body resp \<noteq> ErrorText t"
  shows "\<exists>ureq chunks uresp. up_serve up ureq = (chunks, UpstreamResponse uresp)
    \<and> upstream_request (ce_lib env) g cfg req = Inr ureq \<and> rsp_status resp = rsp_status uresp
    \<and> (let ops = hl_hdr (ce_lib env);
           url = request_url (request_path (hl_url (ce_lib env)) (rq_uri req))
                   (uri_query (hl_url (ce_lib env)) (rq_uri req)) in
       case rsp_body resp of
         ErrorText _ \<Rightarrow> False
       | ObservedStream b \<Rightarrow> b = rsp_body uresp \<and> (\<forall>body.
           transformed_response ops g (rc_transforms cfg) url (rsp_headers uresp) body (rsp_headers resp) body)
       | ObservedBytes body' \<Rightarrow> \<exists>body. up_collect up (rsp_body uresp) = Inr body
           \<and> transformed_response ops g (rc_transforms cfg) url (rsp_headers uresp) body (rsp_headers resp) body'
           \<and> hm_get_all ops (rsp_headers resp) CONTENT_LENGTH = [show_nat (length body')])"
proof -
  let ?ops = "hl_hdr (ce_lib env)"
  let ?url = "request_url (request_path (hl_url (ce_lib env)) (rq_uri req)) (uri_query (hl_url (ce_lib env)) (rq_uri req))"
  obtain chunks uresp ureq c0 where
    1: "upstream_request (ce_lib env) g cfg req = Inr ureq" "up_serve up ureq = (chunks, UpstreamResponse uresp)"
    and a: "answer_response env g cfg up xi ?url uresp (c0, w) = (resp, c, w')"
    using handle_observed [OF assms(2,3)] by metis
  show ?thesis
  proof (cases rule: answer_response_observed [OF a assms(3)])
    case (1 plan h')
    from header_map.stream_transformed [OF assms(1) 1(1,2,4)] 1
    show ?thesis using \<open>upstream_request _ _ _ _ = _\<close> \<open>up_serve _ _ = _\<close> by (auto simp: Let_def)
  next
    case (2 plan h1 i body out h2 body' v)
    from header_map.buffer_transformed [OF assms(1) 2(1,2,4,5,7)] 2
    show ?thesis using \<open>upstream_request _ _ _ _ = _\<close> \<open>up_serve _ _ = _\<close> by (auto simp: Let_def)
  qed
qed

theorem response_transformed_witness:
  "case handle test_env exact_globs rewriting_runtime (test_upstream (UpstreamResponse test_response))
       test_inputs (test_request ''example.test'') test_writer of (resp, _) \<Rightarrow>
     rsp_body resp = ObservedBytes ''hello proxy''
     \<and> hm_get_all alist_ops (rsp_headers resp) CONTENT_LENGTH = [show_nat (length ''hello proxy'')]"
proof -
  obtain resp c w' where h: "handle test_env exact_globs rewriting_runtime
      (test_upstream (UpstreamResponse test_response)) test_inputs (test_request ''example.test'') test_writer = (resp, c, w')"
    by (metis prod_cases3)
  have "rsp_body (fst (handle test_env exact_globs rewriting_runtime
      (test_upstream (UpstreamResponse test_response)) test_inputs (test_request ''example.test'') test_writer))
      = ObservedBytes ''hello proxy''"
    by code_simp
  with h have b: "rsp_body resp = ObservedBytes ''hello proxy''" by simp
  have hm: "header_map (hl_hdr (ce_lib test_env))"
    by (simp add: test_env_def test_lib_def alist.header_map_axioms)
  from response_transformed [OF hm h] b have "hm_get_all alist_ops (rsp_headers resp) CONTENT_LENGTH = [show_nat (length ''hello proxy'')]"
    by (auto simp: Let_def test_env_def test_lib_def)
  with h b show ?thesis by simp
qed

text \<open>C38: the request sent upstream goes to the backend URI of the request's path and query with the
  client's method and body.  It has no \<open>Host\<close>, none of \<open>Connection\<close>, \<open>Proxy-Authenticate\<close>,
  \<open>Proxy-Authorization\<close>, \<open>TE\<close>, \<open>Trailer\<close>, \<open>Transfer-Encoding\<close>, \<open>Upgrade\<close>, \<open>Keep-Alive\<close>, and none of
  the headers the client's first \<open>Connection\<close> line names.  If a rule for bodies is not excluded by
  its URL pattern, its \<open>Accept-Encoding\<close> is \<open>identity\<close>, unless the \<open>Connection\<close> line names
  \<open>Accept-Encoding\<close>, in which case there is none.  Every other header is as the client sent it.\<close>

theorem upstream_request_headers:
  assumes "header_map (hl_hdr lib)" and "upstream_request lib g cfg req = Inr ureq"
  shows "build_backend_uri (hl_url lib) cfg (request_path (hl_url lib) (rq_uri req))
      (uri_query (hl_url lib) (rq_uri req)) = Inr (rq_uri ureq)
    \<and> hm_get_all (hl_hdr lib) (rq_headers ureq) n =
      (if n \<in> {''host'', ''connection'', ''proxy-authenticate'', ''proxy-authorization'', ''te'', ''trailer'',
               ''transfer-encoding'', ''upgrade'', ''keep-alive''}
          \<or> connection_names (hl_hdr lib) (rq_headers req) n then []
       else if n = ''accept-encoding''
          \<and> (\<exists>r \<in> set (transforms (rc_transforms cfg)). (target r = Body \<or> target r = TargetEverything)
               \<and> (\<forall>p. matcher r = UrlGlob p \<longrightarrow>
                    pattern_matches g p (request_url (request_path (hl_url lib) (rq_uri req))
                      (uri_query (hl_url lib) (rq_uri req)))))
       then [''identity''] else hm_get_all (hl_hdr lib) (rq_headers req) n)
    \<and> rq_body ureq = rq_body req \<and> rq_method ureq = rq_method req"
proof -
  let ?url = "request_url (request_path (hl_url lib) (rq_uri req)) (uri_query (hl_url lib) (rq_uri req))"
  let ?force = "needs_plaintext_upstream_body g (rc_transforms cfg) ?url"
  have force: "(\<exists>r \<in> set (transforms (rc_transforms cfg)). (target r = Body \<or> target r = TargetEverything)
      \<and> (\<forall>p. matcher r = UrlGlob p \<longrightarrow> pattern_matches g p ?url)) \<longleftrightarrow> ?force"
    unfolding needs_plaintext_upstream_body_def list_ex_iff requires_body_def
    by (intro bex_cong) (auto split: TransformMatcher.splits)
  have parts: "build_backend_uri (hl_url lib) cfg (request_path (hl_url lib) (rq_uri req))
      (uri_query (hl_url lib) (rq_uri req)) = Inr (rq_uri ureq)"
    "rq_headers ureq = upstream_headers (hl_hdr lib) ?force (rq_headers req)"
    "rq_body ureq = rq_body req" "rq_method ureq = rq_method req"
    using assms(2) by (auto simp: upstream_request_def Let_def result_simps)
  show ?thesis
    unfolding force parts(2) header_map.upstream_headers_values [OF assms(1)]
      header_map.connection_names_iff [OF assms(1)] hop_by_hop_names
    using parts(1,3,4) by (simp only: insert_iff empty_iff disj_assoc conj_commute simp_thms)
qed

theorem upstream_request_headers_witness:
  "\<exists>ureq. upstream_request test_lib exact_globs rewriting_runtime client_request = Inr ureq
     \<and> hm_get_all alist_ops (rq_headers ureq) ''host'' = []
     \<and> hm_get_all alist_ops (rq_headers ureq) ''te'' = []
     \<and> hm_get_all alist_ops (rq_headers ureq) ''x-hop'' = []
     \<and> hm_get_all alist_ops (rq_headers ureq) ''accept-encoding'' = [''identity'']
     \<and> hm_get_all alist_ops (rq_headers ureq) ''via'' = [''a'', ''b'']"
proof -
  let ?h = "rq_headers client_request"
  obtain ureq where u: "upstream_request test_lib exact_globs rewriting_runtime client_request = Inr ureq"
    using is_ok_iff by (metis (no_types, opaque_lifting) upstream_request_ok_client)
  have hm: "header_map (hl_hdr test_lib)" by (simp add: test_lib_def alist.header_map_axioms)
  note names = client_connection_names
  have "hm_get_all alist_ops ?h ''via'' = [''a'', ''b'']" by code_simp
  moreover have "\<exists>r \<in> set (transforms (rc_transforms rewriting_runtime)).
      target r = Body \<and> (\<forall>p. matcher r \<noteq> UrlGlob p)"
    by (simp add: rewriting_runtime_def)
  ultimately show ?thesis
    using u upstream_request_headers [OF hm u, of "''host''"] upstream_request_headers [OF hm u, of "''te''"]
      upstream_request_headers [OF hm u, of "''x-hop''"] upstream_request_headers [OF hm u, of "''via''"]
      upstream_request_headers [OF hm u, of "''accept-encoding''"]
    by (simp add: test_lib_def names) blast
qed

text \<open>The request for an unencoded body can be removed by the client: with \<open>accept-encoding\<close>
  named in its \<open>Connection\<close> header, the upstream request carries no \<open>Accept-Encoding\<close> at all even
  when a rule needs the body.\<close>

theorem identity_encoding_removable:
  assumes "header_map ops" and "t \<in> set (connection_tokens ops h)" and "hn_from_bytes ops t = Some ACCEPT_ENCODING"
  shows "hm_get_all ops (upstream_headers ops True h) ACCEPT_ENCODING = []"
  unfolding header_map.upstream_headers_values [OF assms(1)] using assms(2,3) by force

theorem identity_encoding_removable_witness:
  "hm_get_all alist_ops (upstream_headers alist_ops True [(''connection'', ''accept-encoding'')]) ACCEPT_ENCODING = []"
proof -
  have "''accept-encoding'' \<in> set (connection_tokens alist_ops [(''connection'', ''accept-encoding'')])"
    "hn_from_bytes alist_ops ''accept-encoding'' = Some ACCEPT_ENCODING"
    by code_simp+
  from identity_encoding_removable [OF alist.header_map_axioms this] show ?thesis .
qed

end
