(* ===== verification/Tls_Config.thy ===== *)
theory Tls_Config
  imports Config
begin

text \<open>
  The TLS set-up of \<^verbatim>\<open>src/tls.rs\<close>: loading certificates and keys, the trust roots for the
  backend, and the options the frontend and the upstream configuration are built with.
  Reading PEM files, the native certificate store and the checks of the TLS library are a
  parameter; a TLS configuration is the record of the options that were set.
\<close>

section \<open>Parameters\<close>

text \<open>
  \<open>pem_certs\<close>: the items the PEM reader yields from the file at a path, each a certificate or an
  error; \<open>pem_private_key\<close>: the first private key of the file, if any; \<open>native_certs\<close>: what the
  platform's store yields; \<open>check_anchors\<close>: the TLS library's verdict on extra trust anchors;
  \<open>host_try_from\<close>: the parser of host names.
\<close>

record 'fs tls_ops =
  pem_certs :: "'fs \<Rightarrow> string \<Rightarrow> (string + bytes) list"
  pem_private_key :: "'fs \<Rightarrow> string \<Rightarrow> string + bytes option"
  native_certs :: "bytes list"
  check_anchors :: "bytes list \<Rightarrow> string + unit"
  host_try_from :: "string \<Rightarrow> string + string"

datatype Alpn = AlpnHttpAuto | AlpnHttp1 | AlpnHttp2

record TlsServerConfig =
  tsc_private_key :: bytes
  tsc_cert_chain :: "bytes list"
  tsc_alpn :: Alpn
  tsc_keylog :: bool

record TlsClientConfig =
  tcc_trust_anchors :: "bytes list"
  tcc_alpn :: Alpn
  tcc_keylog :: bool
  tcc_server_name :: string
  tcc_store_server_cert_chain :: bool

section \<open>Certificates and keys\<close>

definition load_cert_chain ::
  "'fs tls_ops \<Rightarrow> 'fs fs_ops \<Rightarrow> 'fs \<Rightarrow> string \<Rightarrow> bytes list anyhow_result" where
  "load_cert_chain t io fs path =
     (if \<not> fs_open_ok io fs path then Inl (''open PEM cert file '' @ path)
      else
        try_bind (with_context (''read PEM cert chain from '' @ path)
                    (collect_results (pem_certs t fs path))) (\<lambda>certs.
        if certs = [] then Inl (''no certificates found in '' @ path) else Inr certs))"

definition load_private_key ::
  "'fs tls_ops \<Rightarrow> 'fs fs_ops \<Rightarrow> 'fs \<Rightarrow> string \<Rightarrow> bytes anyhow_result" where
  "load_private_key t io fs path =
     (if \<not> fs_open_ok io fs path then Inl (''open PEM key file '' @ path)
      else
        try_bind (with_context (''read PEM private key from '' @ path) (pem_private_key t fs path)) (\<lambda>key.
        ok_or (''no private key found in '' @ path) key))"

definition load_root_store ::
  "'fs tls_ops \<Rightarrow> 'fs fs_ops \<Rightarrow> 'fs \<Rightarrow> ('u, 'p) RuntimeConfig \<Rightarrow> bytes list anyhow_result" where
  "load_root_store t io fs cfg =
     try_bind (case rc_ca_bundle_path cfg of
                 Some path \<Rightarrow> load_cert_chain t io fs path | None \<Rightarrow> Inr []) (\<lambda>bundle.
     let certs = native_certs t @ bundle in
     if certs = [] then Inl ''no trust roots were loaded for upstream TLS verification''
     else Inr certs)"

section \<open>Configurations\<close>

definition alpn_of :: "ResolvedHttpMode \<Rightarrow> Alpn" where
  "alpn_of http_mode =
     (case http_mode of
        ResolvedAuto \<Rightarrow> AlpnHttpAuto | ResolvedHttp1 \<Rightarrow> AlpnHttp1 | ResolvedHttp2 \<Rightarrow> AlpnHttp2)"

definition build_frontend_tls ::
  "'fs tls_ops \<Rightarrow> 'fs fs_ops \<Rightarrow> 'fs \<Rightarrow> ('u, 'p) RuntimeConfig \<Rightarrow> ResolvedHttpMode \<Rightarrow>
     TlsServerConfig anyhow_result" where
  "build_frontend_tls t io fs cfg http_mode =
     try_bind (load_cert_chain t io fs (rc_tls_cert_path cfg)) (\<lambda>cert_chain.
     try_bind (load_private_key t io fs (rc_tls_key_path cfg)) (\<lambda>private_key.
     Inr \<lparr>tsc_private_key = private_key, tsc_cert_chain = cert_chain,
          tsc_alpn = alpn_of http_mode, tsc_keylog = rc_emit_keylog cfg\<rparr>))"

definition build_upstream_tls ::
  "'fs tls_ops \<Rightarrow> 'fs fs_ops \<Rightarrow> 'fs \<Rightarrow> ('u, 'p) RuntimeConfig \<Rightarrow> ResolvedHttpMode \<Rightarrow>
     TlsClientConfig anyhow_result" where
  "build_upstream_tls t io fs cfg http_mode =
     try_bind (load_root_store t io fs cfg) (\<lambda>roots.
     try_bind (map_err ((@) ''failed to load root cert store: '') (check_anchors t roots)) (\<lambda>_.
     try_bind (map_err ((@) ''invalid upstream SNI host: '') (host_try_from t (rc_upstream_sni cfg))) (\<lambda>server_name.
     Inr \<lparr>tcc_trust_anchors = roots, tcc_alpn = alpn_of http_mode,
          tcc_keylog = rc_emit_keylog cfg, tcc_server_name = server_name,
          tcc_store_server_cert_chain = True\<rparr>)))"

section \<open>When the set-up succeeds\<close>

lemma load_cert_chain_Inr [result_simps]:
  "load_cert_chain t io fs path = Inr certs \<longleftrightarrow>
     fs_open_ok io fs path \<and> pem_certs t fs path = map Inr certs \<and> certs \<noteq> []"
  by (auto simp: load_cert_chain_def result_simps)

lemma load_private_key_Inr [result_simps]:
  "load_private_key t io fs path = Inr key \<longleftrightarrow>
     fs_open_ok io fs path \<and> pem_private_key t fs path = Inr (Some key)"
  by (auto simp: load_private_key_def result_simps)

lemma load_root_store_Inr [result_simps]:
  "load_root_store t io fs cfg = Inr roots \<longleftrightarrow>
     roots \<noteq> [] \<and> (\<exists>bundle. roots = native_certs t @ bundle
       \<and> (case rc_ca_bundle_path cfg of
            None \<Rightarrow> bundle = [] | Some path \<Rightarrow> load_cert_chain t io fs path = Inr bundle))"
  by (auto simp: load_root_store_def Let_def result_simps split: option.split)

text \<open>A PEM reader for examples: a file is one certificate and one key, the file's own text.\<close>

definition test_tls :: "(string \<times> string) list tls_ops" where
  "test_tls =
     \<lparr>pem_certs = (\<lambda>fs p. case map_of fs p of None \<Rightarrow> [Inl ''missing''] | Some c \<Rightarrow> [Inr c]),
      pem_private_key = (\<lambda>fs p. Inr (map_of fs p)),
      native_certs = [''root''], check_anchors = (\<lambda>_. Inr ()), host_try_from = Inr\<rparr>"

end
