(* ===== verification/Proxy_App.thy ===== *)
theory Proxy_App
  imports Proxy Tls_Config
begin

text \<open>
  Building and running a proxy: the upstream client and \<open>ProxyApp\<close> of \<^verbatim>\<open>src/proxy.rs\<close>, and the
  backend probe of \<^verbatim>\<open>src/probe.rs\<close> that is made with such a client before the start.
  A client is the record of the options it is built with; sending a request with it and the
  check of its connection pool are parameters.  The body of the probe's response is not read.
\<close>

section \<open>The upstream client\<close>

record upstream_client =
  uc_tls :: TlsClientConfig
  uc_connect_timeout :: duration
  uc_idle_timeout :: duration
  uc_wait_for_pool_timeout :: duration
  uc_default_version :: Version

record ('fs, 'h) client_ops =
  cl_tls :: "'fs tls_ops"
  cl_check_pool :: "duration \<Rightarrow> duration \<Rightarrow> string + unit"
  cl_get :: "upstream_client \<Rightarrow> string \<Rightarrow> (string \<times> string) list \<Rightarrow> string + ('h, unit) Response"

definition build_upstream_client ::
  "('fs, 'h) client_ops \<Rightarrow> 'fs fs_ops \<Rightarrow> 'fs \<Rightarrow> ('u, 'p) RuntimeConfig \<Rightarrow> ResolvedHttpMode \<Rightarrow>
     upstream_client anyhow_result" where
  "build_upstream_client cl io fs cfg http_mode =
     try_bind (build_upstream_tls (cl_tls cl) io fs cfg http_mode) (\<lambda>tls.
     try_bind (map_err ((@) ''enable upstream connection pool: '')
                 (cl_check_pool cl (rc_idle_pool_timeout cfg) (rc_request_timeout cfg))) (\<lambda>_.
     Inr \<lparr>uc_tls = tls, uc_connect_timeout = rc_connect_timeout cfg,
          uc_idle_timeout = rc_idle_pool_timeout cfg,
          uc_wait_for_pool_timeout = rc_request_timeout cfg,
          uc_default_version = upstream_default_version cfg\<rparr>))"

section \<open>The backend probe\<close>

record BackendProbe =
  bp_backend_url :: string
  bp_negotiated_alpn :: "string option"
  bp_tls_version :: "string option"
  bp_supports_h2 :: "bool option"
  bp_cert_subject :: "string option"
  bp_cert_issuer :: "string option"
  bp_cert_not_before :: "offset_date_time option"
  bp_cert_not_after :: "offset_date_time option"
  bp_sample_server_header :: "string option"
  bp_sample_content_encoding :: "string option"

definition BackendProbe_fallback :: "('u, 'i) url_ops \<Rightarrow> ('u, 'p) RuntimeConfig \<Rightarrow> BackendProbe" where
  "BackendProbe_fallback u cfg =
     \<lparr>bp_backend_url = url_as_str u (rc_backend_url cfg), bp_negotiated_alpn = None,
      bp_tls_version = None, bp_supports_h2 = None, bp_cert_subject = None, bp_cert_issuer = None,
      bp_cert_not_before = None, bp_cert_not_after = None, bp_sample_server_header = None,
      bp_sample_content_encoding = None\<rparr>"

definition probe_backend ::
  "('h, 'u, 'i, 'x) http_lib \<Rightarrow> ('fs, 'h) client_ops \<Rightarrow> 'fs fs_ops \<Rightarrow> 'fs \<Rightarrow>
     ('u, 'p) RuntimeConfig \<Rightarrow> BackendProbe anyhow_result" where
  "probe_backend lib cl io fs cfg =
     try_bind (build_upstream_client cl io fs cfg (resolved_http_mode cfg None)) (\<lambda>client.
     try_bind (map_err ((@) ''probe request failed: '')
                 (cl_get cl client (url_as_str (hl_url lib) (rc_backend_url cfg))
                   [(''accept-encoding'', ''gzip'')])) (\<lambda>response.
     let headers = rsp_headers response in
     Inr ((BackendProbe_fallback (hl_url lib) cfg)
           \<lparr>bp_supports_h2 := Some (rsp_version response = HTTP_2),
            bp_sample_server_header := hm_get_str (hl_hdr lib) headers SERVER,
            bp_sample_content_encoding := hm_get_str (hl_hdr lib) headers CONTENT_ENCODING\<rparr>)))"

section \<open>The application\<close>

record ('u, 'p, 'c, 'db) ProxyApp =
  pa_cfg :: "('u, 'p) RuntimeConfig"
  pa_writer :: "('c, 'db) writer"
  pa_probe :: BackendProbe
  pa_http_mode :: ResolvedHttpMode
  pa_upstream_client :: upstream_client
  pa_frontend_tls :: TlsServerConfig

definition ProxyApp_new ::
  "('fs, 'h) client_ops \<Rightarrow> 'fs fs_ops \<Rightarrow> 'fs \<Rightarrow> ('u, 'p) RuntimeConfig \<Rightarrow> ('c, 'db) writer \<Rightarrow>
     BackendProbe \<Rightarrow> ('u, 'p, 'c, 'db) ProxyApp anyhow_result" where
  "ProxyApp_new cl io fs cfg w probe =
     (let http_mode = resolved_http_mode cfg (bp_supports_h2 probe) in
      try_bind (build_frontend_tls (cl_tls cl) io fs cfg http_mode) (\<lambda>frontend_tls.
      try_bind (build_upstream_client cl io fs cfg http_mode) (\<lambda>upstream_client.
      Inr \<lparr>pa_cfg = cfg, pa_writer = w, pa_probe = probe, pa_http_mode = http_mode,
           pa_upstream_client = upstream_client, pa_frontend_tls = frontend_tls\<rparr>)))"

text \<open>
  The task that \<open>start\<close> spawns: where it listens, which HTTP server it runs with which TLS
  configuration, what its handler uses, and how long a graceful shutdown may take.
\<close>

datatype http_server = HttpServerAuto | HttpServerHttp1 | HttpServerH2

record ('u, 'p, 'c, 'db) proxy_task =
  pt_listen_addr :: SocketAddr
  pt_server :: http_server
  pt_frontend_tls :: TlsServerConfig
  pt_cfg :: "('u, 'p) RuntimeConfig"
  pt_writer :: "('c, 'db) writer"
  pt_client :: upstream_client
  pt_shutdown_limit :: duration

definition http_server_of :: "ResolvedHttpMode \<Rightarrow> http_server" where
  "http_server_of http_mode =
     (case http_mode of
        ResolvedAuto \<Rightarrow> HttpServerAuto | ResolvedHttp1 \<Rightarrow> HttpServerHttp1 | ResolvedHttp2 \<Rightarrow> HttpServerH2)"

text \<open>
  The handle of a started proxy: whether its stop channel is still held, and the number of its
  task.  \<open>start\<close> only spawns the task, so it does not fail.
\<close>

record ProxyHandle =
  ph_stop_tx :: bool
  ph_task :: nat

definition ProxyApp_start ::
  "('u, 'p, 'c, 'db) ProxyApp \<Rightarrow> nat \<Rightarrow> (('u, 'p, 'c, 'db) proxy_task \<times> ProxyHandle) anyhow_result" where
  "ProxyApp_start app task =
     Inr (\<lparr>pt_listen_addr = rc_listen_addr (pa_cfg app), pt_server = http_server_of (pa_http_mode app),
           pt_frontend_tls = pa_frontend_tls app, pt_cfg = pa_cfg app, pt_writer = pa_writer app,
           pt_client = pa_upstream_client app,
           pt_shutdown_limit = rc_graceful_shutdown_timeout (pa_cfg app)\<rparr>,
          \<lparr>ph_stop_tx = True, ph_task = task\<rparr>)"

text \<open>
  Running the task: it binds the listener, then serves until the accept loop ends or until the
  graceful shutdown that the stop signal starts has ended, with its result.
\<close>

datatype serve_race = ServeEnded | ShutdownEnded "string + unit"

definition wait_for_shutdown_signal :: "bool \<Rightarrow> bool \<Rightarrow> bool" where
  "wait_for_shutdown_signal stop_received external_signal \<longleftrightarrow> stop_received \<or> external_signal"

definition run_proxy_task ::
  "(SocketAddr \<Rightarrow> string + unit) \<Rightarrow> (http_server \<Rightarrow> TlsServerConfig \<Rightarrow> duration \<Rightarrow> serve_race) \<Rightarrow>
     ('u, 'p, 'c, 'db) proxy_task \<Rightarrow> unit anyhow_result" where
  "run_proxy_task bind_address serve t =
     try_bind (map_err ((@) ''bind frontend TCP listener: '') (bind_address (pt_listen_addr t))) (\<lambda>_.
     case serve (pt_server t) (pt_frontend_tls t) (pt_shutdown_limit t) of
       ServeEnded \<Rightarrow> Inr ()
     | ShutdownEnded r \<Rightarrow> with_context ''graceful proxy shutdown failed'' r)"

section \<open>What a started proxy is set up with\<close>

text \<open>Everything an application takes from its configuration and the probe.\<close>

definition app_wf ::
  "('fs, 'h) client_ops \<Rightarrow> ('u, 'p, 'c, 'db) ProxyApp \<Rightarrow> bool" where
  "app_wf cl app \<longleftrightarrow>
     (let tls = uc_tls (pa_upstream_client app) in
      pa_http_mode app = resolved_http_mode (pa_cfg app) (bp_supports_h2 (pa_probe app))
      \<and> tsc_alpn (pa_frontend_tls app) = alpn_of (pa_http_mode app)
      \<and> tcc_alpn tls = alpn_of (pa_http_mode app)
      \<and> tsc_cert_chain (pa_frontend_tls app) \<noteq> []
      \<and> tcc_trust_anchors tls \<noteq> []
      \<and> set (native_certs (cl_tls cl)) \<subseteq> set (tcc_trust_anchors tls)
      \<and> host_try_from (cl_tls cl) (rc_upstream_sni (pa_cfg app)) = Inr (tcc_server_name tls)
      \<and> tsc_keylog (pa_frontend_tls app) = rc_emit_keylog (pa_cfg app)
      \<and> tcc_keylog tls = rc_emit_keylog (pa_cfg app))"

lemma build_upstream_tls_Inr [result_simps]:
  "build_upstream_tls t io fs cfg mode = Inr tls \<longleftrightarrow>
     (\<exists>roots server_name. load_root_store t io fs cfg = Inr roots \<and> check_anchors t roots = Inr ()
        \<and> host_try_from t (rc_upstream_sni cfg) = Inr server_name
        \<and> tls = \<lparr>tcc_trust_anchors = roots, tcc_alpn = alpn_of mode, tcc_keylog = rc_emit_keylog cfg,
                 tcc_server_name = server_name, tcc_store_server_cert_chain = True\<rparr>)"
  by (auto simp: build_upstream_tls_def try_bind_Inr_iff map_err_Inr_iff)

lemma build_upstream_client_Inr [result_simps]:
  "build_upstream_client cl io fs cfg mode = Inr c \<longleftrightarrow>
     (\<exists>tls. build_upstream_tls (cl_tls cl) io fs cfg mode = Inr tls
        \<and> cl_check_pool cl (rc_idle_pool_timeout cfg) (rc_request_timeout cfg) = Inr ()
        \<and> c = \<lparr>uc_tls = tls, uc_connect_timeout = rc_connect_timeout cfg,
               uc_idle_timeout = rc_idle_pool_timeout cfg,
               uc_wait_for_pool_timeout = rc_request_timeout cfg,
               uc_default_version = upstream_default_version cfg\<rparr>)"
  by (auto simp: build_upstream_client_def try_bind_Inr_iff map_err_Inr_iff)

lemma ProxyApp_new_wf:
  assumes "ProxyApp_new cl io fs cfg w probe = Inr app"
  shows "app_wf cl app" "pa_cfg app = cfg" "pa_writer app = w" "pa_probe app = probe"
  using assms
  by (auto simp: ProxyApp_new_def Let_def app_wf_def build_frontend_tls_def result_simps)

text \<open>What a successful probe reports is the version of the answer it got.\<close>

lemma probe_backend_answer:
  assumes "probe_backend lib cl io fs cfg = Inr p"
  shows "\<exists>client response.
    cl_get cl client (url_as_str (hl_url lib) (rc_backend_url cfg)) [(''accept-encoding'', ''gzip'')]
      = Inr response
    \<and> bp_supports_h2 p = Some (rsp_version response = HTTP_2)"
proof -
  from assms obtain client response where
    "cl_get cl client (url_as_str (hl_url lib) (rc_backend_url cfg)) [(''accept-encoding'', ''gzip'')]
      = Inr response"
    "p = (BackendProbe_fallback (hl_url lib) cfg)
         \<lparr>bp_supports_h2 := Some (rsp_version response = HTTP_2),
          bp_sample_server_header := hm_get_str (hl_hdr lib) (rsp_headers response) SERVER,
          bp_sample_content_encoding := hm_get_str (hl_hdr lib) (rsp_headers response) CONTENT_ENCODING\<rparr>"
    unfolding probe_backend_def Let_def try_bind_Inr_iff map_err_Inr_iff by auto
  then show ?thesis by (intro exI [of _ client] exI [of _ response]) simp
qed

text \<open>The options a client for the tests is built from.\<close>

definition test_client :: "((string \<times> string) list, (string \<times> bytes) list) client_ops" where
  "test_client =
     \<lparr>cl_tls = test_tls, cl_check_pool = (\<lambda>_ _. Inr ()),
      cl_get = (\<lambda>_ _ _. Inr \<lparr>rsp_status = 200, rsp_version = HTTP_11, rsp_headers = [], rsp_body = ()\<rparr>)\<rparr>"

section \<open>Properties\<close>

text \<open>An application can be built exactly if the certificate and key files and the CA bundle
  open and hold what is needed, there is a trust root, the TLS library accepts the roots, the
  server name is a host and the pool settings are accepted.\<close>

theorem proxy_app_new_ok_iff:
  "is_ok (ProxyApp_new cl io fs cfg w probe) \<longleftrightarrow>
     (let t = cl_tls cl in
      is_ok (load_cert_chain t io fs (rc_tls_cert_path cfg))
      \<and> is_ok (load_private_key t io fs (rc_tls_key_path cfg))
      \<and> (case rc_ca_bundle_path cfg of
           None \<Rightarrow> native_certs t \<noteq> [] \<and> is_ok (check_anchors t (native_certs t))
         | Some path \<Rightarrow>
             \<exists>bundle. bundle \<noteq> [] \<and> fs_open_ok io fs path \<and> pem_certs t fs path = map Inr bundle
               \<and> is_ok (check_anchors t (native_certs t @ bundle)))
      \<and> is_ok (host_try_from t (rc_upstream_sni cfg))
      \<and> is_ok (cl_check_pool cl (rc_idle_pool_timeout cfg) (rc_request_timeout cfg)))"
  unfolding Let_def
  by (cases "rc_ca_bundle_path cfg")
    (auto simp: is_ok_iff ProxyApp_new_def build_frontend_tls_def Let_def result_simps)

text \<open>C39: the task of a proxy that could be built listens on the configured address and negotiates the
  same protocols with clients and backend: those of the configured mode; in the automatic mode
  both, but HTTP/1 alone if the probe, made earlier, was answered with another version than
  HTTP/2 (after a failed probe: both).  It runs the server for them, has a certificate, trusts all
  native roots, asks the backend for the configured name, logs keys exactly if told to, uses the
  given writer and limits a graceful shutdown to the configured time.\<close>

theorem proxy_app_set_up:
  assumes "probe = (case probe_backend lib cl io fs0 cfg of
      Inr p \<Rightarrow> p | Inl _ \<Rightarrow> BackendProbe_fallback (hl_url lib) cfg)"
    and "ProxyApp_new cl io fs cfg w probe = Inr app"
  shows "\<exists>t h mode. ProxyApp_start app n = Inr (t, h)
    \<and> (case rc_http_mode cfg of
         Http1 \<Rightarrow> mode = ResolvedHttp1
       | Http2 \<Rightarrow> mode = ResolvedHttp2
       | Auto \<Rightarrow>
           (case probe_backend lib cl io fs0 cfg of
              Inl _ \<Rightarrow> mode = ResolvedAuto
            | Inr _ \<Rightarrow> \<exists>client response.
                cl_get cl client (url_as_str (hl_url lib) (rc_backend_url cfg)) [(''accept-encoding'', ''gzip'')]
                  = Inr response
                \<and> mode = (if rsp_version response = HTTP_2 then ResolvedAuto else ResolvedHttp1)))
    \<and> (pt_server t, tsc_alpn (pt_frontend_tls t), tcc_alpn (uc_tls (pt_client t))) =
        (case mode of
           ResolvedAuto \<Rightarrow> (HttpServerAuto, AlpnHttpAuto, AlpnHttpAuto)
         | ResolvedHttp1 \<Rightarrow> (HttpServerHttp1, AlpnHttp1, AlpnHttp1)
         | ResolvedHttp2 \<Rightarrow> (HttpServerH2, AlpnHttp2, AlpnHttp2))
    \<and> pt_listen_addr t = rc_listen_addr cfg \<and> pt_cfg t = cfg \<and> pt_writer t = w
    \<and> pt_shutdown_limit t = rc_graceful_shutdown_timeout cfg
    \<and> tsc_cert_chain (pt_frontend_tls t) \<noteq> []
    \<and> tcc_trust_anchors (uc_tls (pt_client t)) \<noteq> []
    \<and> set (native_certs (cl_tls cl)) \<subseteq> set (tcc_trust_anchors (uc_tls (pt_client t)))
    \<and> host_try_from (cl_tls cl) (rc_upstream_sni cfg) = Inr (tcc_server_name (uc_tls (pt_client t)))
    \<and> tsc_keylog (pt_frontend_tls t) = rc_emit_keylog cfg
    \<and> tcc_keylog (uc_tls (pt_client t)) = rc_emit_keylog cfg"
proof -
  note app = ProxyApp_new_wf [OF assms(2)]
  note wf = app(1) [unfolded app_wf_def Let_def]
  have mode: "case rc_http_mode cfg of
         Http1 \<Rightarrow> pa_http_mode app = ResolvedHttp1
       | Http2 \<Rightarrow> pa_http_mode app = ResolvedHttp2
       | Auto \<Rightarrow>
           (case probe_backend lib cl io fs0 cfg of
              Inl _ \<Rightarrow> pa_http_mode app = ResolvedAuto
            | Inr _ \<Rightarrow> \<exists>client response.
                cl_get cl client (url_as_str (hl_url lib) (rc_backend_url cfg)) [(''accept-encoding'', ''gzip'')]
                  = Inr response
                \<and> pa_http_mode app = (if rsp_version response = HTTP_2 then ResolvedAuto else ResolvedHttp1))"
  proof (cases "probe_backend lib cl io fs0 cfg")
    case (Inl e)
    with wf app(2,4) assms(1) show ?thesis
      by (simp add: BackendProbe_fallback_def resolved_http_mode_def split: HttpMode.split)
  next
    case (Inr p)
    obtain client response where
      "cl_get cl client (url_as_str (hl_url lib) (rc_backend_url cfg)) [(''accept-encoding'', ''gzip'')]
        = Inr response" and "bp_supports_h2 p = Some (rsp_version response = HTTP_2)"
      using probe_backend_answer [OF Inr] by blast
    with Inr wf app(2,4) assms(1) show ?thesis
      by (cases "rsp_version response = HTTP_2")
        (auto simp: resolved_http_mode_def split: HttpMode.split intro!: exI [of _ client] exI [of _ response])
  qed
  have "(pt_server t, tsc_alpn (pt_frontend_tls t), tcc_alpn (uc_tls (pt_client t))) =
        (case pa_http_mode app of
           ResolvedAuto \<Rightarrow> (HttpServerAuto, AlpnHttpAuto, AlpnHttpAuto)
         | ResolvedHttp1 \<Rightarrow> (HttpServerHttp1, AlpnHttp1, AlpnHttp1)
         | ResolvedHttp2 \<Rightarrow> (HttpServerH2, AlpnHttp2, AlpnHttp2))"
    if "ProxyApp_start app n = Inr (t, h)" for t h
    using that wf by (auto simp: ProxyApp_start_def http_server_of_def alpn_of_def split: ResolvedHttpMode.split)
  moreover obtain t h where t: "ProxyApp_start app n = Inr (t, h)" by (simp add: ProxyApp_start_def)
  moreover have "pt_client t = pa_upstream_client app" "pt_frontend_tls t = pa_frontend_tls app"
    "pt_listen_addr t = rc_listen_addr cfg" "pt_cfg t = cfg" "pt_writer t = w"
    "pt_shutdown_limit t = rc_graceful_shutdown_timeout cfg"
    using t app(2,3) by (auto simp: ProxyApp_start_def)
  ultimately show ?thesis
    using mode wf app(2) by (intro exI [of _ t] exI [of _ h] exI [of _ "pa_http_mode app"]) simp
qed

theorem proxy_app_set_up_witness:
  "let failing = test_client\<lparr>cl_get := (\<lambda>_ _ _. Inl ''refused'')\<rparr>; cfg = test_runtime ''/'';
       up = (BackendProbe_fallback test_urls cfg)\<lparr>bp_supports_h2 := Some False\<rparr>;
       down = BackendProbe_fallback test_urls cfg in
   probe_backend test_lib test_client map_fs test_files cfg = Inr up
   \<and> \<not> is_ok (probe_backend test_lib failing map_fs test_files cfg)
   \<and> (\<exists>app t h. ProxyApp_new test_client map_fs test_files cfg (initial_writer () ()) up = Inr app
        \<and> ProxyApp_start app 0 = Inr (t, h) \<and> pt_server t = HttpServerHttp1)
   \<and> (\<exists>app t h. ProxyApp_new failing map_fs test_files cfg (initial_writer () ()) down = Inr app
        \<and> ProxyApp_start app 0 = Inr (t, h) \<and> pt_server t = HttpServerAuto)"
proof -
  define failing where "failing = test_client\<lparr>cl_get := (\<lambda>_ _ _. Inl ''refused'')\<rparr>"
  define up where "up = (BackendProbe_fallback test_urls (test_runtime ''/''))\<lparr>bp_supports_h2 := Some False\<rparr>"
  define down where "down = BackendProbe_fallback test_urls (test_runtime ''/'')"
  have pu: "probe_backend test_lib test_client map_fs test_files (test_runtime ''/'') = Inr up"
    unfolding up_def by code_simp
  have pd: "\<not> is_ok (probe_backend test_lib failing map_fs test_files (test_runtime ''/''))"
    unfolding failing_def by code_simp
  then obtain e where e: "probe_backend test_lib failing map_fs test_files (test_runtime ''/'') = Inl e"
    by (cases "probe_backend test_lib failing map_fs test_files (test_runtime ''/'')") auto
  have au: "is_ok (ProxyApp_new test_client map_fs test_files (test_runtime ''/'') (initial_writer () ()) up)"
    unfolding up_def by code_simp
  have ad: "is_ok (ProxyApp_new failing map_fs test_files (test_runtime ''/'') (initial_writer () ()) down)"
    unfolding down_def failing_def by code_simp
  have auto_mode: "rc_http_mode (test_runtime ''/'') = Auto" by code_simp
  have lib: "hl_url test_lib = test_urls" by (simp add: test_lib_def)
  have answer: "rsp_version response \<noteq> HTTP_2" if "cl_get test_client client u hs = Inr response" for client u hs response
    using that by (auto simp: test_client_def)
  obtain app1 where a1: "ProxyApp_new test_client map_fs test_files (test_runtime ''/'') (initial_writer () ()) up = Inr app1"
    using au by (auto simp: is_ok_iff)
  obtain app2 where a2: "ProxyApp_new failing map_fs test_files (test_runtime ''/'') (initial_writer () ()) down = Inr app2"
    using ad by (auto simp: is_ok_iff)
  have "\<exists>t h. ProxyApp_start app1 0 = Inr (t, h) \<and> pt_server t = HttpServerHttp1"
    using proxy_app_set_up [OF _ a1, of test_lib test_files 0] pu auto_mode answer by fastforce
  moreover have "\<exists>t h. ProxyApp_start app2 0 = Inr (t, h) \<and> pt_server t = HttpServerAuto"
    using proxy_app_set_up [OF _ a2, of test_lib test_files 0] e auto_mode lib by (auto simp: down_def)
  ultimately show ?thesis
    using pu pd a1 a2 unfolding Let_def up_def down_def failing_def by blast
qed

end
