(* ===== verification/Config_Json.thy ===== *)
theory Config_Json
  imports Config Json
begin

text \<open>
  The configuration file: \<open>AppConfigFile::load_json\<close> and \<open>write_json\<close> of
  \<^verbatim>\<open>src/config.rs\<close>, and the representation that the \<open>Serialize\<close> and \<open>Deserialize\<close>
  attributes on the settings (\<^verbatim>\<open>src/config.rs\<close>), the transform rules
  (\<^verbatim>\<open>src/transform.rs\<close>) and the HTTP mode (\<^verbatim>\<open>src/cli.rs\<close>) describe: structs are
  objects whose unknown and repeated fields are refused and whose missing fields have the
  given default, enums are objects tagged by \<open>type\<close>, names are in snake case.
  A struct may also be written as the array of its fields, in order; the fields that an array
  lacks at its end count as missing.

  The JSON parser and printer are a parameter; what the program relies on is that
  printed text parses back (\<open>json_text\<close>).
\<close>

section \<open>Reading structs\<close>

text \<open>The fields of a struct as a map, if no field is unknown or repeated.\<close>

fun struct_fields :: "string list \<Rightarrow> json \<Rightarrow> (string \<rightharpoonup> json) option" where
  "struct_fields names (JObj m) =
     (if distinct (map fst m) \<and> set (map fst m) \<subseteq> set names then Some (map_of m) else None)"
| "struct_fields names (JArr xs) =
     (if length xs \<le> length names then Some (map_of (zip names xs)) else None)"
| "struct_fields names _ = None"

text \<open>A required field, and one with a default.\<close>

definition required :: "(string \<rightharpoonup> json) \<Rightarrow> string \<Rightarrow> (json \<Rightarrow> 'a option) \<Rightarrow> 'a option" where
  "required m name decode = (case m name of None \<Rightarrow> None | Some j \<Rightarrow> decode j)"

definition defaulted :: "(string \<rightharpoonup> json) \<Rightarrow> string \<Rightarrow> (json \<Rightarrow> 'a option) \<Rightarrow> 'a \<Rightarrow> 'a option" where
  "defaulted m name decode d = (case m name of None \<Rightarrow> Some d | Some j \<Rightarrow> decode j)"

text \<open>
  An enum tagged by \<open>type\<close>: the tag, which occurs once and is a string, and what is left of the
  object or array for the variant's own fields.
\<close>

fun tagged :: "json \<Rightarrow> (string \<times> json) option" where
  "tagged (JObj m) =
     (case filter (\<lambda>e. fst e = ''type'') m of
        [(_, JStr t)] \<Rightarrow> Some (t, JObj (filter (\<lambda>e. fst e \<noteq> ''type'') m))
      | _ \<Rightarrow> None)"
| "tagged (JArr (JStr t # xs)) = Some (t, JArr xs)"
| "tagged _ = None"

fun as_string :: "json \<Rightarrow> string option" where
  "as_string (JStr s) = Some s"
| "as_string _ = None"

fun as_bool :: "json \<Rightarrow> bool option" where
  "as_bool (JBool b) = Some b"
| "as_bool _ = None"

fun as_u64 :: "json \<Rightarrow> 64 word option" where
  "as_u64 (JNum i) = (if 0 \<le> i \<and> i < 2 ^ 64 then Some (word_of_int i) else None)"
| "as_u64 _ = None"

fun as_nullable :: "(json \<Rightarrow> 'a option) \<Rightarrow> json \<Rightarrow> 'a option option" where
  "as_nullable decode JNull = Some None"
| "as_nullable decode j = map_option Some (decode j)"

fun all_some :: "'a option list \<Rightarrow> 'a list option" where
  "all_some [] = Some []"
| "all_some (x # xs) = Option.bind x (\<lambda>y. map_option ((#) y) (all_some xs))"

fun as_list :: "(json \<Rightarrow> 'a option) \<Rightarrow> json \<Rightarrow> 'a list option" where
  "as_list decode (JArr xs) = all_some (map decode xs)"
| "as_list decode _ = None"

section \<open>The HTTP mode\<close>

fun encode_http_mode :: "HttpMode \<Rightarrow> json" where
  "encode_http_mode Auto = JStr ''auto''"
| "encode_http_mode Http1 = JStr ''http1''"
| "encode_http_mode Http2 = JStr ''http2''"

definition http_mode_variant :: "string \<Rightarrow> HttpMode option" where
  "http_mode_variant s =
     (if s = ''auto'' then Some Auto else if s = ''http1'' then Some Http1
      else if s = ''http2'' then Some Http2 else None)"

text \<open>A variant without fields is its name, or an object with the name and \<open>null\<close>.\<close>

fun decode_http_mode :: "json \<Rightarrow> HttpMode option" where
  "decode_http_mode (JStr s) = http_mode_variant s"
| "decode_http_mode (JObj [(s, JNull)]) = http_mode_variant s"
| "decode_http_mode _ = None"

section \<open>Transform rules\<close>

fun encode_matcher :: "TransformMatcherFile \<Rightarrow> json" where
  "encode_matcher (UrlGlobFile p) = JObj [(''type'', JStr ''url_glob''), (''pattern'', JStr p)]"
| "encode_matcher (ContentTypeGlobFile p) =
     JObj [(''type'', JStr ''content_type_glob''), (''pattern'', JStr p)]"
| "encode_matcher MatchEverythingFile = JObj [(''type'', JStr ''everything'')]"

definition decode_matcher :: "json \<Rightarrow> TransformMatcherFile option" where
  "decode_matcher j = Option.bind (tagged j) (\<lambda>(t, rest).
     if t = ''url_glob'' then
       Option.bind (struct_fields [''pattern''] rest) (\<lambda>m.
       map_option UrlGlobFile (required m ''pattern'' as_string))
     else if t = ''content_type_glob'' then
       Option.bind (struct_fields [''pattern''] rest) (\<lambda>m.
       map_option ContentTypeGlobFile (required m ''pattern'' as_string))
     else if t = ''everything'' \<or> t = ''any'' then
       map_option (\<lambda>_. MatchEverythingFile) (struct_fields [] rest)
     else None)"

fun encode_action :: "TransformActionFile \<Rightarrow> json" where
  "encode_action (ReplaceFile from to) =
     JObj [(''type'', JStr ''replace''), (''from'', JStr from), (''to'', JStr to)]"

definition decode_action :: "json \<Rightarrow> TransformActionFile option" where
  "decode_action j = Option.bind (tagged j) (\<lambda>(t, rest).
     if t = ''replace'' then
       Option.bind (struct_fields [''from'', ''to''] rest) (\<lambda>m.
       Option.bind (required m ''from'' as_string) (\<lambda>from.
       map_option (ReplaceFile from) (required m ''to'' as_string)))
     else None)"

fun encode_target :: "TransformTargetFile \<Rightarrow> json" where
  "encode_target TargetEverythingFile = JObj [(''type'', JStr ''everything'')]"
| "encode_target BodyFile = JObj [(''type'', JStr ''body'')]"
| "encode_target AllHeadersFile = JObj [(''type'', JStr ''all_headers'')]"
| "encode_target (HeaderFile name) = JObj [(''type'', JStr ''header''), (''name'', JStr name)]"
| "encode_target CookiesFile = JObj [(''type'', JStr ''cookies'')]"

definition decode_target :: "json \<Rightarrow> TransformTargetFile option" where
  "decode_target j = Option.bind (tagged j) (\<lambda>(t, rest).
     if t = ''everything'' \<or> t = ''any'' then
       map_option (\<lambda>_. TargetEverythingFile) (struct_fields [] rest)
     else if t = ''body'' then map_option (\<lambda>_. BodyFile) (struct_fields [] rest)
     else if t = ''all_headers'' then map_option (\<lambda>_. AllHeadersFile) (struct_fields [] rest)
     else if t = ''header'' then
       Option.bind (struct_fields [''name''] rest) (\<lambda>m.
       map_option HeaderFile (required m ''name'' as_string))
     else if t = ''cookies'' then map_option (\<lambda>_. CookiesFile) (struct_fields [] rest)
     else None)"

definition encode_rule :: "TransformRuleFile \<Rightarrow> json" where
  "encode_rule r =
     JObj [(''matcher'', encode_matcher (file_matcher r)),
           (''action'', encode_action (file_action r)),
           (''target'', encode_target (file_target r)),
           (''stop'', JBool (file_stop r))]"

definition decode_rule :: "json \<Rightarrow> TransformRuleFile option" where
  "decode_rule j =
     Option.bind (struct_fields [''matcher'', ''action'', ''target'', ''stop''] j) (\<lambda>m.
     Option.bind (required m ''matcher'' decode_matcher) (\<lambda>mt.
     Option.bind (required m ''action'' decode_action) (\<lambda>ac.
     Option.bind (required m ''target'' decode_target) (\<lambda>tg.
     Option.bind (defaulted m ''stop'' as_bool False) (\<lambda>st.
     Some \<lparr>file_matcher = mt, file_action = ac, file_target = tg, file_stop = st\<rparr>)))))"

section \<open>Settings\<close>

fun encode_nullable :: "string option \<Rightarrow> json" where
  "encode_nullable None = JNull"
| "encode_nullable (Some s) = JStr s"

definition encode_u64 :: "64 word \<Rightarrow> json" where
  "encode_u64 w = JNum (uint w)"

definition encode_strings :: "string list \<Rightarrow> json" where
  "encode_strings vs = JArr (map JStr vs)"

definition settings_fields :: "RuntimeSettingsFile \<Rightarrow> (string \<times> json) list" where
  "settings_fields s =
     [(''listen_addr'', JStr (rs_listen_addr s)),
      (''frontend_domain'', JStr (rs_frontend_domain s)),
      (''backend_url'', JStr (rs_backend_url s)),
      (''tls_cert_path'', JStr (rs_tls_cert_path s)),
      (''tls_key_path'', JStr (rs_tls_key_path s)),
      (''sqlite_path'', JStr (rs_sqlite_path s)),
      (''ca_bundle_path'', encode_nullable (rs_ca_bundle_path s)),
      (''upstream_sni_override'', encode_nullable (rs_upstream_sni_override s)),
      (''http_mode'', encode_http_mode (rs_http_mode s)),
      (''flush_rows'', encode_u64 (rs_flush_rows s)),
      (''flush_interval_ms'', encode_u64 (rs_flush_interval_ms s)),
      (''max_inflight_events'', encode_u64 (rs_max_inflight_events s)),
      (''body_max_bytes'', encode_u64 (rs_body_max_bytes s)),
      (''connect_timeout_ms'', encode_u64 (rs_connect_timeout_ms s)),
      (''request_timeout_ms'', encode_u64 (rs_request_timeout_ms s)),
      (''idle_pool_timeout_ms'', encode_u64 (rs_idle_pool_timeout_ms s)),
      (''graceful_shutdown_timeout_ms'', encode_u64 (rs_graceful_shutdown_timeout_ms s)),
      (''trust_proxy_headers'', JBool (rs_trust_proxy_headers s)),
      (''emit_keylog'', JBool (rs_emit_keylog s)),
      (''header_allowlist'', encode_strings (rs_header_allowlist s)),
      (''header_denylist'', encode_strings (rs_header_denylist s))]"

definition encode_settings :: "RuntimeSettingsFile \<Rightarrow> json" where
  "encode_settings s = JObj (settings_fields s)"

definition settings_names :: "string list" where
  "settings_names =
     [''listen_addr'', ''frontend_domain'', ''backend_url'', ''tls_cert_path'', ''tls_key_path'',
      ''sqlite_path'', ''ca_bundle_path'', ''upstream_sni_override'', ''http_mode'', ''flush_rows'',
      ''flush_interval_ms'', ''max_inflight_events'', ''body_max_bytes'', ''connect_timeout_ms'',
      ''request_timeout_ms'', ''idle_pool_timeout_ms'', ''graceful_shutdown_timeout_ms'',
      ''trust_proxy_headers'', ''emit_keylog'', ''header_allowlist'', ''header_denylist'']"

definition settings_of_fields :: "(string \<rightharpoonup> json) \<Rightarrow> RuntimeSettingsFile option" where
  "settings_of_fields m =
     Option.bind (required m ''listen_addr'' as_string) (\<lambda>listen_addr.
     Option.bind (required m ''frontend_domain'' as_string) (\<lambda>frontend_domain.
     Option.bind (required m ''backend_url'' as_string) (\<lambda>backend_url.
     Option.bind (required m ''tls_cert_path'' as_string) (\<lambda>tls_cert_path.
     Option.bind (required m ''tls_key_path'' as_string) (\<lambda>tls_key_path.
     Option.bind (defaulted m ''sqlite_path'' as_string default_sqlite_path) (\<lambda>sqlite_path.
     Option.bind (defaulted m ''ca_bundle_path'' (as_nullable as_string) None) (\<lambda>ca_bundle_path.
     Option.bind (defaulted m ''upstream_sni_override'' (as_nullable as_string) None) (\<lambda>sni_override.
     Option.bind (defaulted m ''http_mode'' decode_http_mode default_http_mode) (\<lambda>http_mode.
     Option.bind (defaulted m ''flush_rows'' as_u64 default_flush_rows) (\<lambda>flush_rows.
     Option.bind (defaulted m ''flush_interval_ms'' as_u64 default_flush_interval_ms) (\<lambda>flush_interval.
     Option.bind (defaulted m ''max_inflight_events'' as_u64 default_max_inflight_events) (\<lambda>max_inflight.
     Option.bind (defaulted m ''body_max_bytes'' as_u64 default_body_max_bytes) (\<lambda>body_max_bytes.
     Option.bind (defaulted m ''connect_timeout_ms'' as_u64 default_connect_timeout_ms) (\<lambda>connect_timeout.
     Option.bind (defaulted m ''request_timeout_ms'' as_u64 default_request_timeout_ms) (\<lambda>request_timeout.
     Option.bind (defaulted m ''idle_pool_timeout_ms'' as_u64 default_idle_pool_timeout_ms) (\<lambda>idle_timeout.
     Option.bind (defaulted m ''graceful_shutdown_timeout_ms'' as_u64
                    default_graceful_shutdown_timeout_ms) (\<lambda>graceful_timeout.
     Option.bind (defaulted m ''trust_proxy_headers'' as_bool False) (\<lambda>trust.
     Option.bind (defaulted m ''emit_keylog'' as_bool False) (\<lambda>keylog.
     Option.bind (defaulted m ''header_allowlist'' (as_list as_string) []) (\<lambda>allow.
     Option.bind (defaulted m ''header_denylist'' (as_list as_string) []) (\<lambda>deny.
     Some \<lparr>rs_listen_addr = listen_addr, rs_frontend_domain = frontend_domain,
       rs_backend_url = backend_url, rs_tls_cert_path = tls_cert_path,
       rs_tls_key_path = tls_key_path, rs_sqlite_path = sqlite_path,
       rs_ca_bundle_path = ca_bundle_path, rs_upstream_sni_override = sni_override,
       rs_http_mode = http_mode, rs_flush_rows = flush_rows,
       rs_flush_interval_ms = flush_interval, rs_max_inflight_events = max_inflight,
       rs_body_max_bytes = body_max_bytes, rs_connect_timeout_ms = connect_timeout,
       rs_request_timeout_ms = request_timeout, rs_idle_pool_timeout_ms = idle_timeout,
       rs_graceful_shutdown_timeout_ms = graceful_timeout, rs_trust_proxy_headers = trust,
       rs_emit_keylog = keylog, rs_header_allowlist = allow, rs_header_denylist = deny\<rparr>)))))))))))))))))))))"

definition decode_settings :: "json \<Rightarrow> RuntimeSettingsFile option" where
  "decode_settings j = Option.bind (struct_fields settings_names j) settings_of_fields"

definition encode_app_config :: "AppConfigFile \<Rightarrow> json" where
  "encode_app_config c =
     JObj [(''runtime'', encode_settings (ac_runtime c)),
           (''transforms'', JArr (map encode_rule (ac_transforms c)))]"

definition decode_app_config :: "json \<Rightarrow> AppConfigFile option" where
  "decode_app_config j =
     Option.bind (struct_fields [''runtime'', ''transforms''] j) (\<lambda>m.
     Option.bind (required m ''runtime'' decode_settings) (\<lambda>rt.
     Option.bind (defaulted m ''transforms'' (as_list decode_rule) []) (\<lambda>ts.
     Some \<lparr>ac_runtime = rt, ac_transforms = ts\<rparr>)))"

section \<open>The file\<close>

definition load_json ::
  "text_ops \<Rightarrow> 'fs fs_ops \<Rightarrow> 'fs \<Rightarrow> string \<Rightarrow> AppConfigFile anyhow_result" where
  "load_json tx io fs path =
     try_bind (ok_or (''read config '' @ path) (fs_read_to_string io fs path)) (\<lambda>contents.
     ok_or (''parse config '' @ path)
       (Option.bind (json_from_str tx contents) decode_app_config))"

definition write_json ::
  "text_ops \<Rightarrow> 'fs fs_ops \<Rightarrow> 'fs \<Rightarrow> AppConfigFile \<Rightarrow> string \<Rightarrow> 'fs \<times> unit anyhow_result" where
  "write_json tx io fs c path =
     (case json_to_string_pretty tx (encode_app_config c) of
        None \<Rightarrow> (fs, Inl ''serialize config'')
      | Some contents \<Rightarrow>
          (case fs_write io fs path contents of
             (fs', ok) \<Rightarrow> (fs', if ok then Inr () else Inl (''write config '' @ path))))"

section \<open>Codecs\<close>

text \<open>The contract of an encoding: what it writes is read back.\<close>

locale codec =
  fixes encode :: "'a \<Rightarrow> json" and decode :: "json \<Rightarrow> 'a option"
  assumes decode_encode: "decode (encode x) = Some x"
begin

lemma encode_inj: "encode x = encode y \<longleftrightarrow> x = y"
  by (metis decode_encode option.inject)

lemma required_encode: "m name = Some (encode x) \<Longrightarrow> required m name decode = Some x"
  by (simp add: required_def decode_encode)

lemma defaulted_encode:
  assumes "m name = Some (encode x) \<or> m name = None \<and> encode x = encode d"
  shows "defaulted m name decode d = Some x"
  using assms by (auto simp: defaulted_def decode_encode encode_inj)

lemma list_codec: "codec (\<lambda>xs. JArr (map encode xs)) (as_list decode)"
proof
  show "as_list decode (JArr (map encode xs)) = Some xs" for xs
    by (induction xs) (simp_all add: decode_encode)
qed

end

interpretation string: codec JStr as_string
  by unfold_locales simp

interpretation bool: codec JBool as_bool
  by unfold_locales simp

interpretation u64: codec encode_u64 as_u64
proof
  show "as_u64 (encode_u64 w) = Some w" for w
    using uint_bounded [of w] by (simp add: encode_u64_def)
qed

interpretation nullable: codec encode_nullable "as_nullable as_string"
proof
  show "as_nullable as_string (encode_nullable v) = Some v" for v by (cases v) simp_all
qed

interpretation strings: codec encode_strings "as_list as_string"
  using string.list_codec by (simp add: codec_def encode_strings_def)

interpretation http_mode: codec encode_http_mode decode_http_mode
proof
  show "decode_http_mode (encode_http_mode v) = Some v" for v
    by (cases v) (simp_all add: http_mode_variant_def)
qed

interpretation matcher: codec encode_matcher decode_matcher
proof
  show "decode_matcher (encode_matcher v) = Some v" for v
    by (cases v) (simp_all add: decode_matcher_def required_def)
qed

interpretation action: codec encode_action decode_action
proof
  show "decode_action (encode_action v) = Some v" for v
    by (cases v) (simp add: decode_action_def required_def)
qed

interpretation target_codec: codec encode_target decode_target
proof
  show "decode_target (encode_target v) = Some v" for v
    by (cases v) (simp_all add: decode_target_def required_def)
qed

interpretation rule: codec encode_rule decode_rule
proof
  show "decode_rule (encode_rule r) = Some r" for r
    by (simp add: decode_rule_def encode_rule_def required_def defaulted_def
        matcher.decode_encode action.decode_encode target_codec.decode_encode)
qed

interpretation rules: codec "\<lambda>rs. JArr (map encode_rule rs)" "as_list decode_rule"
  by (rule rule.list_codec)

section \<open>Settings files with omitted fields\<close>

text \<open>
  \<open>settings_text m s\<close>: the entries \<open>m\<close>, in any order, give each field of \<open>s\<close> at most once, nothing
  else, and every field that is required or differs from its default.
\<close>

definition settings_text :: "(string \<times> json) list \<Rightarrow> RuntimeSettingsFile \<Rightarrow> bool" where
  "settings_text m s \<longleftrightarrow>
     distinct (map fst m) \<and> set m \<subseteq> set (settings_fields s)
     \<and> set (settings_fields s) - set m
         \<subseteq> set (drop 5 (settings_fields RuntimeSettingsFile_default))"

lemma fst_settings_fields: "map fst (settings_fields s) = settings_names"
  by (simp add: settings_fields_def settings_names_def)

lemma distinct_settings_names: "distinct settings_names"
  by (simp add: settings_names_def)

lemma settings_text_lookup:
  assumes "settings_text m s" and v: "(n, v) \<in> set (settings_fields s)"
  shows "map_of m n = Some v
    \<or> map_of m n = None \<and> (n, v) \<in> set (drop 5 (settings_fields RuntimeSettingsFile_default))"
proof (cases "(n, v) \<in> set m")
  case True
  with assms show ?thesis by (simp add: settings_text_def)
next
  case False
  have "distinct (map fst (settings_fields s))"
    by (simp add: fst_settings_fields distinct_settings_names)
  then have "n \<notin> fst ` set m"
    using assms False by (force simp: settings_text_def dest: eq_key_imp_eq_value)
  with False assms show ?thesis by (auto simp: settings_text_def map_of_eq_None_iff)
qed

lemma settings_text_full: "settings_text (settings_fields s) s"
  by (simp add: settings_text_def fst_settings_fields distinct_settings_names)

context codec
begin

lemma settings_required:
  assumes "settings_text m s" and "(n, encode x) \<in> set (settings_fields s)"
    and "n \<notin> set (drop 5 settings_names)"
  shows "required (map_of m) n decode = Some x"
proof (rule required_encode)
  have "(n, v) \<notin> set (drop 5 (settings_fields RuntimeSettingsFile_default))" for v
  proof
    assume "(n, v) \<in> set (drop 5 (settings_fields RuntimeSettingsFile_default))"
    then have "n \<in> set (map fst (drop 5 (settings_fields RuntimeSettingsFile_default)))" by force
    with assms(3) show False by (simp add: drop_map [symmetric] fst_settings_fields)
  qed
  with settings_text_lookup [OF assms(1,2)] show "map_of m n = Some (encode x)" by blast
qed

lemma settings_defaulted:
  assumes "settings_text m s" and "(n, encode x) \<in> set (settings_fields s)"
    and "(n, encode d) \<in> set (settings_fields RuntimeSettingsFile_default)"
  shows "defaulted (map_of m) n decode d = Some x"
proof (rule defaulted_encode)
  have "distinct (map fst (settings_fields RuntimeSettingsFile_default))"
    by (simp add: fst_settings_fields distinct_settings_names)
  then have "encode x = encode d"
    if "(n, encode x) \<in> set (drop 5 (settings_fields RuntimeSettingsFile_default))"
    using that assms(3) by (meson eq_key_imp_eq_value in_set_dropD)
  with settings_text_lookup [OF assms(1,2)]
  show "map_of m n = Some (encode x) \<or> map_of m n = None \<and> encode x = encode d" by blast
qed

end

lemma settings_of_fields_text:
  assumes "settings_text m s"
  shows "settings_of_fields (map_of m) = Some s"
proof -
  note req = string.settings_required [OF assms]
    and dfl = string.settings_defaulted [OF assms] nullable.settings_defaulted [OF assms]
      http_mode.settings_defaulted [OF assms] u64.settings_defaulted [OF assms]
      bool.settings_defaulted [OF assms] strings.settings_defaulted [OF assms]
  have field: "required (map_of m) ''listen_addr'' as_string = Some (rs_listen_addr s)"
    "required (map_of m) ''frontend_domain'' as_string = Some (rs_frontend_domain s)"
    "required (map_of m) ''backend_url'' as_string = Some (rs_backend_url s)"
    "required (map_of m) ''tls_cert_path'' as_string = Some (rs_tls_cert_path s)"
    "required (map_of m) ''tls_key_path'' as_string = Some (rs_tls_key_path s)"
    by (rule req; simp add: settings_fields_def settings_names_def)+
  have nums: "defaulted (map_of m) ''flush_rows'' as_u64 default_flush_rows = Some (rs_flush_rows s)"
    "defaulted (map_of m) ''flush_interval_ms'' as_u64 default_flush_interval_ms
      = Some (rs_flush_interval_ms s)"
    "defaulted (map_of m) ''max_inflight_events'' as_u64 default_max_inflight_events
      = Some (rs_max_inflight_events s)"
    "defaulted (map_of m) ''body_max_bytes'' as_u64 default_body_max_bytes
      = Some (rs_body_max_bytes s)"
    "defaulted (map_of m) ''connect_timeout_ms'' as_u64 default_connect_timeout_ms
      = Some (rs_connect_timeout_ms s)"
    "defaulted (map_of m) ''request_timeout_ms'' as_u64 default_request_timeout_ms
      = Some (rs_request_timeout_ms s)"
    "defaulted (map_of m) ''idle_pool_timeout_ms'' as_u64 default_idle_pool_timeout_ms
      = Some (rs_idle_pool_timeout_ms s)"
    "defaulted (map_of m) ''graceful_shutdown_timeout_ms'' as_u64
       default_graceful_shutdown_timeout_ms = Some (rs_graceful_shutdown_timeout_ms s)"
    by (rule dfl; simp add: settings_fields_def RuntimeSettingsFile_default_def)+
  have other: "defaulted (map_of m) ''sqlite_path'' as_string default_sqlite_path
      = Some (rs_sqlite_path s)"
    "defaulted (map_of m) ''ca_bundle_path'' (as_nullable as_string) None
      = Some (rs_ca_bundle_path s)"
    "defaulted (map_of m) ''upstream_sni_override'' (as_nullable as_string) None
      = Some (rs_upstream_sni_override s)"
    "defaulted (map_of m) ''http_mode'' decode_http_mode default_http_mode = Some (rs_http_mode s)"
    "defaulted (map_of m) ''trust_proxy_headers'' as_bool False = Some (rs_trust_proxy_headers s)"
    "defaulted (map_of m) ''emit_keylog'' as_bool False = Some (rs_emit_keylog s)"
    "defaulted (map_of m) ''header_allowlist'' (as_list as_string) [] = Some (rs_header_allowlist s)"
    "defaulted (map_of m) ''header_denylist'' (as_list as_string) [] = Some (rs_header_denylist s)"
    by (rule dfl; simp add: settings_fields_def RuntimeSettingsFile_default_def encode_strings_def)+
  show ?thesis
    unfolding settings_of_fields_def field nums other by simp
qed

lemma decode_settings_text: "settings_text m s \<Longrightarrow> decode_settings (JObj m) = Some s"
  by (auto simp: decode_settings_def settings_of_fields_text settings_text_def
      fst_settings_fields [of s, symmetric])

interpretation settings: codec encode_settings decode_settings
proof
  show "decode_settings (encode_settings s) = Some s" for s
    unfolding encode_settings_def by (rule decode_settings_text [OF settings_text_full])
qed

interpretation app_config: codec encode_app_config decode_app_config
proof
  show "decode_app_config (encode_app_config c) = Some c" for c
    by (simp add: decode_app_config_def encode_app_config_def required_def defaulted_def
        settings.decode_encode rules.decode_encode del: as_list.simps)
qed

section \<open>Text that parses back\<close>

text \<open>
  What the program relies on of the JSON library: printed text parses to the printed document,
  here for documents whose numbers are integers, the only ones a configuration has.
\<close>

fun integral :: "json \<Rightarrow> bool" where
  "integral (JFloat _) = False"
| "integral (JArr xs) = list_all integral xs"
| "integral (JObj m) = list_all (\<lambda>e. integral (snd e)) m"
| "integral _ = True"

locale json_text =
  fixes tx :: text_ops
  assumes parse_print: "integral j \<Longrightarrow> json_to_string_pretty tx j = Some s \<Longrightarrow> json_from_str tx s = Some j"

lemma integral_rule: "integral (encode_rule r)"
  by (cases "file_matcher r"; cases "file_action r"; cases "file_target r")
    (simp_all add: encode_rule_def)

lemma integral_app_config: "integral (encode_app_config c)"
proof -
  have "integral (encode_nullable v)" for v by (cases v) simp_all
  moreover have "integral (encode_http_mode v)" for v by (cases v) simp_all
  ultimately show ?thesis
    by (simp add: encode_app_config_def encode_settings_def settings_fields_def encode_u64_def
        encode_strings_def list_all_iff integral_rule)
qed

text \<open>
  A notation with this law, on which the witnesses run: the document in postfix order, read by a
  machine that keeps a stack of finished and growing documents.
\<close>

fun nat_bits :: "nat \<Rightarrow> string" where
  "nat_bits n = (if n = 0 then [] else nat_bits (n div 2) @ (if odd n then ''1'' else ''0''))"

declare nat_bits.simps [simp del]

definition postfix_chars :: "string \<Rightarrow> string" where
  "postfix_chars s = concat (map (\<lambda>c. [CHR ''c'', c]) s)"

fun to_postfix :: "json \<Rightarrow> string" where
  "to_postfix JNull = ''n''"
| "to_postfix (JBool b) = (if b then ''t'' else ''f'')"
| "to_postfix (JNum i) = ''z'' @ nat_bits (nat \<bar>i\<bar>) @ (if i < 0 then ''m'' else [])"
| "to_postfix (JFloat s) = ''d'' @ postfix_chars s"
| "to_postfix (JStr s) = ''q'' @ postfix_chars s"
| "to_postfix (JArr xs) = ''a'' @ concat (map (\<lambda>x. to_postfix x @ '','') xs)"
| "to_postfix (JObj m) =
     ''o'' @ concat (map (\<lambda>(k, x). ''q'' @ postfix_chars k @ to_postfix x @ '':'') m)"

definition grow_num :: "(int \<Rightarrow> int) \<Rightarrow> json list \<Rightarrow> json list option" where
  "grow_num f st = (case st of JNum i # st' \<Rightarrow> Some (JNum (f i) # st') | _ \<Rightarrow> None)"

definition grow_text :: "char \<Rightarrow> json list \<Rightarrow> json list option" where
  "grow_text c st =
     (case st of JStr s # st' \<Rightarrow> Some (JStr (s @ [c]) # st')
      | JFloat s # st' \<Rightarrow> Some (JFloat (s @ [c]) # st') | _ \<Rightarrow> None)"

definition grow_arr :: "json list \<Rightarrow> json list option" where
  "grow_arr st = (case st of x # JArr xs # st' \<Rightarrow> Some (JArr (xs @ [x]) # st') | _ \<Rightarrow> None)"

definition grow_obj :: "json list \<Rightarrow> json list option" where
  "grow_obj st =
     (case st of x # JStr k # JObj m # st' \<Rightarrow> Some (JObj (m @ [(k, x)]) # st') | _ \<Rightarrow> None)"

fun run_postfix :: "string \<Rightarrow> json list \<Rightarrow> json list option" where
  "run_postfix [] st = Some st"
| "run_postfix (t # s) st =
     (if t = CHR ''n'' then run_postfix s (JNull # st)
      else if t = CHR ''t'' then run_postfix s (JBool True # st)
      else if t = CHR ''f'' then run_postfix s (JBool False # st)
      else if t = CHR ''z'' then run_postfix s (JNum 0 # st)
      else if t = CHR ''d'' then run_postfix s (JFloat [] # st)
      else if t = CHR ''q'' then run_postfix s (JStr [] # st)
      else if t = CHR ''a'' then run_postfix s (JArr [] # st)
      else if t = CHR ''o'' then run_postfix s (JObj [] # st)
      else if t = CHR ''0'' then Option.bind (grow_num (\<lambda>i. 2 * i) st) (run_postfix s)
      else if t = CHR ''1'' then Option.bind (grow_num (\<lambda>i. 2 * i + 1) st) (run_postfix s)
      else if t = CHR ''m'' then Option.bind (grow_num uminus st) (run_postfix s)
      else if t = CHR '','' then Option.bind (grow_arr st) (run_postfix s)
      else if t = CHR '':'' then Option.bind (grow_obj st) (run_postfix s)
      else if t = CHR ''c'' then
        (case s of [] \<Rightarrow> None | c # s' \<Rightarrow> Option.bind (grow_text c st) (run_postfix s'))
      else None)"

definition from_postfix :: "string \<Rightarrow> json option" where
  "from_postfix s = (case run_postfix s [] of Some [j] \<Rightarrow> Some j | _ \<Rightarrow> None)"

definition postfix_text :: text_ops where
  "postfix_text = test_text\<lparr>json_to_string := \<lambda>j. Some (to_postfix j),
     json_to_string_pretty := \<lambda>j. Some (to_postfix j), json_from_str := from_postfix\<rparr>"

lemma run_nat_bits:
  "run_postfix (nat_bits n @ s) (JNum i # st) =
     run_postfix s (JNum (i * 2 ^ length (nat_bits n) + int n) # st)"
proof (induction n arbitrary: i s rule: nat_bits.induct)
  case (1 n)
  show ?case
  proof (cases "n = 0")
    case False
    have "int n = 2 * int (n div 2) + (if odd n then 1 else 0)"
      by (simp add: zdiv_int odd_iff_mod_2_eq_one) presburger
    with 1 [OF False] False show ?thesis
      by (subst (1 2) nat_bits.simps) (simp add: grow_num_def algebra_simps)
  qed (simp add: nat_bits.simps)
qed

lemma run_chars_str:
  "run_postfix (postfix_chars s @ r) (JStr a # st) = run_postfix r (JStr (a @ s) # st)"
  by (induction s arbitrary: a) (simp_all add: postfix_chars_def grow_text_def)

lemma run_chars_float:
  "run_postfix (postfix_chars s @ r) (JFloat a # st) = run_postfix r (JFloat (a @ s) # st)"
  by (induction s arbitrary: a) (simp_all add: postfix_chars_def grow_text_def)

lemma run_to_postfix: "run_postfix (to_postfix j @ s) st = run_postfix s (j # st)"
proof (induction j arbitrary: s st)
  case (JNum i)
  show ?case using run_nat_bits [of "nat \<bar>i\<bar>" _ 0] by (simp add: grow_num_def)
next
  case (JArr xs)
  have "run_postfix (concat (map (\<lambda>x. to_postfix x @ '','') ys) @ s) (JArr zs # st) =
      run_postfix s (JArr (zs @ ys) # st)" if "set ys \<subseteq> set xs" for ys zs
    using that by (induction ys arbitrary: zs) (simp_all add: JArr grow_arr_def)
  then show ?case by simp
next
  case (JObj m)
  have "run_postfix (concat (map (\<lambda>(k, x). ''q'' @ postfix_chars k @ to_postfix x @ '':'') ys) @ s)
        (JObj zs # st) = run_postfix s (JObj (zs @ ys) # st)" if "set ys \<subseteq> set m" for ys zs
    using that
  proof (induction ys arbitrary: zs)
    case (Cons e ys)
    obtain k x where e: "e = (k, x)" by (cases e)
    with Cons.prems have "x \<in> Basic_BNFs.snds e" "e \<in> set m" by (simp_all add: prod_set_simps)
    note IH = JObj [OF this(2) this(1)]
    from Cons e show ?case by (simp add: IH run_chars_str grow_obj_def)
  qed simp
  then show ?case by simp
qed (simp_all add: run_chars_str run_chars_float)

interpretation postfix: json_text postfix_text
proof
  show "json_from_str postfix_text s = Some j"
    if "json_to_string_pretty postfix_text j = Some s" for j s
    using that run_to_postfix [of j "[]" "[]"] by (auto simp: postfix_text_def from_postfix_def)
qed

section \<open>The file's properties\<close>

lemma write_then_load:
  assumes "file_system io" and "json_text tx"
    and "write_json tx io fs c path = (fs', Inr ())"
  shows "load_json tx io fs' path = Inr c"
proof -
  obtain contents where
    p: "json_to_string_pretty tx (encode_app_config c) = Some contents"
    and w: "fs_write io fs path contents = (fs', True)"
    using assms(3) by (auto simp: write_json_def split: option.splits prod.splits if_splits)
  then show ?thesis
    by (simp add: load_json_def file_system.read_after_write [OF assms(1) w]
        json_text.parse_print [OF assms(2) integral_app_config p] app_config.decode_encode)
qed

text \<open>C11: a configuration that was written to a file is read back from it unchanged, all settings
  and transform rules included.\<close>

theorem config_file_round_trip:
  assumes "file_system io" and "json_text tx"
    and "write_json tx io fs c path = (fs', Inr ())"
  shows "load_json tx io fs' path = Inr c"
  by (rule write_then_load [OF assms])

theorem config_file_round_trip_witness:
  "load_json postfix_text map_fs
     (fst (write_json postfix_text map_fs test_files test_config ''kidproxy.json'')) ''kidproxy.json''
   = Inr test_config"
proof -
  have "write_json postfix_text map_fs test_files test_config ''kidproxy.json'' =
      (fst (write_json postfix_text map_fs test_files test_config ''kidproxy.json''), Inr ())"
    by (simp add: write_json_def postfix_text_def map_fs_def)
  then show ?thesis
    by (rule config_file_round_trip [OF map_fs.file_system_axioms postfix.json_text_axioms])
qed

text \<open>A settings object may list its fields in any order and leave out optional fields that have
  their default; it is refused if a field is unknown or given twice, or a required one is
  missing.\<close>

theorem settings_object_read:
  "(settings_text m s \<longrightarrow> decode_settings (JObj m) = Some s)
   \<and> (\<not> (distinct (map fst m) \<and> set (map fst m) \<subseteq> set settings_names
          \<and> set (take 5 settings_names) \<subseteq> set (map fst m))
      \<longrightarrow> decode_settings (JObj m) = None)"
proof (intro conjI impI)
  assume bad: "\<not> (distinct (map fst m) \<and> set (map fst m) \<subseteq> set settings_names
          \<and> set (take 5 settings_names) \<subseteq> set (map fst m))"
  show "decode_settings (JObj m) = None"
  proof (rule ccontr)
    assume ok: "decode_settings (JObj m) \<noteq> None"
    then obtain s where s: "settings_of_fields (map_of m) = Some s"
      and f: "distinct (map fst m)" "set (map fst m) \<subseteq> set settings_names"
      by (auto simp: decode_settings_def split: if_splits)
    from s have "\<forall>n \<in> set (take 5 settings_names). map_of m n \<noteq> None"
      unfolding settings_of_fields_def settings_names_def
      by (auto simp: required_def bind_eq_Some_conv split: option.splits)
    then have "set (take 5 settings_names) \<subseteq> set (map fst m)"
      by (metis list.set_map map_of_eq_None_iff subsetI)
    with f bad show False by blast
  qed
qed (rule decode_settings_text)

theorem settings_object_read_witness:
  "decode_settings (JObj (rev (take 5 (settings_fields RuntimeSettingsFile_default)))) =
     Some RuntimeSettingsFile_default
   \<and> decode_settings (JObj ((''listen_address'', JNull) # settings_fields RuntimeSettingsFile_default))
     = None"
proof
  have "settings_text (rev (take 5 (settings_fields RuntimeSettingsFile_default)))
      RuntimeSettingsFile_default"
    by (simp add: settings_text_def settings_fields_def)
  then show "decode_settings (JObj (rev (take 5 (settings_fields RuntimeSettingsFile_default)))) =
     Some RuntimeSettingsFile_default"
    using settings_object_read by blast
  have "''listen_address'' \<notin> set settings_names" by (simp add: settings_names_def)
  then show "decode_settings
      (JObj ((''listen_address'', JNull) # settings_fields RuntimeSettingsFile_default)) = None"
    using settings_object_read
      [of "(''listen_address'', JNull) # settings_fields RuntimeSettingsFile_default"] by simp
qed

end
