(* ===== verification/Runtime_Manager.thy ===== *)
theory Runtime_Manager
  imports Proxy_App Config_Json
begin

text \<open>
  \<^verbatim>\<open>src/runtime_manager.rs\<close>: the manager that owns the running proxy, saves the configuration
  and replaces the proxy by one with the saved configuration.  The mutex-protected controller
  and the lock-protected snapshot are the record \<open>manager\<close>; each operation takes and returns it
  and the file system.  What the outside contributes to an operation (the answer to the probe,
  the database, how a stopped task ends, attempts to bind the listener, the clock) is an input.

  No code panics while it holds one of the locks, so the branches for poisoned locks, which
  return an error, have no counterpart.
\<close>

section \<open>State\<close>

record ('u, 'p, 'c, 'db) ActiveRuntime =
  ar_app_config :: AppConfigFile
  ar_runtime :: "('u, 'p) RuntimeConfig"
  ar_writer :: "('c, 'db) writer"
  ar_handle :: ProxyHandle

record RuntimeSummary =
  sm_listen_addr :: string
  sm_frontend_domain :: string
  sm_backend_url :: string
  sm_sqlite_path :: string
  sm_transform_count :: nat
  sm_http_mode :: string
  sm_dropped_events :: u64
  sm_write_failures :: u64

record RuntimeManagerState =
  ms_config_path :: string
  ms_saved_config :: AppConfigFile
  ms_active_runtime :: RuntimeSummary
  ms_pending_reload :: bool
  ms_last_reload_error :: "string option"

record ('u, 'p, 'c, 'db) manager =
  mg_config_path :: string
  mg_active :: "('u, 'p, 'c, 'db) ActiveRuntime option"
  mg_snapshot :: RuntimeManagerState

section \<open>Inputs\<close>

record ('h, 'u, 'i, 'x, 'p, 'fs, 'c) manager_env =
  me_lib :: "('h, 'u, 'i, 'x) http_lib"
  me_glob :: "'p glob_ops"
  me_io :: "'fs fs_ops"
  me_ch :: "('c, WriterMessage) channel_ops"

text \<open>One attempt to start a runtime: its upstream, its database and the number of its task.\<close>

record ('fs, 'h, 'db) attempt =
  at_client :: "('fs, 'h) client_ops"
  at_connect :: "'db connect_ops"
  at_task :: nat

text \<open>How a stopped proxy's task ends: within five seconds if at all, and when aborted.\<close>

record stop_inputs =
  sp_within :: "task_end option"
  sp_after :: task_end

text \<open>
  Waiting for the listener: the clock at the start, the result of the \<open>i\<close>-th attempt to bind
  the address, and the clock when that attempt has failed.
\<close>

record wait_inputs =
  wi_start :: int
  wi_bind :: "nat \<Rightarrow> string + unit"
  wi_clock :: "nat \<Rightarrow> int"

record ('fs, 'h, 'db) reload_inputs =
  ri_stop :: stop_inputs
  ri_wait :: wait_inputs
  ri_new :: "('fs, 'h, 'db) attempt"
  ri_previous :: "('fs, 'h, 'db) attempt"

section \<open>Starting and stopping a runtime\<close>

definition manager_runtime_config ::
  "('h, 'u, 'i, 'x, 'p, 'fs, 'c) manager_env \<Rightarrow> 'fs \<Rightarrow> AppConfigFile \<Rightarrow>
     'fs \<times> ('u, 'p) RuntimeConfig anyhow_result" where
  "manager_runtime_config env fs c =
     to_runtime_config (hl_hdr (me_lib env)) (me_glob env) (hl_url (me_lib env)) (me_io env) fs c"

definition start_active_runtime ::
  "('h, 'u, 'i, 'x, 'p, 'fs, 'c) manager_env \<Rightarrow> ('fs, 'h, 'db) attempt \<Rightarrow> 'fs \<Rightarrow>
     AppConfigFile \<Rightarrow> ('u, 'p) RuntimeConfig \<Rightarrow>
     'fs \<times> ('u, 'p, 'c, 'db) ActiveRuntime anyhow_result" where
  "start_active_runtime env att fs app_config runtime =
     (let probe = (case probe_backend (me_lib env) (at_client att) (me_io env) fs runtime of
                     Inr probe \<Rightarrow> probe
                   | Inl _ \<Rightarrow> BackendProbe_fallback (hl_url (me_lib env)) runtime) in
      case spawn_writer (at_connect att) (me_ch env) (me_io env) fs runtime of
        (fs, r) \<Rightarrow>
          (fs,
           try_bind (with_context ''failed to start SQLite writer'' r) (\<lambda>w.
           try_bind (with_context ''failed to initialize proxy app''
                       (ProxyApp_new (at_client att) (me_io env) fs runtime w probe)) (\<lambda>proxy.
           try_bind (with_context ''failed to start proxy app''
                       (ProxyApp_start proxy (at_task att))) (\<lambda>(_, handle).
           Inr \<lparr>ar_app_config = app_config, ar_runtime = runtime, ar_writer = w,
                ar_handle = handle\<rparr>)))))"

text \<open>
  Whether the writer was told to shut down, and the result.  The writer's own shutdown has no
  failing branch.
\<close>

definition shutdown_active_runtime ::
  "stop_inputs \<Rightarrow> ('u, 'p, 'c, 'db) ActiveRuntime \<Rightarrow> bool \<times> unit anyhow_result" where
  "shutdown_active_runtime sp active =
     (case proxy_shutdown (sp_within sp) (sp_after sp) of
        Inl e \<Rightarrow> (False, Inl e)
      | Inr _ \<Rightarrow> (True, Inr ()))"

definition display_path :: "string \<Rightarrow> string" where
  "display_path path = from_utf8_lossy path"

fun http_mode_debug :: "HttpMode \<Rightarrow> string" where
  "http_mode_debug Auto = ''Auto''"
| "http_mode_debug Http1 = ''Http1''"
| "http_mode_debug Http2 = ''Http2''"

definition runtime_summary ::
  "('u, 'i) url_ops \<Rightarrow> ('u, 'p, 'c, 'db) ActiveRuntime \<Rightarrow> RuntimeSummary" where
  "runtime_summary u active =
     (let runtime = ar_runtime active in
      \<lparr>sm_listen_addr = show_socket_addr (rc_listen_addr runtime),
       sm_frontend_domain = rc_frontend_domain runtime,
       sm_backend_url = url_as_str u (rc_backend_url runtime),
       sm_sqlite_path = display_path (rc_sqlite_path runtime),
       sm_transform_count = length (ac_transforms (ar_app_config active)),
       sm_http_mode = to_ascii_lowercase (http_mode_debug (rc_http_mode runtime)),
       sm_dropped_events = w_dropped_events (ar_writer active),
       sm_write_failures = w_write_failures (ar_writer active)\<rparr>)"

text \<open>The loop of \<open>wait_for_listener_release\<close>; \<^const>\<open>None\<close> if it never ends.\<close>

partial_function (option) wait_loop ::
  "SocketAddr \<Rightarrow> wait_inputs \<Rightarrow> int \<Rightarrow> nat \<Rightarrow> unit anyhow_result option" where
  "wait_loop addr wi deadline i =
     (case wi_bind wi i of
        Inr _ \<Rightarrow> Some (Inr ())
      | Inl err \<Rightarrow>
          if deadline \<le> wi_clock wi i
          then Some (Inl (''listener '' @ show_socket_addr addr @ '' did not shut down cleanly: '' @ err))
          else wait_loop addr wi deadline (Suc i))"

definition wait_for_listener_release ::
  "SocketAddr \<Rightarrow> wait_inputs \<Rightarrow> unit anyhow_result option" where
  "wait_for_listener_release addr wi = wait_loop addr wi (wi_start wi + 5 * 1000000000) 0"

section \<open>Operations\<close>

definition RuntimeManager_start ::
  "('h, 'u, 'i, 'x, 'p, 'fs, 'c) manager_env \<Rightarrow> ('fs, 'h, 'db) attempt \<Rightarrow> 'fs \<Rightarrow> string \<Rightarrow>
     'fs \<times> ('u, 'p, 'c, 'db) manager anyhow_result" where
  "RuntimeManager_start env att fs config_path =
     (case load_json (hl_txt (me_lib env)) (me_io env) fs config_path of
        Inl e \<Rightarrow> (fs, Inl e)
      | Inr app_config \<Rightarrow>
          (case manager_runtime_config env fs app_config of
             (fs, Inl e) \<Rightarrow> (fs, Inl e)
           | (fs, Inr runtime) \<Rightarrow>
               (case start_active_runtime env att fs app_config runtime of
                  (fs, Inl e) \<Rightarrow> (fs, Inl e)
                | (fs, Inr active) \<Rightarrow>
                    (fs, Inr \<lparr>mg_config_path = config_path, mg_active = Some active,
                      mg_snapshot =
                        \<lparr>ms_config_path = config_path, ms_saved_config = app_config,
                         ms_active_runtime = runtime_summary (hl_url (me_lib env)) active,
                         ms_pending_reload = False, ms_last_reload_error = None\<rparr>\<rparr>))))"

definition RuntimeManager_state :: "('u, 'p, 'c, 'db) manager \<Rightarrow> RuntimeManagerState" where
  "RuntimeManager_state m = mg_snapshot m"

definition active_database :: "('u, 'p, 'c, 'db) manager \<Rightarrow> 'db anyhow_result" where
  "active_database m =
     ok_or ''runtime manager missing active runtime''
       (map_option (\<lambda>active. w_database (ar_writer active)) (mg_active m))"

definition save_config ::
  "('h, 'u, 'i, 'x, 'p, 'fs, 'c) manager_env \<Rightarrow> 'fs \<Rightarrow> AppConfigFile \<Rightarrow>
     ('u, 'p, 'c, 'db) manager \<Rightarrow>
     'fs \<times> ('u, 'p, 'c, 'db) manager \<times> RuntimeManagerState anyhow_result" where
  "save_config env fs app_config m =
     (case manager_runtime_config env fs app_config of
        (fs, Inl e) \<Rightarrow> (fs, m, Inl e)
      | (fs, Inr _) \<Rightarrow>
          let active_matches = unwrap_or False
                (map_option (\<lambda>active. ar_app_config active = app_config) (mg_active m)) in
          (case write_json (hl_txt (me_lib env)) (me_io env) fs app_config (mg_config_path m) of
             (fs, Inl e) \<Rightarrow> (fs, m, Inl e)
           | (fs, Inr _) \<Rightarrow>
               let snapshot = (mg_snapshot m)\<lparr>ms_saved_config := app_config,
                     ms_pending_reload := \<not> active_matches, ms_last_reload_error := None\<rparr> in
               (fs, m\<lparr>mg_snapshot := snapshot\<rparr>, Inr snapshot)))"

text \<open>\<open>reload_inner\<close>, from the moment the previous runtime is stopped and its listener free.\<close>

definition replace_runtime ::
  "('h, 'u, 'i, 'x, 'p, 'fs, 'c) manager_env \<Rightarrow> ('fs, 'h, 'db) reload_inputs \<Rightarrow> 'fs \<Rightarrow>
     AppConfigFile \<Rightarrow> ('u, 'p) RuntimeConfig \<Rightarrow> AppConfigFile \<Rightarrow> ('u, 'p) RuntimeConfig \<Rightarrow>
     ('u, 'p, 'c, 'db) manager \<Rightarrow>
     'fs \<times> ('u, 'p, 'c, 'db) manager \<times> RuntimeManagerState anyhow_result" where
  "replace_runtime env ri fs saved_config new_runtime previous_config previous_runtime m =
     (case start_active_runtime env (ri_new ri) fs saved_config new_runtime of
        (fs, Inr active) \<Rightarrow>
          let snapshot = (mg_snapshot m)\<lparr>ms_saved_config := saved_config,
                ms_active_runtime := runtime_summary (hl_url (me_lib env)) active,
                ms_pending_reload := False, ms_last_reload_error := None\<rparr> in
          (fs, m\<lparr>mg_active := Some active, mg_snapshot := snapshot\<rparr>, Inr snapshot)
      | (fs, Inl err) \<Rightarrow>
          (case start_active_runtime env (ri_previous ri) fs previous_config previous_runtime of
             (fs, Inr active) \<Rightarrow>
               let snapshot = (mg_snapshot m)\<lparr>ms_last_reload_error := Some err,
                     ms_pending_reload := True\<rparr> in
               (fs, m\<lparr>mg_active := Some active, mg_snapshot := snapshot\<rparr>, Inl err)
           | (fs, Inl restart_err) \<Rightarrow>
               let message = ''reload failed: '' @ err @ ''; fallback restart failed: '' @ restart_err;
                   snapshot = (mg_snapshot m)\<lparr>ms_last_reload_error := Some message\<rparr> in
               (fs, m\<lparr>mg_snapshot := snapshot\<rparr>, Inl message)))"

text \<open>
  \<open>reload_inner\<close>, which \<open>reload\<close> runs on a thread of its own; \<^const>\<open>None\<close> if it never returns.  A failure to stop the previous runtime is
  only logged.
\<close>

definition reload_inner ::
  "('h, 'u, 'i, 'x, 'p, 'fs, 'c) manager_env \<Rightarrow> ('fs, 'h, 'db) reload_inputs \<Rightarrow> 'fs \<Rightarrow>
     ('u, 'p, 'c, 'db) manager \<Rightarrow>
     ('fs \<times> ('u, 'p, 'c, 'db) manager \<times> RuntimeManagerState anyhow_result) option" where
  "reload_inner env ri fs m =
     (case mg_active m of
        None \<Rightarrow> Some (fs, m, Inl ''runtime manager missing active runtime during reload'')
      | Some previous \<Rightarrow>
          let m = m\<lparr>mg_active := None\<rparr> in
          (case load_json (hl_txt (me_lib env)) (me_io env) fs (mg_config_path m) of
             Inl e \<Rightarrow> Some (fs, m, Inl e)
           | Inr saved_config \<Rightarrow>
               (case manager_runtime_config env fs saved_config of
                  (fs, Inl e) \<Rightarrow> Some (fs, m, Inl e)
                | (fs, Inr new_runtime) \<Rightarrow>
                    let stopped = shutdown_active_runtime (ri_stop ri) previous in
                    (case wait_for_listener_release (rc_listen_addr (ar_runtime previous)) (ri_wait ri) of
                       None \<Rightarrow> None
                     | Some (Inl e) \<Rightarrow> Some (fs, m, Inl e)
                     | Some (Inr _) \<Rightarrow>
                         Some (replace_runtime env ri fs saved_config new_runtime
                           (ar_app_config previous) (ar_runtime previous) m)))))"

definition RuntimeManager_shutdown ::
  "stop_inputs \<Rightarrow> ('u, 'p, 'c, 'db) manager \<Rightarrow> ('u, 'p, 'c, 'db) manager \<times> unit anyhow_result" where
  "RuntimeManager_shutdown sp m =
     (case mg_active m of
        None \<Rightarrow> (m, Inl ''runtime manager missing active runtime during shutdown'')
      | Some active \<Rightarrow> (m\<lparr>mg_active := None\<rparr>, snd (shutdown_active_runtime sp active)))"

section \<open>Waiting for the listener\<close>

text \<open>What is relied on of clock and sleep: 25 milliseconds pass between two attempts.\<close>

definition sleeps_elapse :: "wait_inputs \<Rightarrow> bool" where
  "sleeps_elapse wi \<longleftrightarrow>
     wi_start wi \<le> wi_clock wi 0 \<and> (\<forall>i. wi_clock wi i + 25000000 \<le> wi_clock wi (Suc i))"

text \<open>Attempt \<open>i\<close> ends the loop.\<close>

definition wait_ends :: "wait_inputs \<Rightarrow> nat \<Rightarrow> bool" where
  "wait_ends wi i \<longleftrightarrow> is_ok (wi_bind wi i) \<or> wi_start wi + 5 * 1000000000 \<le> wi_clock wi i"

definition wait_outcome :: "SocketAddr \<Rightarrow> wait_inputs \<Rightarrow> nat \<Rightarrow> unit anyhow_result" where
  "wait_outcome addr wi i =
     map_err (\<lambda>err. ''listener '' @ show_socket_addr addr @ '' did not shut down cleanly: '' @ err)
       (wi_bind wi i)"

lemma sleeps_elapse_clock: "sleeps_elapse wi \<Longrightarrow> wi_start wi + 25000000 * int i \<le> wi_clock wi i"
proof (induction i)
  case (Suc i)
  then have "wi_clock wi i + 25000000 \<le> wi_clock wi (Suc i)" by (simp add: sleeps_elapse_def)
  with Suc show ?case by (simp add: algebra_simps)
qed (simp add: sleeps_elapse_def)

lemma wait_loop_ends:
  assumes "wait_ends wi (i + k)" and "\<And>j. j < k \<Longrightarrow> \<not> wait_ends wi (i + j)"
  shows "wait_loop addr wi (wi_start wi + 5 * 1000000000) i = Some (wait_outcome addr wi (i + k))"
  using assms
proof (induction k arbitrary: i)
  case 0
  then show ?case
    by (subst wait_loop.simps) (auto simp: wait_ends_def wait_outcome_def split: sum.split)
next
  case (Suc k)
  from Suc.prems(2) [of 0] obtain err where
    "wi_bind wi i = Inl err" "\<not> wi_start wi + 5 * 1000000000 \<le> wi_clock wi i"
    by (cases "wi_bind wi i") (auto simp: wait_ends_def)
  moreover have "wait_loop addr wi (wi_start wi + 5 * 1000000000) (Suc i) =
      Some (wait_outcome addr wi (Suc i + k))"
    using Suc.prems(1) Suc.prems(2) [of "Suc _"] by (intro Suc.IH) auto
  ultimately show ?case by (subst wait_loop.simps) simp
qed

lemma wait_for_listener_release_ends:
  assumes "sleeps_elapse wi"
  obtains n where "n \<le> 200" "wait_for_listener_release addr wi = Some (wait_outcome addr wi n)"
    "wait_ends wi n" "\<And>j. j < n \<Longrightarrow> \<not> wait_ends wi j"
proof -
  have last: "wait_ends wi 200"
    using sleeps_elapse_clock [OF assms, of 200] by (simp add: wait_ends_def)
  define n where "n = (LEAST i. wait_ends wi i)"
  have n: "wait_ends wi n" "n \<le> 200" "\<And>j. j < n \<Longrightarrow> \<not> wait_ends wi j"
    unfolding n_def using last by (blast intro: LeastI Least_le dest: not_less_Least)+
  then have "wait_for_listener_release addr wi = Some (wait_outcome addr wi n)"
    using wait_loop_ends [of wi 0 n addr] by (simp add: wait_for_listener_release_def)
  with n that show thesis by blast
qed

section \<open>Runtimes\<close>

text \<open>A runtime just started runs the given configuration with a new writer.\<close>

lemma start_active_runtime_Inr:
  assumes "start_active_runtime env att fs c rt = (fs', Inr a)"
  shows "ar_app_config a = c \<and> ar_runtime a = rt
    \<and> w_dropped_events (ar_writer a) = 0 \<and> w_write_failures (ar_writer a) = 0"
  using assms
  by (auto simp: start_active_runtime_def spawn_writer_def initial_writer_def Let_def result_simps
      split: prod.splits sum.splits)

text \<open>The summary of a runtime apart from its writer's counters.\<close>

definition config_summary ::
  "('u, 'i) url_ops \<Rightarrow> ('u, 'p, 'c, 'db) ActiveRuntime \<Rightarrow> RuntimeSummary" where
  "config_summary u a = (runtime_summary u a)\<lparr>sm_dropped_events := 0, sm_write_failures := 0\<rparr>"

lemma runtime_summary_fresh:
  "w_dropped_events (ar_writer a) = 0 \<Longrightarrow> w_write_failures (ar_writer a) = 0 \<Longrightarrow>
     runtime_summary u a = config_summary u a"
  by (simp add: config_summary_def runtime_summary_def Let_def)

lemma config_summary_counters [simp]:
  "sm_dropped_events (config_summary u a) = 0" "sm_write_failures (config_summary u a) = 0"
  by (simp_all add: config_summary_def)

lemma config_summary_cong:
  "ar_app_config a = ar_app_config b \<Longrightarrow> ar_runtime a = ar_runtime b \<Longrightarrow>
     config_summary u a = config_summary u b"
  by (simp add: config_summary_def runtime_summary_def Let_def)

definition runs_validated ::
  "('h, 'u, 'i, 'x, 'p, 'fs, 'c) manager_env \<Rightarrow> AppConfigFile \<Rightarrow> ('u, 'p) RuntimeConfig \<Rightarrow> bool" where
  "runs_validated env c rt \<longleftrightarrow> (\<exists>fs fs'. manager_runtime_config env fs c = (fs', Inr rt))"

lemma runs_validatedI [wf_intros]:
  "manager_runtime_config env fs c = (fs', Inr rt) \<Longrightarrow> runs_validated env c rt"
  by (auto simp: runs_validated_def)

text \<open>The invariant: what the snapshot says of the running proxy is true, up to the counters.\<close>

definition manager_wf ::
  "('h, 'u, 'i, 'x, 'p, 'fs, 'c) manager_env \<Rightarrow> ('u, 'p, 'c, 'db) manager \<Rightarrow> bool" where
  "manager_wf env m \<longleftrightarrow>
     (let s = mg_snapshot m in
      ms_config_path s = mg_config_path m
      \<and> sm_dropped_events (ms_active_runtime s) = 0 \<and> sm_write_failures (ms_active_runtime s) = 0
      \<and> (case mg_active m of
           None \<Rightarrow> True
         | Some a \<Rightarrow>
             runs_validated env (ar_app_config a) (ar_runtime a)
             \<and> ms_active_runtime s = config_summary (hl_url (me_lib env)) a
             \<and> (\<not> ms_pending_reload s \<longrightarrow>
                  ms_saved_config s = ar_app_config a \<and> ms_last_reload_error s = None)))"

text \<open>
  The states a manager gets into: by its operations, while its proxy's writer works and others
  change files.
\<close>

inductive managed ::
  "('h, 'u, 'i, 'x, 'p, 'fs, 'c) manager_env \<Rightarrow> 'fs \<Rightarrow> ('u, 'p, 'c, 'db) manager \<Rightarrow> bool"
  for env :: "('h, 'u, 'i, 'x, 'p, 'fs, 'c) manager_env" where
  started: "RuntimeManager_start env att fs path = (fs', Inr m) \<Longrightarrow> managed env fs' m"
| saved: "managed env fs m \<Longrightarrow> save_config env fs c m = (fs', m', r) \<Longrightarrow> managed env fs' m'"
| reloaded: "managed env fs m \<Longrightarrow> reload_inner env ri fs m = Some (fs', m', r') \<Longrightarrow> managed env fs' m'"
| stopped: "managed env fs m \<Longrightarrow> RuntimeManager_shutdown sp m = (m', r'') \<Longrightarrow> managed env fs m'"
| traffic: "managed env fs m \<Longrightarrow> mg_active m = Some a \<Longrightarrow>
    managed env fs (m\<lparr>mg_active := Some (a\<lparr>ar_writer := w\<rparr>)\<rparr>)"
| edited: "managed env fs m \<Longrightarrow> managed env fs' m"

lemma start_wf:
  "RuntimeManager_start env att fs path = (fs', Inr m) \<Longrightarrow> manager_wf env m"
  by (auto simp: RuntimeManager_start_def manager_wf_def Let_def runtime_summary_fresh
      intro: runs_validatedI dest!: start_active_runtime_Inr
      split: sum.splits prod.splits)

lemma save_config_wf:
  "manager_wf env m \<Longrightarrow> save_config env fs c m = (fs', m', r) \<Longrightarrow> manager_wf env m'"
  by (auto simp: save_config_def manager_wf_def Let_def split: sum.splits prod.splits option.splits)

lemma replace_runtime_wf:
  assumes wf: "manager_wf env m" and act: "mg_active m = Some a"
    and new: "runs_validated env c rt"
    and rep: "replace_runtime env ri fs c rt (ar_app_config a) (ar_runtime a) (m\<lparr>mg_active := None\<rparr>)
      = (fs', m', r)"
  shows "manager_wf env m'"
proof (cases "start_active_runtime env (ri_new ri) fs c rt")
  case (Pair fs1 r1)
  show ?thesis
  proof (cases r1)
    case (Inr b)
    with Pair rep wf new show ?thesis
      by (auto simp: replace_runtime_def manager_wf_def Let_def runtime_summary_fresh
          dest!: start_active_runtime_Inr)
  next
    case (Inl e)
    with Pair rep wf act show ?thesis
      by (auto simp: replace_runtime_def manager_wf_def Let_def intro!: config_summary_cong
          dest!: start_active_runtime_Inr split: prod.splits sum.splits)
  qed
qed

lemma reload_inner_cases:
  assumes "reload_inner env ri fs m = Some (fs', m', r)"
  obtains (missing) "mg_active m = None" "m' = m" "fs' = fs" "\<exists>e. r = Inl e"
    | (early) a where "mg_active m = Some a" "m' = m\<lparr>mg_active := None\<rparr>" "\<exists>e. r = Inl e"
    | (replaced) a c rt fs1 where "mg_active m = Some a"
        "load_json (hl_txt (me_lib env)) (me_io env) fs (mg_config_path m) = Inr c"
        "manager_runtime_config env fs c = (fs1, Inr rt)"
        "replace_runtime env ri fs1 c rt (ar_app_config a) (ar_runtime a) (m\<lparr>mg_active := None\<rparr>)
           = (fs', m', r)"
  using assms
  by (auto simp: reload_inner_def Let_def split: option.splits sum.splits prod.splits)

lemma reload_inner_wf:
  assumes "manager_wf env m" and "reload_inner env ri fs m = Some (fs', m', r)"
  shows "manager_wf env m'"
  using assms(2)
proof (cases rule: reload_inner_cases)
  case missing
  with assms show ?thesis by simp
next
  case early
  with assms show ?thesis by (auto simp: manager_wf_def Let_def)
next
  case (replaced a c rt fs1)
  then have "runs_validated env c rt" by (auto intro: runs_validatedI)
  from replace_runtime_wf [OF assms(1) replaced(1) this replaced(4)] show ?thesis .
qed

lemma managed_wf: "managed env fs m \<Longrightarrow> manager_wf env m"
proof (induction rule: managed.induct)
  case (stopped fs m sp m' r'')
  then show ?case
    by (auto simp: RuntimeManager_shutdown_def manager_wf_def Let_def split: option.splits)
next
  case (traffic fs m a w)
  then show ?case
    by (auto simp: manager_wf_def Let_def intro: config_summary_cong)
qed (auto intro: start_wf save_config_wf reload_inner_wf)

section \<open>Reloading\<close>

lemma replace_runtime_result:
  assumes "replace_runtime env ri fs c rt pc prt m = (fs', m', r)" and "mg_active m = None"
  shows "case r of
      Inr s \<Rightarrow> s = mg_snapshot m' \<and> ms_saved_config s = c \<and> \<not> ms_pending_reload s
        \<and> ms_last_reload_error s = None
        \<and> (\<exists>b. mg_active m' = Some b \<and> ar_app_config b = c \<and> ar_runtime b = rt)
    | Inl e \<Rightarrow> ms_last_reload_error (mg_snapshot m') = Some e
        \<and> (\<forall>b. mg_active m' = Some b \<longrightarrow>
             ms_pending_reload (mg_snapshot m') \<and> ar_app_config b = pc \<and> ar_runtime b = prt)"
  using assms
  by (auto simp: replace_runtime_def Let_def dest!: start_active_runtime_Inr split: prod.splits sum.splits)

text \<open>No operation but saving writes a file.\<close>

lemma start_active_runtime_files:
  assumes "file_system (me_io env)" and "start_active_runtime env att fs c rt = (fs', r)"
  shows "fs_read_to_string (me_io env) fs' p = fs_read_to_string (me_io env) fs p"
  using assms(2) file_system.read_after_create_dir [OF assms(1)]
  by (auto simp: start_active_runtime_def spawn_writer_def ensure_sqlite_parent_dir_def Let_def
      split: prod.splits sum.splits option.splits if_splits)

lemma manager_runtime_config_files:
  assumes "file_system (me_io env)" and "manager_runtime_config env fs c = (fs', r)"
  shows "fs_read_to_string (me_io env) fs' p = fs_read_to_string (me_io env) fs p"
  using assms(2) file_system.read_after_create_dir [OF assms(1)]
  by (auto simp: manager_runtime_config_def to_runtime_config_def settings_to_runtime_config_def
      create_database_dir_def split: prod.splits sum.splits option.splits if_splits)

lemma replace_runtime_files:
  assumes "file_system (me_io env)" and "replace_runtime env ri fs c rt pc prt m = (fs', m', r)"
  shows "fs_read_to_string (me_io env) fs' p = fs_read_to_string (me_io env) fs p
    \<and> mg_config_path m' = mg_config_path m"
  using assms(2)
  by (auto simp: replace_runtime_def Let_def start_active_runtime_files [OF assms(1)]
      split: prod.splits sum.splits)

lemma reload_inner_files:
  assumes io: "file_system (me_io env)" and re: "reload_inner env ri fs m = Some (fs', m', r)"
  shows "fs_read_to_string (me_io env) fs' p = fs_read_to_string (me_io env) fs p
    \<and> mg_config_path m' = mg_config_path m"
  using re
  by (auto simp: reload_inner_def Let_def split: option.splits sum.splits prod.splits
      dest!: replace_runtime_files [OF io, where p = p] manager_runtime_config_files [OF io, where p = p])

text \<open>Any number of reloads, one after the other.\<close>

inductive reloads ::
  "('h, 'u, 'i, 'x, 'p, 'fs, 'c) manager_env \<Rightarrow> 'fs \<Rightarrow> ('u, 'p, 'c, 'db) manager \<Rightarrow> 'fs \<Rightarrow>
     ('u, 'p, 'c, 'db) manager \<Rightarrow> bool"
  for env :: "('h, 'u, 'i, 'x, 'p, 'fs, 'c) manager_env" and fs :: 'fs
    and m :: "('u, 'p, 'c, 'db) manager" where
  reloads_none: "reloads env fs m fs m"
| reloads_more: "reloads env fs m fs' m' \<Longrightarrow> reload_inner env ri fs' m' = Some (fs'', m'', r) \<Longrightarrow>
    reloads env fs m fs'' m''"

lemma reloads_files:
  assumes "file_system (me_io env)" and "reloads env fs m fs' m'"
  shows "fs_read_to_string (me_io env) fs' p = fs_read_to_string (me_io env) fs p
    \<and> mg_config_path m' = mg_config_path m"
  using assms(2) by induction (auto dest!: reload_inner_files [OF assms(1), where p = p])

section \<open>A concrete instance\<close>

text \<open>
  The test configuration on disk, a database in memory and an upstream that answers the probe.
\<close>

definition test_menv ::
  "((string \<times> bytes) list, string, string, unit, string, (string \<times> string) list,
    WriterMessage list \<times> nat \<times> bool) manager_env" where
  "test_menv =
     \<lparr>me_lib = test_lib\<lparr>hl_txt := postfix_text\<rparr>, me_glob = exact_globs, me_io = map_fs,
      me_ch = list_channel\<rparr>"

definition test_attempt ::
  "((string \<times> string) list, (string \<times> bytes) list, Model list) attempt" where
  "test_attempt = \<lparr>at_client = test_client, at_connect = memory_db, at_task = 0\<rparr>"

definition no_database :: "Model list connect_ops" where
  "no_database = \<lparr>db_connect = (\<lambda>_. None), db_migrate = (\<lambda>db _. Some db)\<rparr>"

text \<open>A clock that shows 25 milliseconds more at each attempt, and a listener freed at the third.\<close>

definition test_wait :: wait_inputs where
  "test_wait =
     \<lparr>wi_start = 0, wi_bind = (\<lambda>i. if i < 2 then Inl ''address in use'' else Inr ()),
      wi_clock = (\<lambda>i. 25000000 * int i)\<rparr>"

definition test_reload ::
  "((string \<times> string) list, (string \<times> bytes) list, Model list) reload_inputs" where
  "test_reload =
     \<lparr>ri_stop = \<lparr>sp_within = Some (TaskResult (Inr ())), sp_after = TaskCancelled\<rparr>,
      ri_wait = test_wait, ri_new = test_attempt, ri_previous = test_attempt\<rparr>"

definition saved_files :: "(string \<times> string) list" where
  "saved_files = fst (write_json postfix_text map_fs test_files test_config ''kidproxy.json'')"

definition test_active ::
  "AppConfigFile \<Rightarrow> (string, string, WriterMessage list \<times> nat \<times> bool, Model list) ActiveRuntime" where
  "test_active c =
     \<lparr>ar_app_config = c, ar_runtime = test_runtime ''/'',
      ar_writer = initial_writer ([], unat (rc_max_inflight_events (test_runtime ''/'')), False) [],
      ar_handle = \<lparr>ph_stop_tx = True, ph_task = 0\<rparr>\<rparr>"

definition test_manager ::
  "(string, string, WriterMessage list \<times> nat \<times> bool, Model list) manager" where
  "test_manager =
     \<lparr>mg_config_path = ''kidproxy.json'', mg_active = Some (test_active test_config),
      mg_snapshot =
        \<lparr>ms_config_path = ''kidproxy.json'', ms_saved_config = test_config,
         ms_active_runtime = runtime_summary test_urls (test_active test_config),
         ms_pending_reload = False, ms_last_reload_error = None\<rparr>\<rparr>"

lemma sleeps_elapse_test_wait: "sleeps_elapse test_wait"
  by (simp add: sleeps_elapse_def test_wait_def)

lemma load_saved_files: "load_json postfix_text map_fs saved_files ''kidproxy.json'' = Inr test_config"
proof (rule write_then_load [OF map_fs.file_system_axioms postfix.json_text_axioms])
  show "write_json postfix_text map_fs test_files test_config ''kidproxy.json'' = (saved_files, Inr ())"
    by (simp add: saved_files_def write_json_def postfix_text_def map_fs_def)
qed

lemma saved_files_eq: "saved_files = (''kidproxy.json'', to_postfix (encode_app_config test_config)) # test_files"
  by (simp add: saved_files_def write_json_def postfix_text_def map_fs_def)

lemma test_manager_config:
  "manager_runtime_config test_menv ((''kidproxy.json'', s) # test_files) test_config =
     ((''kidproxy.json'', s) # test_files, Inr (test_runtime ''/''))"
  by code_simp

lemma test_start_active:
  "start_active_runtime test_menv test_attempt ((''kidproxy.json'', s) # test_files) test_config
     (test_runtime ''/'') = ((''kidproxy.json'', s) # test_files, Inr (test_active test_config))"
  by code_simp

lemma test_start:
  "RuntimeManager_start test_menv test_attempt saved_files ''kidproxy.json'' = (saved_files, Inr test_manager)"
proof -
  have "hl_txt (me_lib test_menv) = postfix_text" "me_io test_menv = map_fs"
    "hl_url (me_lib test_menv) = test_urls"
    by (simp_all add: test_menv_def test_lib_def)
  then show ?thesis
    by (simp add: RuntimeManager_start_def load_saved_files [unfolded saved_files_eq] saved_files_eq
        test_manager_config test_start_active test_manager_def)
qed

lemma test_menv_simps [simp]:
  "hl_txt (me_lib test_menv) = postfix_text" "me_io test_menv = map_fs"
  "hl_url (me_lib test_menv) = test_urls"
  by (simp_all add: test_menv_def test_lib_def)

lemma test_wait_result: "wait_for_listener_release addr test_wait = Some (Inr ())"
  by (simp add: wait_for_listener_release_def wait_loop.simps test_wait_def)

lemma test_reload_result:
  "reload_inner test_menv test_reload saved_files test_manager =
     Some (saved_files, test_manager, Inr (mg_snapshot test_manager))"
  by (simp add: reload_inner_def replace_runtime_def Let_def test_wait_result test_reload_def
      load_saved_files [unfolded saved_files_eq] saved_files_eq test_manager_config
      test_start_active test_manager_def test_active_def)

lemma test_save_result:
  "save_config test_menv test_files test_config test_manager =
     (saved_files, test_manager, Inr (mg_snapshot test_manager))"
proof -
  have "manager_runtime_config test_menv test_files test_config = (test_files, Inr (test_runtime ''/''))"
    by code_simp
  then show ?thesis
    by (simp add: save_config_def Let_def write_json_def postfix_text_def map_fs_def saved_files_eq
        test_manager_def test_active_def)
qed

section \<open>Properties\<close>

text \<open>C6: whatever operations a manager performs, in any order and with any outcome, what its
  snapshot says of the running proxy is true: the proxy runs a configuration that was validated,
  address, domain, backend, database and number of transforms are those of that configuration,
  and without a pending reload it is the saved configuration and no reload error is shown.
  The counters of dropped and failed events, however, are always shown as zero.\<close>

theorem snapshot_describes_runtime:
  assumes "managed env fs m"
  shows "manager_wf env m"
  by (rule managed_wf [OF assms])

theorem snapshot_describes_runtime_witness:
  "managed test_menv saved_files
     (test_manager\<lparr>mg_active := Some ((test_active test_config)\<lparr>ar_writer :=
        (ar_writer (test_active test_config))\<lparr>w_dropped_events := 7\<rparr>\<rparr>)\<rparr>)
   \<and> sm_dropped_events (ms_active_runtime (RuntimeManager_state
     (test_manager\<lparr>mg_active := Some ((test_active test_config)\<lparr>ar_writer :=
        (ar_writer (test_active test_config))\<lparr>w_dropped_events := 7\<rparr>\<rparr>)\<rparr>))) = 0"
proof -
  have "managed test_menv saved_files test_manager" by (rule managed.started [OF test_start])
  from managed.traffic [OF this, of "test_active test_config"]
  have "managed test_menv saved_files
     (test_manager\<lparr>mg_active := Some ((test_active test_config)\<lparr>ar_writer :=
        (ar_writer (test_active test_config))\<lparr>w_dropped_events := 7\<rparr>\<rparr>)\<rparr>)"
    by (simp add: test_manager_def)
  with snapshot_describes_runtime [OF this] show ?thesis
    by (simp add: manager_wf_def Let_def RuntimeManager_state_def)
qed

text \<open>C5: a reload that succeeds has replaced the proxy by one that runs the configuration of the
  file, which the snapshot shows as saved, with nothing pending.  If a reload fails and a proxy
  is running afterwards, it runs the configuration it ran before, the error is shown and the
  reload is pending.\<close>

theorem reload_all_or_nothing:
  assumes "reload_inner env ri fs m = Some (fs', m', r)"
  shows "case r of
      Inr s \<Rightarrow> s = mg_snapshot m' \<and> \<not> ms_pending_reload s \<and> ms_last_reload_error s = None
        \<and> (\<exists>b. mg_active m' = Some b \<and> ar_app_config b = ms_saved_config s
             \<and> load_json (hl_txt (me_lib env)) (me_io env) fs (mg_config_path m)
               = Inr (ms_saved_config s))
    | Inl e \<Rightarrow> (\<forall>b. mg_active m' = Some b \<longrightarrow>
        ms_pending_reload (mg_snapshot m') \<and> ms_last_reload_error (mg_snapshot m') = Some e
        \<and> (\<exists>a. mg_active m = Some a \<and> ar_app_config b = ar_app_config a
             \<and> ar_runtime b = ar_runtime a))"
  using assms
proof (cases rule: reload_inner_cases)
  case missing
  then obtain e where "r = Inl e" by blast
  with missing show ?thesis by simp
next
  case early
  then obtain e where "r = Inl e" by blast
  with early show ?thesis by simp
next
  case (replaced a c rt fs1)
  have "mg_active (m\<lparr>mg_active := None\<rparr>) = None" by simp
  note result = replace_runtime_result [OF replaced(4) this]
  show ?thesis
  proof (cases r)
    case (Inl e)
    from result [unfolded Inl sum.case] replaced(1) show ?thesis unfolding Inl sum.case by blast
  next
    case (Inr s)
    from result [unfolded Inr sum.case] obtain b where "s = mg_snapshot m'" "\<not> ms_pending_reload s"
      "ms_last_reload_error s = None" "mg_active m' = Some b" and b: "ar_app_config b = c"
      and c: "ms_saved_config s = c"
      by blast
    then show ?thesis unfolding Inr sum.case c using replaced(2) by blast
  qed
qed

theorem reload_all_or_nothing_witness:
  "reload_inner test_menv test_reload saved_files test_manager
       = Some (saved_files, test_manager, Inr (mg_snapshot test_manager))
   \<and> (\<exists>b. mg_active test_manager = Some b
        \<and> ar_app_config b = ms_saved_config (mg_snapshot test_manager))"
  using reload_all_or_nothing [OF test_reload_result, unfolded sum.case] test_reload_result by blast

text \<open>C26: after at most 201 attempts to bind the address, the last of them no earlier than needed,
  the manager stops waiting for the old listener; it goes on exactly if that last attempt
  succeeded, and gives up no earlier than five seconds after it began.\<close>

theorem listener_wait_bounded:
  assumes "sleeps_elapse wi"
  shows "\<exists>n \<le> 200. wait_for_listener_release addr wi = Some (wait_outcome addr wi n)
    \<and> (\<forall>j < n. \<not> is_ok (wi_bind wi j) \<and> wi_clock wi j < wi_start wi + 5000000000)
    \<and> (\<not> is_ok (wi_bind wi n) \<longrightarrow> wi_start wi + 5000000000 \<le> wi_clock wi n)"
proof -
  obtain n where "n \<le> 200" "wait_for_listener_release addr wi = Some (wait_outcome addr wi n)"
    "wait_ends wi n" "\<And>j. j < n \<Longrightarrow> \<not> wait_ends wi j"
    using wait_for_listener_release_ends [OF assms, of addr] by blast
  then show ?thesis by (intro exI [of _ n]) (auto simp: wait_ends_def not_le)
qed

theorem listener_wait_bounded_witness:
  "\<exists>n \<le> 200. wait_for_listener_release (SocketV4 127 0 0 1 8443) test_wait =
     Some (wait_outcome (SocketV4 127 0 0 1 8443) test_wait n)"
  using listener_wait_bounded [OF sleeps_elapse_test_wait] by blast

text \<open>Once a configuration was saved, the first reload that succeeds, however many fail before
  it, runs exactly that configuration.\<close>

theorem saved_config_is_reloaded:
  assumes "file_system (me_io env)" and "json_text (hl_txt (me_lib env))"
    and "save_config env fs c m = (fs1, m1, Inr s1)"
    and "reloads env fs1 m1 fs2 m2"
    and "reload_inner env ri fs2 m2 = Some (fs3, m3, Inr s3)"
  shows "ms_saved_config s3 = c \<and> (\<exists>b. mg_active m3 = Some b \<and> ar_app_config b = c)"
proof -
  obtain fs0 where w: "write_json (hl_txt (me_lib env)) (me_io env) fs0 c (mg_config_path m) = (fs1, Inr ())"
    and p: "mg_config_path m1 = mg_config_path m"
    using assms(3) by (auto simp: save_config_def Let_def split: prod.splits sum.splits)
  have "load_json (hl_txt (me_lib env)) (me_io env) fs2 (mg_config_path m2) = Inr c"
    using write_then_load [OF assms(1,2) w] reloads_files [OF assms(1,4)] p
    by (simp add: load_json_def)
  with assms(5) show ?thesis
    by (cases rule: reload_inner_cases) (auto dest!: replace_runtime_result)
qed

theorem saved_config_is_reloaded_witness:
  "\<exists>fs1 fs3 m3 s3. save_config test_menv test_files test_config test_manager
       = (fs1, test_manager, Inr (mg_snapshot test_manager))
     \<and> reload_inner test_menv test_reload fs1 test_manager = Some (fs3, m3, Inr s3)
     \<and> ms_saved_config s3 = test_config"
proof -
  have "file_system (me_io test_menv)" "json_text (hl_txt (me_lib test_menv))"
    by (simp_all add: map_fs.file_system_axioms postfix.json_text_axioms)
  note saved_config_is_reloaded
    [OF this test_save_result reloads.reloads_none test_reload_result]
  with test_save_result test_reload_result show ?thesis by blast
qed

text \<open>C40: if the configuration file cannot be read or validated when a reload begins, the running
  proxy is given up all the same: no runtime is active any more, the snapshot shows neither an
  error nor a pending reload it did not show before, and from then on every reload, the database
  and the shutdown fail, and saving a good configuration does not help.\<close>

theorem early_reload_error_strands:
  assumes "mg_active m = Some a"
    and "load_json (hl_txt (me_lib env)) (me_io env) fs (mg_config_path m) = Inl e
      \<or> (\<exists>c. load_json (hl_txt (me_lib env)) (me_io env) fs (mg_config_path m) = Inr c
           \<and> snd (manager_runtime_config env fs c) = Inl e)"
  shows "\<exists>fs' m'. reload_inner env ri fs m = Some (fs', m', Inl e) \<and> mg_active m' = None
    \<and> RuntimeManager_state m' = RuntimeManager_state m
    \<and> (\<forall>ri fs2. reload_inner env ri fs2 m'
         = Some (fs2, m', Inl ''runtime manager missing active runtime during reload''))
    \<and> \<not> is_ok (active_database m')
    \<and> (\<forall>sp. RuntimeManager_shutdown sp m'
         = (m', Inl ''runtime manager missing active runtime during shutdown''))
    \<and> (\<forall>fs2 c. mg_active (fst (snd (save_config env fs2 c m'))) = None)"
proof -
  have "\<exists>fs'. reload_inner env ri fs m = Some (fs', m\<lparr>mg_active := None\<rparr>, Inl e)"
    using assms by (auto simp: reload_inner_def Let_def split: prod.splits)
  then obtain fs' where "reload_inner env ri fs m = Some (fs', m\<lparr>mg_active := None\<rparr>, Inl e)" by blast
  moreover have "mg_active (fst (snd (save_config env fs2 c (m\<lparr>mg_active := None\<rparr>)))) = None" for fs2 c
    by (simp add: save_config_def Let_def split: prod.split sum.split)
  ultimately show ?thesis
    by (intro exI [of _ fs'] exI [of _ "m\<lparr>mg_active := None\<rparr>"])
      (auto simp: reload_inner_def RuntimeManager_state_def active_database_def
        RuntimeManager_shutdown_def)
qed

theorem early_reload_error_strands_witness:
  "\<exists>fs' m'. reload_inner test_menv test_reload [] test_manager
       = Some (fs', m', Inl ''read config kidproxy.json'')
     \<and> mg_active m' = None \<and> \<not> is_ok (active_database m')"
proof -
  have "mg_active test_manager = Some (test_active test_config)" by (simp add: test_manager_def)
  moreover have "load_json (hl_txt (me_lib test_menv)) (me_io test_menv) [] (mg_config_path test_manager)
      = Inl ''read config kidproxy.json''"
    by (simp add: load_json_def map_fs_def test_manager_def)
  ultimately show ?thesis
    using early_reload_error_strands [of test_manager "test_active test_config" test_menv "[]"
        "''read config kidproxy.json''" test_reload] by blast
qed

text \<open>Shutting down reports the proxy's error if its task ended with one, and then the writer
  is not told to shut down, so events it still buffers need not reach the database before the
  program ends; otherwise the writer is told and the shutdown succeeds.\<close>

theorem shutdown_tells_writer:
  assumes "mg_active m = Some a"
  shows "RuntimeManager_shutdown sp m
      = (m\<lparr>mg_active := None\<rparr>, proxy_shutdown (sp_within sp) (sp_after sp))
    \<and> (fst (shutdown_active_runtime sp a) \<longleftrightarrow> is_ok (proxy_shutdown (sp_within sp) (sp_after sp)))"
  using assms
  by (auto simp: RuntimeManager_shutdown_def shutdown_active_runtime_def split: sum.split)

theorem shutdown_tells_writer_witness:
  "\<not> fst (shutdown_active_runtime
      \<lparr>sp_within = Some (TaskResult (Inl ''bind frontend TCP listener: address in use'')),
       sp_after = TaskCancelled\<rparr> (test_active test_config))"
proof -
  have "mg_active test_manager = Some (test_active test_config)" by (simp add: test_manager_def)
  from shutdown_tells_writer [OF this] show ?thesis by (simp add: proxy_shutdown_def)
qed

end
