(* ===== verification/Admin_Form.thy ===== *)
theory Admin_Form
  imports Runtime_Manager
begin

text \<open>
  The forms of the admin interface (\<^verbatim>\<open>src/admin.rs\<close>): which fields the pages render, what a
  browser submits for them, how the handlers read a submitted form back into settings and
  transform rules, and the editor actions on the rule list.  That the rendered pages submit
  these forms is shown in \<open>Admin_Pages\<close>.

  A submitted form is its list of names and values in document order; the handlers get it as a
  \<open>HashMap\<close>, in which the last value of a repeated name wins.
\<close>

section \<open>Submitted values\<close>

type_synonym form = "(string \<times> string) list"
type_synonym form_map = "string \<rightharpoonup> string"

definition form_values :: "form \<Rightarrow> form_map" where
  "form_values f = map_of (rev f)"

text \<open>
  What a browser submits for the components \<open>InputField\<close>, \<open>SelectField\<close> and \<open>CheckboxField\<close>:
  the value without line breaks; the option marked as selected, or else the first; the value
  \<open>true\<close> if the box is checked.
\<close>

definition single_line :: "string \<Rightarrow> string" where
  "single_line s = filter (\<lambda>c. c \<noteq> CHR 0x0A \<and> c \<noteq> CHR 0x0D) s"

definition InputField :: "string \<Rightarrow> string \<Rightarrow> form" where
  "InputField name v = [(name, single_line v)]"

definition SelectField :: "string \<Rightarrow> string \<Rightarrow> (string \<times> string) list \<Rightarrow> form" where
  "SelectField name v options =
     [(name, if v \<in> set (map fst options) then v else fst (hd options))]"

definition CheckboxField :: "string \<Rightarrow> bool \<Rightarrow> form" where
  "CheckboxField name checked = (if checked then [(name, ''true'')] else [])"

section \<open>Reading values\<close>

definition text_value :: "form_map \<Rightarrow> string \<Rightarrow> string \<Rightarrow> string" where
  "text_value values key fallback = unwrap_or fallback (values key)"

definition text_value_owned :: "form_map \<Rightarrow> string \<Rightarrow> string" where
  "text_value_owned values key = unwrap_or [] (values key)"

definition optional_text_value :: "form_map \<Rightarrow> string \<Rightarrow> string option \<Rightarrow> string option" where
  "optional_text_value values key fallback =
     (case values key of
        Some v \<Rightarrow> if trim v = [] then None else Some v
      | None \<Rightarrow> fallback)"

definition path_value :: "form_map \<Rightarrow> string \<Rightarrow> string \<Rightarrow> string" where
  "path_value values key fallback =
     (case values key of
        Some v \<Rightarrow> if trim v \<noteq> [] then v else fallback
      | None \<Rightarrow> fallback)"

definition optional_path_value :: "form_map \<Rightarrow> string \<Rightarrow> string option \<Rightarrow> string option" where
  "optional_path_value values key fallback =
     (case values key of
        Some v \<Rightarrow> if trim v = [] then None else Some v
      | None \<Rightarrow> fallback)"

definition optional_path :: "string option \<Rightarrow> string" where
  "optional_path v = unwrap_or [] (map_option from_utf8_lossy v)"

definition usize_value :: "form_map \<Rightarrow> string \<Rightarrow> usize \<Rightarrow> usize" where
  "usize_value values key fallback = unwrap_or fallback (Option.bind (values key) parse_u64)"

definition u64_value :: "form_map \<Rightarrow> string \<Rightarrow> u64 \<Rightarrow> u64" where
  "u64_value values key fallback = unwrap_or fallback (Option.bind (values key) parse_u64)"

definition comma_list :: "string option \<Rightarrow> string list \<Rightarrow> string list" where
  "comma_list v fallback =
     (case v of
        Some raw \<Rightarrow> filter (\<lambda>s. s \<noteq> []) (map trim (split_on (CHR '','') raw))
      | None \<Rightarrow> fallback)"

definition owned_name :: "nat \<Rightarrow> string \<Rightarrow> string" where
  "owned_name index suffix' = ''transform_'' @ show_nat index @ ''_'' @ suffix'"

section \<open>Labels\<close>

fun http_mode_value :: "HttpMode \<Rightarrow> string" where
  "http_mode_value Auto = ''auto''"
| "http_mode_value Http1 = ''http1''"
| "http_mode_value Http2 = ''http2''"

definition http_mode_from_form :: "string option \<Rightarrow> HttpMode \<Rightarrow> HttpMode" where
  "http_mode_from_form v fallback =
     (if v = Some ''http1'' then Http1 else if v = Some ''http2'' then Http2
      else if v = Some ''auto'' then Auto else fallback)"

definition http_mode_options :: "(string \<times> string) list" where
  "http_mode_options = [(''auto'', ''Auto''), (''http1'', ''HTTP/1''), (''http2'', ''HTTP/2'')]"

definition matcher_options :: "(string \<times> string) list" where
  "matcher_options =
     [(''any'', ''Any response''), (''url_glob'', ''URL glob''),
      (''content_type_glob'', ''Content-Type glob'')]"

definition target_options :: "(string \<times> string) list" where
  "target_options =
     [(''body'', ''Body''), (''any'', ''Body + headers''), (''all_headers'', ''All headers''),
      (''header'', ''One header''), (''cookies'', ''Set-Cookie'')]"

definition proxy_result_options :: "(string \<times> string) list" where
  "proxy_result_options =
     [([], ''Any result''), (ProxyResult_as_str Inflight, ''Inflight''),
      (ProxyResult_as_str Success, ''Success''),
      (ProxyResult_as_str ClientRejected, ''Client rejected''),
      (ProxyResult_as_str UpstreamError, ''Upstream error''),
      (ProxyResult_as_str StreamError, ''Stream error'')]"

fun matcher_type_value :: "TransformMatcherFile \<Rightarrow> string" where
  "matcher_type_value (UrlGlobFile _) = ''url_glob''"
| "matcher_type_value (ContentTypeGlobFile _) = ''content_type_glob''"
| "matcher_type_value MatchEverythingFile = ''any''"

fun matcher_pattern_value :: "TransformMatcherFile \<Rightarrow> string" where
  "matcher_pattern_value (UrlGlobFile p) = p"
| "matcher_pattern_value (ContentTypeGlobFile p) = p"
| "matcher_pattern_value MatchEverythingFile = []"

fun action_values :: "TransformActionFile \<Rightarrow> string \<times> string" where
  "action_values (ReplaceFile from to) = (from, to)"

fun target_type_value :: "TransformTargetFile \<Rightarrow> string" where
  "target_type_value TargetEverythingFile = ''any''"
| "target_type_value BodyFile = ''body''"
| "target_type_value AllHeadersFile = ''all_headers''"
| "target_type_value (HeaderFile _) = ''header''"
| "target_type_value CookiesFile = ''cookies''"

fun target_name_value :: "TransformTargetFile \<Rightarrow> string" where
  "target_name_value (HeaderFile name) = name"
| "target_name_value _ = []"

section \<open>Settings\<close>

text \<open>The fields of \<open>RuntimeConfigPage\<close>, in the order of the page, and the save button.\<close>

definition RuntimeConfigPage :: "RuntimeSettingsFile \<Rightarrow> form" where
  "RuntimeConfigPage s =
     [(''editor_action'', ''save'')]
     @ InputField ''listen_addr'' (rs_listen_addr s)
     @ InputField ''frontend_domain'' (rs_frontend_domain s)
     @ InputField ''backend_url'' (rs_backend_url s)
     @ InputField ''sqlite_path'' (from_utf8_lossy (rs_sqlite_path s))
     @ InputField ''tls_cert_path'' (from_utf8_lossy (rs_tls_cert_path s))
     @ InputField ''tls_key_path'' (from_utf8_lossy (rs_tls_key_path s))
     @ InputField ''ca_bundle_path'' (optional_path (rs_ca_bundle_path s))
     @ InputField ''upstream_sni_override'' (unwrap_or [] (rs_upstream_sni_override s))
     @ SelectField ''http_mode'' (http_mode_value (rs_http_mode s)) http_mode_options
     @ InputField ''flush_rows'' (show_nat (unat (rs_flush_rows s)))
     @ InputField ''flush_interval_ms'' (show_nat (unat (rs_flush_interval_ms s)))
     @ InputField ''max_inflight_events'' (show_nat (unat (rs_max_inflight_events s)))
     @ InputField ''body_max_bytes'' (show_nat (unat (rs_body_max_bytes s)))
     @ InputField ''connect_timeout_ms'' (show_nat (unat (rs_connect_timeout_ms s)))
     @ InputField ''request_timeout_ms'' (show_nat (unat (rs_request_timeout_ms s)))
     @ InputField ''idle_pool_timeout_ms'' (show_nat (unat (rs_idle_pool_timeout_ms s)))
     @ InputField ''graceful_shutdown_timeout_ms'' (show_nat (unat (rs_graceful_shutdown_timeout_ms s)))
     @ InputField ''header_allowlist'' (join '','' (rs_header_allowlist s))
     @ InputField ''header_denylist'' (join '','' (rs_header_denylist s))
     @ CheckboxField ''trust_proxy_headers'' (rs_trust_proxy_headers s)
     @ CheckboxField ''emit_keylog'' (rs_emit_keylog s)"

definition runtime_from_form :: "form_map \<Rightarrow> RuntimeSettingsFile \<Rightarrow> RuntimeSettingsFile" where
  "runtime_from_form values fallback =
     \<lparr>rs_listen_addr = text_value values ''listen_addr'' (rs_listen_addr fallback),
      rs_frontend_domain = text_value values ''frontend_domain'' (rs_frontend_domain fallback),
      rs_backend_url = text_value values ''backend_url'' (rs_backend_url fallback),
      rs_tls_cert_path = path_value values ''tls_cert_path'' (rs_tls_cert_path fallback),
      rs_tls_key_path = path_value values ''tls_key_path'' (rs_tls_key_path fallback),
      rs_sqlite_path = path_value values ''sqlite_path'' (rs_sqlite_path fallback),
      rs_ca_bundle_path = optional_path_value values ''ca_bundle_path'' (rs_ca_bundle_path fallback),
      rs_upstream_sni_override =
        optional_text_value values ''upstream_sni_override'' (rs_upstream_sni_override fallback),
      rs_http_mode = http_mode_from_form (values ''http_mode'') (rs_http_mode fallback),
      rs_flush_rows = usize_value values ''flush_rows'' (rs_flush_rows fallback),
      rs_flush_interval_ms = u64_value values ''flush_interval_ms'' (rs_flush_interval_ms fallback),
      rs_max_inflight_events =
        usize_value values ''max_inflight_events'' (rs_max_inflight_events fallback),
      rs_body_max_bytes = usize_value values ''body_max_bytes'' (rs_body_max_bytes fallback),
      rs_connect_timeout_ms = u64_value values ''connect_timeout_ms'' (rs_connect_timeout_ms fallback),
      rs_request_timeout_ms = u64_value values ''request_timeout_ms'' (rs_request_timeout_ms fallback),
      rs_idle_pool_timeout_ms =
        u64_value values ''idle_pool_timeout_ms'' (rs_idle_pool_timeout_ms fallback),
      rs_graceful_shutdown_timeout_ms =
        u64_value values ''graceful_shutdown_timeout_ms'' (rs_graceful_shutdown_timeout_ms fallback),
      rs_trust_proxy_headers = (values ''trust_proxy_headers'' \<noteq> None),
      rs_emit_keylog = (values ''emit_keylog'' \<noteq> None),
      rs_header_allowlist = comma_list (values ''header_allowlist'') (rs_header_allowlist fallback),
      rs_header_denylist = comma_list (values ''header_denylist'') (rs_header_denylist fallback)\<rparr>"

section \<open>Transform rules\<close>

text \<open>
  The buttons of \<open>TransformsPage\<close>: those of the page, and those of the editor of one rule.  Only
  the button that is pressed is submitted.
\<close>

datatype button = PageButton string | RuleButton nat string

definition TransformEditor :: "button \<Rightarrow> nat \<Rightarrow> TransformRuleFile \<Rightarrow> form" where
  "TransformEditor pressed index rule =
     (case pressed of RuleButton i a \<Rightarrow> if i = index then [(''editor_action'', a)] else []
      | PageButton _ \<Rightarrow> [])
     @ [(''editor_index'', show_nat index), (owned_name index ''present'', ''true'')]
     @ SelectField (owned_name index ''matcher_type'') (matcher_type_value (file_matcher rule)) matcher_options
     @ InputField (owned_name index ''matcher_pattern'') (matcher_pattern_value (file_matcher rule))
     @ InputField (owned_name index ''action_from'') (fst (action_values (file_action rule)))
     @ InputField (owned_name index ''action_to'') (snd (action_values (file_action rule)))
     @ SelectField (owned_name index ''target_type'') (target_type_value (file_target rule)) target_options
     @ InputField (owned_name index ''target_name'') (target_name_value (file_target rule))
     @ CheckboxField (owned_name index ''stop'') (file_stop rule)"

definition TransformsPage :: "button \<Rightarrow> TransformRuleFile list \<Rightarrow> form" where
  "TransformsPage pressed rules =
     (case pressed of PageButton a \<Rightarrow> [(''editor_action'', a)] | RuleButton _ _ \<Rightarrow> [])
     @ [(''transform_count'', show_nat (length rules))]
     @ concat (map (\<lambda>(index, rule). TransformEditor pressed index rule) (enumerate 0 rules))"

definition matcher_from_form :: "form_map \<Rightarrow> nat \<Rightarrow> TransformMatcherFile" where
  "matcher_from_form values index =
     (let t = unwrap_or ''any'' (values (owned_name index ''matcher_type''));
          pattern = text_value_owned values (owned_name index ''matcher_pattern'') in
      if t = ''url_glob'' then UrlGlobFile pattern
      else if t = ''content_type_glob'' then ContentTypeGlobFile pattern
      else MatchEverythingFile)"

definition target_from_form :: "form_map \<Rightarrow> nat \<Rightarrow> TransformTargetFile" where
  "target_from_form values index =
     (let t = unwrap_or ''body'' (values (owned_name index ''target_type'')) in
      if t = ''any'' then TargetEverythingFile
      else if t = ''all_headers'' then AllHeadersFile
      else if t = ''header'' then HeaderFile (text_value_owned values (owned_name index ''target_name''))
      else if t = ''cookies'' then CookiesFile
      else BodyFile)"

definition rule_from_form :: "form_map \<Rightarrow> nat \<Rightarrow> TransformRuleFile" where
  "rule_from_form values index =
     \<lparr>file_matcher = matcher_from_form values index,
      file_action =
        ReplaceFile (text_value_owned values (owned_name index ''action_from''))
          (text_value_owned values (owned_name index ''action_to'')),
      file_target = target_from_form values index,
      file_stop = (values (owned_name index ''stop'') \<noteq> None)\<rparr>"

definition transforms_from_form :: "form_map \<Rightarrow> TransformRuleFile list \<Rightarrow> TransformRuleFile list" where
  "transforms_from_form values fallback =
     (let transform_count = usize_value values ''transform_count'' (of_nat (length fallback)) in
      map (rule_from_form values) [0..<unat transform_count])"

section \<open>Editor actions\<close>

datatype EditorAction =
    AddTransform | MoveTransformDown usize | MoveTransformUp usize | RemoveTransform usize
  | Reload | Save

definition editor_action :: "form_map \<Rightarrow> EditorAction" where
  "editor_action values =
     (let index = unwrap_or 0 (Option.bind (values ''editor_index'') parse_u64);
          a = values ''editor_action'' in
      if a = Some ''add_transform'' then AddTransform
      else if a = Some ''move_transform_up'' then MoveTransformUp index
      else if a = Some ''move_transform_down'' then MoveTransformDown index
      else if a = Some ''remove_transform'' then RemoveTransform index
      else if a = Some ''reload'' then Reload
      else Save)"

definition blank_transform :: TransformRuleFile where
  "blank_transform =
     \<lparr>file_matcher = MatchEverythingFile, file_action = ReplaceFile [] [], file_target = BodyFile,
      file_stop = False\<rparr>"

text \<open>\<open>slice::swap\<close>, which panics (\<^const>\<open>None\<close>) if an index is out of range.\<close>

definition slice_swap :: "'a list \<Rightarrow> nat \<Rightarrow> nat \<Rightarrow> 'a list option" where
  "slice_swap xs i j =
     (if i < length xs \<and> j < length xs then Some (xs[i := xs ! j, j := xs ! i]) else None)"

text \<open>
  Indices are 64 bits wide and \<open>index + 1\<close> wraps, as it does in a release build.
\<close>

fun apply_editor_action ::
  "TransformRuleFile list \<Rightarrow> EditorAction \<Rightarrow> TransformRuleFile list option" where
  "apply_editor_action draft AddTransform = Some (draft @ [blank_transform])"
| "apply_editor_action draft (MoveTransformUp index) =
     (if 0 < unat index \<and> unat index < length draft
      then slice_swap draft (unat index) (unat (index - 1)) else Some draft)"
| "apply_editor_action draft (MoveTransformDown index) =
     (if unat (index + 1) < length draft
      then slice_swap draft (unat index) (unat (index + 1)) else Some draft)"
| "apply_editor_action draft (RemoveTransform index) =
     (if unat index < length draft
      then Some (take (unat index) draft @ drop (Suc (unat index)) draft) else Some draft)"
| "apply_editor_action draft Reload = Some draft"
| "apply_editor_action draft Save = Some draft"

section \<open>Looking up submitted values\<close>

lemma form_values_unique:
  assumes "(k, v) \<in> set f" and "\<And>v'. (k, v') \<in> set f \<Longrightarrow> v' = v"
  shows "form_values f k = Some v"
proof -
  have "k \<in> fst ` set f" using assms(1) by force
  then have "form_values f k \<noteq> None"
    by (simp add: form_values_def map_of_eq_None_iff del: not_None_eq)
  then obtain v' where v': "form_values f k = Some v'" by blast
  then have "(k, v') \<in> set f" by (auto simp: form_values_def dest: map_of_SomeD)
  with assms(2) v' show ?thesis by blast
qed

lemma form_values_absent: "(\<And>v. (k, v) \<notin> set f) \<Longrightarrow> form_values f k = None"
  by (force simp: form_values_def map_of_eq_None_iff)

lemma single_line_id: "single_line s = s \<longleftrightarrow> CHR 0x0A \<notin> set s \<and> CHR 0x0D \<notin> set s"
  by (auto simp: single_line_def filter_id_conv)

lemma show_nat_no_char: "c \<in> {CHR ''_'', CHR 0x0A, CHR 0x0D, CHR ''c''} \<Longrightarrow> c \<notin> set (show_nat n)"
  using show_nat_digits [of c n] by auto

lemma single_line_show_nat [simp]: "single_line (show_nat n) = show_nat n"
  by (simp add: single_line_id show_nat_no_char)

lemma show_nat_inj: "show_nat m = show_nat n \<longleftrightarrow> m = n"
  by (metis nat_int option.inject parse_unsigned_show_nat)

lemma owned_name_inj [simp]: "owned_name i s = owned_name j t \<longleftrightarrow> i = j \<and> s = t"
proof
  assume "owned_name i s = owned_name j t"
  then have "split_once (CHR ''_'') (show_nat i @ CHR ''_'' # s) =
      split_once (CHR ''_'') (show_nat j @ CHR ''_'' # t)"
    by (simp add: owned_name_def)
  then show "i = j \<and> s = t" by (simp add: show_nat_no_char show_nat_inj)
qed simp

lemma owned_name_other [simp]:
  "owned_name i s \<noteq> ''transform_count''" "owned_name i s \<noteq> ''editor_index''"
  "owned_name i s \<noteq> ''editor_action''"
proof -
  show "owned_name i s \<noteq> ''transform_count''"
  proof
    assume "owned_name i s = ''transform_count''"
    then have "show_nat i @ CHR ''_'' # s = CHR ''c'' # ''ount''" by (simp add: owned_name_def)
    then show False using show_nat_no_char [of "CHR ''c''" i] by (cases "show_nat i") auto
  qed
qed (simp_all add: owned_name_def)

lemmas owned_name_other' [simp] = owned_name_other [symmetric]

lemma reload_button: "editor_action (form_values [(''editor_action'', ''reload'')]) = Reload"
  by (simp add: editor_action_def form_values_def)

section \<open>The rule editor's fields\<close>

lemma TransformEditor_keys:
  "(owned_name i s, v) \<in> set (TransformEditor b j r) \<Longrightarrow> i = j"
  by (auto simp: TransformEditor_def SelectField_def InputField_def CheckboxField_def
      split: button.splits if_splits)

lemma TransformsPage_owned:
  "(owned_name i s, v) \<in> set (TransformsPage b rules) \<longleftrightarrow>
     i < length rules \<and> (owned_name i s, v) \<in> set (TransformEditor b i (rules ! i))"
proof -
  have "set (enumerate 0 rules) = (\<lambda>j. (j, rules ! j)) ` {..<length rules}"
    by (auto simp: in_set_enumerate_eq image_iff)
  then have "(owned_name i s, v) \<in> set (TransformsPage b rules) \<longleftrightarrow>
      (\<exists>j < length rules. (owned_name i s, v) \<in> set (TransformEditor b j (rules ! j)))"
    by (auto simp: TransformsPage_def split: button.splits)
  then show ?thesis by (blast dest: TransformEditor_keys)
qed

lemma TransformsPage_lookup:
  assumes "i < length rules" and "(owned_name i s, v) \<in> set (TransformEditor b i (rules ! i))"
    and "\<And>v'. (owned_name i s, v') \<in> set (TransformEditor b i (rules ! i)) \<Longrightarrow> v' = v"
  shows "form_values (TransformsPage b rules) (owned_name i s) = Some v"
  by (rule form_values_unique) (simp_all only: TransformsPage_owned assms)

lemmas editor_fields = TransformEditor_def SelectField_def InputField_def CheckboxField_def

lemma TransformsPage_fields:
  assumes "i < length rules"
  shows "form_values (TransformsPage b rules) (owned_name i ''matcher_type'')
      = Some (matcher_type_value (file_matcher (rules ! i)))"
    "form_values (TransformsPage b rules) (owned_name i ''matcher_pattern'')
      = Some (single_line (matcher_pattern_value (file_matcher (rules ! i))))"
    "form_values (TransformsPage b rules) (owned_name i ''action_from'')
      = Some (single_line (fst (action_values (file_action (rules ! i)))))"
    "form_values (TransformsPage b rules) (owned_name i ''action_to'')
      = Some (single_line (snd (action_values (file_action (rules ! i)))))"
    "form_values (TransformsPage b rules) (owned_name i ''target_type'')
      = Some (target_type_value (file_target (rules ! i)))"
    "form_values (TransformsPage b rules) (owned_name i ''target_name'')
      = Some (single_line (target_name_value (file_target (rules ! i))))"
proof -
  have "matcher_type_value m \<in> set (map fst matcher_options)" for m
    by (cases m) (simp_all add: matcher_options_def)
  then show "form_values (TransformsPage b rules) (owned_name i ''matcher_type'')
      = Some (matcher_type_value (file_matcher (rules ! i)))"
    by (intro TransformsPage_lookup [OF assms]) (auto simp: editor_fields split: button.splits if_splits)
  have "target_type_value t \<in> set (map fst target_options)" for t
    by (cases t) (simp_all add: target_options_def)
  then show "form_values (TransformsPage b rules) (owned_name i ''target_type'')
      = Some (target_type_value (file_target (rules ! i)))"
    by (intro TransformsPage_lookup [OF assms]) (auto simp: editor_fields split: button.splits if_splits)
qed (rule TransformsPage_lookup [OF assms]; auto simp: editor_fields split: button.splits if_splits)+

lemma TransformsPage_stop:
  assumes "i < length rules"
  shows "form_values (TransformsPage b rules) (owned_name i ''stop'') \<noteq> None \<longleftrightarrow> file_stop (rules ! i)"
proof (cases "file_stop (rules ! i)")
  case True
  then have "form_values (TransformsPage b rules) (owned_name i ''stop'') = Some ''true''"
    by (intro TransformsPage_lookup [OF assms]) (auto simp: editor_fields split: button.splits if_splits)
  with True show ?thesis by simp
next
  case False
  then have "form_values (TransformsPage b rules) (owned_name i ''stop'') = None"
    by (intro form_values_absent)
      (auto simp: TransformsPage_owned editor_fields split: button.splits if_splits)
  with False show ?thesis by simp
qed

lemma TransformsPage_count:
  "form_values (TransformsPage b rules) ''transform_count'' = Some (show_nat (length rules))"
  by (rule form_values_unique)
    (auto simp: TransformsPage_def editor_fields split: button.splits if_splits)

text \<open>The index of the last rule is the last submitted.\<close>

lemma TransformEditor_index:
  "map_of (rev (TransformEditor b j r)) ''editor_index'' = Some (show_nat j)"
  by (rule form_values_unique [unfolded form_values_def])
    (auto simp: editor_fields split: button.splits if_splits)

lemma TransformsPage_index:
  assumes "rules \<noteq> []"
  shows "form_values (TransformsPage b rules) ''editor_index'' = Some (show_nat (length rules - 1))"
proof -
  obtain rs r where rules: "rules = rs @ [r]" using assms by (cases rules rule: rev_cases) auto
  have "TransformsPage b rules =
      (case b of PageButton a \<Rightarrow> [(''editor_action'', a)] | RuleButton _ _ \<Rightarrow> [])
      @ [(''transform_count'', show_nat (length rules))]
      @ concat (map (\<lambda>(index, rule). TransformEditor b index rule) (enumerate 0 rs))
      @ TransformEditor b (length rs) r"
    by (simp add: TransformsPage_def rules enumerate_append_eq)
  then show ?thesis
    using TransformEditor_index [of b "length rs" r] by (simp add: form_values_def rules)
qed

lemma TransformsPage_action:
  "form_values (TransformsPage (PageButton a) rules) ''editor_action'' = Some a"
  "i < length rules \<Longrightarrow> form_values (TransformsPage (RuleButton i a) rules) ''editor_action'' = Some a"
  by (rule form_values_unique; force simp: TransformsPage_def editor_fields in_set_enumerate_eq
      split: if_splits)+

text \<open>Rules whose texts a form can carry.\<close>

definition single_line_rule :: "TransformRuleFile \<Rightarrow> bool" where
  "single_line_rule r \<longleftrightarrow>
     single_line (matcher_pattern_value (file_matcher r)) = matcher_pattern_value (file_matcher r)
     \<and> single_line (fst (action_values (file_action r))) = fst (action_values (file_action r))
     \<and> single_line (snd (action_values (file_action r))) = snd (action_values (file_action r))
     \<and> single_line (target_name_value (file_target r)) = target_name_value (file_target r)"

lemma rule_from_page:
  assumes "i < length rules" and "single_line_rule (rules ! i)"
  shows "rule_from_form (form_values (TransformsPage b rules)) i = rules ! i"
proof -
  note f = TransformsPage_fields [OF assms(1)] TransformsPage_stop [OF assms(1)]
  have "matcher_from_form (form_values (TransformsPage b rules)) i = file_matcher (rules ! i)"
    using assms(2) by (cases "file_matcher (rules ! i)")
      (simp_all add: matcher_from_form_def f text_value_owned_def single_line_rule_def)
  moreover have "target_from_form (form_values (TransformsPage b rules)) i = file_target (rules ! i)"
    using assms(2) by (cases "file_target (rules ! i)")
      (simp_all add: target_from_form_def f text_value_owned_def single_line_rule_def)
  moreover have "ReplaceFile (fst (action_values a)) (snd (action_values a)) = a" for a
    by (cases a) simp
  ultimately show ?thesis
    using assms(2)
    by (simp add: rule_from_form_def f text_value_owned_def single_line_rule_def del: not_None_eq)
qed

lemma transforms_from_page:
  assumes "list_all single_line_rule rules" and "length rules < 2 ^ 64"
  shows "transforms_from_form (form_values (TransformsPage b rules)) fallback = rules"
proof -
  have "usize_value (form_values (TransformsPage b rules)) ''transform_count'' k = of_nat (length rules)" for k
    using parse_u64_show [of "of_nat (length rules)"] assms(2)
    by (simp add: usize_value_def TransformsPage_count unat_of_nat)
  then show ?thesis
    using assms by (intro nth_equalityI)
      (simp_all add: transforms_from_form_def Let_def unat_of_nat rule_from_page list_all_length)
qed

section \<open>The settings form\<close>

text \<open>Settings whose texts the form can carry and the reader does not normalise.\<close>

definition plain_text :: "string \<Rightarrow> bool" where
  "plain_text s \<longleftrightarrow> single_line s = s"

definition plain_path :: "string \<Rightarrow> bool" where
  "plain_path p \<longleftrightarrow> single_line p = p \<and> from_utf8_lossy p = p \<and> trim p \<noteq> []"

definition plain_list :: "string list \<Rightarrow> bool" where
  "plain_list ws \<longleftrightarrow>
     list_all (\<lambda>w. single_line w = w \<and> trim w = w \<and> w \<noteq> [] \<and> CHR '','' \<notin> set w) ws"

definition plain_settings :: "RuntimeSettingsFile \<Rightarrow> bool" where
  "plain_settings s \<longleftrightarrow>
     list_all plain_text [rs_listen_addr s, rs_frontend_domain s, rs_backend_url s]
     \<and> list_all plain_path [rs_tls_cert_path s, rs_tls_key_path s, rs_sqlite_path s]
     \<and> (case rs_ca_bundle_path s of None \<Rightarrow> True | Some p \<Rightarrow> plain_path p)
     \<and> (case rs_upstream_sni_override s of None \<Rightarrow> True | Some v \<Rightarrow> plain_text v \<and> trim v \<noteq> [])
     \<and> plain_list (rs_header_allowlist s) \<and> plain_list (rs_header_denylist s)"

lemma set_join: "set (join sep ws) \<subseteq> set sep \<union> \<Union> (set ` set ws)"
  by (induction sep ws rule: join.induct) auto

lemma comma_list_join:
  assumes "plain_list ws"
  shows "comma_list (Some (single_line (join '','' ws))) fallback = ws"
proof -
  have "CHR 0x0A \<notin> set w" "CHR 0x0D \<notin> set w" if "w \<in> set ws" for w
    using that assms by (auto simp: plain_list_def list_all_iff single_line_id)
  then have "single_line (join '','' ws) = join '','' ws"
    using set_join [of "'',''" ws] by (auto simp: single_line_id)
  moreover have "filter (\<lambda>s. s \<noteq> []) (map trim ws) = ws"
    using assms by (induction ws) (auto simp: plain_list_def)
  moreover have "split_on (CHR '','') (join '','' ws) = (if ws = [] then [[]] else ws)"
    using assms split_on_join [of ws "CHR '',''"] by (auto simp: plain_list_def list_all_iff)
  ultimately show ?thesis by (auto simp: comma_list_def)
qed

lemma http_mode_options_value: "http_mode_value v \<in> fst ` set http_mode_options"
  by (cases v) (simp_all add: http_mode_options_def)

lemma http_mode_from_form_value: "http_mode_from_form (Some (http_mode_value v)) fallback = v"
  by (cases v) (simp_all add: http_mode_from_form_def)

lemmas page_fields = form_values_def RuntimeConfigPage_def InputField_def SelectField_def
  CheckboxField_def

lemma RuntimeConfigPage_checked:
  "form_values (RuntimeConfigPage s) ''trust_proxy_headers'' \<noteq> None \<longleftrightarrow> rs_trust_proxy_headers s"
  "form_values (RuntimeConfigPage s) ''emit_keylog'' \<noteq> None \<longleftrightarrow> rs_emit_keylog s"
  by (simp_all add: page_fields del: not_None_eq)

lemma RuntimeConfigPage_values:
  "form_values (RuntimeConfigPage s) ''listen_addr'' = Some (single_line (rs_listen_addr s))"
  "form_values (RuntimeConfigPage s) ''frontend_domain'' = Some (single_line (rs_frontend_domain s))"
  "form_values (RuntimeConfigPage s) ''backend_url'' = Some (single_line (rs_backend_url s))"
  "form_values (RuntimeConfigPage s) ''sqlite_path'' = Some (single_line (from_utf8_lossy (rs_sqlite_path s)))"
  "form_values (RuntimeConfigPage s) ''tls_cert_path'' = Some (single_line (from_utf8_lossy (rs_tls_cert_path s)))"
  "form_values (RuntimeConfigPage s) ''tls_key_path'' = Some (single_line (from_utf8_lossy (rs_tls_key_path s)))"
  "form_values (RuntimeConfigPage s) ''ca_bundle_path'' = Some (single_line (optional_path (rs_ca_bundle_path s)))"
  "form_values (RuntimeConfigPage s) ''upstream_sni_override'' = Some (single_line (unwrap_or [] (rs_upstream_sni_override s)))"
  "form_values (RuntimeConfigPage s) ''http_mode'' = Some (http_mode_value (rs_http_mode s))"
  "form_values (RuntimeConfigPage s) ''header_allowlist'' = Some (single_line (join '','' (rs_header_allowlist s)))"
  "form_values (RuntimeConfigPage s) ''header_denylist'' = Some (single_line (join '','' (rs_header_denylist s)))"
  by (simp_all add: page_fields http_mode_options_value)

lemma RuntimeConfigPage_numbers:
  "form_values (RuntimeConfigPage s) ''flush_rows'' = Some (show_nat (unat (rs_flush_rows s)))"
  "form_values (RuntimeConfigPage s) ''flush_interval_ms'' = Some (show_nat (unat (rs_flush_interval_ms s)))"
  "form_values (RuntimeConfigPage s) ''max_inflight_events'' = Some (show_nat (unat (rs_max_inflight_events s)))"
  "form_values (RuntimeConfigPage s) ''body_max_bytes'' = Some (show_nat (unat (rs_body_max_bytes s)))"
  "form_values (RuntimeConfigPage s) ''connect_timeout_ms'' = Some (show_nat (unat (rs_connect_timeout_ms s)))"
  "form_values (RuntimeConfigPage s) ''request_timeout_ms'' = Some (show_nat (unat (rs_request_timeout_ms s)))"
  "form_values (RuntimeConfigPage s) ''idle_pool_timeout_ms'' = Some (show_nat (unat (rs_idle_pool_timeout_ms s)))"
  "form_values (RuntimeConfigPage s) ''graceful_shutdown_timeout_ms'' = Some (show_nat (unat (rs_graceful_shutdown_timeout_ms s)))"
  by (simp_all add: page_fields)

lemma optional_page_value:
  "case v of None \<Rightarrow> True | Some p \<Rightarrow> plain_path p \<Longrightarrow>
     (if trim (single_line (optional_path v)) = [] then None else Some (single_line (optional_path v))) = v"
  by (cases v) (auto simp: optional_path_def plain_path_def single_line_def)

section \<open>Editor actions\<close>

lemma unat_Suc: "unat (i + 1) = (if i = - 1 then 0 else Suc (unat (i :: usize)))"
  using unatSuc [of i] by (auto simp: add.commute eq_neg_iff_add_eq_0)

section \<open>Properties\<close>

text \<open>A rule list that the transforms page shows is read back unchanged from the form it submits,
  whichever button is pressed, if its texts have no line breaks.\<close>

theorem transforms_form_round_trip:
  assumes "list_all single_line_rule rules" and "length rules < 2 ^ 64"
  shows "transforms_from_form (form_values (TransformsPage pressed rules)) fallback = rules"
  by (rule transforms_from_page [OF assms])

theorem transforms_form_round_trip_witness:
  "transforms_from_form (form_values (TransformsPage (RuleButton 0 ''move_transform_down'')
       [\<lparr>file_matcher = UrlGlobFile ''/a*'', file_action = ReplaceFile ''x'' ''y'',
         file_target = HeaderFile ''server'', file_stop = True\<rparr>, blank_transform])) []
   = [\<lparr>file_matcher = UrlGlobFile ''/a*'', file_action = ReplaceFile ''x'' ''y'',
       file_target = HeaderFile ''server'', file_stop = True\<rparr>, blank_transform]"
  by (rule transforms_form_round_trip) (simp_all add: single_line_rule_def single_line_def blank_transform_def)

text \<open>Settings that the config page shows are read back unchanged from the form it submits,
  whatever the fallback, if no text has line breaks, paths are not blank, an override is not
  blank, and the names in the header lists are not empty and have no commas or outer spaces.\<close>

theorem config_form_round_trip:
  assumes "plain_settings s"
  shows "runtime_from_form (form_values (RuntimeConfigPage s)) fallback = s"
proof -
  have paths: "path_value (form_values (RuntimeConfigPage s)) key fb = p"
    if "form_values (RuntimeConfigPage s) key = Some (single_line (from_utf8_lossy p))" "plain_path p"
    for key p fb
    using that by (simp add: path_value_def plain_path_def)
  have sni: "(if trim (single_line (unwrap_or [] v)) = [] then None else Some (single_line (unwrap_or [] v))) = v"
    if "case v of None \<Rightarrow> True | Some w \<Rightarrow> plain_text w \<and> trim w \<noteq> []" for v
    using that by (cases v) (auto simp: plain_text_def single_line_def)
  show ?thesis
    using assms optional_page_value [of "rs_ca_bundle_path s"] sni [of "rs_upstream_sni_override s"]
    by (intro RuntimeSettingsFile.equality)
      (simp_all add: runtime_from_form_def text_value_def usize_value_def u64_value_def
        optional_path_value_def optional_text_value_def RuntimeConfigPage_values
        RuntimeConfigPage_numbers RuntimeConfigPage_checked paths comma_list_join
        http_mode_from_form_value plain_settings_def plain_text_def del: not_None_eq)
qed

theorem config_form_round_trip_witness:
  "runtime_from_form (form_values (RuntimeConfigPage (ac_runtime test_config))) RuntimeSettingsFile_default
   = ac_runtime test_config"
proof (rule config_form_round_trip)
  show "plain_settings (ac_runtime test_config)" by code_simp
qed

text \<open>Every button of a rule's editor acts on the last rule of the page, not on the rule it
  belongs to: each rule's editor submits its own index under the same name, and the last one
  wins.\<close>

theorem rule_buttons_act_on_last:
  assumes "i < length rules" and "length rules < 2 ^ 64"
    and "a \<in> {''move_transform_up'', ''move_transform_down'', ''remove_transform''}"
  shows "editor_action (form_values (TransformsPage (RuleButton i a) rules)) =
    (if a = ''move_transform_up'' then MoveTransformUp
     else if a = ''move_transform_down'' then MoveTransformDown
     else RemoveTransform) (of_nat (length rules - 1))"
proof -
  have "rules \<noteq> []" using assms(1) by auto
  have "parse_u64 (show_nat (length rules - 1)) = Some (of_nat (length rules - 1))"
    using parse_u64_show [of "of_nat (length rules - 1)"] assms(2) by (simp add: unat_of_nat)
  then show ?thesis
    using assms(3) \<open>rules \<noteq> []\<close>
    by (auto simp: editor_action_def Let_def TransformsPage_index TransformsPage_action(2) [OF assms(1)])
qed

theorem rule_buttons_act_on_last_witness:
  "apply_editor_action [blank_transform, blank_transform\<lparr>file_stop := True\<rparr>]
     (editor_action (form_values (TransformsPage (RuleButton 0 ''remove_transform'')
        [blank_transform, blank_transform\<lparr>file_stop := True\<rparr>])))
   = Some [blank_transform]"
  using rule_buttons_act_on_last [of 0 "[blank_transform, blank_transform\<lparr>file_stop := True\<rparr>]" "''remove_transform''"]
  by simp

text \<open>Adding appends a blank rule, moving exchanges the rule with its neighbour and removing
  drops just that rule; an index out of range changes nothing.  The one index that makes the
  handler panic is the largest, when moving down in a list that is not empty.\<close>

theorem editor_actions_edit_rules:
  assumes "length draft < 2 ^ 64"
  shows "case act of
      AddTransform \<Rightarrow> apply_editor_action draft act = Some (draft @ [blank_transform])
    | MoveTransformUp i \<Rightarrow> apply_editor_action draft act = Some
        (if i \<noteq> 0 \<and> unat i < length draft
         then draft[unat i := draft ! (unat i - 1), unat i - 1 := draft ! unat i] else draft)
    | MoveTransformDown i \<Rightarrow> apply_editor_action draft act =
        (if i = - 1 \<and> draft \<noteq> [] then None
         else Some (if Suc (unat i) < length draft
           then draft[unat i := draft ! Suc (unat i), Suc (unat i) := draft ! unat i] else draft))
    | RemoveTransform i \<Rightarrow> \<exists>rest. apply_editor_action draft act = Some rest
        \<and> (if unat i < length draft
           then length rest = length draft - 1
             \<and> (\<forall>j < length rest. rest ! j = draft ! (if j < unat i then j else Suc j))
           else rest = draft)
    | _ \<Rightarrow> apply_editor_action draft act = Some draft"
proof (cases act)
  case (MoveTransformUp i)
  have "unat (i - 1) = unat i - 1" if "i \<noteq> 0" using that by (simp add: unat_minus_one)
  then show ?thesis using MoveTransformUp
    by (auto simp: slice_swap_def unat_gt_0)
next
  case (MoveTransformDown i)
  have "unat (- 1 :: usize) = 2 ^ 64 - 1" by (simp add: unsigned_minus_1_eq_mask mask_eq_exp_minus_1)
  with assms MoveTransformDown show ?thesis by (auto simp: slice_swap_def unat_Suc)
next
  case (RemoveTransform i)
  then show ?thesis by (auto simp: nth_append min_def)
qed simp_all

theorem editor_actions_edit_rules_witness:
  "apply_editor_action [blank_transform, blank_transform\<lparr>file_stop := True\<rparr>] (MoveTransformUp 1)
     = Some [blank_transform\<lparr>file_stop := True\<rparr>, blank_transform]
   \<and> apply_editor_action [blank_transform] (MoveTransformDown (- 1)) = None"
proof
  show "apply_editor_action [blank_transform, blank_transform\<lparr>file_stop := True\<rparr>] (MoveTransformUp 1)
     = Some [blank_transform\<lparr>file_stop := True\<rparr>, blank_transform]"
    using editor_actions_edit_rules [of "[blank_transform, blank_transform\<lparr>file_stop := True\<rparr>]" "MoveTransformUp 1"]
    by simp
  show "apply_editor_action [blank_transform] (MoveTransformDown (- 1)) = None"
    using editor_actions_edit_rules [of "[blank_transform]" "MoveTransformDown (- 1)"] by simp
qed

end
