(* ===== verification/Admin.thy ===== *)
theory Admin
  imports Admin_Form "HOL-Library.Multiset"
begin

text \<open>
  The handlers of the admin interface (\<^verbatim>\<open>src/admin.rs\<close>): editing, saving and reloading the
  configuration through the runtime manager, listing stored events with filters, and showing
  one event.  A page is the data its view is rendered from (\<open>Admin_Pages\<close> renders it).  The
  queries the ORM runs are a parameter, with their documented meaning as the locale
  \<open>event_store\<close>.

  A handler returns \<^const>\<open>None\<close> if it gives no answer: a reload that does not return, or a panic.
\<close>

section \<open>Pages\<close>

record Notice =
  notice_tone :: string
  notice_message :: string

definition Notice_info :: "string \<Rightarrow> Notice" where
  "Notice_info message =
     \<lparr>notice_tone = ''border-emerald-200 bg-emerald-50 text-emerald-900'', notice_message = message\<rparr>"

definition Notice_error :: "string \<Rightarrow> Notice" where
  "Notice_error message =
     \<lparr>notice_tone = ''border-rose-200 bg-rose-50 text-rose-900'', notice_message = message\<rparr>"

record EventListFilterQuery =
  eq_method :: "string option"
  eq_path_substring :: "string option"
  eq_status_code :: "i32 option"
  eq_proxy_result :: "string option"
  eq_since_hours :: "i64 option"
  eq_page :: "u64 option"
  eq_per_page :: "u64 option"

record EventListFilter =
  ef_method :: "string option"
  ef_path_substring :: "string option"
  ef_status_code :: "i32 option"
  ef_proxy_result :: "string option"
  ef_since_hours :: "i64 option"
  ef_page :: u64
  ef_per_page :: u64

record EventListItem =
  li_event_id :: string
  li_request_start_ts :: string
  li_method :: string
  li_path :: string
  li_status_code :: string
  li_duration_ms :: i64
  li_backend_host :: string
  li_proxy_result :: string

record EventListPage =
  lp_items :: "EventListItem list"
  lp_total :: nat

record EventDetail =
  ed_request_start_ts :: string
  ed_method :: string
  ed_path :: string
  ed_status_code :: string
  ed_duration_ms :: i64
  ed_backend_host :: string
  ed_proxy_result :: string
  ed_frontend_tls_sni :: "string option"
  ed_request_headers_json :: string
  ed_response_headers_json :: "string option"
  ed_request_cookies_json :: "string option"
  ed_response_set_cookie_json :: "string option"
  ed_request_body_preview :: string
  ed_response_body_preview :: string

datatype page =
    ConfigPage AppConfigFile RuntimeManagerState "Notice option" "string list"
  | RulesPage AppConfigFile RuntimeManagerState "Notice option" "string list"
  | ResultsPage RuntimeManagerState EventListFilterQuery "EventListItem list" nat
  | ResultDetailPage RuntimeManagerState EventDetail
  | ErrorPage u16 string string
  | RedirectTo string

definition admin_index :: page where
  "admin_index = RedirectTo ''/results''"

section \<open>Editing the configuration\<close>

definition config_page :: "('u, 'p, 'c, 'db) manager \<Rightarrow> page" where
  "config_page m =
     (let snapshot = RuntimeManager_state m in ConfigPage (ms_saved_config snapshot) snapshot None [])"

definition transforms_page :: "('u, 'p, 'c, 'db) manager \<Rightarrow> page" where
  "transforms_page m =
     (let snapshot = RuntimeManager_state m in RulesPage (ms_saved_config snapshot) snapshot None [])"

text \<open>
  Both submit handlers reload and save in the same way; \<open>render\<close> is the page they answer with.
\<close>

definition submit_reload ::
  "(AppConfigFile \<Rightarrow> RuntimeManagerState \<Rightarrow> Notice option \<Rightarrow> string list \<Rightarrow> page) \<Rightarrow>
     ('h, 'u, 'i, 'x, 'p, 'fs, 'c) manager_env \<Rightarrow> ('fs, 'h, 'db) reload_inputs \<Rightarrow> 'fs \<Rightarrow>
     ('u, 'p, 'c, 'db) manager \<Rightarrow> ('fs \<times> ('u, 'p, 'c, 'db) manager \<times> page) option" where
  "submit_reload render env ri fs m =
     map_option (\<lambda>(fs, m, r).
       (fs, m,
        (case r of
           Inr snapshot \<Rightarrow>
             render (ms_saved_config snapshot) snapshot (Some (Notice_info ''Proxy reloaded from disk.'')) []
         | Inl err \<Rightarrow>
             let snapshot = RuntimeManager_state m in
             render (ms_saved_config snapshot) snapshot (Some (Notice_error ''Reload failed.'')) [err])))
     (reload_inner env ri fs m)"

definition submit_save ::
  "(AppConfigFile \<Rightarrow> RuntimeManagerState \<Rightarrow> Notice option \<Rightarrow> string list \<Rightarrow> page) \<Rightarrow>
     ('h, 'u, 'i, 'x, 'p, 'fs, 'c) manager_env \<Rightarrow> 'fs \<Rightarrow> AppConfigFile \<Rightarrow> RuntimeManagerState \<Rightarrow>
     ('u, 'p, 'c, 'db) manager \<Rightarrow> 'fs \<times> ('u, 'p, 'c, 'db) manager \<times> page" where
  "submit_save render env fs draft snapshot m =
     (case save_config env fs draft m of
        (fs, m, Inr updated) \<Rightarrow>
          (fs, m, render draft updated
             (Some (Notice_info
               (if ms_pending_reload updated then ''Config saved. Reload is required to apply it.''
                else ''Config saved. The running proxy already matches this file.''))) [])
      | (fs, m, Inl err) \<Rightarrow>
          (fs, m, render draft snapshot (Some (Notice_error ''Config did not save.'')) [err]))"

definition config_submit ::
  "('h, 'u, 'i, 'x, 'p, 'fs, 'c) manager_env \<Rightarrow> ('fs, 'h, 'db) reload_inputs \<Rightarrow> 'fs \<Rightarrow>
     ('u, 'p, 'c, 'db) manager \<Rightarrow> form_map \<Rightarrow> ('fs \<times> ('u, 'p, 'c, 'db) manager \<times> page) option" where
  "config_submit env ri fs m values =
     (let snapshot = RuntimeManager_state m; act = editor_action values in
      if act = Reload then submit_reload ConfigPage env ri fs m
      else
        let draft = (ms_saved_config snapshot)
              \<lparr>ac_runtime := runtime_from_form values (ac_runtime (ms_saved_config snapshot))\<rparr> in
        if act = Save then Some (submit_save ConfigPage env fs draft snapshot m)
        else Some (fs, m, ConfigPage draft snapshot None []))"

definition transforms_submit ::
  "('h, 'u, 'i, 'x, 'p, 'fs, 'c) manager_env \<Rightarrow> ('fs, 'h, 'db) reload_inputs \<Rightarrow> 'fs \<Rightarrow>
     ('u, 'p, 'c, 'db) manager \<Rightarrow> form_map \<Rightarrow> ('fs \<times> ('u, 'p, 'c, 'db) manager \<times> page) option" where
  "transforms_submit env ri fs m values =
     (let snapshot = RuntimeManager_state m; act = editor_action values in
      if act = Reload then submit_reload RulesPage env ri fs m
      else
        Option.bind
          (apply_editor_action
             (transforms_from_form values (ac_transforms (ms_saved_config snapshot))) act) (\<lambda>rules.
        let draft = (ms_saved_config snapshot)\<lparr>ac_transforms := rules\<rparr> in
        if act = Save then Some (submit_save RulesPage env fs draft snapshot m)
        else Some (fs, m, RulesPage draft snapshot None [])))"

section \<open>The filter\<close>

text \<open>An optional number of the query string: \<^const>\<open>None\<close> refuses the request.\<close>

definition deserialize_optional_number ::
  "(string \<Rightarrow> 'a option) \<Rightarrow> string option \<Rightarrow> 'a option option" where
  "deserialize_optional_number parse raw =
     (case map_option trim raw of
        None \<Rightarrow> Some None
      | Some v \<Rightarrow> if v = [] then Some None else map_option Some (parse v))"

definition query_fields :: "string list" where
  "query_fields =
     [''method'', ''path_substring'', ''status_code'', ''proxy_result'', ''since_hours'', ''page'',
      ''per_page'']"

definition parse_query :: "form \<Rightarrow> EventListFilterQuery option" where
  "parse_query f =
     (let known = filter (\<lambda>e. fst e \<in> set query_fields) f; v = map_of known in
      if \<not> distinct (map fst known) then None
      else
        Option.bind (deserialize_optional_number parse_i32 (v ''status_code'')) (\<lambda>status_code.
        Option.bind (deserialize_optional_number parse_i64 (v ''since_hours'')) (\<lambda>since_hours.
        Option.bind (deserialize_optional_number parse_u64 (v ''page'')) (\<lambda>page.
        Option.bind (deserialize_optional_number parse_u64 (v ''per_page'')) (\<lambda>per_page.
        Some \<lparr>eq_method = v ''method'', eq_path_substring = v ''path_substring'',
              eq_status_code = status_code, eq_proxy_result = v ''proxy_result'',
              eq_since_hours = since_hours, eq_page = page, eq_per_page = per_page\<rparr>)))))"

definition to_filter :: "EventListFilterQuery \<Rightarrow> EventListFilter" where
  "to_filter q =
     \<lparr>ef_method = opt_filter (\<lambda>v. v \<noteq> []) (eq_method q),
      ef_path_substring = opt_filter (\<lambda>v. v \<noteq> []) (eq_path_substring q),
      ef_status_code = eq_status_code q,
      ef_proxy_result = opt_filter (\<lambda>v. v \<noteq> []) (eq_proxy_result q),
      ef_since_hours = eq_since_hours q,
      ef_page = unwrap_or 0 (eq_page q),
      ef_per_page = max 1 (min 200 (unwrap_or 50 (eq_per_page q)))\<rparr>"

section \<open>Queries\<close>

text \<open>
  The conditions of a query on the events table.  \<open>contains\<close> of the ORM is a \<open>LIKE\<close> with the text
  between two percent signs.
\<close>

datatype condition =
    MethodIs string | PathLike string | StatusIs i32 | ResultIs string | StartedFrom string

text \<open>
  Counting the matching rows, a page of them, newest start first, and the row of an event; each
  may fail.  \<open>st_in_range\<close>: the instants the time library can represent.
\<close>

record 'db store_ops =
  st_count :: "'db \<Rightarrow> condition list \<Rightarrow> nat option"
  st_page :: "'db \<Rightarrow> condition list \<Rightarrow> nat \<Rightarrow> nat \<Rightarrow> Model list option"
  st_find :: "'db \<Rightarrow> string \<Rightarrow> Model option option"
  st_rfc3339 :: "offset_date_time \<Rightarrow> string option"
  st_in_range :: "offset_date_time \<Rightarrow> bool"

text \<open>The start of the last \<open>n\<close> hours: the library panics when it cannot represent it.\<close>

definition since_text :: "'db store_ops \<Rightarrow> offset_date_time \<Rightarrow> i64 \<Rightarrow> string anyhow_result option" where
  "since_text st now since_hours =
     (let seconds = sint since_hours * 3600; since = now - seconds * 1000000000 in
      if seconds < - (2 ^ 63) \<or> 2 ^ 63 \<le> seconds \<or> \<not> st_in_range st since then None
      else Some (ok_or ''format results since timestamp'' (st_rfc3339 st since)))"

definition filter_conditions :: "EventListFilter \<Rightarrow> string option \<Rightarrow> condition list" where
  "filter_conditions f since =
     (case ef_method f of Some v \<Rightarrow> [MethodIs (to_ascii_uppercase v)] | None \<Rightarrow> [])
     @ (case ef_path_substring f of Some v \<Rightarrow> [PathLike (CHR ''%'' # v @ ''%'')] | None \<Rightarrow> [])
     @ (case ef_status_code f of Some v \<Rightarrow> [StatusIs v] | None \<Rightarrow> [])
     @ (case ef_proxy_result f of Some v \<Rightarrow> [ResultIs v] | None \<Rightarrow> [])
     @ (case since of Some v \<Rightarrow> [StartedFrom v] | None \<Rightarrow> [])"

definition status_text :: "i32 option \<Rightarrow> string" where
  "status_text v = unwrap_or ''n/a'' (map_option (\<lambda>v. show_int (sint v)) v)"

definition event_list_item :: "Model \<Rightarrow> EventListItem" where
  "event_list_item row =
     \<lparr>li_event_id = m_event_id row, li_request_start_ts = m_request_start_ts row,
      li_method = m_method row, li_path = m_path row, li_status_code = status_text (m_status_code row),
      li_duration_ms = m_duration_ms row, li_backend_host = m_backend_host row,
      li_proxy_result = m_proxy_result row\<rparr>"

definition list_events ::
  "'db store_ops \<Rightarrow> offset_date_time \<Rightarrow> 'db \<Rightarrow> EventListFilter \<Rightarrow> EventListPage anyhow_result option" where
  "list_events st now db f =
     Option.bind
       (case ef_since_hours f of
          None \<Rightarrow> Some (Inr None)
        | Some h \<Rightarrow> map_option (\<lambda>r. try_bind r (\<lambda>s. Inr (Some s))) (since_text st now h)) (\<lambda>since.
      Some (try_bind since (\<lambda>since.
        let conds = filter_conditions f since in
        try_bind (ok_or ''count result rows'' (st_count st db conds)) (\<lambda>total.
        try_bind (ok_or ''fetch result page''
                    (st_page st db conds (unat (ef_per_page f)) (unat (ef_page f)))) (\<lambda>rows.
        Inr \<lparr>lp_items = map event_list_item rows, lp_total = total\<rparr>)))))"

section \<open>One event\<close>

text \<open>A JSON value keeps its object members in the order of their names, the last of each name.\<close>

fun to_value :: "json \<Rightarrow> json" where
  "to_value (JArr xs) = JArr (map to_value xs)"
| "to_value (JObj m) = JObj (bt_from_list (map (\<lambda>(k, v). (k, to_value v)) m))"
| "to_value j = j"

definition prettify_json :: "text_ops \<Rightarrow> string \<Rightarrow> string" where
  "prettify_json tx v =
     (case json_from_str tx v of
        Some parsed \<Rightarrow> unwrap_or v (json_to_string_pretty tx (to_value parsed))
      | None \<Rightarrow> v)"

definition decode_preview :: "text_ops \<Rightarrow> string option \<Rightarrow> string" where
  "decode_preview tx v =
     (case v of
        None \<Rightarrow> ''n/a''
      | Some encoded \<Rightarrow>
          (case base64_decode tx encoded of
             Some bytes \<Rightarrow> if utf8_valid bytes then bytes else from_utf8_lossy bytes
           | None \<Rightarrow> encoded))"

definition event_detail :: "text_ops \<Rightarrow> Model \<Rightarrow> EventDetail" where
  "event_detail tx row =
     \<lparr>ed_request_start_ts = m_request_start_ts row, ed_method = m_method row, ed_path = m_path row,
      ed_status_code = status_text (m_status_code row), ed_duration_ms = m_duration_ms row,
      ed_backend_host = m_backend_host row, ed_proxy_result = m_proxy_result row,
      ed_frontend_tls_sni = m_frontend_tls_sni row,
      ed_request_headers_json = prettify_json tx (m_request_headers_json row),
      ed_response_headers_json = map_option (prettify_json tx) (m_response_headers_json row),
      ed_request_cookies_json = map_option (prettify_json tx) (m_request_cookies_json row),
      ed_response_set_cookie_json = map_option (prettify_json tx) (m_response_set_cookie_json row),
      ed_request_body_preview = decode_preview tx (m_request_body_preview_base64 row),
      ed_response_body_preview = decode_preview tx (m_response_body_preview_base64 row)\<rparr>"

definition load_event_detail ::
  "'db store_ops \<Rightarrow> text_ops \<Rightarrow> 'db \<Rightarrow> string \<Rightarrow> EventDetail option anyhow_result" where
  "load_event_detail st tx db event_id =
     try_bind (ok_or ''load event detail'' (st_find st db event_id)) (\<lambda>row.
     Inr (map_option (event_detail tx) row))"

section \<open>Result pages\<close>

abbreviation "INTERNAL_SERVER_ERROR \<equiv> (500 :: u16)"
abbreviation "NOT_FOUND \<equiv> (404 :: u16)"

definition results_page ::
  "'db store_ops \<Rightarrow> offset_date_time \<Rightarrow> ('u, 'p, 'c, 'db) manager \<Rightarrow> EventListFilterQuery \<Rightarrow> page option" where
  "results_page st now m query =
     (case active_database m of
        Inl err \<Rightarrow> Some (ErrorPage INTERNAL_SERVER_ERROR ''Results failed'' err)
      | Inr database \<Rightarrow>
          map_option (\<lambda>r.
            (case r of
               Inr p \<Rightarrow> ResultsPage (RuntimeManager_state m) query (lp_items p) (lp_total p)
             | Inl err \<Rightarrow> ErrorPage INTERNAL_SERVER_ERROR ''Results failed'' err))
          (list_events st now database (to_filter query)))"

definition result_detail_page ::
  "'db store_ops \<Rightarrow> text_ops \<Rightarrow> ('u, 'p, 'c, 'db) manager \<Rightarrow> string \<Rightarrow> page" where
  "result_detail_page st tx m event_id =
     (case active_database m of
        Inl err \<Rightarrow> ErrorPage INTERNAL_SERVER_ERROR ''Detail failed'' err
      | Inr database \<Rightarrow>
          (case load_event_detail st tx database event_id of
             Inr (Some detail) \<Rightarrow> ResultDetailPage (RuntimeManager_state m) detail
           | Inr None \<Rightarrow> ErrorPage NOT_FOUND ''Event not found'' ''No matching event.''
           | Inl err \<Rightarrow> ErrorPage INTERNAL_SERVER_ERROR ''Detail failed'' err))"

section \<open>What the queries mean\<close>

text \<open>
  The \<open>LIKE\<close> of SQLite: a percent sign stands for any text, an underscore for any character, and
  ASCII letters match in either case.
\<close>

fun sql_like :: "string \<Rightarrow> string \<Rightarrow> bool" where
  "sql_like [] t \<longleftrightarrow> t = []"
| "sql_like (c # p) [] \<longleftrightarrow> c = CHR ''%'' \<and> sql_like p []"
| "sql_like (c # p) (x # t) \<longleftrightarrow>
     (if c = CHR ''%'' then sql_like p (x # t) \<or> sql_like (c # p) t
      else (c = CHR ''_'' \<or> ascii_lower c = ascii_lower x) \<and> sql_like p t)"

definition no_wildcard :: "string \<Rightarrow> bool" where
  "no_wildcard s \<longleftrightarrow> CHR ''%'' \<notin> set s \<and> CHR ''_'' \<notin> set s"

fun satisfies :: "(string \<Rightarrow> string \<Rightarrow> bool) \<Rightarrow> condition \<Rightarrow> Model \<Rightarrow> bool" where
  "satisfies like (MethodIs v) row \<longleftrightarrow> m_method row = v"
| "satisfies like (PathLike p) row \<longleftrightarrow> like p (m_path row)"
| "satisfies like (StatusIs v) row \<longleftrightarrow> m_status_code row = Some v"
| "satisfies like (ResultIs v) row \<longleftrightarrow> m_proxy_result row = v"
| "satisfies like (StartedFrom v) row \<longleftrightarrow> v \<le> m_request_start_ts row"

definition matching :: "(string \<Rightarrow> string \<Rightarrow> bool) \<Rightarrow> condition list \<Rightarrow> Model list \<Rightarrow> Model list" where
  "matching like conds rows = filter (\<lambda>row. list_all (\<lambda>c. satisfies like c row) conds) rows"

definition newest_first :: "Model list \<Rightarrow> bool" where
  "newest_first rows \<longleftrightarrow> sorted_wrt (\<lambda>a b. m_request_start_ts b \<le> m_request_start_ts a) rows"

text \<open>
  What the ORM and the database promise.  The paginator computes the offset of a page in 64 bits
  and SQLite reads it as a signed number, so which rows a page has is only promised as long as
  the offset fits; whatever it is, they are matching rows.
\<close>

locale event_store =
  fixes st :: "'db store_ops" and rows :: "'db \<Rightarrow> Model list" and like :: "string \<Rightarrow> string \<Rightarrow> bool"
  assumes like_contains: "no_wildcard s \<Longrightarrow>
      like (CHR ''%'' # s @ ''%'') t \<longleftrightarrow> sublist (to_ascii_lowercase s) (to_ascii_lowercase t)"
    and count: "st_count st db conds = Some n \<Longrightarrow> n = length (matching like conds (rows db))"
    and page_matching: "st_page st db conds per_page p = Some rs \<Longrightarrow>
      set rs \<subseteq> set (matching like conds (rows db))"
    and page: "st_page st db conds per_page p = Some rs \<Longrightarrow> p * per_page < 2 ^ 63 \<Longrightarrow>
      \<exists>sorted. mset sorted = mset (matching like conds (rows db)) \<and> newest_first sorted
        \<and> rs = take per_page (drop (p * per_page) sorted)"
    and find: "st_find st db event_id = Some r \<Longrightarrow>
      (case r of Some row \<Rightarrow> row \<in> set (rows db) \<and> m_event_id row = event_id
       | None \<Rightarrow> event_id \<notin> m_event_id ` set (rows db))"

lemma sql_like_percent: "sql_like (CHR ''%'' # p) t \<longleftrightarrow> (\<exists>u v. t = u @ v \<and> sql_like p v)"
proof (induction t)
  case (Cons x t)
  have "sql_like (CHR ''%'' # p) (x # t) \<longleftrightarrow> sql_like p (x # t) \<or> (\<exists>u v. t = u @ v \<and> sql_like p v)"
    using Cons by simp
  also have "\<dots> \<longleftrightarrow> (\<exists>u v. x # t = u @ v \<and> sql_like p v)"
    by (auto simp: Cons_eq_append_conv)
  finally show ?case .
qed simp

lemma sql_like_literal:
  assumes "no_wildcard s"
  shows "sql_like (s @ p) t \<longleftrightarrow> (\<exists>u v. t = u @ v \<and> to_ascii_lowercase u = to_ascii_lowercase s \<and> sql_like p v)"
  using assms
proof (induction s arbitrary: t)
  case Nil
  then show ?case by (simp add: to_ascii_lowercase_def)
next
  case (Cons c s)
  then have c: "c \<noteq> CHR ''%''" "c \<noteq> CHR ''_''" "no_wildcard s" by (auto simp: no_wildcard_def)
  show ?case
  proof (cases t)
    case Nil
    with c show ?thesis by (auto simp: to_ascii_lowercase_def)
  next
    case (Cons x t')
    have "(\<exists>u v. t = u @ v \<and> to_ascii_lowercase u = to_ascii_lowercase (c # s) \<and> sql_like p v) \<longleftrightarrow>
        ascii_lower x = ascii_lower c
        \<and> (\<exists>u v. t' = u @ v \<and> to_ascii_lowercase u = to_ascii_lowercase s \<and> sql_like p v)"
    proof
      assume "ascii_lower x = ascii_lower c
        \<and> (\<exists>u v. t' = u @ v \<and> to_ascii_lowercase u = to_ascii_lowercase s \<and> sql_like p v)"
      then obtain u v where "t = (x # u) @ v" "sql_like p v"
        "to_ascii_lowercase (x # u) = to_ascii_lowercase (c # s)"
        by (auto simp: Cons to_ascii_lowercase_def)
      then show "\<exists>u v. t = u @ v \<and> to_ascii_lowercase u = to_ascii_lowercase (c # s) \<and> sql_like p v"
        by blast
    qed (auto simp: Cons Cons_eq_append_conv to_ascii_lowercase_def)
    with Cons c Cons.IH [OF c(3), of t'] show ?thesis by auto
  qed
qed

lemma sql_like_contains:
  assumes "no_wildcard s"
  shows "sql_like (CHR ''%'' # s @ ''%'') t \<longleftrightarrow> sublist (to_ascii_lowercase s) (to_ascii_lowercase t)"
proof -
  have any: "sql_like ''%'' v" for v using sql_like_percent [of "[]" v] by (metis append_Nil2 sql_like.simps(1))
  have "sql_like (CHR ''%'' # s @ ''%'') t \<longleftrightarrow>
      (\<exists>a b. t = a @ b \<and> (\<exists>u v. b = u @ v \<and> to_ascii_lowercase u = to_ascii_lowercase s))"
    by (simp only: sql_like_percent [of "s @ ''%''"] sql_like_literal [OF assms] any simp_thms)
  also have "\<dots> \<longleftrightarrow> sublist (to_ascii_lowercase s) (to_ascii_lowercase t)"
  proof
    assume "\<exists>a b. t = a @ b \<and> (\<exists>u v. b = u @ v \<and> to_ascii_lowercase u = to_ascii_lowercase s)"
    then obtain a u v where "t = a @ u @ v" "to_ascii_lowercase u = to_ascii_lowercase s" by blast
    then show "sublist (to_ascii_lowercase s) (to_ascii_lowercase t)" by simp
  next
    assume "sublist (to_ascii_lowercase s) (to_ascii_lowercase t)"
    then obtain a v where "map ascii_lower t = a @ map ascii_lower s @ v"
      by (auto simp: sublist_def to_ascii_lowercase_def)
    then obtain a' u' v' where "t = a' @ u' @ v'" "map ascii_lower s = map ascii_lower u'"
      by (auto simp: map_eq_append_conv append_eq_map_conv)
    then show "\<exists>a b. t = a @ b \<and> (\<exists>u v. b = u @ v \<and> to_ascii_lowercase u = to_ascii_lowercase s)"
      unfolding to_ascii_lowercase_def by metis
  qed
  finally show ?thesis .
qed

text \<open>The reference store: the table's rows as a list.\<close>

definition list_store :: "Model list store_ops" where
  "list_store =
     \<lparr>st_count = (\<lambda>db conds. Some (length (matching sql_like conds db))),
      st_page = (\<lambda>db conds per_page p. Some (take per_page (drop (p * per_page)
        (rev (sort_key m_request_start_ts (matching sql_like conds db)))))),
      st_find = (\<lambda>db event_id. Some (List.find (\<lambda>row. m_event_id row = event_id) db)),
      st_rfc3339 = (\<lambda>t. Some (show_int t)), st_in_range = (\<lambda>_. True)\<rparr>"

interpretation list_store: event_store list_store "\<lambda>db. db" sql_like
proof
  show "set rs \<subseteq> set (matching sql_like conds db)"
    if "st_page list_store db conds per_page p = Some rs" for db conds per_page p rs
    using that by (auto simp: list_store_def dest!: in_set_takeD in_set_dropD)
  show "\<exists>sorted. mset sorted = mset (matching sql_like conds db) \<and> newest_first sorted
      \<and> rs = take per_page (drop (p * per_page) sorted)"
    if "st_page list_store db conds per_page p = Some rs" for db conds per_page p rs
  proof (intro exI conjI)
    let ?s = "rev (sort_key m_request_start_ts (matching sql_like conds db))"
    show "mset ?s = mset (matching sql_like conds db)" by simp
    show "newest_first ?s"
      using sorted_sort_key [of m_request_start_ts "matching sql_like conds db"]
      by (simp add: newest_first_def sorted_wrt_rev sorted_map)
    show "rs = take per_page (drop (p * per_page) ?s)" using that by (simp add: list_store_def)
  qed
qed (auto simp: sql_like_contains list_store_def find_Some_iff find_None_iff split: option.split)

section \<open>Properties\<close>

lemma list_events_Inr:
  assumes "list_events st now db f = Some (Inr p)"
  obtains since rows where
    "(case ef_since_hours f of None \<Rightarrow> since = None
      | Some h \<Rightarrow> \<exists>s. since = Some s \<and> since_text st now h = Some (Inr s))"
    "st_count st db (filter_conditions f since) = Some (lp_total p)"
    "st_page st db (filter_conditions f since) (unat (ef_per_page f)) (unat (ef_page f)) = Some rows"
    "lp_items p = map event_list_item rows"
  using assms
  by (auto simp: list_events_def Let_def bind_eq_Some_conv result_simps split: option.splits)

text \<open>
  The rows a query of the results page asks for, given the text of its time limit: an empty
  method, path or result text asks for nothing.
\<close>

definition asked_for :: "EventListFilterQuery \<Rightarrow> string option \<Rightarrow> Model \<Rightarrow> bool" where
  "asked_for q since row \<longleftrightarrow>
     (\<forall>v. eq_method q = Some v \<and> v \<noteq> [] \<longrightarrow> m_method row = to_ascii_uppercase v)
     \<and> (\<forall>v. eq_path_substring q = Some v \<and> v \<noteq> [] \<longrightarrow>
          sublist (to_ascii_lowercase v) (to_ascii_lowercase (m_path row)))
     \<and> (\<forall>v. eq_status_code q = Some v \<longrightarrow> m_status_code row = Some v)
     \<and> (\<forall>v. eq_proxy_result q = Some v \<and> v \<noteq> [] \<longrightarrow> m_proxy_result row = v)
     \<and> (\<forall>v. since = Some v \<longrightarrow> v \<le> m_request_start_ts row)"

context event_store
begin

lemma matching_asked_for:
  assumes "\<And>v. eq_path_substring q = Some v \<Longrightarrow> no_wildcard v"
  shows "matching like (filter_conditions (to_filter q) since) rs = filter (asked_for q since) rs"
  using assms unfolding matching_def filter_conditions_def asked_for_def to_filter_def
  by (intro filter_cong) (auto simp: like_contains opt_filter_def split: option.splits)

end

lemma to_filter_page: "unat (ef_page (to_filter q)) = (case eq_page q of None \<Rightarrow> 0 | Some k \<Rightarrow> unat k)"
  by (simp add: to_filter_def split: option.split)

lemma to_filter_per_page:
  "unat (ef_per_page (to_filter q)) =
     (case eq_per_page q of None \<Rightarrow> 50
      | Some k \<Rightarrow> if unat k < 1 then 1 else if 200 < unat k then 200 else unat k)"
  by (auto simp: to_filter_def min_def max_def word_le_nat_alt unat_eq_0 unat_gt_0 Suc_le_eq split: option.split)

lemma since_text_ok:
  "since_text st now h = Some (Inr s) \<Longrightarrow> st_rfc3339 st (now - sint h * 3600 * 1000000000) = Some s"
  by (auto simp: since_text_def Let_def result_simps split: if_splits)

lemma results_page_listed:
  assumes "results_page st now m query = Some (ResultsPage s q items count_all)"
  obtains db p where "active_database m = Inr db" "s = RuntimeManager_state m" "q = query"
    "list_events st now db (to_filter query) = Some (Inr p)" "items = lp_items p" "count_all = lp_total p"
proof -
  obtain db where db: "active_database m = Inr db"
    using assms by (cases "active_database m") (auto simp: results_page_def)
  then obtain r where "list_events st now db (to_filter query) = Some r"
    "(case r of Inr p \<Rightarrow> ResultsPage (RuntimeManager_state m) query (lp_items p) (lp_total p)
      | Inl err \<Rightarrow> ErrorPage INTERNAL_SERVER_ERROR ''Results failed'' err) = ResultsPage s q items count_all"
    using assms by (auto simp: results_page_def)
  with db that show ?thesis by (cases r) auto
qed

text \<open>
  Seven events, a manager that stores them, and a query for the second page of two; the time texts
  of this store are whole hours.
\<close>

definition hourly_store :: "Model list store_ops" where
  "hourly_store = list_store\<lparr>st_rfc3339 := (\<lambda>t. Some (show_int (t div 3600000000000)))\<rparr>"

lemma hourly_event_store: "event_store hourly_store (\<lambda>db. db) sql_like"
  using list_store.event_store_axioms by (simp add: event_store_def hourly_store_def)

definition listed_row :: "string \<Rightarrow> string \<Rightarrow> string \<Rightarrow> string \<Rightarrow> i32 \<Rightarrow> string \<Rightarrow> Model" where
  "listed_row ident start meth path status result = (sample_model ident)
     \<lparr>m_request_start_ts := start, m_method := meth, m_path := path, m_status_code := Some status,
      m_proxy_result := result\<rparr>"

definition listed_rows :: "Model list" where
  "listed_rows =
     [listed_row ''b'' ''5'' ''GET'' ''/a/y'' 200 ''success'',
      listed_row ''c'' ''3'' ''GET'' ''/a/z'' 200 ''success'',
      listed_row ''d'' ''6'' ''POST'' ''/a/y'' 200 ''success'',
      listed_row ''a'' ''7'' ''GET'' ''/x/A'' 200 ''success'',
      listed_row ''e'' ''6'' ''GET'' ''/a/y'' 200 ''upstream_error'',
      listed_row ''f'' ''6'' ''GET'' ''/a'' 404 ''success'',
      listed_row ''g'' ''9'' ''GET'' ''/a'' 200 ''success'']"

definition listing_manager :: "(string, string, WriterMessage list \<times> nat \<times> bool, Model list) manager" where
  "listing_manager = test_manager\<lparr>mg_active :=
     Some ((test_active test_config)\<lparr>ar_writer := initial_writer ([], 0, False) listed_rows\<rparr>)\<rparr>"

definition second_page :: EventListFilterQuery where
  "second_page =
     \<lparr>eq_method = Some ''get'', eq_path_substring = Some ''/A'', eq_status_code = Some 200,
      eq_proxy_result = Some ''success'', eq_since_hours = Some 1, eq_page = Some 1, eq_per_page = Some 2\<rparr>"

lemma second_page_listed:
  "list_events hourly_store 18000000000000 listed_rows (to_filter second_page) =
     Some (Inr \<lparr>lp_items = [event_list_item (hd listed_rows)], lp_total = 3\<rparr>)"
  by code_simp

text \<open>C24: the results page counts all events the query asks for and lists its page of them.  Asked for
  are the events with the method in upper case, a path that contains the text in either case, the
  status, the result, and a start text not before the RFC 3339 text of the present less the given
  hours, each if given and not empty.  The list is exactly the requested slice, from page times
  size on, of these events with the latest start text first; the page is 0 if not given, the size
  50 if not given, at least 1 and at most 200.  Excepted are a path text with a percent sign or
  underscore and an offset of \<open>2 ^ 63\<close> or more.\<close>

theorem results_list_filtered:
  assumes "event_store st rows like"
    and "results_page st now m query = Some (ResultsPage s q items count_all)"
    and "\<forall>v. eq_path_substring query = Some v \<longrightarrow> no_wildcard v"
    and "p = (case eq_page query of None \<Rightarrow> 0 | Some k \<Rightarrow> unat k)"
    and "n = (case eq_per_page query of None \<Rightarrow> 50
      | Some k \<Rightarrow> if unat k < 1 then 1 else if 200 < unat k then 200 else unat k)"
    and "p * n < 2 ^ 63"
  shows "\<exists>db since sorted. active_database m = Inr db \<and> s = RuntimeManager_state m \<and> q = query
    \<and> (case eq_since_hours query of None \<Rightarrow> since = None
       | Some h \<Rightarrow> since = st_rfc3339 st (now - sint h * 3600 * 1000000000) \<and> since \<noteq> None)
    \<and> mset sorted = mset (filter (asked_for query since) (rows db)) \<and> newest_first sorted
    \<and> count_all = length sorted
    \<and> items = map (\<lambda>row.
        \<lparr>li_event_id = m_event_id row, li_request_start_ts = m_request_start_ts row,
         li_method = m_method row, li_path = m_path row,
         li_status_code = (case m_status_code row of None \<Rightarrow> ''n/a'' | Some c \<Rightarrow> show_int (sint c)),
         li_duration_ms = m_duration_ms row, li_backend_host = m_backend_host row,
         li_proxy_result = m_proxy_result row\<rparr>) (take n (drop (p * n) sorted))"
proof -
  obtain db pg where db: "active_database m = Inr db" "s = RuntimeManager_state m" "q = query"
    and l: "list_events st now db (to_filter query) = Some (Inr pg)"
    and t: "items = lp_items pg" "count_all = lp_total pg"
    using assms(2) by (rule results_page_listed)
  obtain since rs where since: "case ef_since_hours (to_filter query) of None \<Rightarrow> since = None
      | Some h \<Rightarrow> \<exists>s. since = Some s \<and> since_text st now h = Some (Inr s)"
    and c: "st_count st db (filter_conditions (to_filter query) since) = Some (lp_total pg)"
    and rs: "st_page st db (filter_conditions (to_filter query) since)
      (unat (ef_per_page (to_filter query))) (unat (ef_page (to_filter query))) = Some rs"
    and items: "lp_items pg = map event_list_item rs"
    using l by (rule list_events_Inr)
  have m: "matching like (filter_conditions (to_filter query) since) r = filter (asked_for query since) r" for r
    using event_store.matching_asked_for [OF assms(1)] assms(3) by blast
  have pp: "unat (ef_page (to_filter query)) = p" "unat (ef_per_page (to_filter query)) = n"
    unfolding to_filter_page to_filter_per_page assms(4,5) by (rule refl)+
  obtain sorted where sorted: "mset sorted = mset (filter (asked_for query since) (rows db))"
      "newest_first sorted" "rs = take n (drop (p * n) sorted)"
    using event_store.page [OF assms(1) rs] assms(6) unfolding pp m by blast
  have "count_all = length sorted"
    using event_store.count [OF assms(1) c] t(2) mset_eq_length [OF sorted(1)] unfolding m by simp
  moreover have "case eq_since_hours query of None \<Rightarrow> since = None
      | Some h \<Rightarrow> since = st_rfc3339 st (now - sint h * 3600 * 1000000000) \<and> since \<noteq> None"
    using since by (auto simp: to_filter_def dest: since_text_ok split: option.splits)
  moreover have "items = map event_list_item (take n (drop (p * n) sorted))"
    using t(1) items sorted(3) by simp
  moreover have "event_list_item = (\<lambda>row.
        \<lparr>li_event_id = m_event_id row, li_request_start_ts = m_request_start_ts row,
         li_method = m_method row, li_path = m_path row,
         li_status_code = (case m_status_code row of None \<Rightarrow> ''n/a'' | Some c \<Rightarrow> show_int (sint c)),
         li_duration_ms = m_duration_ms row, li_backend_host = m_backend_host row,
         li_proxy_result = m_proxy_result row\<rparr>)"
    by (auto simp: event_list_item_def status_text_def split: option.split)
  ultimately show ?thesis
    using db sorted(1,2) by (intro exI [of _ db] exI [of _ since] exI [of _ sorted]) simp
qed

theorem results_list_filtered_witness:
  "\<exists>s q items. results_page hourly_store 18000000000000 listing_manager second_page = Some (ResultsPage s q items 3)
     \<and> length items = 1 \<and> map li_event_id items = [''b'']
     \<and> length (filter (asked_for second_page (Some ''4'')) listed_rows) = 3"
proof -
  let ?items = "[event_list_item (hd listed_rows)]"
  have db: "active_database listing_manager = Inr listed_rows"
    by (simp add: active_database_def listing_manager_def initial_writer_def)
  have r: "results_page hourly_store 18000000000000 listing_manager second_page =
      Some (ResultsPage (RuntimeManager_state listing_manager) second_page ?items 3)"
    by (simp add: results_page_def db second_page_listed)
  have q: "\<forall>v. eq_path_substring second_page = Some v \<longrightarrow> no_wildcard v"
    "(1::nat) = (case eq_page second_page of None \<Rightarrow> 0 | Some k \<Rightarrow> unat k)"
    "(2::nat) = (case eq_per_page second_page of None \<Rightarrow> 50
      | Some k \<Rightarrow> if unat k < 1 then 1 else if 200 < unat k then 200 else unat k)"
    "(1::nat) * 2 < 2 ^ 63"
    by (simp_all add: second_page_def no_wildcard_def)
  have since: "st_rfc3339 hourly_store (18000000000000 - sint (1 :: i64) * 3600 * 1000000000) = Some ''4''"
    "eq_since_hours second_page = Some 1"
    by code_simp+
  have "\<exists>db since sorted. active_database listing_manager = Inr db
      \<and> (case eq_since_hours second_page of None \<Rightarrow> since = None
         | Some h \<Rightarrow> since = st_rfc3339 hourly_store (18000000000000 - sint h * 3600 * 1000000000) \<and> since \<noteq> None)
      \<and> mset sorted = mset (filter (asked_for second_page since) db) \<and> 3 = length sorted"
    using results_list_filtered [OF hourly_event_store r q] by (elim exE conjE) (intro exI conjI)
  then have "length (filter (asked_for second_page (Some ''4'')) listed_rows) = 3"
    unfolding db since option.case sum.inject by (elim exE conjE) (metis mset_eq_length)
  moreover have "li_event_id (event_list_item (hd listed_rows)) = ''b''" by code_simp
  ultimately show ?thesis
    using r by (intro exI [of _ "RuntimeManager_state listing_manager"] exI [of _ second_page] exI [of _ ?items]) simp
qed

text \<open>
  Timestamps are compared as text, and RFC 3339 text has as many fractional digits as needed: an
  event half a second later than a full second sorts before it.
\<close>

theorem later_start_sorts_before:
  "''2026-01-01T00:00:00.5Z'' < ''2026-01-01T00:00:00Z''"
  by code_simp

text \<open>What is shown of a body is the lossy text of the bytes that were stored.\<close>

lemma decode_preview_lossy:
  "base64_decode tx encoded = Some bytes \<Longrightarrow> decode_preview tx (Some encoded) = from_utf8_lossy bytes"
  by (simp add: decode_preview_def from_utf8_lossy_id)

end
