(* ===== verification/Html.thy ===== *)
theory Html
  imports Admin_Form
begin

text \<open>
  HTML documents as trees, and what a browser does with the forms in them: which controls a form
  has, what each submits, and the entry list for every submit button (HTML standard, sections
  4.10.5, 4.10.7 and 4.10.21).  The pages of the admin interface are values of this type.
\<close>

section \<open>Documents\<close>

datatype html = Doctype string | Text string | Element string "(string \<times> string) list" "html list"

text \<open>A boolean attribute is present or absent.\<close>

definition bool_attr :: "string \<Rightarrow> bool \<Rightarrow> (string \<times> string) list" where
  "bool_attr name b = (if b then [(name, [])] else [])"

text \<open>The texts of a document, in order.\<close>

fun html_texts :: "html \<Rightarrow> string list" where
  "html_texts (Doctype _) = []"
| "html_texts (Text s) = [s]"
| "html_texts (Element _ _ cs) = concat (map html_texts cs)"

text \<open>The values of an attribute, in order.\<close>

fun attr_values :: "string \<Rightarrow> html \<Rightarrow> string list" where
  "attr_values a (Element _ as cs) = map snd (filter (\<lambda>e. fst e = a) as) @ concat (map (attr_values a) cs)"
| "attr_values a _ = []"

section \<open>Documents that run nothing\<close>

text \<open>
  Only elements and attributes that neither run scripts nor load or embed other documents, and
  links and form targets on the same site only.
\<close>

definition inert_tags :: "string list" where
  "inert_tags =
     [''html'', ''head'', ''meta'', ''title'', ''link'', ''body'', ''div'', ''a'', ''nav'', ''main'', ''aside'',
      ''section'', ''article'', ''p'', ''h1'', ''h2'', ''h3'', ''dl'', ''dt'', ''dd'', ''ul'', ''li'', ''pre'', ''form'',
      ''button'', ''label'', ''span'', ''input'', ''select'', ''option'', ''table'', ''thead'', ''tbody'', ''tr'',
      ''th'', ''td'']"

definition inert_attrs :: "string list" where
  "inert_attrs =
     [''lang'', ''charset'', ''name'', ''content'', ''rel'', ''class'', ''method'', ''type'', ''value'', ''checked'',
      ''selected'']"

definition local_target :: "string \<Rightarrow> bool" where
  "local_target u \<longleftrightarrow> u \<noteq> [] \<and> hd u = CHR ''/'' \<and> (tl u = [] \<or> hd (tl u) \<notin> {CHR ''/'', CHR 0x5C})"

definition inert_attr :: "string \<times> string \<Rightarrow> bool" where
  "inert_attr e \<longleftrightarrow>
     fst e \<in> set inert_attrs \<or> fst e \<in> {''href'', ''action''} \<and> local_target (snd e)"

fun inert :: "html \<Rightarrow> bool" where
  "inert (Element tag as cs) \<longleftrightarrow>
     tag \<in> set inert_tags \<and> list_all inert_attr as \<and> list_all inert cs"
| "inert _ \<longleftrightarrow> True"

section \<open>Controls\<close>

text \<open>A control submits its name and value, or is a button, which submits them if it is pressed.\<close>

datatype control = Field string string | Submit "string option" string

text \<open>
  The value of an input is sanitised by its type: a text has no line breaks, a number that is not
  one becomes empty.
\<close>

fun drop_digits :: "string \<Rightarrow> string" where
  "drop_digits [] = []"
| "drop_digits (c # s) = (if digit_value c = None then c # s else drop_digits s)"

definition some_digits :: "string \<Rightarrow> string option" where
  "some_digits s = (let r = drop_digits s in if r = s then None else Some r)"

definition drop_fraction :: "string \<Rightarrow> string option" where
  "drop_fraction s = (case s of CHR ''.'' # r \<Rightarrow> some_digits r | _ \<Rightarrow> None)"

definition drop_exponent :: "string \<Rightarrow> string option" where
  "drop_exponent s =
     (case s of
        e # r \<Rightarrow>
          if e \<in> {CHR ''e'', CHR ''E''}
          then some_digits (case r of g # r' \<Rightarrow> if g \<in> {CHR ''-'', CHR ''+''} then r' else r | [] \<Rightarrow> r)
          else None
      | [] \<Rightarrow> None)"

definition valid_float :: "string \<Rightarrow> bool" where
  "valid_float s =
     (let s = (case s of CHR ''-'' # r \<Rightarrow> r | _ \<Rightarrow> s);
          r = (case some_digits s of
                 Some r \<Rightarrow> Some (unwrap_or r (drop_fraction r))
               | None \<Rightarrow> drop_fraction s) in
      case r of None \<Rightarrow> False | Some r \<Rightarrow> unwrap_or r (drop_exponent r) = [])"

definition input_control :: "(string \<rightharpoonup> string) \<Rightarrow> control list" where
  "input_control a =
     (case a ''name'' of
        None \<Rightarrow> []
      | Some name \<Rightarrow>
          let v = unwrap_or [] (a ''value''); t = unwrap_or ''text'' (a ''type'') in
          if t = ''checkbox'' then (if a ''checked'' = None then [] else [Field name v])
          else if t = ''hidden'' then [Field name v]
          else if t = ''number'' then [Field name (if valid_float v then v else [])]
          else [Field name (single_line v)])"

text \<open>A select submits the value of its last option marked as selected, or else of the first.\<close>

fun option_attrs :: "html \<Rightarrow> (string \<times> string) list list" where
  "option_attrs (Element tag as _) = (if tag = ''option'' then [as] else [])"
| "option_attrs _ = []"

definition select_control :: "(string \<rightharpoonup> string) \<Rightarrow> html list \<Rightarrow> control list" where
  "select_control a cs =
     (let options = concat (map option_attrs cs);
          marked = filter (\<lambda>as. map_of as ''selected'' \<noteq> None) options in
      case a ''name'' of
        None \<Rightarrow> []
      | Some name \<Rightarrow>
          if options = [] then []
          else [Field name (unwrap_or []
                 (map_of (if marked = [] then hd options else last marked) ''value''))])"

fun controls :: "html \<Rightarrow> control list" where
  "controls (Element tag as cs) =
     (if tag = ''input'' then input_control (map_of as)
      else if tag = ''button'' then [Submit (map_of as ''name'') (unwrap_or [] (map_of as ''value''))]
      else if tag = ''select'' then select_control (map_of as) cs
      else concat (map controls cs))"
| "controls _ = []"

section \<open>Submission\<close>

fun field_entries :: "control list \<Rightarrow> form" where
  "field_entries [] = []"
| "field_entries (Field n v # ks) = (n, v) # field_entries ks"
| "field_entries (Submit _ _ # ks) = field_entries ks"

fun button_entry :: "string option \<Rightarrow> string \<Rightarrow> form" where
  "button_entry None v = []"
| "button_entry (Some n) v = [(n, v)]"

text \<open>The entry lists of a form with these controls, one for each button that may be pressed.\<close>

fun entry_lists :: "control list \<Rightarrow> form list" where
  "entry_lists [] = []"
| "entry_lists (Field n v # ks) = map (\<lambda>f. (n, v) # f) (entry_lists ks)"
| "entry_lists (Submit n v # ks) = (button_entry n v @ field_entries ks) # entry_lists ks"

record submission =
  sb_method :: string
  sb_action :: string
  sb_form :: form

text \<open>Every way to submit a form of the document.\<close>

fun submissions :: "html \<Rightarrow> submission list" where
  "submissions (Element tag as cs) =
     (if tag = ''form''
      then map (\<lambda>f. \<lparr>sb_method = unwrap_or ''get'' (map_of as ''method''),
                     sb_action = unwrap_or [] (map_of as ''action''), sb_form = f\<rparr>)
             (entry_lists (concat (map controls cs)))
      else concat (map submissions cs))"
| "submissions _ = []"

section \<open>Lemmas\<close>

lemma inert_tags_simps [simp]:
  "''html'' \<in> set inert_tags" "''head'' \<in> set inert_tags"
  "''meta'' \<in> set inert_tags" "''title'' \<in> set inert_tags"
  "''link'' \<in> set inert_tags" "''body'' \<in> set inert_tags" "''div'' \<in> set inert_tags"
  "''a'' \<in> set inert_tags" "''nav'' \<in> set inert_tags" "''main'' \<in> set inert_tags"
  "''aside'' \<in> set inert_tags" "''section'' \<in> set inert_tags"
  "''article'' \<in> set inert_tags" "''p'' \<in> set inert_tags" "''h1'' \<in> set inert_tags"
  "''h2'' \<in> set inert_tags" "''h3'' \<in> set inert_tags" "''dl'' \<in> set inert_tags"
  "''dt'' \<in> set inert_tags" "''dd'' \<in> set inert_tags" "''ul'' \<in> set inert_tags"
  "''li'' \<in> set inert_tags" "''pre'' \<in> set inert_tags" "''form'' \<in> set inert_tags"
  "''button'' \<in> set inert_tags" "''label'' \<in> set inert_tags"
  "''span'' \<in> set inert_tags" "''input'' \<in> set inert_tags"
  "''select'' \<in> set inert_tags" "''option'' \<in> set inert_tags"
  "''table'' \<in> set inert_tags" "''thead'' \<in> set inert_tags"
  "''tbody'' \<in> set inert_tags" "''tr'' \<in> set inert_tags" "''th'' \<in> set inert_tags"
  "''td'' \<in> set inert_tags"
  by (simp_all add: inert_tags_def)

lemma inert_attrs_simps [simp]:
  "''lang'' \<in> set inert_attrs" "''charset'' \<in> set inert_attrs"
  "''name'' \<in> set inert_attrs" "''content'' \<in> set inert_attrs"
  "''rel'' \<in> set inert_attrs" "''class'' \<in> set inert_attrs"
  "''method'' \<in> set inert_attrs" "''type'' \<in> set inert_attrs"
  "''value'' \<in> set inert_attrs" "''checked'' \<in> set inert_attrs"
  "''selected'' \<in> set inert_attrs"
  by (simp_all add: inert_attrs_def)

lemma inert_attr_simps [simp]:
  "inert_attr (''href'', u) \<longleftrightarrow> local_target u" "inert_attr (''action'', u) \<longleftrightarrow> local_target u"
  "n \<in> set inert_attrs \<Longrightarrow> inert_attr (n, v)"
  by (auto simp: inert_attr_def inert_attrs_def)

lemma inert_bool_attr [simp]: "n \<in> set inert_attrs \<Longrightarrow> list_all inert_attr (bool_attr n b)"
  by (simp add: bool_attr_def)

lemma map_of_bool_attr [simp]: "map_of (bool_attr n b) a = (if b \<and> a = n then Some [] else None)"
  by (simp add: bool_attr_def)

lemma field_entries_append [simp]: "field_entries (xs @ ys) = field_entries xs @ field_entries ys"
  by (induction xs rule: field_entries.induct) simp_all

lemma field_entries_concat: "field_entries (concat kss) = concat (map field_entries kss)"
  by (induction kss) simp_all

lemma entry_lists_append:
  "entry_lists (xs @ ys) =
     map (\<lambda>f. f @ field_entries ys) (entry_lists xs) @ map (\<lambda>f. field_entries xs @ f) (entry_lists ys)"
  by (induction xs rule: entry_lists.induct) simp_all

text \<open>Controls without buttons: those that submit the entries of a form.\<close>

definition as_fields :: "form \<Rightarrow> control list" where
  "as_fields f = map (\<lambda>(n, v). Field n v) f"

lemma as_fields_simps [simp]:
  "as_fields [] = []" "as_fields (e # f) = Field (fst e) (snd e) # as_fields f"
  "as_fields (f @ g) = as_fields f @ as_fields g"
  by (simp_all add: as_fields_def split_def)

lemma field_entries_as_fields [simp]: "field_entries (as_fields f) = f"
  by (induction f) simp_all

lemma entry_lists_as_fields [simp]: "entry_lists (as_fields f) = []"
  by (induction f) simp_all

lemma drop_digits_all: "(\<And>c. c \<in> set s \<Longrightarrow> digit_value c \<noteq> None) \<Longrightarrow> drop_digits s = []"
  by (induction s) auto

lemma some_digits_all: "s \<noteq> [] \<Longrightarrow> (\<And>c. c \<in> set s \<Longrightarrow> digit_value c \<noteq> None) \<Longrightarrow> some_digits s = Some []"
  by (simp add: some_digits_def drop_digits_all)

lemma some_digits_show_nat: "some_digits (show_nat n) = Some []"
  using show_nat_digits [of _ n] by (intro some_digits_all) (auto simp: digit_value_None_iff)

lemma valid_float_show_nat [simp]: "valid_float (show_nat n)"
proof -
  have "hd (show_nat n) \<noteq> CHR ''-''"
    using show_nat_digits [of "hd (show_nat n)" n] by auto
  then have "(case show_nat n of CHR ''-'' # r \<Rightarrow> r | _ \<Rightarrow> show_nat n) = show_nat n"
    by (auto split: list.split char.split bool.split)
  then show ?thesis
    by (simp add: valid_float_def some_digits_show_nat drop_fraction_def drop_exponent_def)
qed

lemma valid_float_show_int [simp]: "valid_float (show_int i)"
proof (cases "i < 0")
  case True
  then show ?thesis
    by (simp add: show_int_def valid_float_def some_digits_show_nat drop_fraction_def drop_exponent_def)
qed (simp add: show_int_def)

end
