(* ===== verification/Admin_Pages.thy ===== *)
theory Admin_Pages
  imports Admin Html
begin

text \<open>
  The views of the admin interface (\<^verbatim>\<open>src/admin.rs\<close>): the HTML tree of every page, component by
  component.  The attributes \<^verbatim>\<open>class\<close>, which only style, are left out, except for the one that a notice
  chooses; text and attribute values are escaped when the tree is written, which is the work of
  the view library.  The forms of \<open>Admin_Form\<close> are what the pages submit, whichever of their
  buttons is pressed.
\<close>

section \<open>Components\<close>

definition submit_button :: "string \<Rightarrow> string \<Rightarrow> html" where
  "submit_button value' label =
     Element ''button'' [(''name'', ''editor_action''), (''type'', ''submit''), (''value'', value')] [Text label]"

definition hidden_input :: "string \<Rightarrow> string \<Rightarrow> html" where
  "hidden_input name value' = Element ''input'' [(''name'', name), (''type'', ''hidden''), (''value'', value')] []"

definition InputField_view :: "string \<Rightarrow> string \<Rightarrow> string \<Rightarrow> string \<Rightarrow> html" where
  "InputField_view label name value' field_type =
     Element ''label'' []
       [Element ''span'' [] [Text label],
        Element ''input'' [(''name'', name), (''type'', field_type), (''value'', value')] []]"

definition CheckboxField_view :: "string \<Rightarrow> string \<Rightarrow> bool \<Rightarrow> html" where
  "CheckboxField_view label name checked =
     Element ''label'' []
       [Element ''input''
          (bool_attr ''checked'' checked @ [(''name'', name), (''type'', ''checkbox''), (''value'', ''true'')]) [],
        Text label]"

definition SelectField_view :: "string \<Rightarrow> string \<Rightarrow> string \<Rightarrow> (string \<times> string) list \<Rightarrow> html" where
  "SelectField_view label name value' options =
     Element ''label'' []
       [Element ''span'' [] [Text label],
        Element ''select'' [(''name'', name)]
          (map (\<lambda>(option_value, option_label).
             Element ''option'' (bool_attr ''selected'' (option_value = value') @ [(''value'', option_value)])
               [Text option_label]) options)]"

definition SummaryRow :: "string \<Rightarrow> string \<Rightarrow> html" where
  "SummaryRow label value' =
     Element ''div'' [] [Element ''dt'' [] [Text label], Element ''dd'' [] [Text value']]"

definition MetricCard :: "string \<Rightarrow> string \<Rightarrow> html" where
  "MetricCard label value' =
     Element ''div'' [] [Element ''p'' [] [Text label], Element ''p'' [] [Text value']]"

definition TextBlock :: "string \<Rightarrow> string \<Rightarrow> html" where
  "TextBlock title body =
     Element ''section'' [] [Element ''h2'' [] [Text title], Element ''pre'' [] [Text body]]"

definition EditorFeedback :: "Notice option \<Rightarrow> string list \<Rightarrow> html list" where
  "EditorFeedback notice validation_errors =
     (case notice of
        None \<Rightarrow> []
      | Some item \<Rightarrow>
          [Element ''div'' [(''class'', ''rounded-3xl border p-5 text-sm '' @ notice_tone item)]
             [Text (notice_message item)]])
     @ (if validation_errors = [] then []
        else [Element ''div'' []
          [Element ''p'' [] [Text ''Validation errors''],
           Element ''ul'' [] (map (\<lambda>error. Element ''li'' [] [Text error]) validation_errors)]])"

definition AdminSidebar :: "RuntimeManagerState \<Rightarrow> string \<Rightarrow> html" where
  "AdminSidebar snapshot reload_path =
     (let active = ms_active_runtime snapshot in
      Element ''aside'' []
        [Element ''section'' []
           [Element ''p'' [] [Text ''Active runtime''],
            Element ''dl'' []
              [SummaryRow ''Listen'' (sm_listen_addr active),
               SummaryRow ''Frontend'' (sm_frontend_domain active),
               SummaryRow ''Backend'' (sm_backend_url active),
               SummaryRow ''SQLite'' (sm_sqlite_path active),
               SummaryRow ''Transforms'' (show_nat (sm_transform_count active)),
               SummaryRow ''Dropped events'' (show_nat (unat (sm_dropped_events active))),
               SummaryRow ''Write failures'' (show_nat (unat (sm_write_failures active)))]],
         Element ''section'' []
           ([Element ''p'' [] [Text ''Reload status''],
             Element ''p'' []
               [Text (if ms_pending_reload snapshot then ''Saved config differs from the running proxy.''
                      else ''Running proxy matches the saved config.'')],
             Element ''form'' [(''action'', reload_path), (''method'', ''post'')]
               [submit_button ''reload'' ''Reload proxy'']]
            @ (case ms_last_reload_error snapshot of
                 None \<Rightarrow> []
               | Some error \<Rightarrow> [Element ''p'' [] [Text error]]))])"

section \<open>Editor pages\<close>

definition RuntimeConfigPage_view ::
  "AppConfigFile \<Rightarrow> RuntimeManagerState \<Rightarrow> Notice option \<Rightarrow> string list \<Rightarrow> html list" where
  "RuntimeConfigPage_view draft snapshot notice validation_errors =
     (let runtime = ac_runtime draft in
      [Element ''main'' []
         [AdminSidebar snapshot ''/config'',
          Element ''section'' []
            (EditorFeedback notice validation_errors
             @ [Element ''form'' [(''action'', ''/config''), (''method'', ''post'')]
                 [Element ''section'' []
                    [Element ''div'' []
                       [Element ''h1'' [] [Text ''Proxy config''], submit_button ''save'' ''Save config''],
                     Element ''div'' []
                       [InputField_view ''Listen address'' ''listen_addr'' (rs_listen_addr runtime) ''text'',
                        InputField_view ''Frontend domain'' ''frontend_domain'' (rs_frontend_domain runtime) ''text'',
                        InputField_view ''Backend URL'' ''backend_url'' (rs_backend_url runtime) ''text'',
                        InputField_view ''SQLite path'' ''sqlite_path'' (from_utf8_lossy (rs_sqlite_path runtime)) ''text'',
                        InputField_view ''TLS cert path'' ''tls_cert_path'' (from_utf8_lossy (rs_tls_cert_path runtime)) ''text'',
                        InputField_view ''TLS key path'' ''tls_key_path'' (from_utf8_lossy (rs_tls_key_path runtime)) ''text'',
                        InputField_view ''CA bundle path'' ''ca_bundle_path'' (optional_path (rs_ca_bundle_path runtime)) ''text'',
                        InputField_view ''Upstream SNI override'' ''upstream_sni_override'' (unwrap_or [] (rs_upstream_sni_override runtime)) ''text'',
                        SelectField_view ''HTTP mode'' ''http_mode'' (http_mode_value (rs_http_mode runtime)) http_mode_options,
                        InputField_view ''Flush rows'' ''flush_rows'' (show_nat (unat (rs_flush_rows runtime))) ''number'',
                        InputField_view ''Flush interval ms'' ''flush_interval_ms'' (show_nat (unat (rs_flush_interval_ms runtime))) ''number'',
                        InputField_view ''Max inflight events'' ''max_inflight_events'' (show_nat (unat (rs_max_inflight_events runtime))) ''number'',
                        InputField_view ''Body max bytes'' ''body_max_bytes'' (show_nat (unat (rs_body_max_bytes runtime))) ''number'',
                        InputField_view ''Connect timeout ms'' ''connect_timeout_ms'' (show_nat (unat (rs_connect_timeout_ms runtime))) ''number'',
                        InputField_view ''Request timeout ms'' ''request_timeout_ms'' (show_nat (unat (rs_request_timeout_ms runtime))) ''number'',
                        InputField_view ''Idle pool timeout ms'' ''idle_pool_timeout_ms'' (show_nat (unat (rs_idle_pool_timeout_ms runtime))) ''number'',
                        InputField_view ''Graceful shutdown timeout ms'' ''graceful_shutdown_timeout_ms'' (show_nat (unat (rs_graceful_shutdown_timeout_ms runtime))) ''number'',
                        InputField_view ''Header allowlist'' ''header_allowlist'' (join '','' (rs_header_allowlist runtime)) ''text'',
                        InputField_view ''Header denylist'' ''header_denylist'' (join '','' (rs_header_denylist runtime)) ''text''],
                     Element ''div'' []
                       [CheckboxField_view ''Trust proxy headers'' ''trust_proxy_headers'' (rs_trust_proxy_headers runtime),
                        CheckboxField_view ''Emit TLS key log'' ''emit_keylog'' (rs_emit_keylog runtime)]]]])]])"

definition TransformEditor_view :: "nat \<Rightarrow> TransformRuleFile \<Rightarrow> html" where
  "TransformEditor_view index rule =
     (let matcher_type = matcher_type_value (file_matcher rule);
          matcher_pattern = matcher_pattern_value (file_matcher rule);
          target_type = target_type_value (file_target rule);
          target_name = target_name_value (file_target rule);
          (action_from, action_to) = action_values (file_action rule) in
      Element ''article'' []
        [Element ''div'' []
           [Element ''h3'' [] [Text (''Rule '' @ show_nat (index + 1))],
            Element ''div'' []
              [submit_button ''move_transform_up'' ''Up'', submit_button ''move_transform_down'' ''Down'',
               submit_button ''remove_transform'' ''Remove'', hidden_input ''editor_index'' (show_nat index)]],
         hidden_input (owned_name index ''present'') ''true'',
         Element ''div'' []
           [SelectField_view ''Matcher'' (owned_name index ''matcher_type'') matcher_type matcher_options,
            InputField_view ''Matcher pattern'' (owned_name index ''matcher_pattern'') matcher_pattern ''text'',
            InputField_view ''Replace from'' (owned_name index ''action_from'') action_from ''text'',
            InputField_view ''Replace to'' (owned_name index ''action_to'') action_to ''text'',
            SelectField_view ''Target'' (owned_name index ''target_type'') target_type target_options,
            InputField_view ''Target header name'' (owned_name index ''target_name'') target_name ''text''],
         Element ''div'' []
           [CheckboxField_view ''Stop after this rule triggers'' (owned_name index ''stop'') (file_stop rule)]])"

definition TransformsPage_view ::
  "AppConfigFile \<Rightarrow> RuntimeManagerState \<Rightarrow> Notice option \<Rightarrow> string list \<Rightarrow> html list" where
  "TransformsPage_view draft snapshot notice validation_errors =
     (let transforms = ac_transforms draft in
      [Element ''main'' []
         [AdminSidebar snapshot ''/transforms'',
          Element ''section'' []
            (EditorFeedback notice validation_errors
             @ [Element ''form'' [(''action'', ''/transforms''), (''method'', ''post'')]
                 [Element ''section'' []
                    [Element ''div'' []
                       [Element ''h1'' [] [Text ''Transforms''],
                        Element ''div'' []
                          [submit_button ''add_transform'' ''Add transform'', submit_button ''save'' ''Save config'']],
                     hidden_input ''transform_count'' (show_nat (length transforms)),
                     Element ''div'' []
                       (map (\<lambda>(index, rule). TransformEditor_view index rule) (enumerate 0 transforms)
                        @ (if transforms = [] then [Element ''p'' [] [Text ''No transforms configured yet.'']]
                           else []))]]])]])"

section \<open>Result pages\<close>

definition event_row_view :: "EventListItem \<Rightarrow> html" where
  "event_row_view item =
     Element ''tr'' []
       [Element ''td'' [] [Text (li_request_start_ts item)],
        Element ''td'' [] [Text (li_method item)],
        Element ''td'' [] [Element ''a'' [(''href'', ''/results/'' @ li_event_id item)] [Text (li_path item)]],
        Element ''td'' [] [Text (li_status_code item)],
        Element ''td'' [] [Text (show_int (sint (li_duration_ms item)) @ '' ms'')],
        Element ''td'' [] [Text (li_backend_host item)],
        Element ''td'' [] [Text (li_proxy_result item)]]"

definition ResultsPage_view ::
  "RuntimeManagerState \<Rightarrow> EventListFilterQuery \<Rightarrow> EventListItem list \<Rightarrow> nat \<Rightarrow> html list" where
  "ResultsPage_view snapshot query items total_rows =
     [Element ''main'' []
        [Element ''div'' []
           [Element ''div'' []
              [Element ''h1'' [] [Text ''Captured results''],
               Element ''p'' [] [Text (''Active SQLite database: '' @ sm_sqlite_path (ms_active_runtime snapshot))]]],
         Element ''form'' [(''method'', ''get'')]
           [InputField_view ''Method'' ''method'' (unwrap_or [] (eq_method query)) ''text'',
            InputField_view ''Path contains'' ''path_substring'' (unwrap_or [] (eq_path_substring query)) ''text'',
            InputField_view ''Status code'' ''status_code''
              (unwrap_or [] (map_option (\<lambda>v. show_int (sint v)) (eq_status_code query))) ''number'',
            SelectField_view ''Proxy result'' ''proxy_result'' (unwrap_or [] (eq_proxy_result query)) proxy_result_options,
            InputField_view ''Last n hours'' ''since_hours''
              (unwrap_or [] (map_option (\<lambda>v. show_int (sint v)) (eq_since_hours query))) ''number'',
            hidden_input ''page'' ''0'',
            Element ''div'' [] [Element ''button'' [(''type'', ''submit'')] [Text ''Filter'']]],
         Element ''section'' []
           [Element ''div'' []
              [Element ''h2'' [] [Text ''Recent events''],
               Element ''p'' [] [Text (show_nat total_rows @ '' matching rows'')]],
            Element ''div'' []
              [Element ''table'' []
                 [Element ''thead'' []
                    [Element ''tr'' []
                       (map (\<lambda>h. Element ''th'' [] [Text h])
                          [''Started'', ''Method'', ''Path'', ''Status'', ''Duration'', ''Backend'', ''Result''])],
                  Element ''tbody'' [] (map event_row_view items)]]]]]"

definition ResultDetailPage_view :: "RuntimeManagerState \<Rightarrow> EventDetail \<Rightarrow> html list" where
  "ResultDetailPage_view snapshot detail =
     [Element ''main'' []
        [Element ''div'' []
           [Element ''div'' []
              [Element ''p'' [] [Text ''Active SQLite''],
               Element ''p'' [] [Text (sm_sqlite_path (ms_active_runtime snapshot))],
               Element ''h1'' [] [Text (ed_method detail @ '' '' @ ed_path detail)]],
            Element ''a'' [(''href'', ''/results'')] [Text ''Back to results'']],
         Element ''section'' []
           [MetricCard ''Started'' (ed_request_start_ts detail),
            MetricCard ''Status'' (ed_status_code detail),
            MetricCard ''Proxy result'' (ed_proxy_result detail),
            MetricCard ''Duration'' (show_int (sint (ed_duration_ms detail)) @ '' ms''),
            MetricCard ''Backend'' (ed_backend_host detail),
            MetricCard ''Frontend SNI'' (unwrap_or ''n/a'' (ed_frontend_tls_sni detail))],
         Element ''section'' []
           [TextBlock ''Request headers'' (ed_request_headers_json detail),
            TextBlock ''Response headers'' (unwrap_or ''{}'' (ed_response_headers_json detail)),
            TextBlock ''Request body preview'' (ed_request_body_preview detail),
            TextBlock ''Response body preview'' (ed_response_body_preview detail),
            TextBlock ''Request cookies'' (unwrap_or ''{}'' (ed_request_cookies_json detail)),
            TextBlock ''Response set-cookie'' (unwrap_or ''{}'' (ed_response_set_cookie_json detail))]]]"

section \<open>Documents\<close>

text \<open>The name of the program in the page, with a goat in UTF-8.\<close>

definition admin_name :: string where
  "admin_name = ''kid'' @ [CHR 0xF0, CHR 0x9F, CHR 0x90, CHR 0x90] @ ''proxy admin''"

definition Document :: "string \<Rightarrow> html list \<Rightarrow> html list" where
  "Document title children =
     [Doctype ''html'',
      Element ''html'' [(''lang'', ''en'')]
        [Element ''head'' []
           [Element ''meta'' [(''charset'', ''utf-8'')] [],
            Element ''meta'' [(''name'', ''viewport''), (''content'', ''width=device-width, initial-scale=1'')] [],
            Element ''title'' [] [Text (admin_name @ '' | '' @ title)],
            Element ''link'' [(''rel'', ''stylesheet''), (''href'', ''/static/admin.css'')] []],
         Element ''body'' []
           ([Element ''div'' []
               [Element ''div'' []
                  [Element ''div'' [] [Element ''a'' [(''href'', ''/results'')] [Text admin_name]],
                   Element ''nav'' []
                     [Element ''a'' [(''href'', ''/results'')] [Text ''Results''],
                      Element ''a'' [(''href'', ''/config'')] [Text ''Config''],
                      Element ''a'' [(''href'', ''/transforms'')] [Text ''Transforms'']]]]]
            @ children)]]"

text \<open>A response: its status, where it redirects to, and its document.\<close>

record admin_response =
  resp_status :: u16
  resp_location :: "string option"
  resp_document :: "html list"

definition render_page :: "string \<Rightarrow> html list \<Rightarrow> admin_response" where
  "render_page title body = \<lparr>resp_status = 200, resp_location = None, resp_document = Document title body\<rparr>"

definition render_error_page :: "u16 \<Rightarrow> string \<Rightarrow> string \<Rightarrow> admin_response" where
  "render_error_page status title detail =
     \<lparr>resp_status = status, resp_location = None,
      resp_document =
        Document title
          [Element ''main'' [] [Element ''h1'' [] [Text title], Element ''p'' [] [Text detail]]]\<rparr>"

definition render_runtime_config ::
  "AppConfigFile \<Rightarrow> RuntimeManagerState \<Rightarrow> Notice option \<Rightarrow> string list \<Rightarrow> admin_response" where
  "render_runtime_config draft snapshot notice validation_errors =
     render_page ''Config'' (RuntimeConfigPage_view draft snapshot notice validation_errors)"

definition render_transforms ::
  "AppConfigFile \<Rightarrow> RuntimeManagerState \<Rightarrow> Notice option \<Rightarrow> string list \<Rightarrow> admin_response" where
  "render_transforms draft snapshot notice validation_errors =
     render_page ''Transforms'' (TransformsPage_view draft snapshot notice validation_errors)"

text \<open>The response for the page a handler answers with; a redirect is a \<^verbatim>\<open>303 See Other\<close>.\<close>

fun page_response :: "page \<Rightarrow> admin_response" where
  "page_response (ConfigPage draft snapshot notice errors) = render_runtime_config draft snapshot notice errors"
| "page_response (RulesPage draft snapshot notice errors) = render_transforms draft snapshot notice errors"
| "page_response (ResultsPage snapshot query items total_rows) =
     render_page ''Results'' (ResultsPage_view snapshot query items total_rows)"
| "page_response (ResultDetailPage snapshot detail) =
     render_page ''Event Detail'' (ResultDetailPage_view snapshot detail)"
| "page_response (ErrorPage status title detail) = render_error_page status title detail"
| "page_response (RedirectTo path) = \<lparr>resp_status = 303, resp_location = Some path, resp_document = []\<rparr>"

section \<open>The controls of the components\<close>

lemma controls_submit_button [simp]: "controls (submit_button v l) = [Submit (Some ''editor_action'') v]"
  by (simp add: submit_button_def)

lemma controls_hidden_input [simp]: "controls (hidden_input n v) = as_fields [(n, v)]"
  by (simp add: hidden_input_def input_control_def Let_def)

lemma controls_text_field [simp]: "controls (InputField_view l n v ''text'') = as_fields (InputField n v)"
  by (simp add: InputField_view_def InputField_def input_control_def Let_def)

lemma controls_number_field:
  "valid_float v \<or> v = [] \<Longrightarrow> controls (InputField_view l n v ''number'') = as_fields [(n, v)]"
  by (auto simp: InputField_view_def InputField_def input_control_def Let_def)

lemma controls_number_nat [simp]:
  "controls (InputField_view l n (show_nat k) ''number'') = as_fields (InputField n (show_nat k))"
  by (simp add: controls_number_field InputField_def)

lemma controls_checkbox [simp]: "controls (CheckboxField_view l n b) = as_fields (CheckboxField n b)"
  by (simp add: CheckboxField_view_def CheckboxField_def input_control_def bool_attr_def Let_def)

lemma controls_select [simp]:
  assumes "options \<noteq> []"
  shows "controls (SelectField_view l n v options) = as_fields (SelectField n v options)"
proof -
  define attrs where "attrs = map (\<lambda>(o', _ :: string). bool_attr ''selected'' (o' = v) @ [(''value'', o')]) options"
  have view: "concat (map option_attrs (map (\<lambda>(o', l). Element ''option''
      (bool_attr ''selected'' (o' = v) @ [(''value'', o')]) [Text l]) options)) = attrs"
    unfolding attrs_def by (induction options) auto
  have sel: "map_of (bool_attr ''selected'' b @ [(''value'', o')]) ''selected'' \<noteq> None \<longleftrightarrow> b"
    and val: "map_of (bool_attr ''selected'' b @ [(''value'', o')]) ''value'' = Some o'" for b o'
    by (simp_all add: bool_attr_def)
  let ?marked = "filter (\<lambda>as. map_of as ''selected'' \<noteq> None) attrs"
  have "?marked = map (\<lambda>(o', _). bool_attr ''selected'' (o' = v) @ [(''value'', o')])
      (filter (\<lambda>e. fst e = v) options)"
    unfolding attrs_def filter_map comp_def split_def sel ..
  moreover have "filter (\<lambda>e. fst e = v) options = [] \<longleftrightarrow> v \<notin> set (map fst options)"
    by (auto simp: filter_empty_conv)
  moreover have "fst (last (filter (\<lambda>e. fst e = v) options)) = v" if "filter (\<lambda>e. fst e = v) options \<noteq> []"
    using last_in_set [OF that] by simp
  moreover have "map_of (hd attrs) ''value'' = Some (fst (hd options))"
    using assms unfolding attrs_def split_def by (simp only: hd_map [OF assms] val)
  ultimately have "unwrap_or [] (map_of (if ?marked = [] then hd attrs else last ?marked) ''value'')
      = (if v \<in> set (map fst options) then v else fst (hd options))"
    by (auto simp: last_map split_def val simp del: map_of_append)
  moreover have "attrs \<noteq> []" using assms by (simp add: attrs_def)
  ultimately have "select_control (map_of [(''name'', n)]) (map (\<lambda>(o', l). Element ''option''
      (bool_attr ''selected'' (o' = v) @ [(''value'', o')]) [Text l]) options)
      = as_fields (SelectField n v options)"
    unfolding select_control_def Let_def view SelectField_def by (simp del: not_None_eq)
  then show ?thesis by (simp add: SelectField_view_def)
qed

lemma options_not_Nil [simp]:
  "http_mode_options \<noteq> []" "matcher_options \<noteq> []" "target_options \<noteq> []" "proxy_result_options \<noteq> []"
  by (simp_all add: http_mode_options_def matcher_options_def target_options_def proxy_result_options_def)

section \<open>What the pages submit\<close>

lemma no_submissions [simp]:
  "submissions (SummaryRow l v) = []" "submissions (submit_button v l) = []"
  "concat (map submissions (EditorFeedback n es)) = []"
  by (auto simp: SummaryRow_def submit_button_def EditorFeedback_def split: option.split)

definition page_submissions :: "admin_response \<Rightarrow> submission list" where
  "page_submissions r = concat (map submissions (resp_document r))"

definition reload_submission :: "string \<Rightarrow> submission" where
  "reload_submission path =
     \<lparr>sb_method = ''post'', sb_action = path, sb_form = [(''editor_action'', ''reload'')]\<rparr>"

lemma submissions_sidebar: "submissions (AdminSidebar s path) = [reload_submission path]"
  by (cases "ms_last_reload_error s") (simp_all add: AdminSidebar_def reload_submission_def Let_def)

lemma submissions_document:
  "concat (map submissions (Document title body)) = concat (map submissions body)"
  by (simp add: Document_def)

lemma submissions_config:
  "page_submissions (render_runtime_config draft s n es) =
     [reload_submission ''/config'',
      \<lparr>sb_method = ''post'', sb_action = ''/config'', sb_form = RuntimeConfigPage (ac_runtime draft)\<rparr>]"
  by (simp add: page_submissions_def render_runtime_config_def render_page_def submissions_document RuntimeConfigPage_view_def
      submissions_sidebar RuntimeConfigPage_def Let_def entry_lists_append)

text \<open>Each button of a rule's editor submits the fields of all rules.\<close>

abbreviation "rule_actions \<equiv> {''move_transform_up'', ''move_transform_down'', ''remove_transform''}"

lemma controls_TransformEditor:
  "controls (TransformEditor_view i r) =
     map (Submit (Some ''editor_action'')) [''move_transform_up'', ''move_transform_down'', ''remove_transform'']
     @ as_fields (TransformEditor (PageButton a) i r)"
  by (simp add: TransformEditor_view_def TransformEditor_def Let_def split_def)

lemma TransformEditor_other:
  "i \<noteq> j \<Longrightarrow> TransformEditor (RuleButton i a) j r = TransformEditor (PageButton b) j r"
  by (simp add: TransformEditor_def)

lemma TransformEditor_pressed:
  "TransformEditor (RuleButton i a) i r = (''editor_action'', a) # TransformEditor (PageButton b) i r"
  by (simp add: TransformEditor_def)

lemma entry_lists_TransformEditor:
  assumes "f \<in> set (entry_lists (controls (TransformEditor_view i r)))"
  obtains a where "a \<in> rule_actions" "f = TransformEditor (RuleButton i a) i r"
proof -
  from assms have "f \<in> (\<lambda>a. (''editor_action'', a) # TransformEditor (PageButton []) i r) ` rule_actions"
    by (simp add: controls_TransformEditor [where a = "[]"])
  then obtain a where "a \<in> rule_actions" "f = (''editor_action'', a) # TransformEditor (PageButton []) i r" ..
  then show thesis using that by (simp only: TransformEditor_pressed [where b = "[]"])
qed

lemma entry_lists_editors:
  assumes "f \<in> set (entry_lists (concat (map (\<lambda>(i, r). controls (TransformEditor_view i r)) (enumerate n rules))))"
  shows "\<exists>i a. n \<le> i \<and> i < n + length rules \<and> a \<in> rule_actions
    \<and> f = concat (map (\<lambda>(j, r). TransformEditor (RuleButton i a) j r) (enumerate n rules))"
  using assms
proof (induction rules arbitrary: n f)
  case (Cons r rules)
  let ?rest = "concat (map (\<lambda>(i, r). controls (TransformEditor_view i r)) (enumerate (Suc n) rules))"
  have rest: "field_entries ?rest =
      concat (map (\<lambda>(j, r). TransformEditor (RuleButton n a) j r) (enumerate (Suc n) rules))" for a
  proof -
    have "TransformEditor (RuleButton n a) j r = field_entries (controls (TransformEditor_view j r))"
      if "(j, r) \<in> set (enumerate (Suc n) rules)" for j r
      using that TransformEditor_other [of n j a r "[]"]
      by (auto simp: controls_TransformEditor [where a = "[]"] in_set_enumerate_eq)
    then show ?thesis
      unfolding field_entries_concat map_map by (intro arg_cong [where f = concat] map_cong) auto
  qed
  from Cons.prems consider
      g where "g \<in> set (entry_lists (controls (TransformEditor_view n r)))" "f = g @ field_entries ?rest"
    | g where "g \<in> set (entry_lists ?rest)" "f = field_entries (controls (TransformEditor_view n r)) @ g"
    by (auto simp: entry_lists_append)
  then show ?case
  proof cases
    case 1
    from entry_lists_TransformEditor [OF 1(1)] obtain a where
      "a \<in> rule_actions" "g = TransformEditor (RuleButton n a) n r" .
    with 1(2) rest [of a] show ?thesis by (intro exI [of _ n] exI [of _ a]) simp
  next
    case 2
    from Cons.IH [OF 2(1)] obtain i a where i: "Suc n \<le> i" "i < Suc n + length rules" "a \<in> rule_actions"
      "g = concat (map (\<lambda>(j, r). TransformEditor (RuleButton i a) j r) (enumerate (Suc n) rules))" by blast
    with 2(2) TransformEditor_other [of i n a r "[]"] show ?thesis
      by (intro exI [of _ i] exI [of _ a]) (simp add: controls_TransformEditor [where a = "[]"])
  qed
qed simp

definition transforms_controls :: "TransformRuleFile list \<Rightarrow> control list" where
  "transforms_controls rules =
     map (Submit (Some ''editor_action'')) [''add_transform'', ''save'']
     @ as_fields [(''transform_count'', show_nat (length rules))]
     @ concat (map (\<lambda>(i, r). controls (TransformEditor_view i r)) (enumerate 0 rules))"

lemma submissions_transforms_eq:
  "page_submissions (render_transforms draft s n es) =
     reload_submission ''/transforms'' #
     map (\<lambda>f. \<lparr>sb_method = ''post'', sb_action = ''/transforms'', sb_form = f\<rparr>)
       (entry_lists (transforms_controls (ac_transforms draft)))"
  by (simp add: transforms_controls_def render_transforms_def render_page_def page_submissions_def
      submissions_document TransformsPage_view_def submissions_sidebar Let_def comp_def split_def)

lemma field_entries_editors:
  "field_entries (concat (map (\<lambda>(i, r). controls (TransformEditor_view i r)) (enumerate n rules))) =
     concat (map (\<lambda>(j, r). TransformEditor (PageButton a) j r) (enumerate n rules))"
  unfolding field_entries_concat map_map
  by (intro arg_cong [where f = concat] map_cong) (auto simp: controls_TransformEditor [where a = a])

text \<open>The save button submits the rules the page shows.\<close>

lemma save_button_submits:
  "\<lparr>sb_method = ''post'', sb_action = ''/transforms'',
    sb_form = TransformsPage (PageButton ''save'') (ac_transforms draft)\<rparr>
     \<in> set (page_submissions (render_transforms draft s n es))"
  by (simp add: submissions_transforms_eq transforms_controls_def TransformsPage_def
      field_entries_editors [where a = "''save''"])

lemma submissions_transforms:
  assumes "sub \<in> set (page_submissions (render_transforms draft s n es))"
  shows "sub = reload_submission ''/transforms'' \<or>
    sb_method sub = ''post'' \<and> sb_action sub = ''/transforms''
    \<and> (\<exists>pressed. sb_form sub = TransformsPage pressed (ac_transforms draft)
         \<and> (case pressed of
              PageButton a \<Rightarrow> a \<in> {''add_transform'', ''save''}
            | RuleButton i a \<Rightarrow> i < length (ac_transforms draft) \<and> a \<in> rule_actions))"
proof -
  let ?rules = "ac_transforms draft"
  let ?editors = "concat (map (\<lambda>(i, r). controls (TransformEditor_view i r)) (enumerate 0 ?rules))"
  have "\<exists>pressed. f = TransformsPage pressed ?rules
         \<and> (case pressed of
              PageButton a \<Rightarrow> a \<in> {''add_transform'', ''save''}
            | RuleButton i a \<Rightarrow> i < length ?rules \<and> a \<in> rule_actions)"
    if "f \<in> set (entry_lists (transforms_controls ?rules))" for f
  proof -
    have page: "TransformsPage (PageButton a) ?rules =
        (''editor_action'', a) # (''transform_count'', show_nat (length ?rules)) # field_entries ?editors" for a
      by (simp add: TransformsPage_def field_entries_editors [where a = a])
    have "set (entry_lists (transforms_controls ?rules)) = (\<lambda>a. TransformsPage (PageButton a) ?rules) ` {''add_transform'', ''save''}
        \<union> (\<lambda>g. (''transform_count'', show_nat (length ?rules)) # g) ` set (entry_lists ?editors)"
      by (simp add: transforms_controls_def page image_comp)
    with that consider a where "a \<in> {''add_transform'', ''save''}" "f = TransformsPage (PageButton a) ?rules"
      | g where "g \<in> set (entry_lists ?editors)" "f = (''transform_count'', show_nat (length ?rules)) # g"
      by blast
    then show ?thesis
    proof cases
      case 1
      then show ?thesis by (intro exI [of _ "PageButton a"]) simp
    next
      case 2
      from entry_lists_editors [OF 2(1)] obtain i a where "i < length ?rules" "a \<in> rule_actions"
        "g = concat (map (\<lambda>(j, r). TransformEditor (RuleButton i a) j r) (enumerate 0 ?rules))" by auto
      with 2(2) show ?thesis by (intro exI [of _ "RuleButton i a"]) (simp add: TransformsPage_def)
    qed
  qed
  then show ?thesis using assms by (force simp: submissions_transforms_eq)
qed

section \<open>The filter form\<close>

text \<open>Filters whose texts the form can carry: on one line, with a result it offers.\<close>

definition plain_query :: "EventListFilterQuery \<Rightarrow> bool" where
  "plain_query q \<longleftrightarrow>
     plain_text (unwrap_or [] (eq_method q)) \<and> plain_text (unwrap_or [] (eq_path_substring q))
     \<and> unwrap_or [] (eq_proxy_result q) \<in> set (map fst proxy_result_options)"

definition filter_form :: "EventListFilterQuery \<Rightarrow> form" where
  "filter_form q =
     InputField ''method'' (unwrap_or [] (eq_method q))
     @ InputField ''path_substring'' (unwrap_or [] (eq_path_substring q))
     @ [(''status_code'', unwrap_or [] (map_option (\<lambda>v. show_int (sint v)) (eq_status_code q)))]
     @ SelectField ''proxy_result'' (unwrap_or [] (eq_proxy_result q)) proxy_result_options
     @ [(''since_hours'', unwrap_or [] (map_option (\<lambda>v. show_int (sint v)) (eq_since_hours q))), (''page'', ''0'')]"

lemma controls_optional_number [simp]:
  "controls (InputField_view l n (unwrap_or [] (map_option (\<lambda>v. show_int (f v)) o')) ''number'') =
     as_fields [(n, unwrap_or [] (map_option (\<lambda>v. show_int (f v)) o'))]"
  by (rule controls_number_field) (cases o'; simp)

lemma submissions_results:
  "page_submissions (page_response (ResultsPage s q items n)) =
     [\<lparr>sb_method = ''get'', sb_action = [], sb_form = filter_form q\<rparr>]"
proof -
  have "concat (map submissions (map event_row_view items)) = []"
    by (auto simp: event_row_view_def)
  then show ?thesis
    by (simp add: page_submissions_def render_page_def submissions_document ResultsPage_view_def filter_form_def entry_lists_append)
qed

lemma deserialize_shown:
  assumes "\<And>v. parse (show_int (f v)) = Some v"
  shows "deserialize_optional_number parse (Some (unwrap_or [] (map_option (\<lambda>v. show_int (f v)) o'))) = Some o'"
  using assms by (cases o') (simp_all add: deserialize_optional_number_def trim_show_int)

lemma parse_filter_form:
  assumes "plain_query q"
  shows "\<exists>q'. parse_query (filter_form q) = Some q'
    \<and> to_filter q' = (to_filter q)\<lparr>ef_page := 0, ef_per_page := 50\<rparr>"
proof -
  have zero: "deserialize_optional_number parse_u64 (Some ''0'') = Some (Some 0)" by code_simp
  have none: "deserialize_optional_number parse_u64 None = Some None"
    by (simp add: deserialize_optional_number_def)
  define q' where "q' = q\<lparr>eq_method := Some (unwrap_or [] (eq_method q)),
    eq_path_substring := Some (unwrap_or [] (eq_path_substring q)),
    eq_proxy_result := Some (unwrap_or [] (eq_proxy_result q)), eq_page := Some 0, eq_per_page := None\<rparr>"
  have "parse_query (filter_form q) = Some q'"
    using assms
    by (simp add: parse_query_def filter_form_def InputField_def SelectField_def query_fields_def Let_def
        deserialize_shown [where f = sint, OF parse_i32_show] deserialize_shown [where f = sint, OF parse_i64_show]
        zero none plain_query_def plain_text_def q'_def)
  moreover have "to_filter q' = (to_filter q)\<lparr>ef_page := 0, ef_per_page := 50\<rparr>"
    by (cases "eq_method q"; cases "eq_path_substring q"; cases "eq_proxy_result q")
      (simp_all add: to_filter_def q'_def)
  ultimately show ?thesis by blast
qed

section \<open>Documents that run nothing\<close>

lemma local_target_simps [simp]:
  "local_target ''/results''" "local_target ''/config''" "local_target ''/transforms''"
  "local_target ''/static/admin.css''" "local_target (''/results/'' @ i)"
  by (simp_all add: local_target_def)

lemma inert_components [simp]:
  "inert (submit_button v l)" "inert (hidden_input n v)" "inert (InputField_view l n v t)"
  "inert (CheckboxField_view l n b)" "inert (SelectField_view l n v os)" "inert (SummaryRow l v)"
  "inert (MetricCard l v)" "inert (TextBlock l v)" "inert (event_row_view item)"
  "list_all inert (EditorFeedback notice es)" "inert (TransformEditor_view i r)"
  by (auto simp: submit_button_def hidden_input_def InputField_view_def CheckboxField_view_def
      SelectField_view_def SummaryRow_def MetricCard_def TextBlock_def event_row_view_def
      EditorFeedback_def list_all_iff TransformEditor_view_def Let_def split_def bool_attr_def
      local_target_def split: option.split)

lemma inert_lists [simp]:
  "list_all inert (map (\<lambda>(i, r). TransformEditor_view i r) rules)" "list_all inert (map event_row_view items)"
  by (auto simp: list_all_iff)

lemma inert_sidebar: "local_target path \<Longrightarrow> inert (AdminSidebar s path)"
  by (simp add: AdminSidebar_def Let_def split: option.split)

lemma inert_document: "list_all inert (Document title body) \<longleftrightarrow> list_all inert body"
  by (simp add: Document_def)

section \<open>Properties\<close>

text \<open>C29: the config page can be submitted in two ways, both posted to the page itself: its reload
  button, which reloads, and its save button, which saves exactly the settings it shows, whatever
  the fallback, if no text has line breaks, paths and override are not blank, and the names in the
  header lists are not empty and have no commas or outer spaces.\<close>

theorem config_page_submits:
  assumes "plain_settings (ac_runtime draft)"
  shows "\<exists>reload save. page_submissions (page_response (ConfigPage draft s n es)) = [reload, save]
    \<and> list_all (\<lambda>sub. sb_method sub = ''post'' \<and> sb_action sub = ''/config'') [reload, save]
    \<and> editor_action (form_values (sb_form reload)) = Reload
    \<and> editor_action (form_values (sb_form save)) = Save
    \<and> runtime_from_form (form_values (sb_form save)) fallback = ac_runtime draft"
proof -
  have "form_values (RuntimeConfigPage (ac_runtime draft)) ''editor_action'' = Some ''save''"
    by (simp add: page_fields)
  then have "editor_action (form_values (RuntimeConfigPage (ac_runtime draft))) = Save"
    by (simp add: editor_action_def Let_def)
  then show ?thesis
    using config_form_round_trip [OF assms]
    by (simp add: submissions_config reload_submission_def reload_button)
qed

theorem config_page_submits_witness:
  "\<exists>reload save. page_submissions (page_response (ConfigPage test_config (mg_snapshot test_manager) None []))
       = [reload, save]
     \<and> runtime_from_form (form_values (sb_form save)) RuntimeSettingsFile_default = ac_runtime test_config"
proof -
  have "plain_settings (ac_runtime test_config)" by code_simp
  from config_page_submits [OF this] show ?thesis by blast
qed

text \<open>C14: whichever button of the transforms page is pressed, the form is posted to the page itself,
  and unless it reloads, the rules the page shows are read back unchanged, if their texts have no
  line breaks.  A button adds a rule, saves, or acts on the last rule: no button acts on another
  rule than the last, although every rule has its own buttons.\<close>

theorem transforms_page_submits:
  assumes "list_all single_line_rule (ac_transforms draft)" and "length (ac_transforms draft) < 2 ^ 64"
    and "sub \<in> set (page_submissions (page_response (RulesPage draft s n es)))"
  shows "sb_method sub = ''post'' \<and> sb_action sub = ''/transforms''
    \<and> (editor_action (form_values (sb_form sub)) = Reload
       \<or> transforms_from_form (form_values (sb_form sub)) fallback = ac_transforms draft
         \<and> (editor_action (form_values (sb_form sub)) \<in> {AddTransform, Save}
            \<or> ac_transforms draft \<noteq> []
              \<and> editor_action (form_values (sb_form sub)) \<in>
                  (\<lambda>act. act (of_nat (length (ac_transforms draft) - 1))) `
                    {MoveTransformUp, MoveTransformDown, RemoveTransform}))"
proof -
  let ?rules = "ac_transforms draft"
  have page: "editor_action (form_values (TransformsPage (PageButton a) ?rules)) \<in> {AddTransform, Save}"
    if "a \<in> {''add_transform'', ''save''}" for a
    using that by (auto simp: editor_action_def TransformsPage_action Let_def)
  have rule: "?rules \<noteq> [] \<and> editor_action (form_values (TransformsPage (RuleButton i a) ?rules)) \<in>
      (\<lambda>act. act (of_nat (length ?rules - 1))) ` {MoveTransformUp, MoveTransformDown, RemoveTransform}"
    if "i < length ?rules" "a \<in> rule_actions" for i a
    using rule_buttons_act_on_last [OF that(1) assms(2) that(2)] that(1) by auto
  from assms(3) have "sub \<in> set (page_submissions (render_transforms draft s n es))" by simp
  from submissions_transforms [OF this] show ?thesis
  proof (elim disjE conjE exE)
    assume "sub = reload_submission ''/transforms''"
    then show ?thesis by (simp add: reload_submission_def reload_button)
  next
    fix pressed assume sub: "sb_method sub = ''post''" "sb_action sub = ''/transforms''"
        "sb_form sub = TransformsPage pressed ?rules"
      and p: "case pressed of PageButton a \<Rightarrow> a \<in> {''add_transform'', ''save''}
            | RuleButton i a \<Rightarrow> i < length ?rules \<and> a \<in> rule_actions"
    note rules = transforms_from_page [OF assms(1,2), of pressed fallback]
    show ?thesis
    proof (cases pressed)
      case (PageButton a)
      with sub p rules page [of a] show ?thesis by simp
    next
      case (RuleButton i a)
      with sub p rules rule [of i a] show ?thesis by simp
    qed
  qed
qed

theorem transforms_page_submits_witness:
  "\<exists>subs. subs = page_submissions (page_response (RulesPage
       (test_config\<lparr>ac_transforms := [blank_transform, blank_transform\<lparr>file_stop := True\<rparr>]\<rparr>)
       (mg_snapshot test_manager) None []))
     \<and> length subs = 9
     \<and> list_all (\<lambda>sub. editor_action (form_values (sb_form sub)) = Reload
          \<or> transforms_from_form (form_values (sb_form sub)) []
            = [blank_transform, blank_transform\<lparr>file_stop := True\<rparr>]) subs"
proof -
  let ?draft = "test_config\<lparr>ac_transforms := [blank_transform, blank_transform\<lparr>file_stop := True\<rparr>]\<rparr>"
  let ?subs = "page_submissions (page_response (RulesPage ?draft (mg_snapshot test_manager) None []))"
  have "list_all single_line_rule (ac_transforms ?draft)" "length (ac_transforms ?draft) < 2 ^ 64"
    by (simp_all add: single_line_rule_def single_line_def blank_transform_def)
  note transforms_page_submits [OF this, of _ "mg_snapshot test_manager" None "[]" "[]"]
  then have "list_all (\<lambda>sub. editor_action (form_values (sb_form sub)) = Reload
      \<or> transforms_from_form (form_values (sb_form sub)) [] = ac_transforms ?draft) ?subs"
    by (auto simp only: list_all_iff)
  moreover have "length ?subs = 9"
    by (simp add: submissions_transforms_eq transforms_controls_def entry_lists_append
        controls_TransformEditor [where a = "[]"])
  ultimately show ?thesis by simp
qed

text \<open>C30: the results page has one form, which submits the filter it shows with the page number zero
  and the default page size, if the filter's texts have no line breaks and the result is one it
  offers.  Its links are those of the menu and one to each listed event, in order; so no further
  page of the list can be reached from it.\<close>

theorem results_page_keeps_filter:
  assumes "plain_query q"
  shows "\<exists>f q'. page_submissions (page_response (ResultsPage s q items n))
        = [\<lparr>sb_method = ''get'', sb_action = [], sb_form = f\<rparr>]
    \<and> parse_query f = Some q' \<and> to_filter q' = (to_filter q)\<lparr>ef_page := 0, ef_per_page := 50\<rparr>
    \<and> concat (map (attr_values ''href'') (resp_document (page_response (ResultsPage s q items n))))
        = [''/static/admin.css'', ''/results'', ''/results'', ''/config'', ''/transforms'']
          @ map (\<lambda>item. ''/results/'' @ li_event_id item) items"
proof -
  have "attr_values ''href'' (event_row_view item) = [''/results/'' @ li_event_id item]" for item
    by (simp add: event_row_view_def)
  then have rows: "concat (map (attr_values ''href'' \<circ> event_row_view) items) =
      map (\<lambda>item. ''/results/'' @ li_event_id item) items"
    by (induction items) simp_all
  have none: "attr_values ''href'' (InputField_view l m v t) = []" "attr_values ''href'' (hidden_input m v) = []"
    "attr_values ''href'' (SelectField_view l m v os) = []" for l m v t os
    by (auto simp: InputField_view_def hidden_input_def SelectField_view_def bool_attr_def)
  have "concat (map (attr_values ''href'') (resp_document (page_response (ResultsPage s q items n))))
        = [''/static/admin.css'', ''/results'', ''/results'', ''/config'', ''/transforms'']
          @ map (\<lambda>item. ''/results/'' @ li_event_id item) items"
    by (simp add: render_page_def Document_def ResultsPage_view_def none rows)
  with parse_filter_form [OF assms] submissions_results [of s q items n] show ?thesis by blast
qed

theorem results_page_keeps_filter_witness:
  "\<exists>f q'. page_submissions (page_response (ResultsPage (mg_snapshot test_manager)
       \<lparr>eq_method = Some ''get'', eq_path_substring = None, eq_status_code = Some 404,
        eq_proxy_result = Some ''success'', eq_since_hours = None, eq_page = Some 3, eq_per_page = Some 10\<rparr> [] 0))
       = [\<lparr>sb_method = ''get'', sb_action = [], sb_form = f\<rparr>]
     \<and> parse_query f = Some q' \<and> ef_status_code (to_filter q') = Some 404 \<and> ef_page (to_filter q') = 0"
proof -
  let ?q = "\<lparr>eq_method = Some ''get'', eq_path_substring = None, eq_status_code = Some 404,
        eq_proxy_result = Some ''success'', eq_since_hours = None, eq_page = Some 3, eq_per_page = Some 10\<rparr>"
  have "plain_query ?q" by code_simp
  from results_page_keeps_filter [OF this, of "mg_snapshot test_manager" "[]" 0] show ?thesis
    by (auto simp: to_filter_def)
qed

text \<open>C20: whatever was recorded, configured or went wrong, no page contains an element or attribute
  that runs a script or embeds another document, and its links and forms lead to the admin
  interface only.\<close>

theorem pages_run_nothing: "list_all inert (resp_document (page_response p))"
proof (cases p)
  case (ConfigPage draft s n es)
  then show ?thesis
    by (simp add: render_runtime_config_def render_page_def inert_document RuntimeConfigPage_view_def
        inert_sidebar Let_def)
next
  case (RulesPage draft s n es)
  then show ?thesis
    by (simp add: render_transforms_def render_page_def inert_document TransformsPage_view_def
        inert_sidebar Let_def)
next
  case (ResultsPage s q items n)
  then show ?thesis
    by (simp add: render_page_def inert_document ResultsPage_view_def)
next
  case (ResultDetailPage s d)
  then show ?thesis by (simp add: render_page_def inert_document ResultDetailPage_view_def)
next
  case (ErrorPage status title detail)
  then show ?thesis by (simp add: render_error_page_def inert_document)
qed simp

end
