(* ===== verification/Admin_Routes.thy ===== *)
theory Admin_Routes
  imports Admin_Pages
begin

text \<open>
  The router of the admin interface (\<open>router\<close> of \<^verbatim>\<open>src/admin.rs\<close>): which handler answers a request, and
  with what.  Routing and the decoding of request parts belong to the web framework and are
  modelled as it documents them: a route's \<open>{event_id}\<close> is one path segment that is not empty,
  percent-decoded; a \<open>GET\<close> route also answers \<open>HEAD\<close>, without the document; a path of a route with
  another method is refused with 405.  Refusals of the form extractor are part of a request.
\<close>

section \<open>Requests\<close>

record admin_request =
  aq_method :: string
  aq_path :: string
  aq_query :: form
  aq_form :: "u16 + form"

abbreviation "BAD_REQUEST_STATUS \<equiv> (400 :: u16)"
abbreviation "METHOD_NOT_ALLOWED \<equiv> (405 :: u16)"

text \<open>An answer of the framework itself, without a page.\<close>

definition refused :: "u16 \<Rightarrow> admin_response" where
  "refused status = \<lparr>resp_status = status, resp_location = None, resp_document = []\<rparr>"

section \<open>The router\<close>

datatype endpoint = IndexRoute | ConfigRoute | TransformsRoute | ResultsRoute | EventRoute string

definition match_route :: "string \<Rightarrow> endpoint option" where
  "match_route path =
     (if path = ''/'' then Some IndexRoute
      else if path = ''/config'' then Some ConfigRoute
      else if path = ''/transforms'' then Some TransformsRoute
      else if path = ''/results'' then Some ResultsRoute
      else
        (case strip_prefix ''/results/'' path of
           None \<Rightarrow> None
         | Some segment \<Rightarrow>
             if segment \<noteq> [] \<and> CHR ''/'' \<notin> set segment then Some (EventRoute segment) else None))"

text \<open>The handlers of \<open>GET\<close>: none changes anything.\<close>

fun get_route ::
  "'db store_ops \<Rightarrow> text_ops \<Rightarrow> (string \<Rightarrow> string option) \<Rightarrow> offset_date_time \<Rightarrow>
     ('u, 'p, 'c, 'db) manager \<Rightarrow> form \<Rightarrow> endpoint \<Rightarrow> admin_response option" where
  "get_route st tx decode now m query IndexRoute = Some (page_response admin_index)"
| "get_route st tx decode now m query ConfigRoute = Some (page_response (config_page m))"
| "get_route st tx decode now m query TransformsRoute = Some (page_response (transforms_page m))"
| "get_route st tx decode now m query ResultsRoute =
     (case parse_query query of
        None \<Rightarrow> Some (refused BAD_REQUEST_STATUS)
      | Some q \<Rightarrow> map_option page_response (results_page st now m q))"
| "get_route st tx decode now m query (EventRoute segment) =
     (case decode segment of
        None \<Rightarrow> Some (refused BAD_REQUEST_STATUS)
      | Some event_id \<Rightarrow> Some (page_response (result_detail_page st tx m event_id)))"

text \<open>A request, answered; \<^const>\<open>None\<close> if there is no answer.\<close>

definition admin_router ::
  "('h, 'u, 'i, 'x, 'p, 'fs, 'c) manager_env \<Rightarrow> 'db store_ops \<Rightarrow> (string \<Rightarrow> string option) \<Rightarrow>
     ('fs, 'h, 'db) reload_inputs \<Rightarrow> offset_date_time \<Rightarrow> 'fs \<Rightarrow> ('u, 'p, 'c, 'db) manager \<Rightarrow>
     admin_request \<Rightarrow> ('fs \<times> ('u, 'p, 'c, 'db) manager \<times> admin_response) option" where
  "admin_router env st decode ri now fs m req =
     (case match_route (aq_path req) of
        None \<Rightarrow> Some (fs, m, refused NOT_FOUND)
      | Some route \<Rightarrow>
          if aq_method req \<in> {''GET'', ''HEAD''} then
            map_option (\<lambda>r. (fs, m, if aq_method req = ''HEAD'' then r\<lparr>resp_document := []\<rparr> else r))
              (get_route st (hl_txt (me_lib env)) decode now m (aq_query req) route)
          else if aq_method req = ''POST'' \<and> route \<in> {ConfigRoute, TransformsRoute} then
            (case aq_form req of
               Inl status \<Rightarrow> Some (fs, m, refused status)
             | Inr f \<Rightarrow>
                 map_option (\<lambda>(fs, m, p). (fs, m, page_response p))
                   ((if route = ConfigRoute then config_submit else transforms_submit)
                      env ri fs m (form_values f)))
          else Some (fs, m, refused METHOD_NOT_ALLOWED))"

text \<open>
  Requests that are answered one after the other, each with what a reload may meet and the time.
\<close>

fun serve_requests ::
  "('h, 'u, 'i, 'x, 'p, 'fs, 'c) manager_env \<Rightarrow> 'db store_ops \<Rightarrow> (string \<Rightarrow> string option) \<Rightarrow>
     (('fs, 'h, 'db) reload_inputs \<times> offset_date_time \<times> admin_request) list \<Rightarrow> 'fs \<Rightarrow>
     ('u, 'p, 'c, 'db) manager \<Rightarrow> ('fs \<times> ('u, 'p, 'c, 'db) manager \<times> admin_response list) option" where
  "serve_requests env st decode [] fs m = Some (fs, m, [])"
| "serve_requests env st decode ((ri, now, req) # rest) fs m =
     Option.bind (admin_router env st decode ri now fs m req) (\<lambda>(fs, m, r).
     map_option (\<lambda>(fs, m, rs). (fs, m, r # rs)) (serve_requests env st decode rest fs m))"

text \<open>Following a link of a page.\<close>

definition follow :: "string \<Rightarrow> admin_request" where
  "follow u = \<lparr>aq_method = ''GET'', aq_path = u, aq_query = [], aq_form = Inr []\<rparr>"

section \<open>Path segments\<close>

text \<open>The text of an event's id: hexadecimal digits and hyphens.\<close>

definition id_char :: "char \<Rightarrow> bool" where
  "id_char c \<longleftrightarrow> c \<in> set ''0123456789abcdef-''"

definition id_text :: "string \<Rightarrow> bool" where
  "id_text s \<longleftrightarrow> s \<noteq> [] \<and> list_all id_char s"

lemma id_charD: "id_char c \<Longrightarrow> c \<noteq> CHR ''/'' \<and> c \<noteq> CHR ''%'' \<and> of_char c \<le> (127 :: nat)"
  by (auto simp: id_char_def)

locale path_segments =
  fixes decode :: "string \<Rightarrow> string option"
  assumes decode_plain: "list_all id_char s \<Longrightarrow> decode s = Some s"
begin

lemma route_of_id:
  assumes "id_text s"
  shows "match_route (''/results/'' @ s) = Some (EventRoute s)" "decode s = Some s"
proof -
  have "CHR ''/'' \<notin> set s" using assms by (auto simp: id_text_def list_all_iff dest: id_charD)
  then show "match_route (''/results/'' @ s) = Some (EventRoute s)"
    using assms by (simp add: match_route_def strip_prefix_def starts_with_def id_text_def)
  show "decode s = Some s" using assms decode_plain by (simp add: id_text_def)
qed

end

text \<open>The reference decoder.\<close>

definition hex_digit :: "char \<Rightarrow> nat option" where
  "hex_digit c =
     (let n = of_char (ascii_lower c) in
      if 48 \<le> n \<and> n \<le> 57 then Some (n - 48) else if 97 \<le> n \<and> n \<le> 102 then Some (n - 87) else None)"

fun percent_bytes :: "string \<Rightarrow> bytes" where
  "percent_bytes (c # a # b # s) =
     (case (hex_digit a, hex_digit b) of
        (Some i, Some j) \<Rightarrow>
          if c = CHR ''%'' then char_of (16 * i + j) # percent_bytes s else c # percent_bytes (a # b # s)
      | _ \<Rightarrow> c # percent_bytes (a # b # s))"
| "percent_bytes s = s"

definition percent_decode :: "string \<Rightarrow> string option" where
  "percent_decode s = from_utf8 (percent_bytes s)"

lemma percent_bytes_plain: "CHR ''%'' \<notin> set s \<Longrightarrow> percent_bytes s = s"
  by (induction s rule: percent_bytes.induct) (auto split: option.split)

interpretation percent: path_segments percent_decode
proof
  fix s assume "list_all id_char s"
  then have id: "\<And>c. c \<in> set s \<Longrightarrow> c \<noteq> CHR ''%'' \<and> of_char c \<le> (127 :: nat)"
    by (auto simp: list_all_iff dest: id_charD)
  then have "utf8_valid s" by (intro utf8_valid_ascii) blast
  moreover have "percent_bytes s = s" using id by (intro percent_bytes_plain) blast
  ultimately show "percent_decode s = Some s" by (simp add: percent_decode_def from_utf8_def)
qed

section \<open>Body previews\<close>

locale base64_text =
  fixes tx :: text_ops
  assumes decode_encode: "base64_decode tx (base64_encode tx b) = Some b"
begin

lemma preview_shown:
  "decode_preview tx (if b = [] then None else Some (base64_encode tx b)) =
     (if b = [] then ''n/a'' else from_utf8_lossy b)"
  by (simp add: decode_preview_def decode_encode from_utf8_lossy_id)

end

interpretation test_base64: base64_text postfix_text
  by unfold_locales (simp add: postfix_text_def test_text_def)

lemma build_event_preview:
  assumes "accumulates sha n chunks (ec_response_body c)"
  shows "pe_response_body_preview_base64 (build_event sha tx now c) =
    (if take (unat n) (concat chunks) = [] then None else Some (base64_encode tx (take (unat n) (concat chunks))))"
  using assms by (simp add: build_event_def Let_def accumulates_def finish_def)

lemma event_to_active_model_fields:
  assumes "event_to_active_model f e = Inr row"
  shows "m_event_id row = pe_event_id e" "m_method row = pe_method e" "m_path row = pe_path e"
    "m_backend_host row = pe_backend_host e" "m_proxy_result row = ProxyResult_as_str (pe_proxy_result e)"
    "m_response_body_preview_base64 row = pe_response_body_preview_base64 e"
  using assms by (auto simp: event_to_active_model_def active_model_def result_simps)

context event_store
begin

text \<open>A stored row is the one found under its id, as ids are unique.\<close>

lemma detail_of_row:
  assumes "active_database m = Inr db" and "row \<in> set (rows db)" and "distinct (map m_event_id (rows db))"
    and "st_find st db (m_event_id row) \<noteq> None"
  shows "result_detail_page st tx m (m_event_id row) =
    ResultDetailPage (RuntimeManager_state m) (event_detail tx row)"
proof -
  obtain r where r: "st_find st db (m_event_id row) = Some r" using assms(4) by blast
  have "r = Some row"
  proof (cases r)
    case None
    with find [OF r] assms(2) show ?thesis by auto
  next
    case (Some row')
    with find [OF r] assms(2,3) show ?thesis by (auto simp: distinct_map inj_on_def)
  qed
  with r assms(1) show ?thesis by (simp add: result_detail_page_def load_event_detail_def)
qed

end

section \<open>What requests change\<close>

lemma submit_reload_managed:
  "managed env fs m \<Longrightarrow> submit_reload render env ri fs m = Some (fs', m', p) \<Longrightarrow> managed env fs' m'"
  by (auto simp: submit_reload_def intro: managed.reloaded)

lemma submit_save_managed:
  "managed env fs m \<Longrightarrow> submit_save render env fs draft s m = (fs', m', p) \<Longrightarrow> managed env fs' m'"
  by (auto simp: submit_save_def intro: managed.saved split: prod.splits sum.splits)

lemma submit_managed:
  "managed env fs m \<Longrightarrow> config_submit env ri fs m vs = Some (fs', m', p) \<Longrightarrow> managed env fs' m'"
  "managed env fs m \<Longrightarrow> transforms_submit env ri fs m vs = Some (fs', m', p) \<Longrightarrow> managed env fs' m'"
  by (auto simp: config_submit_def transforms_submit_def Let_def bind_eq_Some_conv
      intro: submit_reload_managed submit_save_managed split: if_splits)

lemma admin_router_managed:
  assumes "managed env fs m" and "admin_router env st decode ri now fs m req = Some (fs', m', r)"
  shows "managed env fs' m'"
  using assms by (auto simp: admin_router_def intro: submit_managed split: option.splits sum.splits if_splits)

lemma admin_router_safe:
  assumes "admin_router env st decode ri now fs m req = Some (fs', m', r)" and "aq_method req \<noteq> ''POST''"
  shows "fs' = fs \<and> m' = m"
  using assms by (auto simp: admin_router_def split: option.splits if_splits)

lemma serve_requests_managed:
  "managed env fs m \<Longrightarrow> serve_requests env st decode rqs fs m = Some (fs', m', rs) \<Longrightarrow> managed env fs' m'"
  by (induction env st decode rqs fs m arbitrary: rs rule: serve_requests.induct)
    (auto simp: bind_eq_Some_conv dest: admin_router_managed)

lemma serve_requests_safe:
  "serve_requests env st decode rqs fs m = Some (fs', m', rs) \<Longrightarrow>
     list_all (\<lambda>(_, _, req). aq_method req \<noteq> ''POST'') rqs \<Longrightarrow> fs' = fs \<and> m' = m"
proof (induction rqs arbitrary: fs m rs)
  case (Cons x rqs)
  obtain ri now req where x: "x = (ri, now, req)" by (cases x)
  with Cons.prems(1) obtain fs1 m1 r rs1 where
    "admin_router env st decode ri now fs m req = Some (fs1, m1, r)"
    and "serve_requests env st decode rqs fs1 m1 = Some (fs', m', rs1)"
    by (auto simp: bind_eq_Some_conv)
  with Cons.IH [of fs1 m1 rs1] Cons.prems(2) x admin_router_safe show ?case by fastforce
qed simp

section \<open>A concrete instance\<close>

text \<open>A captured exchange with a body of two chunks, its event and row, and a manager that stores it.\<close>

definition shown_capture :: "bytes ExchangeCapture" where
  "shown_capture = test_capture\<lparr>ec_response_body :=
     observe id_sha ''llo'' (observe id_sha ''he'' (BodyAccumulator_new id_sha 65536))\<rparr>"

definition shown_event :: ProxyEvent where
  "shown_event = build_event id_sha postfix_text 9 shown_capture"

definition shown_row :: Model where
  "shown_row = projr (event_to_active_model (\<lambda>t. Some (show_int t)) shown_event)"

definition shown_manager :: "(string, string, WriterMessage list \<times> nat \<times> bool, Model list) manager" where
  "shown_manager = test_manager\<lparr>mg_active :=
     Some ((test_active test_config)\<lparr>ar_writer := initial_writer ([], 0, False) [shown_row]\<rparr>)\<rparr>"

definition any_query :: EventListFilterQuery where
  "any_query = \<lparr>eq_method = None, eq_path_substring = None, eq_status_code = None, eq_proxy_result = None,
     eq_since_hours = None, eq_page = None, eq_per_page = None\<rparr>"

lemma shown_accumulates: "accumulates id_sha 65536 [''he'', ''llo''] (ec_response_body shown_capture)"
  using accumulates_foldl [OF accumulates_new, of id_sha 65536 "[''he'', ''llo'']"]
  by (simp add: shown_capture_def)

lemma shown_event_id: "pe_event_id shown_event = ''e''"
  by (simp add: shown_event_def build_event_def shown_capture_def test_capture_def capture_new_def Let_def)

lemma shown_to_row: "event_to_active_model (\<lambda>t. Some (show_int t)) shown_event = Inr shown_row"
proof -
  have "is_ok (event_to_active_model (\<lambda>t. Some (show_int t)) shown_event)"
    by (simp add: event_to_active_model_ok timestamps_format_def split: option.split)
  then show ?thesis by (auto simp: is_ok_iff shown_row_def)
qed

lemma shown_row_id: "m_event_id shown_row = ''e''" "id_text ''e''"
  by (simp_all add: event_to_active_model_fields(1) [OF shown_to_row] shown_event_id id_text_def id_char_def)

lemma shown_database: "active_database shown_manager = Inr [shown_row]"
  by (simp add: shown_manager_def active_database_def initial_writer_def)

lemma shown_list:
  "results_page list_store 0 shown_manager any_query =
     Some (ResultsPage (RuntimeManager_state shown_manager) any_query [event_list_item shown_row] 1)"
  by (simp add: results_page_def shown_database list_events_def list_store_def matching_def to_filter_def
      any_query_def filter_conditions_def Let_def)

lemma shown_found: "st_find list_store [shown_row] ''e'' \<noteq> None"
  by (simp add: list_store_def)

section \<open>Properties\<close>

text \<open>C28: following the link of any event the results page lists shows that event: as long as the
  database answers, the router decodes the id and the detail page of the stored row with that id
  is returned with status 200, and nothing is changed.\<close>

theorem listed_events_open:
  assumes "event_store st rows like" and "path_segments decode"
    and "active_database m = Inr db" and "distinct (map m_event_id (rows db))"
    and "list_all (\<lambda>row. id_text (m_event_id row)) (rows db)"
    and "results_page st now m query = Some (ResultsPage s q items n)" and "item \<in> set items"
    and "st_find st db (li_event_id item) \<noteq> None"
  shows "\<exists>row \<in> set (rows db). item = event_list_item row
    \<and> admin_router env st decode ri now' fs m (follow (''/results/'' @ li_event_id item))
      = Some (fs, m, page_response (ResultDetailPage (RuntimeManager_state m)
          (event_detail (hl_txt (me_lib env)) row)))"
proof -
  obtain p where p: "list_events st now db (to_filter query) = Some (Inr p)" "items = lp_items p"
    using results_page_listed [OF assms(6)] assms(3) by (metis sum.inject(2))
  from p(1) obtain conds listed where
    rs: "st_page st db conds (unat (ef_per_page (to_filter query))) (unat (ef_page (to_filter query))) = Some listed"
    and l: "lp_items p = map event_list_item listed"
    by (rule list_events_Inr) blast
  from l p(2) assms(7) obtain row where row: "row \<in> set listed" "item = event_list_item row" by auto
  have "row \<in> set (rows db)"
    using event_store.page_matching [OF assms(1) rs] row(1) by (auto simp: matching_def)
  moreover have id: "li_event_id item = m_event_id row" by (simp add: row(2) event_list_item_def)
  moreover have "id_text (m_event_id row)" using assms(5) calculation(1) by (simp add: list_all_iff)
  ultimately show ?thesis
    using path_segments.route_of_id [OF assms(2), of "m_event_id row"] row(2) assms(8)
      event_store.detail_of_row [OF assms(1,3) _ assms(4), of row "hl_txt (me_lib env)"]
    by (intro bexI [of _ row]) (simp_all add: admin_router_def follow_def)
qed

theorem listed_events_open_witness:
  "admin_router test_menv list_store percent_decode test_reload 0 test_files shown_manager (follow ''/results/e'')
     = Some (test_files, shown_manager, page_response (ResultDetailPage (RuntimeManager_state shown_manager)
         (event_detail postfix_text shown_row)))"
proof -
  have "distinct (map m_event_id [shown_row])" "list_all (\<lambda>row. id_text (m_event_id row)) [shown_row]"
    "event_list_item shown_row \<in> set [event_list_item shown_row]"
    "st_find list_store [shown_row] (li_event_id (event_list_item shown_row)) \<noteq> None"
    using shown_found by (simp_all add: shown_row_id event_list_item_def)
  from listed_events_open [OF list_store.event_store_axioms percent.path_segments_axioms shown_database
      this(1,2) shown_list this(3,4), of test_menv test_reload 0 test_files]
  show ?thesis by (simp add: event_list_item_def shown_row_id)
qed

text \<open>C10: what was recorded is shown.  Once the event of an exchange is stored, its detail page shows
  the method and path, the backend, the outcome, and the first bytes of the response body, up to
  the configured number, as they were streamed, however they were cut into chunks, with
  ill-formed UTF-8 replaced.\<close>

theorem recorded_exchange_is_shown:
  assumes "event_store st rows like" and "path_segments decode" and "base64_text (hl_txt (me_lib env))"
    and "accumulates sha k chunks (ec_response_body c)"
    and "ev = build_event sha (hl_txt (me_lib env)) finished c" and "id_text (pe_event_id ev)"
    and "event_to_active_model rfc3339 ev = Inr row" and "row \<in> set (rows db)"
    and "active_database m = Inr db" and "distinct (map m_event_id (rows db))"
    and "st_find st db (pe_event_id ev) \<noteq> None"
  shows "\<exists>r. admin_router env st decode ri now fs m (follow (''/results/'' @ pe_event_id ev)) = Some (fs, m, r)
    \<and> resp_status r = 200
    \<and> {pe_method ev @ '' '' @ pe_path ev, pe_backend_host ev, ProxyResult_as_str (pe_proxy_result ev),
        (let body = take (unat k) (concat chunks) in if body = [] then ''n/a'' else from_utf8_lossy body)}
      \<subseteq> set (concat (map html_texts (resp_document r)))"
proof -
  let ?tx = "hl_txt (me_lib env)"
  note fields = event_to_active_model_fields [OF assms(7)]
  let ?body = "take (unat k) (concat chunks)"
  have "ed_response_body_preview (event_detail ?tx row) = (if ?body = [] then ''n/a'' else from_utf8_lossy ?body)"
    using base64_text.preview_shown [OF assms(3), of ?body] build_event_preview [OF assms(4)] assms(5) fields
    by (simp add: event_detail_def)
  moreover have "admin_router env st decode ri now fs m (follow (''/results/'' @ pe_event_id ev)) =
      Some (fs, m, page_response (ResultDetailPage (RuntimeManager_state m) (event_detail ?tx row)))"
    using path_segments.route_of_id [OF assms(2,6)] assms(11) fields(1)
      event_store.detail_of_row [OF assms(1,9,8,10), of ?tx]
    by (simp add: admin_router_def follow_def)
  ultimately show ?thesis
    by (simp add: render_page_def Document_def ResultDetailPage_view_def MetricCard_def TextBlock_def
        Let_def fields event_detail_def)
qed

theorem recorded_exchange_is_shown_witness:
  "\<exists>r. admin_router test_menv list_store percent_decode test_reload 0 test_files shown_manager
       (follow ''/results/e'') = Some (test_files, shown_manager, r)
     \<and> ''hello'' \<in> set (concat (map html_texts (resp_document r)))"
proof -
  have b: "base64_text (hl_txt (me_lib test_menv))" by (simp add: test_base64.base64_text_axioms)
  have ev: "shown_event = build_event id_sha (hl_txt (me_lib test_menv)) 9 shown_capture"
    by (simp add: shown_event_def)
  have i: "id_text (pe_event_id shown_event)" "st_find list_store [shown_row] (pe_event_id shown_event) \<noteq> None"
    "shown_row \<in> set [shown_row]" "distinct (map m_event_id [shown_row])"
    using shown_row_id shown_found by (simp_all add: shown_event_id)
  have "utf8_valid ''hello''" by (rule utf8_valid_ascii) auto
  from from_utf8_lossy_id [OF this] recorded_exchange_is_shown [OF list_store.event_store_axioms percent.path_segments_axioms b shown_accumulates
      ev i(1) shown_to_row i(3) shown_database i(4,2), of test_reload 0 test_files]
  show ?thesis by (auto simp: shown_event_id)
qed

text \<open>C19: whatever requests the admin interface answers, one after the other, what the manager's
  snapshot says of the running proxy, and with it the sidebar of both editor pages, stays true;
  and requests other than \<open>POST\<close> change neither the files nor the manager.\<close>

theorem requests_keep_snapshot_true:
  assumes "managed env fs m" and "serve_requests env st decode rqs fs m = Some (fs', m', rs)"
  shows "manager_wf env m'
    \<and> (list_all (\<lambda>(_, _, req). aq_method req \<noteq> ''POST'') rqs \<longrightarrow> fs' = fs \<and> m' = m)"
  using managed_wf [OF serve_requests_managed [OF assms]] serve_requests_safe [OF assms(2)] by blast

theorem requests_keep_snapshot_true_witness:
  "\<exists>fs' m' rs. serve_requests test_menv list_store percent_decode
       [(test_reload, 0, (follow ''/config'')\<lparr>aq_method := ''POST'', aq_form := Inr [(''editor_action'', ''reload'')]\<rparr>),
        (test_reload, 0, follow ''/transforms'')] saved_files test_manager = Some (fs', m', rs)
     \<and> length rs = 2 \<and> manager_wf test_menv m'"
proof -
  let ?post = "(follow ''/config'')\<lparr>aq_method := ''POST'', aq_form := Inr [(''editor_action'', ''reload'')]\<rparr>"
  have "\<exists>r. admin_router test_menv list_store percent_decode test_reload 0 saved_files test_manager ?post
      = Some (saved_files, test_manager, r)"
    by (simp add: admin_router_def follow_def match_route_def config_submit_def reload_button submit_reload_def
        test_reload_result Let_def)
  moreover have "\<exists>r. admin_router test_menv list_store percent_decode test_reload 0 saved_files test_manager
      (follow ''/transforms'') = Some (saved_files, test_manager, r)"
    by (simp add: admin_router_def follow_def match_route_def)
  ultimately obtain rs where s: "serve_requests test_menv list_store percent_decode
      [(test_reload, 0, ?post), (test_reload, 0, follow ''/transforms'')] saved_files test_manager
      = Some (saved_files, test_manager, rs)" "length rs = 2"
    by fastforce
  from requests_keep_snapshot_true [OF managed.started [OF test_start] s(1)] s show ?thesis by blast
qed

end
