(* ===== verification/Manager_Overlap.thy ===== *)
theory Manager_Overlap
  imports Runtime_Manager
begin

text \<open>
  Overlapping calls of the runtime manager (\<^verbatim>\<open>src/runtime_manager.rs\<close>).  The admin interface serves
  requests concurrently and the manager is shared, so saves, reloads and the shutdown may overlap.
  A call is the value of where it is in its body, with its local variables; it advances by the
  sections it executes in one go: a section under the controller's or the snapshot's lock, one
  access to the files, or work on its own values only.  Between two sections of a call any other
  call may advance.

  Run alone, the sections of a call make up the operation of \<open>Runtime_Manager\<close>.  A call that panics
  or is cancelled between two sections has no counterpart: no section panics, and a reload runs
  on a thread of its own, which is not cancelled with its request.
\<close>

section \<open>Calls\<close>

datatype ('u, 'p, 'c, 'db, 'fs, 'h) call =
    SaveValidate AppConfigFile
  | SaveLook AppConfigFile
  | SaveWrite AppConfigFile string bool
  | SavePublish AppConfigFile bool
  | SaveRead
  | ReloadTake "('fs, 'h, 'db) reload_inputs"
  | ReloadLoad "('fs, 'h, 'db) reload_inputs" string "('u, 'p, 'c, 'db) ActiveRuntime"
  | ReloadValidate "('fs, 'h, 'db) reload_inputs" "('u, 'p, 'c, 'db) ActiveRuntime" AppConfigFile
  | ReloadStop "('fs, 'h, 'db) reload_inputs" "('u, 'p, 'c, 'db) ActiveRuntime" AppConfigFile
      "('u, 'p) RuntimeConfig"
  | ReloadStart "('fs, 'h, 'db) reload_inputs" AppConfigFile "('u, 'p) RuntimeConfig" AppConfigFile
      "('u, 'p) RuntimeConfig"
  | ReloadInstall AppConfigFile "('u, 'p, 'c, 'db) ActiveRuntime"
  | ReloadSummarize AppConfigFile
  | ReloadPublish AppConfigFile RuntimeSummary
  | ReloadFallback "('fs, 'h, 'db) reload_inputs" AppConfigFile "('u, 'p) RuntimeConfig" string
  | FallbackInstall "('u, 'p, 'c, 'db) ActiveRuntime" string
  | FallbackPublish string
  | FallbackFailed string
  | ShutdownTake stop_inputs
  | ShutdownStop stop_inputs "('u, 'p, 'c, 'db) ActiveRuntime"
  | Returned "RuntimeManagerState anyhow_result"
  | ShutdownReturned "unit anyhow_result"

text \<open>
  The next section of a call: the files and the manager after it and where the call is then;
  \<^const>\<open>None\<close> if the section never ends.  A call that has returned stays as it is.
\<close>

fun call_step ::
  "('h, 'u, 'i, 'x, 'p, 'fs, 'c) manager_env \<Rightarrow> 'fs \<Rightarrow> ('u, 'p, 'c, 'db) manager \<Rightarrow>
     ('u, 'p, 'c, 'db, 'fs, 'h) call \<Rightarrow>
     ('fs \<times> ('u, 'p, 'c, 'db) manager \<times> ('u, 'p, 'c, 'db, 'fs, 'h) call) option" where
  "call_step env fs m (SaveValidate c) =
     (case manager_runtime_config env fs c of
        (fs, Inl e) \<Rightarrow> Some (fs, m, Returned (Inl e))
      | (fs, Inr _) \<Rightarrow> Some (fs, m, SaveLook c))"
| "call_step env fs m (SaveLook c) =
     Some (fs, m, SaveWrite c (mg_config_path m)
       (unwrap_or False (map_option (\<lambda>active. ar_app_config active = c) (mg_active m))))"
| "call_step env fs m (SaveWrite c config_path active_matches) =
     (case write_json (hl_txt (me_lib env)) (me_io env) fs c config_path of
        (fs, Inl e) \<Rightarrow> Some (fs, m, Returned (Inl e))
      | (fs, Inr _) \<Rightarrow> Some (fs, m, SavePublish c active_matches))"
| "call_step env fs m (SavePublish c active_matches) =
     Some (fs, m\<lparr>mg_snapshot := (mg_snapshot m)\<lparr>ms_saved_config := c,
       ms_pending_reload := \<not> active_matches, ms_last_reload_error := None\<rparr>\<rparr>, SaveRead)"
| "call_step env fs m SaveRead = Some (fs, m, Returned (Inr (mg_snapshot m)))"
| "call_step env fs m (ReloadTake ri) =
     (case mg_active m of
        None \<Rightarrow> Some (fs, m, Returned (Inl ''runtime manager missing active runtime during reload''))
      | Some previous \<Rightarrow> Some (fs, m\<lparr>mg_active := None\<rparr>, ReloadLoad ri (mg_config_path m) previous))"
| "call_step env fs m (ReloadLoad ri config_path previous) =
     (case load_json (hl_txt (me_lib env)) (me_io env) fs config_path of
        Inl e \<Rightarrow> Some (fs, m, Returned (Inl e))
      | Inr saved_config \<Rightarrow> Some (fs, m, ReloadValidate ri previous saved_config))"
| "call_step env fs m (ReloadValidate ri previous saved_config) =
     (case manager_runtime_config env fs saved_config of
        (fs, Inl e) \<Rightarrow> Some (fs, m, Returned (Inl e))
      | (fs, Inr new_runtime) \<Rightarrow> Some (fs, m, ReloadStop ri previous saved_config new_runtime))"
| "call_step env fs m (ReloadStop ri previous saved_config new_runtime) =
     (let stopped = shutdown_active_runtime (ri_stop ri) previous in
      case wait_for_listener_release (rc_listen_addr (ar_runtime previous)) (ri_wait ri) of
        None \<Rightarrow> None
      | Some (Inl e) \<Rightarrow> Some (fs, m, Returned (Inl e))
      | Some (Inr _) \<Rightarrow> Some (fs, m, ReloadStart ri saved_config new_runtime
          (ar_app_config previous) (ar_runtime previous)))"
| "call_step env fs m (ReloadStart ri saved_config new_runtime previous_config previous_runtime) =
     (case start_active_runtime env (ri_new ri) fs saved_config new_runtime of
        (fs, Inr active) \<Rightarrow> Some (fs, m, ReloadInstall saved_config active)
      | (fs, Inl err) \<Rightarrow> Some (fs, m, ReloadFallback ri previous_config previous_runtime err))"
| "call_step env fs m (ReloadInstall saved_config active) =
     Some (fs, m\<lparr>mg_active := Some active\<rparr>, ReloadSummarize saved_config)"
| "call_step env fs m (ReloadSummarize saved_config) =
     (case mg_active m of
        None \<Rightarrow> Some (fs, m, Returned (Inl ''runtime manager missing active runtime after reload''))
      | Some active \<Rightarrow>
          Some (fs, m, ReloadPublish saved_config (runtime_summary (hl_url (me_lib env)) active)))"
| "call_step env fs m (ReloadPublish saved_config active_runtime) =
     (let snapshot = (mg_snapshot m)\<lparr>ms_saved_config := saved_config,
            ms_active_runtime := active_runtime, ms_pending_reload := False,
            ms_last_reload_error := None\<rparr> in
      Some (fs, m\<lparr>mg_snapshot := snapshot\<rparr>, Returned (Inr snapshot)))"
| "call_step env fs m (ReloadFallback ri previous_config previous_runtime err) =
     (case start_active_runtime env (ri_previous ri) fs previous_config previous_runtime of
        (fs, Inr active) \<Rightarrow> Some (fs, m, FallbackInstall active err)
      | (fs, Inl restart_err) \<Rightarrow>
          Some (fs, m, FallbackFailed
            (''reload failed: '' @ err @ ''; fallback restart failed: '' @ restart_err)))"
| "call_step env fs m (FallbackInstall active err) =
     Some (fs, m\<lparr>mg_active := Some active\<rparr>, FallbackPublish err)"
| "call_step env fs m (FallbackPublish err) =
     Some (fs, m\<lparr>mg_snapshot := (mg_snapshot m)\<lparr>ms_last_reload_error := Some err,
       ms_pending_reload := True\<rparr>\<rparr>, Returned (Inl err))"
| "call_step env fs m (FallbackFailed message) =
     Some (fs, m\<lparr>mg_snapshot := (mg_snapshot m)\<lparr>ms_last_reload_error := Some message\<rparr>\<rparr>,
       Returned (Inl message))"
| "call_step env fs m (ShutdownTake sp) =
     (case mg_active m of
        None \<Rightarrow> Some (fs, m, ShutdownReturned (Inl ''runtime manager missing active runtime during shutdown''))
      | Some active \<Rightarrow> Some (fs, m\<lparr>mg_active := None\<rparr>, ShutdownStop sp active))"
| "call_step env fs m (ShutdownStop sp active) =
     Some (fs, m, ShutdownReturned (snd (shutdown_active_runtime sp active)))"
| "call_step env fs m (Returned r) = Some (fs, m, Returned r)"
| "call_step env fs m (ShutdownReturned r) = Some (fs, m, ShutdownReturned r)"

text \<open>A call alone, for a number of sections.\<close>

fun call_alone ::
  "('h, 'u, 'i, 'x, 'p, 'fs, 'c) manager_env \<Rightarrow> nat \<Rightarrow> 'fs \<Rightarrow> ('u, 'p, 'c, 'db) manager \<Rightarrow>
     ('u, 'p, 'c, 'db, 'fs, 'h) call \<Rightarrow>
     ('fs \<times> ('u, 'p, 'c, 'db) manager \<times> ('u, 'p, 'c, 'db, 'fs, 'h) call) option" where
  "call_alone env 0 fs m k = Some (fs, m, k)"
| "call_alone env (Suc n) fs m k =
     (case call_step env fs m k of
        None \<Rightarrow> None
      | Some (fs, m, k) \<Rightarrow> call_alone env n fs m k)"

section \<open>Calls alone\<close>

lemma call_alone_returned [simp]:
  "call_alone env n fs m (Returned r) = Some (fs, m, Returned r)"
  "call_alone env n fs m (ShutdownReturned r') = Some (fs, m, ShutdownReturned r')"
  by (induction n) simp_all

lemma call_alone_eq:
  "call_alone env (numeral n) fs m k =
     (case call_step env fs m k of
        None \<Rightarrow> None
      | Some (fs, m, k) \<Rightarrow> call_alone env (pred_numeral n) fs m k)"
  by (simp add: numeral_eq_Suc)

lemma save_alone:
  "call_alone env 5 fs m (SaveValidate c) =
     (case save_config env fs c m of (fs, m, r) \<Rightarrow> Some (fs, m, Returned r))"
  by (auto simp: call_alone_eq save_config_def Let_def split: prod.split sum.split)

lemma reload_alone:
  "call_alone env 8 fs m (ReloadTake ri) =
     map_option (\<lambda>(fs, m, r). (fs, m, Returned r)) (reload_inner env ri fs m)"
  by (auto simp: call_alone_eq reload_inner_def replace_runtime_def Let_def
      split: prod.split sum.split option.split)

lemma shutdown_alone:
  "call_alone env 2 fs m (ShutdownTake sp) =
     (case RuntimeManager_shutdown sp m of (m, r) \<Rightarrow> Some (fs, m, ShutdownReturned r))"
  by (auto simp: call_alone_eq RuntimeManager_shutdown_def split: option.split)

section \<open>Overlapping calls\<close>

text \<open>A call before its first section.\<close>

fun call_begins :: "('u, 'p, 'c, 'db, 'fs, 'h) call \<Rightarrow> bool" where
  "call_begins (SaveValidate _) = True"
| "call_begins (ReloadTake _) = True"
| "call_begins (ShutdownTake _) = True"
| "call_begins _ = False"

text \<open>
  The states that calls lead to, with all calls made so far: a call begins, any call advances by a
  section, the active runtime's writer works, others change files.
\<close>

inductive overlapping ::
  "('h, 'u, 'i, 'x, 'p, 'fs, 'c) manager_env \<Rightarrow> 'fs \<Rightarrow> ('u, 'p, 'c, 'db) manager \<Rightarrow>
     ('u, 'p, 'c, 'db, 'fs, 'h) call list \<Rightarrow> bool"
  for env :: "('h, 'u, 'i, 'x, 'p, 'fs, 'c) manager_env" where
  none: "managed env fs m \<Longrightarrow> overlapping env fs m []"
| begun: "overlapping env fs m ks \<Longrightarrow> call_begins k \<Longrightarrow> overlapping env fs m (ks @ [k])"
| advanced: "overlapping env fs m ks \<Longrightarrow> i < length ks \<Longrightarrow>
    call_step env fs m (ks ! i) = Some (fs', m', k) \<Longrightarrow> overlapping env fs' m' (ks[i := k])"
| served: "overlapping env fs m ks \<Longrightarrow> mg_active m = Some a \<Longrightarrow>
    overlapping env fs (m\<lparr>mg_active := Some (a\<lparr>ar_writer := w\<rparr>)\<rparr>) ks"
| touched: "overlapping env fs m ks \<Longrightarrow> overlapping env fs' m ks"

lemma overlapping_alone:
  "overlapping env fs m ks \<Longrightarrow> i < length ks \<Longrightarrow>
     call_alone env n fs m (ks ! i) = Some (fs', m', k) \<Longrightarrow> overlapping env fs' m' (ks[i := k])"
proof (induction n arbitrary: fs m ks)
  case (Suc n)
  then obtain fs1 m1 k1 where s: "call_step env fs m (ks ! i) = Some (fs1, m1, k1)"
    and r: "call_alone env n fs1 m1 k1 = Some (fs', m', k)"
    by (auto split: option.splits)
  from overlapping.advanced [OF Suc.prems(1,2) s] Suc.IH [of fs1 m1 "ks[i := k1]"] Suc.prems(2) r
  show ?case by simp
qed auto

section \<open>One runtime at a time\<close>

text \<open>The call has taken the active runtime out of the controller, or has one to put there.\<close>

fun holds_runtime :: "('u, 'p, 'c, 'db, 'fs, 'h) call \<Rightarrow> bool" where
  "holds_runtime (ReloadLoad _ _ _) = True"
| "holds_runtime (ReloadValidate _ _ _) = True"
| "holds_runtime (ReloadStop _ _ _ _) = True"
| "holds_runtime (ReloadStart _ _ _ _ _) = True"
| "holds_runtime (ReloadInstall _ _) = True"
| "holds_runtime (ReloadFallback _ _ _ _) = True"
| "holds_runtime (FallbackInstall _ _) = True"
| "holds_runtime (ShutdownStop _ _) = True"
| "holds_runtime _ = False"

definition runtimes_held ::
  "('u, 'p, 'c, 'db) manager \<Rightarrow> ('u, 'p, 'c, 'db, 'fs, 'h) call list \<Rightarrow> nat" where
  "runtimes_held m ks = of_bool (mg_active m \<noteq> None) + length (filter holds_runtime ks)"

text \<open>The runtimes a call has or is about to start were validated.\<close>

fun validated_call ::
  "('h, 'u, 'i, 'x, 'p, 'fs, 'c) manager_env \<Rightarrow> ('u, 'p, 'c, 'db, 'fs, 'h) call \<Rightarrow> bool" where
  "validated_call env (ReloadLoad _ _ a) = runs_validated env (ar_app_config a) (ar_runtime a)"
| "validated_call env (ReloadValidate _ a _) = runs_validated env (ar_app_config a) (ar_runtime a)"
| "validated_call env (ReloadStop _ a c rt) =
     (runs_validated env (ar_app_config a) (ar_runtime a) \<and> runs_validated env c rt)"
| "validated_call env (ReloadStart _ c rt pc prt) = (runs_validated env c rt \<and> runs_validated env pc prt)"
| "validated_call env (ReloadInstall _ a) = runs_validated env (ar_app_config a) (ar_runtime a)"
| "validated_call env (ReloadFallback _ pc prt _) = runs_validated env pc prt"
| "validated_call env (FallbackInstall a _) = runs_validated env (ar_app_config a) (ar_runtime a)"
| "validated_call env _ = True"

definition validated_manager ::
  "('h, 'u, 'i, 'x, 'p, 'fs, 'c) manager_env \<Rightarrow> ('u, 'p, 'c, 'db) manager \<Rightarrow> bool" where
  "validated_manager env m \<longleftrightarrow>
     ms_config_path (mg_snapshot m) = mg_config_path m
     \<and> (\<forall>a. mg_active m = Some a \<longrightarrow> runs_validated env (ar_app_config a) (ar_runtime a))"

lemma call_step_held:
  assumes "call_step env fs m k = Some (fs', m', k')"
  shows "of_bool (mg_active m' \<noteq> None) + of_bool (holds_runtime k')
    \<le> of_bool (mg_active m \<noteq> None) + (of_bool (holds_runtime k) :: nat)"
  using assms
  by (cases k) (auto simp: Let_def split: option.splits sum.splits prod.splits)

lemma call_step_validated:
  assumes "call_step env fs m k = Some (fs', m', k')" and "validated_manager env m" "validated_call env k"
  shows "validated_manager env m' \<and> validated_call env k'"
  using assms
  by (cases k) (auto simp: Let_def validated_manager_def intro: runs_validatedI
      dest!: start_active_runtime_Inr split: option.splits sum.splits prod.splits)

lemma length_filter_update:
  "i < length xs \<Longrightarrow>
     length (filter P (xs[i := x])) + of_bool (P (xs ! i)) = length (filter P xs) + of_bool (P x)"
proof (induction xs arbitrary: i)
  case (Cons y xs)
  then show ?case by (cases i) (auto simp: add.commute)
qed simp

lemma overlapping_held: "overlapping env fs m ks \<Longrightarrow> runtimes_held m ks \<le> 1"
proof (induction rule: overlapping.induct)
  case (begun fs m ks k)
  then show ?case by (cases k) (simp_all add: runtimes_held_def)
next
  case (advanced fs m ks i fs' m' k)
  from call_step_held [OF advanced(3)] length_filter_update [OF advanced(2), of holds_runtime k] advanced(4)
  show ?case unfolding runtimes_held_def by linarith
qed (simp_all add: runtimes_held_def)

lemma overlapping_validated:
  "overlapping env fs m ks \<Longrightarrow> validated_manager env m \<and> list_all (validated_call env) ks"
proof (induction rule: overlapping.induct)
  case (none fs m)
  from managed_wf [OF none] show ?case by (auto simp: manager_wf_def validated_manager_def Let_def)
next
  case (begun fs m ks k)
  then show ?case by (cases k) simp_all
next
  case (advanced fs m ks i fs' m' k)
  then have "validated_call env (ks ! i)" by (simp add: list_all_length)
  with call_step_validated [OF advanced(3)] advanced(4) show ?case
    by (auto simp: list_all_iff dest!: set_update_subset_insert [THEN subsetD])
qed (auto simp: validated_manager_def)

section \<open>A concrete instance\<close>

text \<open>A second configuration, in the file while the proxy runs the first.\<close>

definition other_config :: AppConfigFile where
  "other_config = test_config\<lparr>ac_runtime := (ac_runtime test_config)\<lparr>rs_flush_rows := 7\<rparr>\<rparr>"

definition other_runtime :: "(string, string) RuntimeConfig" where
  "other_runtime = (test_runtime ''/'')\<lparr>rc_flush_rows := 7\<rparr>"

definition other_files :: "(string \<times> string) list" where
  "other_files = (''kidproxy.json'', to_postfix (encode_app_config other_config)) # test_files"

definition other_active ::
  "(string, string, WriterMessage list \<times> nat \<times> bool, Model list) ActiveRuntime" where
  "other_active = (test_active other_config)\<lparr>ar_runtime := other_runtime\<rparr>"

lemma load_other_files: "load_json postfix_text map_fs other_files ''kidproxy.json'' = Inr other_config"
proof (rule write_then_load [OF map_fs.file_system_axioms postfix.json_text_axioms])
  show "write_json postfix_text map_fs test_files other_config ''kidproxy.json'' = (other_files, Inr ())"
    by (simp add: other_files_def write_json_def postfix_text_def map_fs_def)
qed

lemma other_manager_config:
  "manager_runtime_config test_menv ((''kidproxy.json'', s) # test_files) other_config =
     ((''kidproxy.json'', s) # test_files, Inr other_runtime)"
  by code_simp

lemma other_start_active:
  "start_active_runtime test_menv test_attempt ((''kidproxy.json'', s) # test_files) other_config
     other_runtime = ((''kidproxy.json'', s) # test_files, Inr other_active)"
  by code_simp

lemma other_reload_result:
  "\<exists>m2 s2. reload_inner test_menv test_reload other_files test_manager = Some (other_files, m2, Inr s2)
     \<and> ms_saved_config s2 = other_config"
  by (simp add: reload_inner_def replace_runtime_def Let_def test_wait_result test_reload_def
      load_other_files [unfolded other_files_def] other_files_def other_manager_config
      other_start_active test_manager_def test_active_def)

lemma test_managed: "managed test_menv fs test_manager"
  by (rule managed.edited [OF managed.started [OF test_start]])

section \<open>Properties\<close>

text \<open>A call that no other overlaps does what the operation of the manager does: its sections,
  run one after the other, lead to the same files, the same manager and the same result, in at
  most eight sections for a reload, five for a save and two for the shutdown; only a reload may
  not return, exactly when the operation does not.\<close>

theorem calls_alone_are_operations:
  "call_alone env 8 fs m (ReloadTake ri) =
     map_option (\<lambda>(fs, m, r). (fs, m, Returned r)) (reload_inner env ri fs m)
   \<and> call_alone env 5 fs m (SaveValidate c) =
     (case save_config env fs c m of (fs, m, r) \<Rightarrow> Some (fs, m, Returned r))
   \<and> call_alone env 2 fs m (ShutdownTake sp) =
     (case RuntimeManager_shutdown sp m of (m, r) \<Rightarrow> Some (fs, m, ShutdownReturned r))"
  by (simp only: reload_alone save_alone shutdown_alone simp_thms)

text \<open>C7: however calls overlap, there is at most one runtime: while a reload or the shutdown has the
  runtime, the controller has none and no other call has one, so a second reload fails at once
  and leaves everything as it is.  Whatever runs was validated.\<close>

theorem one_runtime_at_a_time:
  assumes "overlapping env fs m ks"
  shows "(\<forall>i < length ks. holds_runtime (ks ! i) \<longrightarrow>
      mg_active m = None \<and> (\<forall>j < length ks. holds_runtime (ks ! j) \<longrightarrow> j = i)
      \<and> (\<forall>ri. call_step env fs m (ReloadTake ri) =
          Some (fs, m, Returned (Inl ''runtime manager missing active runtime during reload''))))
    \<and> (\<forall>a. mg_active m = Some a \<longrightarrow> runs_validated env (ar_app_config a) (ar_runtime a))"
proof (intro conjI allI impI)
  fix a assume "mg_active m = Some a"
  with overlapping_validated [OF assms] show "runs_validated env (ar_app_config a) (ar_runtime a)"
    by (simp add: validated_manager_def)
next
  fix i assume i: "i < length ks" "holds_runtime (ks ! i)"
  let ?H = "{j. j < length ks \<and> holds_runtime (ks ! j)}"
  have held: "of_bool (mg_active m \<noteq> None) + card ?H \<le> 1"
    using overlapping_held [OF assms] by (simp add: runtimes_held_def length_filter_conv_card)
  moreover have "card ?H \<noteq> 0" using i by auto
  ultimately show none: "mg_active m = None" by (auto simp: of_bool_def split: if_splits)
  show "call_step env fs m (ReloadTake ri) =
      Some (fs, m, Returned (Inl ''runtime manager missing active runtime during reload''))" for ri
    by (simp add: none)
  show "j = i" if "j < length ks" "holds_runtime (ks ! j)" for j
  proof -
    have "card ?H \<le> 1" using held by simp
    moreover have "finite ?H" "i \<in> ?H" "j \<in> ?H" using i that by simp_all
    ultimately show ?thesis using card_le_Suc0_iff_eq [of ?H] by simp
  qed
qed

theorem one_runtime_at_a_time_witness:
  "\<exists>m k. overlapping test_menv saved_files m [k, ReloadTake test_reload] \<and> holds_runtime k
     \<and> call_step test_menv saved_files m (ReloadTake test_reload) = Some (saved_files, m,
         Returned (Inl ''runtime manager missing active runtime during reload''))"
proof -
  let ?m = "test_manager\<lparr>mg_active := None\<rparr>"
  let ?k = "ReloadLoad test_reload ''kidproxy.json'' (test_active test_config)"
  have "overlapping test_menv saved_files test_manager ([] @ [ReloadTake test_reload])"
    by (intro overlapping.begun overlapping.none test_managed) simp
  then have "overlapping test_menv saved_files ?m ([ReloadTake test_reload][0 := ?k])"
    by (intro overlapping.advanced [where fs = saved_files and m = test_manager])
      (simp_all add: test_manager_def)
  then have o: "overlapping test_menv saved_files ?m ([?k] @ [ReloadTake test_reload])"
    by (intro overlapping.begun) simp_all
  from one_runtime_at_a_time [OF this] have "call_step test_menv saved_files ?m (ReloadTake test_reload) =
      Some (saved_files, ?m, Returned (Inl ''runtime manager missing active runtime during reload''))"
    by (auto dest!: spec [where x = 0])
  with o show ?thesis by (intro exI [of _ ?m] exI [of _ ?k]) simp
qed

text \<open>C8: a save that overlaps a reload can make the manager misreport for good.  The file has another
  configuration than the one that runs; a save of the running one looks at the active runtime, a
  reload replaces it, and then the save writes the file and the snapshot.  Both calls succeed, no
  reload is pending and no error shown, yet the proxy runs another configuration than the saved
  one.\<close>

theorem overlapping_save_misreports:
  fixes m :: "('u, 'p, 'c, 'db) manager"
  assumes "managed env fs m" and "mg_active m = Some a"
    and "manager_runtime_config env fs (ar_app_config a) = (fs1, Inr rt)"
    and "reload_inner env ri fs1 m = Some (fs2, m2, Inr s2)"
    and "ms_saved_config s2 \<noteq> ar_app_config a"
    and "write_json (hl_txt (me_lib env)) (me_io env) fs2 (ar_app_config a) (mg_config_path m)
      = (fs3, Inr ())"
  shows "\<exists>(m3 :: ('u, 'p, 'c, 'db) manager) s3 b. overlapping env fs3 m3 [Returned (Inr s3), Returned (Inr s2)]
    \<and> RuntimeManager_state m3 = s3 \<and> \<not> ms_pending_reload s3 \<and> ms_last_reload_error s3 = None
    \<and> ms_saved_config s3 = ar_app_config a
    \<and> mg_active m3 = Some b \<and> ar_app_config b = ms_saved_config s2
    \<and> ar_app_config b \<noteq> ms_saved_config s3"
proof -
  let ?c = "ar_app_config a"
  let ?looked = "SaveWrite ?c (mg_config_path m) True"
  let ?m3 = "m2\<lparr>mg_snapshot := (mg_snapshot m2)\<lparr>ms_saved_config := ?c,
    ms_pending_reload := False, ms_last_reload_error := None\<rparr>\<rparr>"
  obtain b where b: "mg_active m2 = Some b" "ar_app_config b = ms_saved_config s2"
    using assms(4) by (cases rule: reload_inner_cases) (auto dest!: replace_runtime_result)
  have "overlapping env fs m ([] @ [SaveValidate ?c])"
    by (intro overlapping.begun overlapping.none assms(1)) simp
  moreover have "call_alone env 2 fs m (SaveValidate ?c) = Some (fs1, m, ?looked)"
    using assms(2,3) by (simp add: call_alone_eq)
  ultimately have "overlapping env fs1 m ([SaveValidate ?c][0 := ?looked])"
    by (intro overlapping_alone) simp_all
  then have "overlapping env fs1 m ([?looked] @ [ReloadTake ri])"
    by (intro overlapping.begun) simp_all
  then have "overlapping env fs2 m2 ([?looked, ReloadTake ri][1 := Returned (Inr s2)])"
    by (intro overlapping_alone [where n = 8 and fs = fs1 and m = m]) (simp_all add: reload_alone assms(4))
  moreover have "call_alone env 3 fs2 m2 ?looked = Some (fs3, ?m3, Returned (Inr (mg_snapshot ?m3)))"
    using assms(6) by (simp add: call_alone_eq)
  ultimately have "overlapping env fs3 ?m3 ([?looked, Returned (Inr s2)][0 := Returned (Inr (mg_snapshot ?m3))])"
    by (intro overlapping_alone) simp_all
  then have "overlapping env fs3 ?m3 [Returned (Inr (RuntimeManager_state ?m3)), Returned (Inr s2)]"
    by (simp add: RuntimeManager_state_def)
  moreover have "mg_active ?m3 = Some b" "ms_saved_config (RuntimeManager_state ?m3) = ?c"
    "\<not> ms_pending_reload (RuntimeManager_state ?m3)" "ms_last_reload_error (RuntimeManager_state ?m3) = None"
    using b by (simp_all add: RuntimeManager_state_def)
  ultimately show ?thesis using b(2) assms(5) by (intro exI [of _ ?m3] exI) auto
qed

theorem overlapping_save_misreports_witness:
  "\<exists>fs3 (m3 :: (string, string, WriterMessage list \<times> nat \<times> bool, Model list) manager) s3 b ks.
     overlapping test_menv fs3 m3 ks \<and> RuntimeManager_state m3 = s3
     \<and> \<not> ms_pending_reload s3 \<and> ms_saved_config s3 = test_config
     \<and> mg_active m3 = Some b \<and> ar_app_config b = other_config"
proof -
  obtain m2 s2 where r: "reload_inner test_menv test_reload other_files test_manager = Some (other_files, m2, Inr s2)"
    and s2: "ms_saved_config s2 = other_config" using other_reload_result by blast
  have a: "mg_active test_manager = Some (test_active test_config)" "ar_app_config (test_active test_config) = test_config"
    "mg_config_path test_manager = ''kidproxy.json''"
    by (simp_all add: test_manager_def test_active_def)
  have v: "manager_runtime_config test_menv other_files test_config = (other_files, Inr (test_runtime ''/''))"
    unfolding other_files_def by (rule test_manager_config)
  have ne: "other_config \<noteq> test_config" by code_simp
  have "\<exists>fs3. write_json postfix_text map_fs other_files test_config ''kidproxy.json'' = (fs3, Inr ())"
    by (simp add: write_json_def postfix_text_def map_fs_def)
  then obtain fs3 where w: "write_json (hl_txt (me_lib test_menv)) (me_io test_menv) other_files
      test_config ''kidproxy.json'' = (fs3, Inr ())"
    by auto
  from overlapping_save_misreports [OF test_managed a(1), unfolded a(2,3), OF v r _ w] s2 ne
  show ?thesis by auto
qed

text \<open>
  A reload that overlaps a save can hide it: the reload has read the file and started the new
  runtime, a save then writes another configuration to the file, and the reload publishes the
  one it read.  The file has the saved configuration, but the snapshot, and with it the editor,
  shows the older one as saved and nothing as pending.
\<close>

theorem overlapping_reload_hides_save:
  fixes m :: "('u, 'p, 'c, 'db) manager"
  assumes "file_system (me_io env)" and "json_text (hl_txt (me_lib env))" and "managed env fs m"
    and "call_alone env 5 fs m (ReloadTake ri) = Some (fs1, m1, ReloadInstall c a)"
    and "save_config env fs1 c' m1 = (fs2, m2, Inr s2)"
  shows "\<exists>(m3 :: ('u, 'p, 'c, 'db) manager) s3. overlapping env fs2 m3 [Returned (Inr s3), Returned (Inr s2)]
    \<and> RuntimeManager_state m3 = s3 \<and> \<not> ms_pending_reload s3 \<and> ms_saved_config s3 = c
    \<and> load_json (hl_txt (me_lib env)) (me_io env) fs2 (mg_config_path m1) = Inr c'"
proof -
  let ?install = "ReloadInstall c a"
  let ?s = "(mg_snapshot m2)\<lparr>ms_saved_config := c,
    ms_active_runtime := runtime_summary (hl_url (me_lib env)) a, ms_pending_reload := False,
    ms_last_reload_error := None\<rparr>"
  let ?m3 = "m2\<lparr>mg_active := Some a, mg_snapshot := ?s\<rparr>"
  obtain fs0 where w: "write_json (hl_txt (me_lib env)) (me_io env) fs0 c' (mg_config_path m1) = (fs2, Inr ())"
    using assms(5) by (auto simp: save_config_def Let_def split: prod.splits sum.splits)
  have "overlapping env fs m ([] @ [ReloadTake ri])"
    by (intro overlapping.begun overlapping.none assms(3)) simp
  then have "overlapping env fs1 m1 ([ReloadTake ri][0 := ?install])"
    using assms(4) by (intro overlapping_alone [where n = 5 and fs = fs and m = m]) simp_all
  then have "overlapping env fs1 m1 ([?install] @ [SaveValidate c'])"
    by (intro overlapping.begun) simp_all
  then have "overlapping env fs2 m2 ([?install, SaveValidate c'][1 := Returned (Inr s2)])"
    by (intro overlapping_alone [where n = 5 and fs = fs1 and m = m1]) (simp_all add: save_alone assms(5))
  then have "overlapping env fs2 ?m3 ([?install, Returned (Inr s2)][0 := Returned (Inr ?s)])"
    by (intro overlapping_alone [where n = 3 and fs = fs2 and m = m2]) (simp_all add: call_alone_eq Let_def)
  then have "overlapping env fs2 ?m3 [Returned (Inr ?s), Returned (Inr s2)]" by simp
  moreover have "RuntimeManager_state ?m3 = ?s" by (simp add: RuntimeManager_state_def)
  ultimately show ?thesis using write_then_load [OF assms(1,2) w]
    by (intro exI [of _ ?m3] exI [of _ ?s]) simp
qed

end
