(* ===== verification/Program.thy ===== *)
theory Program
  imports Admin_Routes Manager_Overlap
begin

text \<open>
  The command line (\<^verbatim>\<open>src/cli.rs\<close>) and \<open>main\<close> (\<^verbatim>\<open>src/main.rs\<close>): start the runtime manager, serve
  the admin interface until it is interrupted, shut the manager down.  Setting up logging has
  no effect here.
\<close>

section \<open>The command line\<close>

record Cli =
  cli_config_path :: string
  cli_admin_listen_addr :: string

text \<open>An option's value: the flag, else the environment variable, else the default.\<close>

definition arg_value :: "string option \<Rightarrow> string option \<Rightarrow> string \<Rightarrow> string" where
  "arg_value flag env fallback = unwrap_or fallback (opt_or flag env)"

definition Cli_parse ::
  "string option \<Rightarrow> string option \<Rightarrow> string option \<Rightarrow> string option \<Rightarrow> Cli" where
  "Cli_parse config_flag config_env admin_flag admin_env =
     \<lparr>cli_config_path = arg_value config_flag config_env ''./kidproxy.json'',
      cli_admin_listen_addr = arg_value admin_flag admin_env ''127.0.0.1:3000''\<rparr>"

section \<open>Main\<close>

text \<open>
  \<open>bind_admin\<close> is the attempt to listen on the admin address, \<open>serve\<close> what happens to the manager
  and the files while requests are answered, with the server's result.
\<close>

definition kidproxy_main ::
  "('h, 'u, 'i, 'x, 'p, 'fs, 'c) manager_env \<Rightarrow> ('fs, 'h, 'db) attempt \<Rightarrow> (SocketAddr \<Rightarrow> string + unit) \<Rightarrow>
     ('fs \<Rightarrow> ('u, 'p, 'c, 'db) manager \<Rightarrow> 'fs \<times> ('u, 'p, 'c, 'db) manager \<times> (string + unit)) \<Rightarrow>
     stop_inputs \<Rightarrow> Cli \<Rightarrow> 'fs \<Rightarrow> 'fs \<times> unit anyhow_result" where
  "kidproxy_main env att bind_admin serve sp cli fs =
     (case parse_socket_addr (cli_admin_listen_addr cli) of
        None \<Rightarrow> (fs, Inl ''invalid admin listen address'')
      | Some admin_listen_addr \<Rightarrow>
          (case RuntimeManager_start env att fs (cli_config_path cli) of
             (fs, Inl _) \<Rightarrow> (fs, Inl ''failed to start runtime manager'')
           | (fs, Inr m) \<Rightarrow>
               (case bind_admin admin_listen_addr of
                  Inl _ \<Rightarrow> (fs, Inl ''bind admin listener'')
                | Inr _ \<Rightarrow>
                    (case serve fs m of
                       (fs, m, served) \<Rightarrow>
                         (fs,
                          try_bind (with_context ''admin server failed'' served) (\<lambda>_.
                          with_context ''runtime manager shutdown failed''
                            (snd (RuntimeManager_shutdown sp m))))))))"

text \<open>
  The program ends without an error exactly if the address parses, the manager starts, the
  address can be bound, the server ends well, a runtime is then active and its proxy stops well.
\<close>

lemma kidproxy_main_ok_iff:
  "is_ok (snd (kidproxy_main env att bind_admin serve sp cli fs)) \<longleftrightarrow>
     (\<exists>a fs' m fs'' m'. parse_socket_addr (cli_admin_listen_addr cli) = Some a
        \<and> RuntimeManager_start env att fs (cli_config_path cli) = (fs', Inr m)
        \<and> is_ok (bind_admin a) \<and> serve fs' m = (fs'', m', Inr ())
        \<and> mg_active m' \<noteq> None \<and> is_ok (proxy_shutdown (sp_within sp) (sp_after sp)))"
  by (auto simp: kidproxy_main_def is_ok_iff RuntimeManager_shutdown_def shutdown_active_runtime_def
      result_simps split: option.splits sum.splits prod.splits)

end
