(* ===== verification/Spec2Isabelle.thy ===== *)
theory Spec2Isabelle
  imports Program
begin

text \<open>
  kidproxy is a single-backend HTTPS reverse proxy.  It rewrites responses by an ordered list of
  transform rules, records every exchange as one row of a SQLite table, and has an admin
  interface to edit and reload its configuration and to search the recorded exchanges.  This
  development models its Rust sources under \<^verbatim>\<open>src/src/\<close> and proves what makes them correct.

  \<^bold>\<open>Parts and theories.\<close>  Each theory names the file it models.

  \<^item> Shared vocabulary.  \<open>Prelude\<close>: results with \<open>?\<close>, \<open>context\<close> and \<open>map_err\<close>, options, machine
    integers at their width.  \<open>Rust_Str\<close>, \<open>Utf8\<close>, \<open>Rust_Int\<close>, \<open>Socket_Addr\<close>, \<open>Rust_Path\<close>: the
    functions of the standard library the program calls (ASCII case, trimming, splitting,
    lossy UTF-8 decoding, replacing, printing and parsing numbers and socket addresses, parents
    of paths), with their laws, and the file system interface.  \<open>Headers\<close>, \<open>Json\<close>, \<open>Channel\<close>: the
    interfaces of the header map, of JSON text, of the bounded channel and of the table.
  \<^item> \<open>Errors\<close> (\<^verbatim>\<open>error.rs\<close>): error kinds and outcomes; their labels determine them.
  \<^item> \<open>Transform\<close> (\<^verbatim>\<open>transform.rs\<close>): compiling rules, and applying them in two stages, to headers
    while the body streams and to headers and buffered body from the first rule that needs it.
    The two stages are one pass over the rules (\<open>staged_is_single_pass\<close>).
  \<^item> \<open>Config\<close>, \<open>Config_Json\<close> (\<^verbatim>\<open>config.rs\<close>, parts of \<^verbatim>\<open>cli.rs\<close> and \<^verbatim>\<open>transform.rs\<close>): settings,
    defaults, validation into a \<open>RuntimeConfig\<close>, the header log policy, upstream URIs; the JSON
    file, as the serde attributes define it.  A written file is read back unchanged.
  \<^item> \<open>Capture_Headers\<close>, \<open>Tls_Metadata\<close>, \<open>Body_Accumulator\<close>, \<open>Capture\<close> (\<^verbatim>\<open>capture.rs\<close>, \<^verbatim>\<open>tls.rs\<close>):
    what is recorded of an exchange and when it is sent to the writer: exactly once.
  \<^item> \<open>Event\<close>, \<open>Entity\<close>, \<open>Event_Row\<close> (\<^verbatim>\<open>event.rs\<close>, \<^verbatim>\<open>entity.rs\<close>, \<^verbatim>\<open>migration.rs\<close>, part of
    \<^verbatim>\<open>writer.rs\<close>): the event, its row and the table; rows fit the table and determine the event.
  \<^item> \<open>Writer\<close> (\<^verbatim>\<open>writer.rs\<close>): the handle and the task as one step relation over channel, buffer and
    table; no accepted event is lost, repeated or reordered before the task has ended, and a
    writer told to shut down ends unless messages keep coming.
  \<^item> \<open>Proxy\<close> (\<^verbatim>\<open>proxy.rs\<close>): the request handler, branch by branch, over capture, transforms and
    writer: every request is recorded once, and a response is the upstream's, transformed.
  \<^item> \<open>Tls_Config\<close>, \<open>Proxy_App\<close> (\<^verbatim>\<open>tls.rs\<close>, \<^verbatim>\<open>probe.rs\<close>, \<^verbatim>\<open>proxy.rs\<close>): certificates, trust roots,
    the upstream client, the probe, building and starting the proxy.
  \<^item> \<open>Runtime_Manager\<close> (\<^verbatim>\<open>runtime_manager.rs\<close>): starting, saving, reloading with fallback to the
    previous runtime, shutting down.  The invariant \<open>manager_wf\<close> says what the snapshot shown to
    the user means; a reload is all or nothing as far as a proxy keeps running, and its wait for
    the old listener is bounded.
  \<^item> \<open>Manager_Overlap\<close> (\<^verbatim>\<open>runtime_manager.rs\<close>): the same operations cut into the sections they run in
    one go, interleaved in any order.  Alone they are the operations; however they overlap there
    is at most one runtime, but the snapshot may then misreport.
  \<^item> \<open>Admin_Form\<close>, \<open>Admin\<close> (\<^verbatim>\<open>admin.rs\<close>): the fields of the forms, reading them back, editor actions,
    the handlers, the filters and queries of the results page.
  \<^item> \<open>Html\<close>, \<open>Admin_Pages\<close>, \<open>Admin_Routes\<close> (\<^verbatim>\<open>admin.rs\<close>): HTML trees and what browsers submit for the
    forms in them, the views of all pages as such trees, and the router.  Every button of a page
    submits what the page shows, no page runs anything, links lead to the events they name, and
    what was recorded is shown.
  \<^item> \<open>Program\<close> (\<^verbatim>\<open>cli.rs\<close>, \<^verbatim>\<open>main.rs\<close>): the command line and \<open>main\<close>.  This theory: what
    holds from the rule editor to the running proxy.

  \<^bold>\<open>State and effects.\<close>  A Rust struct is a record with a prefix for its fields, an enum a
  datatype.  A function that changes its receiver takes and returns it; one that changes the file
  system takes and returns the file system; one that fails returns a sum, with the error as the
  text \<open>Display\<close> prints.  Concurrency is modelled where the program relies on it: in the writer,
  whose handle may be called between any two steps of the task, and in the manager, whose calls
  may overlap.

  \<^bold>\<open>Parameters.\<close>  Code outside the repository is a record of operations: header map, glob
  patterns, URLs and URIs, JSON, hex and base64 text, hash, certificates, channel, database,
  file system, upstream client.  Where the program relies on a law of such code, the law is an
  assumption of a locale (\<open>header_map\<close>, \<open>file_system\<close>, \<open>json_text\<close>, \<open>bounded_channel\<close>,
  \<open>transactional\<close>, \<open>event_store\<close>, \<open>path_segments\<close>, \<open>base64_text\<close>), interpreted on an executable instance, on which the
  witnesses run.  What the outside decides (answers of the backend, clocks, how tasks end) is an
  input, over which the theorems quantify.

  \<^bold>\<open>Loops.\<close>  Loops over data are structural.  The loop that waits for the old listener is a partial
  function (\<open>wait_loop\<close>), proved to end after at most 201 rounds if a sleep takes its time; the
  writer's loops are steps of its relation, and while it shuts down each step lowers a bound
  (\<open>drain_left\<close>) that only messages put in meanwhile raise.  No fuel is used.  Other awaits, of
  database, files, the probe (whose answer has no time limit), the end of the proxy task and the
  writer's reply to a shutdown request, are taken to return: what they return is an input, and
  no theorem says that they do.

  \<^bold>\<open>Not modelled.\<close>  The class attributes of the admin pages, which only style, and the text the view
  library writes for their trees; static files; logging; the accept loop, TLS handshakes and
  connection pool, which are library code; a request handler that is cancelled before it
  returns, and what is still read of a request body after the upstream has answered; poisoned locks, which no code can cause; a configuration file that is read while
  another request is half way through writing it; memory limits, so a form may announce any
  number of rules; the repository's own tests.
\<close>

section \<open>Saving and reloading through the handlers\<close>

lemma submit_save_ok:
  assumes "submit_save render env fs draft s m = (fs', m', render c s' n [])"
    and "\<And>c c' s s' n n' es es'. render c s n es = render c' s' n' es' \<Longrightarrow> es = es'"
  shows "\<exists>u. save_config env fs draft m = (fs', m', Inr u)"
proof (cases "save_config env fs draft m")
  case (fields fs1 m1 r)
  show ?thesis
  proof (cases r)
    case (Inl e)
    with fields assms(1) have "render draft s (Some (Notice_error ''Config did not save.'')) [e] = render c s' n []"
      by (simp add: submit_save_def)
    from assms(2) [OF this] show ?thesis by simp
  next
    case (Inr u)
    with fields assms(1) show ?thesis by (simp add: submit_save_def)
  qed
qed

lemma submit_reload_ok:
  assumes "submit_reload render env ri fs m = Some (fs', m', render c s' n [])"
    and "\<And>c c' s s' n n' es es'. render c s n es = render c' s' n' es' \<Longrightarrow> es = es'"
  shows "\<exists>u. reload_inner env ri fs m = Some (fs', m', Inr u)"
proof -
  obtain r where r: "reload_inner env ri fs m = Some (fs', m', r)"
    and page: "(case r of
           Inr snapshot \<Rightarrow>
             render (ms_saved_config snapshot) snapshot (Some (Notice_info ''Proxy reloaded from disk.'')) []
         | Inl err \<Rightarrow>
             let snapshot = RuntimeManager_state m' in
             render (ms_saved_config snapshot) snapshot (Some (Notice_error ''Reload failed.'')) [err])
       = render c s' n []"
    using assms(1) by (auto simp: submit_reload_def)
  show ?thesis
  proof (cases r)
    case (Inl e)
    with page have "render (ms_saved_config (RuntimeManager_state m')) (RuntimeManager_state m')
        (Some (Notice_error ''Reload failed.'')) [e] = render c s' n []"
      by (simp add: Let_def)
    from assms(2) [OF this] show ?thesis by simp
  qed (use r in simp)
qed

lemma manager_runtime_config_transforms:
  assumes "manager_runtime_config env fs c = (fs', Inr rt)"
  shows "compile (hl_hdr (me_lib env)) (me_glob env) (ac_transforms c) = Inr (rc_transforms rt)"
  using assms
  by (auto simp: manager_runtime_config_def to_runtime_config_def settings_to_runtime_config_Inr
      build_config_def)

lemma saved_then_reloaded:
  assumes "file_system (me_io env)" and "json_text (hl_txt (me_lib env))"
    and save: "save_config env fs c m = (fs1, m1, Inr u)"
    and reload: "reload_inner env ri fs1 m1 = Some (fs2, m2, Inr u')"
  obtains b where "mg_active m2 = Some b" "ar_app_config b = c"
    "compile (hl_hdr (me_lib env)) (me_glob env) (ac_transforms c) = Inr (rc_transforms (ar_runtime b))"
proof -
  obtain fs0 where w: "write_json (hl_txt (me_lib env)) (me_io env) fs0 c (mg_config_path m) = (fs1, Inr ())"
    and p: "mg_config_path m1 = mg_config_path m"
    using save by (auto simp: save_config_def Let_def split: prod.splits sum.splits)
  note load = write_then_load [OF assms(1,2) w]
  from reload show thesis
  proof (cases rule: reload_inner_cases)
    case (replaced a c' rt fs3)
    with load p have c': "c' = c" by simp
    have "mg_active (m1\<lparr>mg_active := None\<rparr>) = None" by simp
    from replace_runtime_result [OF replaced(4) this, unfolded sum.case] c' obtain b where
      "mg_active m2 = Some b" "ar_app_config b = c" "ar_runtime b = rt" by blast
    with replaced(3) c' that show thesis by (auto dest!: manager_runtime_config_transforms)
  qed auto
qed

section \<open>A concrete instance\<close>

text \<open>A configuration with one rule, and the proxy that runs it.\<close>

definition news_rule :: TransformRuleFile where
  "news_rule = \<lparr>file_matcher = UrlGlobFile ''/news'', file_action = ReplaceFile ''cat'' ''dog'',
     file_target = BodyFile, file_stop = True\<rparr>"

definition news_config :: AppConfigFile where
  "news_config = test_config\<lparr>ac_transforms := [news_rule]\<rparr>"

definition news_runtime :: "(string, string) RuntimeConfig" where
  "news_runtime = (test_runtime ''/'')\<lparr>rc_transforms := \<lparr>transforms =
     [\<lparr>matcher = UrlGlob ''/news'', action = Replace ''cat'' ''dog'', target = Body, stop = True\<rparr>]\<rparr>\<rparr>"

definition news_files :: "(string \<times> string) list" where
  "news_files = (''kidproxy.json'', to_postfix (encode_app_config news_config)) # test_files"

definition news_active ::
  "(string, string, WriterMessage list \<times> nat \<times> bool, Model list) ActiveRuntime" where
  "news_active = (test_active news_config)\<lparr>ar_runtime := news_runtime\<rparr>"

definition news_saved ::
  "(string, string, WriterMessage list \<times> nat \<times> bool, Model list) manager" where
  "news_saved = test_manager\<lparr>mg_snapshot := (mg_snapshot test_manager)
     \<lparr>ms_saved_config := news_config, ms_pending_reload := True, ms_last_reload_error := None\<rparr>\<rparr>"

lemma news_write: "write_json postfix_text map_fs test_files news_config ''kidproxy.json'' = (news_files, Inr ())"
  by (simp add: news_files_def write_json_def postfix_text_def map_fs_def)

lemma news_load: "load_json postfix_text map_fs news_files ''kidproxy.json'' = Inr news_config"
  by (rule write_then_load [OF map_fs.file_system_axioms postfix.json_text_axioms news_write])

lemma news_manager_config:
  "manager_runtime_config test_menv test_files news_config = (test_files, Inr news_runtime)"
  "manager_runtime_config test_menv ((''kidproxy.json'', s) # test_files) news_config =
     ((''kidproxy.json'', s) # test_files, Inr news_runtime)"
  by code_simp+

lemma news_start_active:
  "start_active_runtime test_menv test_attempt ((''kidproxy.json'', s) # test_files) news_config
     news_runtime = ((''kidproxy.json'', s) # test_files, Inr news_active)"
  by code_simp

lemma news_save_result:
  "save_config test_menv test_files news_config test_manager =
     (news_files, news_saved, Inr (mg_snapshot news_saved))"
proof -
  have "test_config \<noteq> news_config" by (simp add: news_config_def test_config_def)
  then show ?thesis
    by (simp add: save_config_def Let_def news_manager_config news_write news_saved_def test_manager_def
        test_active_def)
qed

lemma news_reload_result:
  "\<exists>m2 s2. reload_inner test_menv test_reload news_files news_saved = Some (news_files, m2, Inr s2)"
  by (simp add: reload_inner_def replace_runtime_def Let_def test_wait_result test_reload_def
      news_load [unfolded news_files_def] news_files_def news_manager_config news_start_active
      news_saved_def test_manager_def test_active_def)

section \<open>From the editor to the running proxy\<close>

text \<open>C9: when the transforms page is saved with the rules it shows (fewer than \<open>2 ^ 64\<close>, none of whose
  texts has a line break) and the proxy is then reloaded, both without an error being shown, the
  running proxy applies exactly these rules, compiled in order, and the rest of the saved
  configuration is unchanged.\<close>

theorem edited_rules_are_run:
  assumes "file_system (me_io env)" and "json_text (hl_txt (me_lib env))"
    and "list_all single_line_rule (ac_transforms shown)" and "length (ac_transforms shown) < 2 ^ 64"
    and "save \<in> set (page_submissions (page_response (RulesPage shown s0 n0 es0)))"
    and "editor_action (form_values (sb_form save)) = Save"
    and "transforms_submit env ri fs m (form_values (sb_form save)) = Some (fs1, m1, RulesPage c1 s1 n1 [])"
    and "editor_action reload = Reload"
    and "config_submit env ri' fs1 m1 reload = Some (fs2, m2, ConfigPage c2 s2 n2 [])"
  shows "\<exists>b. mg_active m2 = Some b
    \<and> ar_app_config b = (ms_saved_config (RuntimeManager_state m))\<lparr>ac_transforms := ac_transforms shown\<rparr>
    \<and> compile (hl_hdr (me_lib env)) (me_glob env) (ac_transforms shown) = Inr (rc_transforms (ar_runtime b))"
proof -
  let ?draft = "(ms_saved_config (RuntimeManager_state m))\<lparr>ac_transforms := ac_transforms shown\<rparr>"
  from assms(5) have "save \<in> set (page_submissions (render_transforms shown s0 n0 es0))" by simp
  from submissions_transforms [OF this] assms(6) obtain pressed where
    "sb_form save = TransformsPage pressed (ac_transforms shown)"
    by (auto simp: reload_submission_def reload_button)
  with transforms_from_page [OF assms(3,4), of pressed]
  have "transforms_from_form (form_values (sb_form save)) fallback = ac_transforms shown" for fallback
    by simp
  with assms(6,7) have "submit_save RulesPage env fs ?draft (RuntimeManager_state m) m = (fs1, m1, RulesPage c1 s1 n1 [])"
    by (simp add: transforms_submit_def Let_def)
  from submit_save_ok [OF this] obtain u where u: "save_config env fs ?draft m = (fs1, m1, Inr u)"
    by auto
  have "submit_reload ConfigPage env ri' fs1 m1 = Some (fs2, m2, ConfigPage c2 s2 n2 [])"
    using assms(8,9) by (simp add: config_submit_def Let_def)
  from submit_reload_ok [OF this] obtain u' where "reload_inner env ri' fs1 m1 = Some (fs2, m2, Inr u')"
    by auto
  from saved_then_reloaded [OF assms(1,2) u this] show ?thesis by auto
qed

theorem edited_rules_are_run_witness:
  "\<exists>save fs1 m1 c1 s1 n1 fs2 m2 c2 s2 n2 b.
     save \<in> set (page_submissions (page_response (RulesPage news_config (mg_snapshot test_manager) None [])))
     \<and> transforms_submit test_menv test_reload test_files test_manager (form_values (sb_form save))
       = Some (fs1, m1, RulesPage c1 s1 n1 [])
     \<and> config_submit test_menv test_reload fs1 m1 (form_values [(''editor_action'', ''reload'')])
       = Some (fs2, m2, ConfigPage c2 s2 n2 [])
     \<and> mg_active m2 = Some b \<and> ac_transforms (ar_app_config b) = [news_rule]
     \<and> transforms (rc_transforms (ar_runtime b)) =
         [\<lparr>matcher = UrlGlob ''/news'', action = Replace ''cat'' ''dog'', target = Body, stop = True\<rparr>]"
proof -
  let ?save = "\<lparr>sb_method = ''post'', sb_action = ''/transforms'',
    sb_form = TransformsPage (PageButton ''save'') (ac_transforms news_config)\<rparr>"
  let ?page = "RulesPage news_config (mg_snapshot test_manager) None []"
  have rules: "list_all single_line_rule (ac_transforms news_config)" "length (ac_transforms news_config) < 2 ^ 64"
    by (simp_all add: news_config_def news_rule_def single_line_rule_def single_line_def)
  have save: "?save \<in> set (page_submissions (page_response ?page))"
    using save_button_submits by simp
  have act: "editor_action (form_values (sb_form ?save)) = Save"
    by (simp add: editor_action_def TransformsPage_action)
  have "transforms_from_form (form_values (sb_form ?save)) fallback = ac_transforms news_config" for fallback
    using transforms_from_page [OF rules] by simp
  moreover have "(ms_saved_config (RuntimeManager_state test_manager))\<lparr>ac_transforms := ac_transforms news_config\<rparr>
      = news_config"
    by (simp add: RuntimeManager_state_def test_manager_def news_config_def)
  ultimately have s: "\<exists>n. transforms_submit test_menv test_reload test_files test_manager (form_values (sb_form ?save))
     = Some (news_files, news_saved, RulesPage news_config (mg_snapshot news_saved) n [])"
    using act by (simp add: transforms_submit_def Let_def submit_save_def news_save_result)
  have r: "\<exists>m2 s2 n. config_submit test_menv test_reload news_files news_saved
       (form_values [(''editor_action'', ''reload'')])
     = Some (news_files, m2, ConfigPage (ms_saved_config s2) s2 n [])"
    using news_reload_result by (auto simp: config_submit_def reload_button submit_reload_def Let_def)
  have env: "file_system (me_io test_menv)" "json_text (hl_txt (me_lib test_menv))"
    by (simp_all add: map_fs.file_system_axioms postfix.json_text_axioms)
  have compiled: "compile (hl_hdr (me_lib test_menv)) (me_glob test_menv) (ac_transforms news_config) =
      Inr \<lparr>transforms = [\<lparr>matcher = UrlGlob ''/news'', action = Replace ''cat'' ''dog'', target = Body, stop = True\<rparr>]\<rparr>"
    by code_simp
  from s r obtain n1 m2 s2 n2 where
    s1: "transforms_submit test_menv test_reload test_files test_manager (form_values (sb_form ?save))
       = Some (news_files, news_saved, RulesPage news_config (mg_snapshot news_saved) n1 [])"
    and r1: "config_submit test_menv test_reload news_files news_saved (form_values [(''editor_action'', ''reload'')])
       = Some (news_files, m2, ConfigPage (ms_saved_config s2) s2 n2 [])"
    by blast
  from edited_rules_are_run [OF env rules save act s1 reload_button r1] obtain b where
    b: "mg_active m2 = Some b" "ac_transforms (ar_app_config b) = ac_transforms news_config"
    and c: "Inr (rc_transforms (ar_runtime b)) =
      (Inr \<lparr>transforms = [\<lparr>matcher = UrlGlob ''/news'', action = Replace ''cat'' ''dog'', target = Body, stop = True\<rparr>]\<rparr>
        :: string TransformConfig anyhow_result)"
    unfolding compiled by auto
  from b(2) c have "ac_transforms (ar_app_config b) = [news_rule]"
    "transforms (rc_transforms (ar_runtime b)) =
      [\<lparr>matcher = UrlGlob ''/news'', action = Replace ''cat'' ''dog'', target = Body, stop = True\<rparr>]"
    by (simp_all add: news_config_def)
  with save s1 r1 b(1) show ?thesis by blast
qed

end
